(* ===== verification/Prelude.thy ===== *)
theory Prelude
  imports Main "HOL-Library.Char_ord" "HOL-Library.List_Lexorder"
begin

text \<open>
  What every component of the development shares: the exceptions of the program as values
  of a sum type, the result combinators the operations are written with, the string
  operations of Python that the code relies on, and the generic lemmas about them.

  A Python \<^verbatim>\<open>str\<close> is the list of the bytes of its UTF-8 encoding. The regular expressions
  of the program only mention ASCII characters, the byte-wise order of UTF-8 is the
  code-point order Python sorts by, and \<^verbatim>\<open>len(s.encode("utf-8"))\<close> is the length of the list;
  \<open>py_len\<close> counts code points.
\<close>

named_theorems res_simps \<open>equations of the result combinators\<close>
named_theorems dict_simps \<open>lookup and update of dictionaries\<close>

section \<open>Exceptions\<close>

text \<open>
  The classes of \<^verbatim>\<open>errors.py\<close>, the module-specific errors, and the built-in exceptions that
  the modelled code can raise. An exception carries its class and the literal part of its
  message up to the first interpolated value.
\<close>

datatype exn_class =
    ConfigurationError | StateError | TransitionError | LeaseError | AuthorizationError
  | IntegrityError | EvidenceError | AdapterError | LockTimeout
  | VerifierJournalError | VerifierProtocolError | VerifierAttestationError
  | VerifierReceiptError | VerifierServiceError | SnapshotBrokerError | LedgerAuthorityV2Error
  | LedgerAuthorityStoreV2Error | IndeterminateCommit | RetryableAppendNotApplied
  | KeyError | TypeError | ValueError | AttributeError
  | FileNotFoundError | FileExistsError | OSError | TimeoutError | RuntimeError
  | OverflowError | UnicodeEncodeError | AssertionError

datatype exn = Exn exn_class string

primrec exn_class_of :: "exn \<Rightarrow> exn_class" where
  "exn_class_of (Exn c m) = c"

text \<open>The direct base class of each class inside this hierarchy (\<open>None\<close> where it is outside).\<close>

fun exn_base :: "exn_class \<Rightarrow> exn_class option" where
  "exn_base TransitionError = Some StateError"
| "exn_base LeaseError = Some StateError"
| "exn_base AuthorizationError = Some StateError"
| "exn_base IntegrityError = Some StateError"
| "exn_base EvidenceError = Some StateError"
| "exn_base VerifierJournalError = Some RuntimeError"
| "exn_base VerifierProtocolError = Some EvidenceError"
| "exn_base VerifierAttestationError = Some EvidenceError"
| "exn_base VerifierReceiptError = Some VerifierProtocolError"
| "exn_base VerifierServiceError = Some VerifierProtocolError"
| "exn_base SnapshotBrokerError = Some EvidenceError"
| "exn_base LedgerAuthorityV2Error = Some IntegrityError"
| "exn_base LedgerAuthorityStoreV2Error = Some LedgerAuthorityV2Error"
| "exn_base IndeterminateCommit = Some LedgerAuthorityStoreV2Error"
| "exn_base RetryableAppendNotApplied = Some LedgerAuthorityStoreV2Error"
| "exn_base UnicodeEncodeError = Some ValueError"
| "exn_base FileNotFoundError = Some OSError"
| "exn_base FileExistsError = Some OSError"
| "exn_base TimeoutError = Some OSError"
| "exn_base _ = None"

text \<open>\<^verbatim>\<open>isinstance(error, cls)\<close>: no class of the hierarchy has more than four bases in it.\<close>

definition exn_bases :: "exn_class option \<Rightarrow> exn_class option" where
  "exn_bases c = (case c of None \<Rightarrow> None | Some b \<Rightarrow> exn_base b)"

definition exn_isinstance :: "exn_class \<Rightarrow> exn_class \<Rightarrow> bool" where
  "exn_isinstance c d \<longleftrightarrow>
     (let b = exn_base c; b' = exn_bases b; b'' = exn_bases b' in
      c = d \<or> b = Some d \<or> b' = Some d \<or> b'' = Some d \<or> exn_bases b'' = Some d)"

section \<open>Results\<close>

type_synonym 'a res = "exn + 'a"

definition raise :: "exn_class \<Rightarrow> string \<Rightarrow> 'a res" where
  "raise c m = Inl (Exn c m)"

fun rbind :: "'a res \<Rightarrow> ('a \<Rightarrow> 'b res) \<Rightarrow> 'b res" where
  "rbind (Inl e) f = Inl e"
| "rbind (Inr x) f = f x"

text \<open>\<open>ensure b c m k\<close>: continue with \<open>k\<close> if \<open>b\<close> holds, raise otherwise.\<close>

definition ensure :: "bool \<Rightarrow> exn_class \<Rightarrow> string \<Rightarrow> unit res" where
  "ensure b c m = (if b then Inr () else raise c m)"

text \<open>A comprehension over a call that may raise.\<close>

fun rmap :: "('a \<Rightarrow> 'b res) \<Rightarrow> 'a list \<Rightarrow> 'b list res" where
  "rmap f [] = Inr []"
| "rmap f (x # xs) = rbind (f x) (\<lambda>y. rbind (rmap f xs) (\<lambda>ys. Inr (y # ys)))"

text \<open>A loop that threads an accumulator through calls that may raise.\<close>

fun rfold :: "('a \<Rightarrow> 's \<Rightarrow> 's res) \<Rightarrow> 'a list \<Rightarrow> 's \<Rightarrow> 's res" where
  "rfold f [] s = Inr s"
| "rfold f (x # xs) s = rbind (f x s) (rfold f xs)"

text \<open>A loop of checks, which stops at the first exception.\<close>

definition reach :: "('a \<Rightarrow> unit res) \<Rightarrow> 'a list \<Rightarrow> unit res" where
  "reach f xs = rfold (\<lambda>x _. f x) xs ()"

text \<open>\<^verbatim>\<open>try: m except cls: h\<close>.\<close>

definition catch_exn :: "exn_class \<Rightarrow> 'a res \<Rightarrow> (exn \<Rightarrow> 'a res) \<Rightarrow> 'a res" where
  "catch_exn c m h =
     (case m of
        Inl e \<Rightarrow> if exn_isinstance (exn_class_of e) c then h e else Inl e
      | Inr x \<Rightarrow> Inr x)"

text \<open>
  Operations that change a state return the result and the state afterwards, so that a change
  that precedes an exception is visible. \<open>keep s r f\<close> runs a computation that does not touch the
  state; \<open>andthen\<close> runs two that do, in order.
\<close>

definition keep :: "'s \<Rightarrow> 'a res \<Rightarrow> ('a \<Rightarrow> 'b res \<times> 's) \<Rightarrow> 'b res \<times> 's" where
  "keep s r f = (case r of Inl e \<Rightarrow> (Inl e, s) | Inr x \<Rightarrow> f x)"

definition andthen :: "'a res \<times> 's \<Rightarrow> ('a \<Rightarrow> 's \<Rightarrow> 'b res \<times> 's) \<Rightarrow> 'b res \<times> 's" where
  "andthen m f = (case fst m of Inl e \<Rightarrow> (Inl e, snd m) | Inr x \<Rightarrow> f x (snd m))"

lemma raise_not_Inr [simp, res_simps]: "raise c m \<noteq> Inr x" "Inr x \<noteq> raise c m"
  by (auto simp: raise_def)

lemma raise_eq_Inl [simp, res_simps]: "raise c m = Inl e \<longleftrightarrow> e = Exn c m"
  by (auto simp: raise_def)

lemma rbind_raise [simp, res_simps]: "rbind (raise c m) f = raise c m"
  by (simp add: raise_def)

lemma rbind_eq_Inr [simp, res_simps]:
  "rbind m f = Inr y \<longleftrightarrow> (\<exists>x. m = Inr x \<and> f x = Inr y)"
  by (cases m) auto

lemma rbind_eq_Inl [res_simps]:
  "rbind m f = Inl e \<longleftrightarrow> m = Inl e \<or> (\<exists>x. m = Inr x \<and> f x = Inl e)"
  by (cases m) auto

lemma ensure_eq_Inr [simp, res_simps]: "ensure b c m = Inr u \<longleftrightarrow> b"
  by (auto simp: ensure_def raise_def)

lemma ensure_eq_Inl [simp, res_simps]: "ensure b c m = Inl e \<longleftrightarrow> \<not> b \<and> e = Exn c m"
  by (auto simp: ensure_def raise_def)

lemma ensure_True [simp]: "ensure True c m = Inr ()"
  by (simp add: ensure_def)

lemma ensure_False [simp]: "ensure False c m = raise c m"
  by (simp add: ensure_def)

lemma rbind_assoc: "rbind (rbind m f) g = rbind m (\<lambda>x. rbind (f x) g)"
  by (cases m) auto

lemma rmap_eq_Inr:
  "rmap f xs = Inr ys \<longleftrightarrow> list_all2 (\<lambda>x y. f x = Inr y) xs ys"
proof (induction xs arbitrary: ys)
  case (Cons x xs)
  then show ?case by (cases ys) auto
qed auto

lemma rmap_Inr_id: "rmap f xs = Inr ys \<Longrightarrow> (\<And>x y. f x = Inr y \<Longrightarrow> y = x) \<Longrightarrow> ys = xs"
  by (auto simp: rmap_eq_Inr list_all2_conv_all_nth intro: nth_equalityI)

lemma rfold_append: "rfold f (xs @ ys) s = rbind (rfold f xs s) (rfold f ys)"
proof (induction xs arbitrary: s)
  case (Cons x xs)
  then show ?case by (cases "f x s") auto
qed simp

lemma rfold_invariant:
  assumes "rfold f xs s = Inr t" and "P s"
    and "\<And>x s s'. x \<in> set xs \<Longrightarrow> P s \<Longrightarrow> f x s = Inr s' \<Longrightarrow> P s'"
  shows "P t"
  using assms by (induction xs arbitrary: s) auto

lemma reach_eq_Inr [simp]: "reach f xs = Inr u \<longleftrightarrow> (\<forall>x\<in>set xs. f x = Inr ())"
  unfolding reach_def by (induction xs) auto

lemma reach_Nil [simp]: "reach f [] = Inr ()"
  by (simp add: reach_def)

lemma reach_Cons [simp]: "reach f (x # xs) = rbind (f x) (\<lambda>_. reach f xs)"
  by (simp add: reach_def)

lemma catch_exn_Inr [simp]: "catch_exn c (Inr x) h = Inr x"
  by (simp add: catch_exn_def)

lemma keep_eq_Inr [simp]:
  "fst (keep s r f) = Inr y \<longleftrightarrow> (\<exists>x. r = Inr x \<and> fst (f x) = Inr y)"
  by (auto simp: keep_def split: sum.splits)

lemma keep_Inr [simp]: "keep s (Inr x) f = f x"
  by (simp add: keep_def)

lemma keep_Inl [simp]: "keep s (Inl e) f = (Inl e, s)"
  by (simp add: keep_def)

lemma keep_eq_pair: "keep s r f = (Inr y, s') \<longleftrightarrow> (\<exists>x. r = Inr x \<and> f x = (Inr y, s'))"
  by (auto simp: keep_def split: sum.splits)

lemma keep_eq_Inl: "keep s r f = (Inl e, s') \<longleftrightarrow> r = Inl e \<and> s' = s \<or> (\<exists>x. r = Inr x \<and> f x = (Inl e, s'))"
  by (auto simp: keep_def split: sum.splits)

lemma andthen_Inl [simp]: "andthen (Inl e, s) f = (Inl e, s)"
  by (simp add: andthen_def)

lemma andthen_Inr [simp]: "andthen (Inr x, s) f = f x s"
  by (simp add: andthen_def)

lemma andthen_eq_pair: "andthen m f = (Inr y, s') \<longleftrightarrow> (\<exists>x s. m = (Inr x, s) \<and> f x s = (Inr y, s'))"
  by (cases m) (auto simp: andthen_def split: sum.splits)

lemma andthen_eq_Inl:
  "andthen m f = (Inl e, s') \<longleftrightarrow> m = (Inl e, s') \<or> (\<exists>x s. m = (Inr x, s) \<and> f x s = (Inl e, s'))"
  by (cases m) (auto simp: andthen_def split: sum.splits)

text \<open>
  A property of the state that holds before and after every change holds after the whole
  operation, whether it returns or raises.
\<close>

lemma keep_state: "P s \<Longrightarrow> (\<And>x. r = Inr x \<Longrightarrow> P (snd (f x))) \<Longrightarrow> P (snd (keep s r f))"
  by (cases r) auto

lemma andthen_state:
  "P (snd m) \<Longrightarrow> (\<And>x. fst m = Inr x \<Longrightarrow> P (snd (f x (snd m)))) \<Longrightarrow> P (snd (andthen m f))"
  by (auto simp: andthen_def split: sum.splits)

lemma keep_state_pair:
  "P s \<Longrightarrow> (\<And>x y. r = Inr (x, y) \<Longrightarrow> P (snd (f x y))) \<Longrightarrow> P (snd (keep s r (\<lambda>(x, y). f x y)))"
  by (cases r) auto

lemmas state_rules = keep_state andthen_state

section \<open>Strings\<close>

text \<open>Character classes, by the code of the byte.\<close>

definition is_digit :: "char \<Rightarrow> bool" where
  "is_digit c \<longleftrightarrow> 48 \<le> (of_char c :: nat) \<and> (of_char c :: nat) \<le> 57"

definition is_lower :: "char \<Rightarrow> bool" where
  "is_lower c \<longleftrightarrow> 97 \<le> (of_char c :: nat) \<and> (of_char c :: nat) \<le> 122"

definition is_upper :: "char \<Rightarrow> bool" where
  "is_upper c \<longleftrightarrow> 65 \<le> (of_char c :: nat) \<and> (of_char c :: nat) \<le> 90"

definition is_alnum :: "char \<Rightarrow> bool" where
  "is_alnum c \<longleftrightarrow> is_digit c \<or> is_lower c \<or> is_upper c"

definition is_lower_hex :: "char \<Rightarrow> bool" where
  "is_lower_hex c \<longleftrightarrow> is_digit c \<or> 97 \<le> (of_char c :: nat) \<and> (of_char c :: nat) \<le> 102"

text \<open>The classes on the bits of a character, for evaluation.\<close>

lemma is_digit_code [code]:
  "is_digit (Char b0 b1 b2 b3 b4 b5 b6 b7) \<longleftrightarrow> \<not> b7 \<and> \<not> b6 \<and> b5 \<and> b4 \<and> (\<not> b3 \<or> \<not> b2 \<and> \<not> b1)"
  by (cases b0; cases b1; cases b2; cases b3; cases b4; cases b5; cases b6; cases b7; simp add: is_digit_def)

lemma is_lower_code [code]:
  "is_lower (Char b0 b1 b2 b3 b4 b5 b6 b7) \<longleftrightarrow>
     \<not> b7 \<and> b6 \<and> b5 \<and> (b0 \<or> b1 \<or> b2 \<or> b3 \<or> b4) \<and> \<not> (b4 \<and> b3 \<and> (b2 \<or> b1 \<and> b0))"
  by (cases b0; cases b1; cases b2; cases b3; cases b4; cases b5; cases b6; cases b7; simp add: is_lower_def)

lemma is_upper_code [code]:
  "is_upper (Char b0 b1 b2 b3 b4 b5 b6 b7) \<longleftrightarrow>
     \<not> b7 \<and> b6 \<and> \<not> b5 \<and> (b0 \<or> b1 \<or> b2 \<or> b3 \<or> b4) \<and> \<not> (b4 \<and> b3 \<and> (b2 \<or> b1 \<and> b0))"
  by (cases b0; cases b1; cases b2; cases b3; cases b4; cases b5; cases b6; cases b7; simp add: is_upper_def)

lemma is_lower_hex_code [code]:
  "is_lower_hex (Char b0 b1 b2 b3 b4 b5 b6 b7) \<longleftrightarrow>
     is_digit (Char b0 b1 b2 b3 b4 b5 b6 b7)
     \<or> \<not> b7 \<and> b6 \<and> b5 \<and> \<not> b4 \<and> \<not> b3 \<and> (b0 \<or> b1 \<or> b2) \<and> \<not> (b0 \<and> b1 \<and> b2)"
  by (cases b0; cases b1; cases b2; cases b3; cases b4; cases b5; cases b6; cases b7; simp add: is_lower_hex_def)

lemmas char_class_defs = is_digit_def is_lower_def is_upper_def is_alnum_def is_lower_hex_def

text \<open>
  \<open>fullmatch_head_rest p q n s\<close>: the regular expression \<^verbatim>\<open>^[p][q]{0,n}$\<close> matches all of \<open>s\<close>;
  \<open>fullmatch_exact p n s\<close>: the regular expression \<^verbatim>\<open>^[p]{n}$\<close> does.
\<close>

definition fullmatch_head_rest :: "(char \<Rightarrow> bool) \<Rightarrow> (char \<Rightarrow> bool) \<Rightarrow> nat \<Rightarrow> string \<Rightarrow> bool" where
  "fullmatch_head_rest p q n s =
     (case s of [] \<Rightarrow> False | c # cs \<Rightarrow> p c \<and> list_all q cs \<and> length cs \<le> n)"

definition fullmatch_exact :: "(char \<Rightarrow> bool) \<Rightarrow> nat \<Rightarrow> string \<Rightarrow> bool" where
  "fullmatch_exact p n s \<longleftrightarrow> length s = n \<and> list_all p s"

abbreviation fullmatch_hex :: "nat \<Rightarrow> string \<Rightarrow> bool" where
  "fullmatch_hex \<equiv> fullmatch_exact is_lower_hex"

lemma fullmatch_head_rest_length: "fullmatch_head_rest p q n s \<Longrightarrow> 0 < length s \<and> length s \<le> Suc n"
  by (auto simp: fullmatch_head_rest_def split: list.splits)

lemma fullmatch_head_rest_chars:
  "fullmatch_head_rest p q n s \<Longrightarrow> (\<And>c. p c \<Longrightarrow> q c) \<Longrightarrow> list_all q s"
  by (auto simp: fullmatch_head_rest_def split: list.splits)

text \<open>\<^verbatim>\<open>str.lower()\<close> on ASCII letters; other bytes are unchanged.\<close>

definition lower_char :: "char \<Rightarrow> char" where
  "lower_char c = (if is_upper c then char_of (of_char c + 32 :: nat) else c)"

definition lower :: "string \<Rightarrow> string" where
  "lower s = map lower_char s"

text \<open>The number of code points of a UTF-8 string: bytes that do not continue a sequence.\<close>

definition is_continuation :: "char \<Rightarrow> bool" where
  "is_continuation c \<longleftrightarrow> 128 \<le> (of_char c :: nat) \<and> (of_char c :: nat) < 192"

definition py_len :: "string \<Rightarrow> nat" where
  "py_len s = length (filter (\<lambda>c. \<not> is_continuation c) s)"

lemma py_len_le_length: "py_len s \<le> length s"
  by (simp add: py_len_def)

text \<open>
  \<^verbatim>\<open>str.strip()\<close> removes Unicode white space at both ends: the one-byte characters, then the
  UTF-8 encodings of U+0085, U+00A0, U+1680, U+2000 to U+200A, U+2028, U+2029, U+202F,
  U+205F and U+3000.
\<close>

definition is_space1 :: "char \<Rightarrow> bool" where
  "is_space1 c \<longleftrightarrow> (let n = (of_char c :: nat) in 9 \<le> n \<and> n \<le> 13 \<or> 28 \<le> n \<and> n \<le> 32)"

definition is_space2 :: "nat \<Rightarrow> nat \<Rightarrow> bool" where
  "is_space2 a b \<longleftrightarrow> a = 194 \<and> (b = 133 \<or> b = 160)"

definition is_space3 :: "nat \<Rightarrow> nat \<Rightarrow> nat \<Rightarrow> bool" where
  "is_space3 a b c \<longleftrightarrow>
     a = 225 \<and> b = 154 \<and> c = 128
     \<or> a = 226 \<and> b = 128 \<and> (128 \<le> c \<and> c \<le> 138 \<or> c = 168 \<or> c = 169 \<or> c = 175)
     \<or> a = 226 \<and> b = 129 \<and> c = 159
     \<or> a = 227 \<and> b = 128 \<and> c = 128"

fun lstrip :: "string \<Rightarrow> string" where
  "lstrip [] = []"
| "lstrip (a # s) =
     (if is_space1 a then lstrip s
      else case s of
        [] \<Rightarrow> [a]
      | b # t \<Rightarrow>
          if is_space2 (of_char a) (of_char b) then lstrip t
          else case t of
            [] \<Rightarrow> [a, b]
          | c # u \<Rightarrow>
              if is_space3 (of_char a) (of_char b) (of_char c) then lstrip u else a # s)"

fun rstrip_rev :: "string \<Rightarrow> string" where
  "rstrip_rev [] = []"
| "rstrip_rev (a # s) =
     (if is_space1 a then rstrip_rev s
      else case s of
        [] \<Rightarrow> [a]
      | b # t \<Rightarrow>
          if is_space2 (of_char b) (of_char a) then rstrip_rev t
          else case t of
            [] \<Rightarrow> [a, b]
          | c # u \<Rightarrow>
              if is_space3 (of_char c) (of_char b) (of_char a) then rstrip_rev u else a # s)"

definition strip :: "string \<Rightarrow> string" where
  "strip s = rev (rstrip_rev (rev (lstrip s)))"

definition startswith :: "string \<Rightarrow> string \<Rightarrow> bool" where
  "startswith s p \<longleftrightarrow> take (length p) s = p"

definition endswith :: "string \<Rightarrow> string \<Rightarrow> bool" where
  "endswith s p \<longleftrightarrow> drop (length s - length p) s = p"

section \<open>Decimal numerals\<close>

definition digit_char :: "nat \<Rightarrow> char" where
  "digit_char n = char_of (48 + n)"

definition digit_value :: "char \<Rightarrow> nat" where
  "digit_value c = of_char c - 48"

fun show_nat :: "nat \<Rightarrow> string" where
  "show_nat n = (if n < 10 then [digit_char n] else show_nat (n div 10) @ [digit_char (n mod 10)])"

declare show_nat.simps [simp del]

definition show_int :: "int \<Rightarrow> string" where
  "show_int i = (if i < 0 then CHR ''-'' # show_nat (nat (- i)) else show_nat (nat i))"

definition read_nat :: "string \<Rightarrow> nat" where
  "read_nat s = foldl (\<lambda>n c. 10 * n + digit_value c) 0 s"

lemma digit_char_value [simp]: "n < 10 \<Longrightarrow> digit_value (digit_char n) = n"
  by (simp add: digit_char_def digit_value_def)

lemma is_digit_digit_char [simp]: "n < 10 \<Longrightarrow> is_digit (digit_char n)"
  by (simp add: digit_char_def is_digit_def)

lemma show_nat_digits: "list_all is_digit (show_nat n)"
proof (induction n rule: show_nat.induct)
  case (1 n)
  then show ?case by (simp add: show_nat.simps [of n])
qed

lemma show_nat_nonempty [simp]: "show_nat n \<noteq> []"
  by (subst show_nat.simps) simp

lemma read_show_nat [simp]: "read_nat (show_nat n) = n"
proof (induction n rule: show_nat.induct)
  case (1 n)
  then show ?case
    by (simp add: show_nat.simps [of n]) (auto simp: read_nat_def)
qed

lemma show_nat_inject [simp]: "show_nat m = show_nat n \<longleftrightarrow> m = n"
  by (metis read_show_nat)

text \<open>A numeral has no leading zero, except for zero itself.\<close>

lemma show_nat_leading: "hd (show_nat n) = CHR ''0'' \<Longrightarrow> n = 0"
proof (induction n rule: show_nat.induct)
  case (1 n)
  show ?case
  proof (cases "n < 10")
    case True
    with "1.prems" have "digit_char n = CHR ''0''" by (simp add: show_nat.simps [of n])
    then have "digit_value (digit_char n) = digit_value CHR ''0''" by simp
    with True show ?thesis
      by (simp only: digit_char_value) (simp add: digit_value_def)
  next
    case False
    with "1.prems" have "hd (show_nat (n div 10)) = CHR ''0''"
      by (simp add: show_nat.simps [of n])
    with False "1.IH" have "n div 10 = 0" by blast
    with False show ?thesis by simp
  qed
qed

section \<open>Association lists as directories and stores\<close>

text \<open>
  A directory of files, or a dictionary whose order is observable, is an association list.
  \<open>alist_put\<close> replaces the entry in place and appends a new one, as a Python dict does.
\<close>

fun alist_put :: "'k \<Rightarrow> 'v \<Rightarrow> ('k \<times> 'v) list \<Rightarrow> ('k \<times> 'v) list" where
  "alist_put k v [] = [(k, v)]"
| "alist_put k v ((k', v') # xs) = (if k' = k then (k, v) # xs else (k', v') # alist_put k v xs)"

lemma map_of_alist_put [simp, dict_simps]:
  "map_of (alist_put k v xs) = (map_of xs)(k \<mapsto> v)"
  by (induction k v xs rule: alist_put.induct) (auto simp: fun_eq_iff)

lemma set_fst_alist_put [simp]: "fst ` set (alist_put k v xs) = insert k (fst ` set xs)"
  by (induction k v xs rule: alist_put.induct) auto

lemma distinct_alist_put [simp]:
  "distinct (map fst xs) \<Longrightarrow> distinct (map fst (alist_put k v xs))"
proof (induction k v xs rule: alist_put.induct)
  case (2 k v k' v' xs)
  then show ?case using set_fst_alist_put [of k v xs] by auto
qed simp

end
