(* ===== verification/Json.thy ===== *)
theory Json
  imports Prelude
begin

text \<open>
  The values the program exchanges: JSON documents as Python holds them after
  \<^verbatim>\<open>json.loads\<close> (\<open>None\<close>, \<open>bool\<close>, \<open>int\<close>, \<open>float\<close>, \<open>str\<close>, \<open>list\<close>, \<open>dict\<close>), Python's equality,
  truth value and \<^verbatim>\<open>str()\<close> on them, dictionary access with the exceptions it raises, and the
  deterministic printer of \<^verbatim>\<open>util.canonical_json\<close>.

  A float is represented by its \<^verbatim>\<open>repr\<close>, which determines it. A dictionary is the list of its
  items in insertion order; its keys are distinct (\<open>wf_json\<close>).
\<close>

section \<open>Values\<close>

datatype json =
    JNull
  | JBool bool
  | JInt int
  | JFloat string
  | JStr string
  | JArr "json list"
  | JObj "(string \<times> json) list"

type_synonym dict = "(string \<times> json) list"

fun is_str :: "json \<Rightarrow> bool" where
  "is_str (JStr s) = True" | "is_str _ = False"

fun is_dict :: "json \<Rightarrow> bool" where
  "is_dict (JObj d) = True" | "is_dict _ = False"

fun is_list :: "json \<Rightarrow> bool" where
  "is_list (JArr xs) = True" | "is_list _ = False"

fun is_bool :: "json \<Rightarrow> bool" where
  "is_bool (JBool b) = True" | "is_bool _ = False"

text \<open>\<^verbatim>\<open>isinstance(v, int)\<close> holds of booleans too; \<open>strict_int\<close> excludes them.\<close>

fun as_int :: "json \<Rightarrow> int option" where
  "as_int (JInt n) = Some n"
| "as_int (JBool b) = Some (if b then 1 else 0)"
| "as_int _ = None"

fun strict_int :: "json \<Rightarrow> int option" where
  "strict_int (JInt n) = Some n"
| "strict_int _ = None"

fun as_str :: "json \<Rightarrow> string option" where
  "as_str (JStr s) = Some s" | "as_str _ = None"

fun as_dict :: "json \<Rightarrow> dict option" where
  "as_dict (JObj d) = Some d" | "as_dict _ = None"

fun as_list :: "json \<Rightarrow> json list option" where
  "as_list (JArr xs) = Some xs" | "as_list _ = None"

lemma as_str_eq_Some [simp]: "as_str v = Some s \<longleftrightarrow> v = JStr s"
  by (cases v) auto

lemma as_dict_eq_Some [simp]: "as_dict v = Some d \<longleftrightarrow> v = JObj d"
  by (cases v) auto

lemma as_list_eq_Some [simp]: "as_list v = Some xs \<longleftrightarrow> v = JArr xs"
  by (cases v) auto

lemma strict_int_eq_Some [simp]: "strict_int v = Some n \<longleftrightarrow> v = JInt n"
  by (cases v) auto

lemma is_str_iff: "is_str v \<longleftrightarrow> (\<exists>s. v = JStr s)"
  by (cases v) auto

lemma is_dict_iff: "is_dict v \<longleftrightarrow> (\<exists>d. v = JObj d)"
  by (cases v) auto

lemma is_list_iff: "is_list v \<longleftrightarrow> (\<exists>xs. v = JArr xs)"
  by (cases v) auto

lemma is_bool_iff: "is_bool v \<longleftrightarrow> (\<exists>b. v = JBool b)"
  by (cases v) auto

definition opt_str :: "string option \<Rightarrow> json" where
  "opt_str s = (case s of None \<Rightarrow> JNull | Some t \<Rightarrow> JStr t)"

definition opt_int :: "int option \<Rightarrow> json" where
  "opt_int i = (case i of None \<Rightarrow> JNull | Some n \<Rightarrow> JInt n)"

definition opt_dict :: "dict option \<Rightarrow> json" where
  "opt_dict i = (case i of None \<Rightarrow> JNull | Some d \<Rightarrow> JObj d)"

section \<open>Numbers\<close>

text \<open>
  The integer a float is equal to, if any. The \<^verbatim>\<open>repr\<close> is the shortest decimal that rounds to
  the float: below \<open>2 ^ 53\<close> an integral \<^verbatim>\<open>repr\<close> is the exact value, above it the exact value is
  the multiple of a power of two nearest to it.
\<close>

function bit_length :: "int \<Rightarrow> nat" where
  "bit_length n = (if n \<le> 0 then 0 else Suc (bit_length (n div 2)))"
  by pat_completeness auto
termination
  by (relation "measure nat") auto

declare bit_length.simps [simp del]

definition round53 :: "int \<Rightarrow> int" where
  "round53 n =
     (if n < 2 ^ 53 then n
      else let s = bit_length n - 53; u = 2 ^ s; q = n div u; r = n mod u in
        if 2 * r < u \<or> 2 * r = u \<and> even q then q * u else (q + 1) * u)"

definition take_digits :: "string \<Rightarrow> string \<times> string" where
  "take_digits s = (takeWhile is_digit s, dropWhile is_digit s)"

definition exponent_of :: "string \<Rightarrow> int" where
  "exponent_of s =
     (case s of
        e # sg # ds \<Rightarrow>
          (if sg = CHR ''-'' then - int (read_nat ds)
           else if sg = CHR ''+'' then int (read_nat ds)
           else int (read_nat (sg # ds)))
      | _ \<Rightarrow> 0)"

definition magnitude_int :: "string \<Rightarrow> int option" where
  "magnitude_int s =
     (let (ip, r) = take_digits s;
          (fp, ex) = (case r of c # r' \<Rightarrow> (if c = CHR ''.'' then take_digits r' else ([], r)) | [] \<Rightarrow> ([], []));
          n = int (read_nat (ip @ fp));
          sc = exponent_of ex - int (length fp)
      in if 0 \<le> sc then Some (round53 (n * 10 ^ nat sc))
         else if n mod 10 ^ nat (- sc) = 0 then Some (round53 (n div 10 ^ nat (- sc)))
         else None)"

definition float_int :: "string \<Rightarrow> int option" where
  "float_int s =
     (if s \<in> {''nan'', ''inf'', ''-inf''} then None
      else case s of
        c # t \<Rightarrow> (if c = CHR ''-'' then map_option uminus (magnitude_int t) else magnitude_int s)
      | [] \<Rightarrow> None)"

definition is_finite_float :: "string \<Rightarrow> bool" where
  "is_finite_float s \<longleftrightarrow> s \<notin> {''nan'', ''inf'', ''-inf''}"

section \<open>Python equality and truth value\<close>

text \<open>
  Two values are equal in Python iff their normal forms are: booleans are the integers 0 and
  1, an integral float is that integer, and the order of the items of a dictionary does not
  matter. A NaN is different from every value, itself included.
\<close>

primrec py_norm :: "json \<Rightarrow> json" where
  "py_norm JNull = JNull"
| "py_norm (JBool b) = JInt (if b then 1 else 0)"
| "py_norm (JInt n) = JInt n"
| "py_norm (JFloat s) = (case float_int s of Some n \<Rightarrow> JInt n | None \<Rightarrow> JFloat s)"
| "py_norm (JStr s) = JStr s"
| "py_norm (JArr xs) = JArr (map py_norm xs)"
| "py_norm (JObj kvs) = JObj (sort_key fst (map (map_prod (\<lambda>k. k) py_norm) kvs))"

primrec has_nan :: "json \<Rightarrow> bool" where
  "has_nan JNull = False"
| "has_nan (JBool b) = False"
| "has_nan (JInt n) = False"
| "has_nan (JFloat s) = (s = ''nan'')"
| "has_nan (JStr s) = False"
| "has_nan (JArr xs) = list_ex (\<lambda>b. b) (map has_nan xs)"
| "has_nan (JObj kvs) = list_ex snd (map (map_prod (\<lambda>k. k) has_nan) kvs)"

definition py_eq :: "json \<Rightarrow> json \<Rightarrow> bool" where
  "py_eq a b \<longleftrightarrow> \<not> has_nan a \<and> \<not> has_nan b \<and> py_norm a = py_norm b"

lemma py_eq_sym: "py_eq a b \<longleftrightarrow> py_eq b a"
  by (auto simp: py_eq_def)

lemma py_eq_trans: "py_eq a b \<Longrightarrow> py_eq b c \<Longrightarrow> py_eq a c"
  by (auto simp: py_eq_def)

lemma py_eq_refl: "\<not> has_nan a \<Longrightarrow> py_eq a a"
  by (auto simp: py_eq_def)

lemma py_norm_eq_str [simp]: "py_norm v = JStr s \<longleftrightarrow> v = JStr s"
  by (cases v) (auto split: option.splits)

lemma py_norm_eq_null [simp]: "py_norm v = JNull \<longleftrightarrow> v = JNull"
  by (cases v) (auto split: option.splits)

lemma py_eq_str [simp]: "py_eq v (JStr s) \<longleftrightarrow> v = JStr s" "py_eq (JStr s) v \<longleftrightarrow> v = JStr s"
  by (auto simp: py_eq_def eq_commute [of "JStr s" "py_norm v"])

lemma py_eq_null [simp]: "py_eq v JNull \<longleftrightarrow> v = JNull" "py_eq JNull v \<longleftrightarrow> v = JNull"
  by (auto simp: py_eq_def eq_commute [of JNull "py_norm v"])

lemma py_eq_int_int [simp]: "py_eq (JInt m) (JInt n) \<longleftrightarrow> m = n"
  by (simp add: py_eq_def)

lemma py_eq_strict: "strict_int v = Some m \<Longrightarrow> py_eq v (JInt n) \<longleftrightarrow> m = n"
  by simp

text \<open>The truth value of a value in a condition.\<close>

fun truthy :: "json \<Rightarrow> bool" where
  "truthy JNull = False"
| "truthy (JBool b) = b"
| "truthy (JInt n) = (n \<noteq> 0)"
| "truthy (JFloat s) = (float_int s \<noteq> Some 0)"
| "truthy (JStr s) = (s \<noteq> [])"
| "truthy (JArr xs) = (xs \<noteq> [])"
| "truthy (JObj d) = (d \<noteq> [])"

text \<open>\<^verbatim>\<open>v is True\<close>, \<^verbatim>\<open>v is False\<close>.\<close>

definition is_true :: "json \<Rightarrow> bool" where "is_true v \<longleftrightarrow> v = JBool True"
definition is_false :: "json \<Rightarrow> bool" where "is_false v \<longleftrightarrow> v = JBool False"

text \<open>
  \<^verbatim>\<open>v in {"a", "b", ...}\<close>: hashing a list or a dictionary raises \<open>TypeError\<close>.
\<close>

definition hashable :: "json \<Rightarrow> bool" where
  "hashable v \<longleftrightarrow> \<not> is_list v \<and> \<not> is_dict v"

definition in_strs :: "json \<Rightarrow> string list \<Rightarrow> bool res" where
  "in_strs v ks =
     (if hashable v then Inr (case v of JStr s \<Rightarrow> List.member ks s | _ \<Rightarrow> False)
      else raise TypeError ''unhashable type'')"

lemma in_strs_True [simp]: "in_strs v ks = Inr True \<longleftrightarrow> (\<exists>s. v = JStr s \<and> s \<in> set ks)"
  by (cases v) (auto simp: in_strs_def hashable_def)

section \<open>\<^verbatim>\<open>str()\<close>\<close>

definition join :: "string \<Rightarrow> string list \<Rightarrow> string" where
  "join sep xs = (case xs of [] \<Rightarrow> [] | y # ys \<Rightarrow> y @ concat (map (\<lambda>s. sep @ s) ys))"

definition hex_digit :: "nat \<Rightarrow> char" where
  "hex_digit n = (if n < 10 then char_of (48 + n) else char_of (87 + n))"

definition repr_char :: "char \<Rightarrow> char \<Rightarrow> string" where
  "repr_char q c =
     (let n = (of_char c :: nat) in
      if c = CHR 0x5C then [CHR 0x5C, CHR 0x5C]
      else if c = q then [CHR 0x5C, q]
      else if n = 10 then [CHR 0x5C, CHR ''n'']
      else if n = 13 then [CHR 0x5C, CHR ''r'']
      else if n = 9 then [CHR 0x5C, CHR ''t'']
      else if n < 32 \<or> n = 127 then [CHR 0x5C, CHR ''x'', hex_digit (n div 16), hex_digit (n mod 16)]
      else [c])"

definition repr_str :: "string \<Rightarrow> string" where
  "repr_str s =
     (let q = (if CHR 0x27 \<in> set s \<and> CHR 0x22 \<notin> set s then CHR 0x22 else CHR 0x27)
      in [q] @ concat (map (repr_char q) s) @ [q])"

primrec py_repr :: "json \<Rightarrow> string" where
  "py_repr JNull = ''None''"
| "py_repr (JBool b) = (if b then ''True'' else ''False'')"
| "py_repr (JInt n) = show_int n"
| "py_repr (JFloat s) = s"
| "py_repr (JStr s) = repr_str s"
| "py_repr (JArr xs) = ''['' @ join '', '' (map py_repr xs) @ '']''"
| "py_repr (JObj kvs) =
     ''{'' @ join '', '' (map (\<lambda>(k, r). repr_str k @ '': '' @ r) (map (map_prod (\<lambda>k. k) py_repr) kvs)) @ ''}''"

definition py_str :: "json \<Rightarrow> string" where
  "py_str v = (case v of JStr s \<Rightarrow> s | _ \<Rightarrow> py_repr v)"

lemma py_str_JStr [simp]: "py_str (JStr s) = s"
  by (simp add: py_str_def)

section \<open>Dictionaries\<close>

text \<open>\<^verbatim>\<open>d.get(k)\<close>, \<^verbatim>\<open>d.get(k, v)\<close>, \<^verbatim>\<open>d[k]\<close>, \<^verbatim>\<open>d[k] = v\<close> and \<^verbatim>\<open>d.update(e)\<close>.\<close>

definition dget_or :: "dict \<Rightarrow> string \<Rightarrow> json \<Rightarrow> json" where
  "dget_or d k v = (case map_of d k of None \<Rightarrow> v | Some w \<Rightarrow> w)"

abbreviation dget :: "dict \<Rightarrow> string \<Rightarrow> json" where
  "dget d k \<equiv> dget_or d k JNull"

definition ditem :: "dict \<Rightarrow> string \<Rightarrow> json res" where
  "ditem d k = (case map_of d k of None \<Rightarrow> raise KeyError k | Some v \<Rightarrow> Inr v)"

abbreviation dput :: "string \<Rightarrow> json \<Rightarrow> dict \<Rightarrow> dict" where
  "dput \<equiv> alist_put"

definition dupdate :: "dict \<Rightarrow> dict \<Rightarrow> dict" where
  "dupdate d e = fold (\<lambda>(k, v). dput k v) e d"

text \<open>The same on a value that need not be a dictionary.\<close>

definition jget_or :: "json \<Rightarrow> string \<Rightarrow> json \<Rightarrow> json res" where
  "jget_or v k w = (case v of JObj d \<Rightarrow> Inr (dget_or d k w) | _ \<Rightarrow> raise AttributeError ''get'')"

abbreviation jget :: "json \<Rightarrow> string \<Rightarrow> json res" where
  "jget v k \<equiv> jget_or v k JNull"

definition jitem :: "json \<Rightarrow> string \<Rightarrow> json res" where
  "jitem v k = (case v of JObj d \<Rightarrow> ditem d k | _ \<Rightarrow> raise TypeError ''not subscriptable'')"

text \<open>
  \<open>vget v k\<close> is \<^verbatim>\<open>v.get(k)\<close> where the code has already checked that \<open>v\<close> is a dictionary.
\<close>

fun vget :: "json \<Rightarrow> string \<Rightarrow> json" where
  "vget (JObj d) k = dget d k"
| "vget _ k = JNull"

text \<open>\<^verbatim>\<open>set(d) == keys\<close>, for a literal set of keys.\<close>

definition exact_keys :: "dict \<Rightarrow> string list \<Rightarrow> bool" where
  "exact_keys d ks \<longleftrightarrow>
     list_all (\<lambda>p. List.member ks (fst p)) d \<and> list_all (\<lambda>k. List.member (map fst d) k) ks"

lemma exact_keys_iff: "exact_keys d ks \<longleftrightarrow> fst ` set d = set ks"
  by (auto simp: exact_keys_def list_all_iff)

lemma exact_keys_item: "exact_keys d ks \<Longrightarrow> k \<in> set ks \<Longrightarrow> \<exists>v. map_of d k = Some v"
  by (metis exact_keys_iff domIff dom_map_of_conv_image_fst not_None_eq)

lemma dget_or_Some: "map_of d k = Some v \<Longrightarrow> dget_or d k w = v"
  by (simp add: dget_or_def)

lemma dget_or_None: "map_of d k = None \<Longrightarrow> dget_or d k w = w"
  by (simp add: dget_or_def)

lemma dget_or_Nil [simp, dict_simps]: "dget_or [] k w = w"
  by (simp add: dget_or_def)

lemma dget_or_Cons [simp, dict_simps]:
  "dget_or ((k', v) # d) k w = (if k' = k then v else dget_or d k w)"
  by (simp add: dget_or_def)

lemma dget_or_dput [simp, dict_simps]:
  "dget_or (dput k' v d) k w = (if k' = k then v else dget_or d k w)"
  by (simp add: dget_or_def)

lemma ditem_eq_Inr [simp]: "ditem d k = Inr v \<longleftrightarrow> map_of d k = Some v"
  by (auto simp: ditem_def split: option.splits)

lemma ditem_dput [simp]: "ditem (dput k' v d) k = (if k' = k then Inr v else ditem d k)"
  by (simp add: ditem_def)

lemma ditem_Cons [simp]: "ditem ((k', v) # d) k = (if k' = k then Inr v else ditem d k)"
  by (simp add: ditem_def)

lemma jget_or_JObj [simp]: "jget_or (JObj d) k w = Inr (dget_or d k w)"
  by (simp add: jget_or_def)

lemma jget_or_eq_Inr: "jget_or v k w = Inr x \<longleftrightarrow> (\<exists>d. v = JObj d \<and> x = dget_or d k w)"
  by (cases v) (auto simp: jget_or_def)

lemma map_of_dupdate:
  "map_of (dupdate d e) k = (case map_of (rev e) k of Some v \<Rightarrow> Some v | None \<Rightarrow> map_of d k)"
proof (induction e arbitrary: d)
  case (Cons p e)
  then show ?case
    by (cases p) (auto simp: dupdate_def map_add_def split: option.splits)
qed (simp add: dupdate_def)

lemma dupdate_Nil [simp]: "dupdate d [] = d"
  by (simp add: dupdate_def)

lemma dupdate_Cons [simp]: "dupdate d ((k, v) # e) = dupdate (dput k v d) e"
  by (simp add: dupdate_def)

lemma distinct_dupdate [simp]:
  "distinct (map fst d) \<Longrightarrow> distinct (map fst (dupdate d e))"
  by (induction e arbitrary: d) auto

section \<open>Well-formed values\<close>

text \<open>
  The keys of a dictionary are distinct, and a float is written as the \<^verbatim>\<open>repr\<close> of a Python
  float: an optional sign, digits, then a fraction or an exponent or both; or one of the
  three non-finite values.
\<close>

definition wf_exponent :: "string \<Rightarrow> bool" where
  "wf_exponent s \<longleftrightarrow>
     (case s of
        e # c # ds \<Rightarrow>
          e = CHR ''e'' \<and> (c = CHR ''+'' \<or> c = CHR ''-'') \<and> ds \<noteq> [] \<and> list_all is_digit ds
      | _ \<Rightarrow> False)"

definition wf_magnitude :: "string \<Rightarrow> bool" where
  "wf_magnitude t \<longleftrightarrow>
     (let (ip, r) = take_digits t in
      ip \<noteq> [] \<and> (hd ip = CHR ''0'' \<longrightarrow> tl ip = [])
      \<and> (case r of
           [] \<Rightarrow> False
         | c # u \<Rightarrow>
             if c = CHR ''.''
             then (let (fp, ex) = take_digits u in fp \<noteq> [] \<and> (ex = [] \<or> wf_exponent ex))
             else wf_exponent r))"

definition wf_float :: "string \<Rightarrow> bool" where
  "wf_float s \<longleftrightarrow>
     s \<in> {''nan'', ''inf'', ''-inf''}
     \<or> (case s of [] \<Rightarrow> False
        | c # u \<Rightarrow> if c = CHR ''-'' then wf_magnitude u else wf_magnitude s)"

primrec wf_json :: "json \<Rightarrow> bool" where
  "wf_json JNull = True"
| "wf_json (JBool b) = True"
| "wf_json (JInt n) = True"
| "wf_json (JFloat s) = wf_float s"
| "wf_json (JStr s) = True"
| "wf_json (JArr xs) = list_all (\<lambda>b. b) (map wf_json xs)"
| "wf_json (JObj kvs) =
     (distinct (map fst kvs) \<and> list_all snd (map (map_prod (\<lambda>k. k) wf_json) kvs))"

lemma wf_json_JArr: "wf_json (JArr xs) \<longleftrightarrow> (\<forall>x\<in>set xs. wf_json x)"
  by (auto simp: list_all_iff)

lemma wf_json_JObj:
  "wf_json (JObj kvs) \<longleftrightarrow> distinct (map fst kvs) \<and> (\<forall>p\<in>set kvs. wf_json (snd p))"
  by (auto simp: list_all_iff)

declare wf_json.simps(6,7) [simp del]

section \<open>Canonical JSON\<close>

text \<open>
  \<^verbatim>\<open>json.dumps(value, ensure_ascii=False, sort_keys=True, separators=(isep, ksep))\<close>. The escapes
  are those of \<^verbatim>\<open>json.encoder.ESCAPE_DCT\<close>: the quote, the backslash and the control characters
  below U+0020; everything else is copied.
\<close>

definition esc_char :: "char \<Rightarrow> string" where
  "esc_char c =
     (let n = (of_char c :: nat) in
      if n = 34 then [CHR 0x5C, CHR 0x22]
      else if n = 92 then [CHR 0x5C, CHR 0x5C]
      else if n = 10 then [CHR 0x5C, CHR ''n'']
      else if n = 13 then [CHR 0x5C, CHR ''r'']
      else if n = 9 then [CHR 0x5C, CHR ''t'']
      else if n = 12 then [CHR 0x5C, CHR ''f'']
      else if n = 8 then [CHR 0x5C, CHR ''b'']
      else if n < 32 then [CHR 0x5C, CHR ''u'', CHR ''0'', CHR ''0'', hex_digit (n div 16), hex_digit (n mod 16)]
      else [c])"

definition quote :: "string \<Rightarrow> string" where
  "quote s = [CHR 0x22] @ concat (map esc_char s) @ [CHR 0x22]"

definition float_text :: "string \<Rightarrow> string" where
  "float_text s =
     (if s = ''nan'' then ''NaN'' else if s = ''inf'' then ''Infinity''
      else if s = ''-inf'' then ''-Infinity'' else s)"

primrec dumps :: "string \<Rightarrow> string \<Rightarrow> json \<Rightarrow> string" where
  "dumps isep ksep JNull = ''null''"
| "dumps isep ksep (JBool b) = (if b then ''true'' else ''false'')"
| "dumps isep ksep (JInt n) = show_int n"
| "dumps isep ksep (JFloat s) = float_text s"
| "dumps isep ksep (JStr s) = quote s"
| "dumps isep ksep (JArr xs) = ''['' @ join isep (map (dumps isep ksep) xs) @ '']''"
| "dumps isep ksep (JObj kvs) =
     ''{'' @ join isep (map (\<lambda>(k, t). quote k @ ksep @ t)
               (sort_key fst (map (map_prod (\<lambda>k. k) (dumps isep ksep)) kvs))) @ ''}''"

definition canonical_json :: "json \<Rightarrow> string" where
  "canonical_json v = dumps '','' '':'' v"

text \<open>The value with the items of every dictionary in the order the printer writes them.\<close>

primrec sort_keys :: "json \<Rightarrow> json" where
  "sort_keys JNull = JNull"
| "sort_keys (JBool b) = JBool b"
| "sort_keys (JInt n) = JInt n"
| "sort_keys (JFloat s) = JFloat s"
| "sort_keys (JStr s) = JStr s"
| "sort_keys (JArr xs) = JArr (map sort_keys xs)"
| "sort_keys (JObj kvs) = JObj (sort_key fst (map (map_prod (\<lambda>k. k) sort_keys) kvs))"

text \<open>Sorting by key commutes with a function on the values.\<close>

lemma sort_key_map_values:
  "sort_key fst (map (map_prod (\<lambda>k. k) h) kvs) = map (map_prod (\<lambda>k. k) h) (sort_key fst kvs)"
proof -
  have ins: "insort_key fst (map_prod (\<lambda>k. k) h p) (map (map_prod (\<lambda>k. k) h) qs)
      = map (map_prod (\<lambda>k. k) h) (insort_key fst p qs)" for p qs
    by (induction qs) (auto simp: map_prod_def split: prod.splits)
  show ?thesis by (induction kvs) (simp_all add: ins)
qed

lemma map_of_map_values: "map_of (map (map_prod (\<lambda>k. k) h) kvs) k = map_option h (map_of kvs k)"
  by (induction kvs) (auto simp: map_prod_def split: prod.splits)

lemma distinct_sort_key: "distinct (map fst kvs) \<Longrightarrow> distinct (map fst (sort_key fst kvs))"
  by (metis distinct_map distinct_sort inj_on_cong set_sort)

lemma map_of_sort_key:
  "distinct (map fst kvs) \<Longrightarrow> map_of (sort_key fst kvs) = map_of kvs"
  by (rule map_of_eqI) (auto simp: distinct_sort_key map_of_inject_set)

section \<open>Constant-time comparison\<close>

text \<open>\<^verbatim>\<open>hmac.compare_digest\<close> on two strings raises \<open>TypeError\<close> unless both are ASCII.\<close>

definition is_ascii :: "string \<Rightarrow> bool" where
  "is_ascii s \<longleftrightarrow> list_all (\<lambda>c. (of_char c :: nat) < 128) s"

definition compare_digest :: "string \<Rightarrow> string \<Rightarrow> bool res" where
  "compare_digest a b =
     (if is_ascii a \<and> is_ascii b then Inr (a = b)
      else raise TypeError ''comparing strings with non-ASCII characters is not supported'')"

lemma compare_digest_True [simp]: "compare_digest a b = Inr True \<longleftrightarrow> a = b \<and> is_ascii a"
  by (auto simp: compare_digest_def)

end
