(* ===== verification/Json_Text.thy ===== *)
theory Json_Text
  imports Json
begin

text \<open>
  The text of JSON documents: \<^verbatim>\<open>json.loads\<close> as the files of the workspace are read with it, and
  the round trip with the printer. \<open>loads (dumps v) = Some (sort_keys v)\<close> makes the canonical
  form injective up to the order of dictionary items, which is what lets a digest of it
  stand for the document.

  The reader keeps the text of a float literal, so the round trip speaks about documents
  whose floats are written in Python's \<^verbatim>\<open>repr\<close> form, which is how the program writes them. A
  lone surrogate escape, which has no UTF-8 form, is rejected.
\<close>

section \<open>Scanner\<close>

definition is_json_ws :: "char \<Rightarrow> bool" where
  "is_json_ws c \<longleftrightarrow> (let n = (of_char c :: nat) in n = 32 \<or> n = 9 \<or> n = 10 \<or> n = 13)"

definition skip_ws :: "string \<Rightarrow> string" where
  "skip_ws s = dropWhile is_json_ws s"

definition hex_value :: "char \<Rightarrow> nat option" where
  "hex_value c =
     (let n = (of_char c :: nat) in
      if 48 \<le> n \<and> n \<le> 57 then Some (n - 48)
      else if 97 \<le> n \<and> n \<le> 102 then Some (n - 87)
      else if 65 \<le> n \<and> n \<le> 70 then Some (n - 55)
      else None)"

definition hex4 :: "char \<Rightarrow> char \<Rightarrow> char \<Rightarrow> char \<Rightarrow> nat option" where
  "hex4 a b c d =
     (case (hex_value a, hex_value b, hex_value c, hex_value d) of
        (Some p, Some q, Some r, Some s) \<Rightarrow> Some (4096 * p + 256 * q + 16 * r + s)
      | _ \<Rightarrow> None)"

definition utf8 :: "nat \<Rightarrow> string" where
  "utf8 n =
     (if n < 128 then [char_of n]
      else if n < 2048 then [char_of (192 + n div 64), char_of (128 + n mod 64)]
      else if n < 65536 then
        [char_of (224 + n div 4096), char_of (128 + n div 64 mod 64), char_of (128 + n mod 64)]
      else
        [char_of (240 + n div 262144), char_of (128 + n div 4096 mod 64),
         char_of (128 + n div 64 mod 64), char_of (128 + n mod 64)])"

definition unescape :: "char \<Rightarrow> char option" where
  "unescape e =
     (if e = CHR 0x22 then Some CHR 0x22 else if e = CHR 0x5C then Some CHR 0x5C
      else if e = CHR ''/'' then Some CHR ''/'' else if e = CHR ''n'' then Some CHR 0x0A
      else if e = CHR ''r'' then Some CHR 0x0D else if e = CHR ''t'' then Some CHR 0x09
      else if e = CHR ''f'' then Some CHR 0x0C else if e = CHR ''b'' then Some CHR 0x08
      else None)"

definition prepend :: "string \<Rightarrow> (string \<times> string) option \<Rightarrow> (string \<times> string) option" where
  "prepend p r = map_option (map_prod ((@) p) id) r"

text \<open>The body of a string after its opening quote: its value and the text that follows it.\<close>

fun parse_str :: "string \<Rightarrow> (string \<times> string) option" where
  "parse_str [] = None"
| "parse_str (x # s) =
     (let n = (of_char x :: nat) in
      if n = 34 then Some ([], s)
      else if n < 32 then None
      else if n \<noteq> 92 then prepend [x] (parse_str s)
      else case s of
        [] \<Rightarrow> None
      | e # t \<Rightarrow>
          (case unescape e of
             Some y \<Rightarrow> prepend [y] (parse_str t)
           | None \<Rightarrow>
               if e \<noteq> CHR ''u'' then None
               else case t of
                 a # b # c # d # u \<Rightarrow>
                   (case hex4 a b c d of
                      None \<Rightarrow> None
                    | Some h \<Rightarrow>
                        if h < 55296 \<or> 57343 < h then prepend (utf8 h) (parse_str u)
                        else if 56319 < h then None
                        else case u of
                          p # q # a' # b' # c' # d' # w \<Rightarrow>
                            (case hex4 a' b' c' d' of
                               None \<Rightarrow> None
                             | Some l \<Rightarrow>
                                 if p = CHR 0x5C \<and> q = CHR ''u'' \<and> 56320 \<le> l \<and> l \<le> 57343
                                 then prepend (utf8 (65536 + (h - 55296) * 1024 + (l - 56320))) (parse_str w)
                                 else None)
                        | _ \<Rightarrow> None)
               | _ \<Rightarrow> None))"

declare parse_str.simps(2) [simp del]

definition scan_exp :: "string \<Rightarrow> string \<times> string" where
  "scan_exp r =
     (case r of
        [] \<Rightarrow> ([], [])
      | e # u \<Rightarrow>
          if e \<noteq> CHR ''e'' \<and> e \<noteq> CHR ''E'' then ([], r)
          else case u of
            [] \<Rightarrow> ([], r)
          | c # w \<Rightarrow>
              if c = CHR ''+'' \<or> c = CHR ''-''
              then (let (ds, w') = take_digits w in if ds = [] then ([], r) else (e # c # ds, w'))
              else (let (ds, w') = take_digits u in if ds = [] then ([], r) else (e # ds, w')))"

definition scan_frac :: "string \<Rightarrow> string \<times> string" where
  "scan_frac r =
     (case r of
        [] \<Rightarrow> ([], [])
      | c # u \<Rightarrow>
          if c \<noteq> CHR ''.'' then ([], r)
          else (let (ds, u') = take_digits u in if ds = [] then ([], r) else (c # ds, u')))"

definition scan_magnitude :: "string \<Rightarrow> string \<Rightarrow> (json \<times> string) option" where
  "scan_magnitude sg t =
     (let (ip, r) = (case t of
            [] \<Rightarrow> ([], [])
          | c # u \<Rightarrow> if c = CHR ''0'' then ([c], u) else take_digits t);
          (fp, r1) = scan_frac r;
          (ep, r2) = scan_exp r1
      in if ip = [] then None
         else if fp = [] \<and> ep = []
         then Some (JInt (if sg = [] then int (read_nat ip) else - int (read_nat ip)), r)
         else Some (JFloat (sg @ ip @ fp @ ep), r2))"

definition scan_number :: "string \<Rightarrow> (json \<times> string) option" where
  "scan_number s =
     (case s of
        [] \<Rightarrow> None
      | c # u \<Rightarrow> if c = CHR ''-'' then scan_magnitude ''-'' u else scan_magnitude [] s)"

definition scan_word :: "string \<Rightarrow> json \<Rightarrow> string \<Rightarrow> (json \<times> string) option" where
  "scan_word w v s = (if startswith s w then Some (v, drop (length w) s) else None)"

section \<open>Parser\<close>

text \<open>Every recursive call spends one unit of fuel; a call that runs out of it fails.\<close>

fun parse_value :: "nat \<Rightarrow> string \<Rightarrow> (json \<times> string) option"
and parse_elems :: "nat \<Rightarrow> string \<Rightarrow> json list \<Rightarrow> (json \<times> string) option"
and parse_members :: "nat \<Rightarrow> string \<Rightarrow> dict \<Rightarrow> (json \<times> string) option" where
  "parse_value 0 s = None"
| "parse_value (Suc n) s =
     (case s of
        [] \<Rightarrow> None
      | c # t \<Rightarrow>
          if c = CHR 0x22 then map_option (map_prod JStr id) (parse_str t)
          else if c = CHR ''{'' then
            (case skip_ws t of
               [] \<Rightarrow> None
             | d # u \<Rightarrow> if d = CHR ''}'' then Some (JObj [], u) else parse_members n (d # u) [])
          else if c = CHR ''['' then
            (case skip_ws t of
               [] \<Rightarrow> None
             | d # u \<Rightarrow> if d = CHR '']'' then Some (JArr [], u) else parse_elems n (d # u) [])
          else if c = CHR ''n'' then scan_word ''null'' JNull s
          else if c = CHR ''t'' then scan_word ''true'' (JBool True) s
          else if c = CHR ''f'' then scan_word ''false'' (JBool False) s
          else if c = CHR ''N'' then scan_word ''NaN'' (JFloat ''nan'') s
          else if c = CHR ''I'' then scan_word ''Infinity'' (JFloat ''inf'') s
          else if startswith s ''-Infinity'' then Some (JFloat ''-inf'', drop 9 s)
          else scan_number s)"
| "parse_elems 0 s acc = None"
| "parse_elems (Suc n) s acc =
     (case parse_value n s of
        None \<Rightarrow> None
      | Some (v, t) \<Rightarrow>
          (case skip_ws t of
             [] \<Rightarrow> None
           | c # u \<Rightarrow>
               if c = CHR '','' then parse_elems n (skip_ws u) (v # acc)
               else if c = CHR '']'' then Some (JArr (rev (v # acc)), u)
               else None))"
| "parse_members 0 s acc = None"
| "parse_members (Suc n) s acc =
     (case s of
        [] \<Rightarrow> None
      | q # s' \<Rightarrow>
          if q \<noteq> CHR 0x22 then None
          else case parse_str s' of
            None \<Rightarrow> None
          | Some (k, t) \<Rightarrow>
              (case skip_ws t of
                 [] \<Rightarrow> None
               | c # u \<Rightarrow>
                   if c \<noteq> CHR '':'' then None
                   else case parse_value n (skip_ws u) of
                     None \<Rightarrow> None
                   | Some (v, w) \<Rightarrow>
                       (case skip_ws w of
                          [] \<Rightarrow> None
                        | e # x \<Rightarrow>
                            if e = CHR '','' then parse_members n (skip_ws x) (dput k v acc)
                            else if e = CHR ''}'' then Some (JObj (dput k v acc), x)
                            else None)))"

definition loads :: "string \<Rightarrow> json option" where
  "loads s =
     (case parse_value (Suc (length s)) (skip_ws s) of
        None \<Rightarrow> None
      | Some (v, r) \<Rightarrow> if skip_ws r = [] then Some v else None)"

section \<open>Reading back what the printer writes\<close>

subsection \<open>Strings\<close>

lemma hex_value_digit [simp]: "k < 16 \<Longrightarrow> hex_value (hex_digit k) = Some k"
  by (auto simp: hex_value_def hex_digit_def Let_def)

lemma esc_hex4:
  assumes "n < 32"
  shows "hex4 CHR ''0'' CHR ''0'' (hex_digit (n div 16)) (hex_digit (n mod 16)) = Some n"
proof -
  have "hex_value CHR ''0'' = Some 0" by (simp add: hex_value_def)
  moreover have "n div 16 < 16" "n mod 16 < 16" using assms by auto
  ultimately show ?thesis by (simp add: hex4_def)
qed

lemma prepend_Some [simp]: "prepend p (Some (s, r)) = Some (p @ s, r)"
  by (simp add: prepend_def)

lemma char_codes:
  "(of_char x = (34::nat)) = (x = CHR 0x22)"
  "(of_char x = (92::nat)) = (x = CHR 0x5C)"
  "(of_char x = (10::nat)) = (x = CHR 0x0A)"
  "(of_char x = (13::nat)) = (x = CHR 0x0D)"
  "(of_char x = (9::nat)) = (x = CHR 0x09)"
  "(of_char x = (12::nat)) = (x = CHR 0x0C)"
  "(of_char x = (8::nat)) = (x = CHR 0x08)"
  using of_char_eq_iff [of x "CHR 0x22", where ?'a = nat]
    of_char_eq_iff [of x "CHR 0x5C", where ?'a = nat]
    of_char_eq_iff [of x "CHR 0x0A", where ?'a = nat]
    of_char_eq_iff [of x "CHR 0x0D", where ?'a = nat]
    of_char_eq_iff [of x "CHR 0x09", where ?'a = nat]
    of_char_eq_iff [of x "CHR 0x0C", where ?'a = nat]
    of_char_eq_iff [of x "CHR 0x08", where ?'a = nat]
  by simp_all

lemma parse_str_esc: "parse_str (esc_char x @ s) = prepend [x] (parse_str s)"
proof -
  let ?n = "of_char x :: nat"
  consider "?n = 34" | "?n = 92" | "?n = 10" | "?n = 13" | "?n = 9" | "?n = 12" | "?n = 8"
    | "?n < 32" "?n \<notin> {10, 13, 9, 12, 8}" | "32 \<le> ?n" "?n \<noteq> 34" "?n \<noteq> 92"
    by fastforce
  then show ?thesis
  proof cases
    case 8
    then have "utf8 ?n = [x]" by (simp add: utf8_def)
    with 8 show ?thesis
      by (simp add: esc_char_def Let_def parse_str.simps(2) unescape_def esc_hex4)
  next
    case 9
    then show ?thesis by (simp add: esc_char_def Let_def parse_str.simps(2))
  qed (auto simp: char_codes esc_char_def parse_str.simps(2) unescape_def)
qed

lemma parse_str_quote: "parse_str (concat (map esc_char s) @ CHR 0x22 # r) = Some (s, r)"
  by (induction s) (auto simp: parse_str_esc parse_str.simps(2))

subsection \<open>Numbers\<close>

definition delim :: "string \<Rightarrow> bool" where
  "delim r \<longleftrightarrow>
     (case r of [] \<Rightarrow> True | c # _ \<Rightarrow> \<not> is_digit c \<and> c \<noteq> CHR ''.'' \<and> c \<noteq> CHR ''e'' \<and> c \<noteq> CHR ''E'')"

lemma take_digits_append:
  assumes "list_all is_digit ds" and "r = [] \<or> \<not> is_digit (hd r)"
  shows "take_digits (ds @ r) = (ds, r)"
proof -
  have ds: "\<forall>x\<in>set ds. is_digit x" using assms(1) by (simp add: list_all_iff)
  have "takeWhile is_digit r = []" "dropWhile is_digit r = r"
    using assms(2) by (cases r; auto)+
  with ds show ?thesis
    by (simp add: take_digits_def takeWhile_append2 dropWhile_append2)
qed

lemma take_digits_split: "take_digits t = (a, b) \<Longrightarrow> t = a @ b \<and> list_all is_digit a \<and> (b = [] \<or> \<not> is_digit (hd b))"
  by (auto simp: take_digits_def list_all_iff dest: set_takeWhileD hd_dropWhile)

lemma delim_nondigit: "delim r \<Longrightarrow> r = [] \<or> \<not> is_digit (hd r)"
  by (auto simp: delim_def split: list.splits)

lemma delim_scan: "delim r \<Longrightarrow> scan_frac r = ([], r)" "delim r \<Longrightarrow> scan_exp r = ([], r)"
  by (auto simp: delim_def scan_frac_def scan_exp_def split: list.splits)

text \<open>The integer part of a number: a single zero, or digits that do not start with one.\<close>

lemma scan_integer_part:
  assumes "list_all is_digit ip" "ip \<noteq> []" "hd ip = CHR ''0'' \<longrightarrow> tl ip = []"
    and "r = [] \<or> \<not> is_digit (hd r)"
  shows "(case ip @ r of [] \<Rightarrow> ([], [])
          | c # u \<Rightarrow> if c = CHR ''0'' then ([c], u) else take_digits (ip @ r)) = (ip, r)"
proof (cases "hd ip = CHR ''0''")
  case True
  with assms have "ip = [CHR ''0'']" by (cases ip) auto
  then show ?thesis by simp
next
  case False
  moreover have "take_digits (ip @ r) = (ip, r)"
    using assms(1,4) by (rule take_digits_append)
  ultimately show ?thesis
    using assms(2) by (cases ip) simp_all
qed

lemma show_nat_no_leading_zero: "hd (show_nat n) = CHR ''0'' \<longrightarrow> tl (show_nat n) = []"
proof
  assume "hd (show_nat n) = CHR ''0''"
  then have "n = 0" by (rule show_nat_leading)
  then show "tl (show_nat n) = []" by (simp add: show_nat.simps [of 0])
qed

lemma scan_magnitude_nat:
  assumes "delim r"
  shows "scan_magnitude sg (show_nat n @ r)
       = Some (JInt (if sg = [] then int n else - int n), r)"
proof -
  have ip: "(case show_nat n @ r of [] \<Rightarrow> ([], [])
      | c # u \<Rightarrow> if c = CHR ''0'' then ([c], u) else take_digits (show_nat n @ r)) = (show_nat n, r)"
    by (rule scan_integer_part)
      (simp_all add: show_nat_digits show_nat_no_leading_zero delim_nondigit assms)
  show ?thesis
    unfolding scan_magnitude_def ip by (simp add: delim_scan assms)
qed

lemma show_nat_hd_digit: "\<exists>c cs. show_nat n = c # cs \<and> is_digit c"
  using show_nat_digits [of n] by (cases "show_nat n") auto

lemma scan_number_int: "delim r \<Longrightarrow> scan_number (show_int n @ r) = Some (JInt n, r)"
proof -
  assume r: "delim r"
  obtain c cs where c: "show_nat (nat n) = c # cs" "is_digit c"
    using show_nat_hd_digit by blast
  then have "c \<noteq> CHR ''-''" by (auto simp: is_digit_def)
  with c r show ?thesis
    using scan_magnitude_nat [OF r, of "[]" "nat n"] scan_magnitude_nat [OF r, of "''-''" "nat (- n)"]
    by (auto simp: scan_number_def show_int_def)
qed

lemma scan_exp_wf:
  assumes "wf_exponent ex" "delim r"
  shows "scan_exp (ex @ r) = (ex, r)"
proof -
  obtain c ds where ex: "ex = CHR ''e'' # c # ds" "c = CHR ''+'' \<or> c = CHR ''-''"
      "ds \<noteq> []" "list_all is_digit ds"
    using assms(1) by (auto simp: wf_exponent_def split: list.splits)
  have "take_digits (ds @ r) = (ds, r)"
    using ex(4) delim_nondigit [OF assms(2)] by (rule take_digits_append)
  with ex show ?thesis by (auto simp: scan_exp_def)
qed

lemma wf_exponent_hd: "wf_exponent ex \<Longrightarrow> hd ex = CHR ''e'' \<and> ex \<noteq> []"
  by (auto simp: wf_exponent_def split: list.splits)

lemma scan_magnitude_float:
  assumes "wf_magnitude t" "delim r"
  shows "scan_magnitude sg (t @ r) = Some (JFloat (sg @ t), r)"
proof -
  obtain ip rs where td: "take_digits t = (ip, rs)" by fastforce
  then have t: "t = ip @ rs" "list_all is_digit ip" "rs = [] \<or> \<not> is_digit (hd rs)"
    using take_digits_split by auto
  from assms(1) td have ip: "ip \<noteq> []" "hd ip = CHR ''0'' \<longrightarrow> tl ip = []" "rs \<noteq> []"
    by (auto simp: wf_magnitude_def split: list.splits)
  have nd: "rs @ r = [] \<or> \<not> is_digit (hd (rs @ r))"
    using t(3) ip(3) by simp
  have part: "(case ip @ (rs @ r) of [] \<Rightarrow> ([], [])
      | c # u \<Rightarrow> if c = CHR ''0'' then ([c], u) else take_digits (ip @ (rs @ r))) = (ip, rs @ r)"
    using t(2) ip(1,2) nd by (rule scan_integer_part)
  obtain c u where rs: "rs = c # u" using ip(3) by (cases rs) auto
  show ?thesis
  proof (cases "c = CHR ''.''")
    case True
    obtain fp ex where fx: "take_digits u = (fp, ex)" by fastforce
    then have u: "u = fp @ ex" "list_all is_digit fp" "ex = [] \<or> \<not> is_digit (hd ex)"
      using take_digits_split by auto
    from assms(1) td rs True fx have wf: "fp \<noteq> []" "ex = [] \<or> wf_exponent ex"
      by (auto simp: wf_magnitude_def)
    have "ex @ r = [] \<or> \<not> is_digit (hd (ex @ r))"
      using u(3) delim_nondigit [OF assms(2)] by (cases ex) auto
    then have "take_digits (fp @ ex @ r) = (fp, ex @ r)"
      using u(2) by (intro take_digits_append)
    then have frac: "scan_frac (rs @ r) = (c # fp, ex @ r)"
      using rs True u(1) wf(1) by (simp add: scan_frac_def)
    have "scan_exp (ex @ r) = (ex, r)"
      using wf(2) scan_exp_wf [OF _ assms(2)] delim_scan(2) [OF assms(2)] by auto
    with frac part show ?thesis
      unfolding scan_magnitude_def t(1) append_assoc part using rs u(1) ip(1) by simp
  next
    case False
    with assms(1) td rs have wf: "wf_exponent rs" by (auto simp: wf_magnitude_def)
    have "scan_frac (rs @ r) = ([], rs @ r)"
      using False rs by (simp add: scan_frac_def)
    moreover have "scan_exp (rs @ r) = (rs, r)" using wf assms(2) by (rule scan_exp_wf)
    ultimately show ?thesis
      unfolding scan_magnitude_def t(1) append_assoc part using rs ip(1) by simp
  qed
qed

lemma wf_magnitude_hd: "wf_magnitude t \<Longrightarrow> t \<noteq> [] \<and> is_digit (hd t)"
  by (cases t) (auto simp: wf_magnitude_def take_digits_def split: list.splits if_splits)

subsection \<open>Values\<close>

lemma join_simps [simp]:
  "join sep [] = []" "join sep [x] = x"
  "join sep (x # y # ys) = x @ sep @ join sep (y # ys)"
  by (simp_all add: join_def)

lemma skip_ws_nonws [simp]: "\<not> is_json_ws c \<Longrightarrow> skip_ws (c # s) = c # s"
  by (simp add: skip_ws_def)

lemma skip_ws_append: "list_all is_json_ws w \<Longrightarrow> skip_ws (w @ s) = skip_ws s"
  by (induction w) (auto simp: skip_ws_def)

lemma skip_ws_all: "list_all is_json_ws w \<Longrightarrow> skip_ws w = []"
  by (induction w) (auto simp: skip_ws_def)

text \<open>The first character of a printed value.\<close>

definition value_start :: "char \<Rightarrow> bool" where
  "value_start c \<longleftrightarrow> is_digit c \<or> c \<in> set ''ntfNI-[{'' \<or> c = CHR 0x22"

lemma value_start_nonws: "value_start c \<Longrightarrow> \<not> is_json_ws c"
  by (auto simp: value_start_def is_json_ws_def is_digit_def Let_def)

lemma float_text_start: "wf_float s \<Longrightarrow> \<exists>c cs. float_text s = c # cs \<and> value_start c"
proof (cases "s \<in> {''nan'', ''inf'', ''-inf''}")
  case False
  assume "wf_float s"
  with False obtain c u where s: "s = c # u"
      "if c = CHR ''-'' then wf_magnitude u else wf_magnitude s"
    by (cases s) (auto simp: wf_float_def)
  with False show ?thesis
    using wf_magnitude_hd [of s] by (auto simp: float_text_def value_start_def split: if_splits)
qed (auto simp: float_text_def value_start_def)

lemma dumps_start:
  "wf_json v \<Longrightarrow> \<exists>c cs. dumps isep ksep v = c # cs \<and> value_start c"
proof (cases v)
  case (JInt n)
  then show ?thesis
    using show_nat_hd_digit [of "nat n"] by (auto simp: show_int_def value_start_def)
next
  case (JFloat s)
  then show "wf_json v \<Longrightarrow> ?thesis" using float_text_start by simp
qed (auto simp: value_start_def quote_def)

lemma dumps_nonempty: "wf_json v \<Longrightarrow> 0 < length (dumps isep ksep v)"
  using dumps_start [of v isep ksep] by auto

lemma skip_ws_dumps: "wf_json v \<Longrightarrow> skip_ws (dumps isep ksep v @ r) = dumps isep ksep v @ r"
  using dumps_start [of v isep ksep] value_start_nonws by fastforce

text \<open>Numbers, on the branch of the parser that reads them.\<close>

lemma number_branch:
  assumes "is_digit c \<or> c = CHR ''-''" "\<not> startswith (c # t) ''-Infinity''"
  shows "parse_value (Suc n) (c # t) = scan_number (c # t)"
proof -
  have "c \<noteq> CHR 0x22 \<and> c \<noteq> CHR ''{'' \<and> c \<noteq> CHR ''['' \<and> c \<noteq> CHR ''n'' \<and> c \<noteq> CHR ''t''
      \<and> c \<noteq> CHR ''f'' \<and> c \<noteq> CHR ''N'' \<and> c \<noteq> CHR ''I''"
    using assms(1) by (auto simp: is_digit_def)
  with assms(2) show ?thesis by simp
qed

lemma not_infinity: "is_digit c \<Longrightarrow> \<not> startswith (c # t) ''-Infinity''"
    "is_digit c \<Longrightarrow> \<not> startswith (CHR ''-'' # c # t) ''-Infinity''"
  by (auto simp: startswith_def is_digit_def)

lemma parse_value_int: "delim r \<Longrightarrow> parse_value (Suc n) (show_int i @ r) = Some (JInt i, r)"
proof -
  assume r: "delim r"
  obtain c cs where c: "show_nat (nat \<bar>i\<bar>) = c # cs" "is_digit c"
    using show_nat_hd_digit by blast
  show ?thesis
  proof (cases "i < 0")
    case True
    with c have t: "show_int i @ r = CHR ''-'' # c # (cs @ r)" by (simp add: show_int_def)
    then have "parse_value (Suc n) (show_int i @ r) = scan_number (show_int i @ r)"
      using number_branch [of "CHR ''-''" "c # (cs @ r)" n] not_infinity(2) [OF c(2)] by simp
    then show ?thesis using scan_number_int [OF r] by simp
  next
    case False
    with c have t: "show_int i @ r = c # (cs @ r)" by (simp add: show_int_def)
    then have "parse_value (Suc n) (show_int i @ r) = scan_number (show_int i @ r)"
      using number_branch [of c "cs @ r" n] not_infinity(1) [OF c(2)] c(2) by simp
    then show ?thesis using scan_number_int [OF r] by simp
  qed
qed

lemma parse_value_finite_float:
  assumes "wf_float s" "s \<notin> {''nan'', ''inf'', ''-inf''}" "delim r"
  shows "parse_value (Suc n) (s @ r) = Some (JFloat s, r)"
proof -
  obtain c u where s: "s = c # u"
    using assms(1,2) by (cases s) (auto simp: wf_float_def)
  show ?thesis
  proof (cases "c = CHR ''-''")
    case True
    with assms(1,2) s have u: "wf_magnitude u" by (auto simp: wf_float_def)
    then obtain d w where d: "u = d # w" "is_digit d"
      using wf_magnitude_hd [of u] by (cases u) auto
    have "parse_value (Suc n) (s @ r) = scan_number (s @ r)"
      using number_branch [of c "u @ r" n] not_infinity(2) [OF d(2)] True s d(1) by simp
    with scan_magnitude_float [OF u assms(3), of "''-''"] True s show ?thesis
      by (simp add: scan_number_def)
  next
    case False
    with assms(1,2) s have u: "wf_magnitude s" by (auto simp: wf_float_def)
    then have d: "is_digit c" using wf_magnitude_hd [of s] s by simp
    have "parse_value (Suc n) (s @ r) = scan_number (s @ r)"
      using number_branch [of c "u @ r" n] not_infinity(1) [OF d] d s by simp
    with scan_magnitude_float [OF u assms(3), of "[]"] False s show ?thesis
      by (simp add: scan_number_def)
  qed
qed

lemma parse_value_float:
  assumes "wf_float s" "delim r"
  shows "parse_value (Suc n) (float_text s @ r) = Some (JFloat s, r)"
proof (cases "s \<in> {''nan'', ''inf'', ''-inf''}")
  case True
  then show ?thesis by (auto simp: float_text_def scan_word_def startswith_def)
next
  case False
  then show ?thesis
    using parse_value_finite_float [OF assms(1) False assms(2)] by (simp add: float_text_def)
qed

subsection \<open>The round trip\<close>

text \<open>
  What the list and object cases of the induction share: \<open>f\<close> prints the values of a set and
  the parser reads each of them back as \<open>g\<close> of it, given fuel for the length of its text.
\<close>

definition reads_back :: "(json \<Rightarrow> string) \<Rightarrow> (json \<Rightarrow> json) \<Rightarrow> json \<Rightarrow> bool" where
  "reads_back f g v \<longleftrightarrow>
     (\<exists>c cs. f v = c # cs \<and> value_start c)
     \<and> (\<forall>n r. delim r \<longrightarrow> length (f v) \<le> n \<longrightarrow> parse_value n (f v @ r) = Some (g v, r))"

lemma reads_back_value:
  "reads_back f g v \<Longrightarrow> delim r \<Longrightarrow> length (f v) \<le> n \<Longrightarrow> parse_value n (f v @ r) = Some (g v, r)"
  by (simp add: reads_back_def)

lemma reads_back_skip: "reads_back f g v \<Longrightarrow> skip_ws (f v @ r) = f v @ r"
  using value_start_nonws by (fastforce simp: reads_back_def)

lemma reads_back_skip_join:
  "reads_back f g v \<Longrightarrow> skip_ws (join sep (f v # ts) @ r) = join sep (f v # ts) @ r"
  using reads_back_skip [of f g v] by (cases ts) simp_all

lemma delim_punct [simp]: "delim (CHR '','' # r)" "delim (CHR '']'' # r)" "delim (CHR ''}'' # r)"
  by (simp_all add: delim_def is_digit_def)

lemma punct_nonws [simp]:
  "\<not> is_json_ws CHR '',''" "\<not> is_json_ws CHR '']''" "\<not> is_json_ws CHR ''}''"
  "\<not> is_json_ws CHR '':''" "\<not> is_json_ws CHR 0x22"
  by (simp_all add: is_json_ws_def)

lemma parse_elems_join:
  assumes "list_all is_json_ws w" "\<forall>x\<in>set (x # xs). reads_back f g x"
    and "length (join (CHR '','' # w) (map f (x # xs))) < n"
  shows "parse_elems n (join (CHR '','' # w) (map f (x # xs)) @ CHR '']'' # r) acc
       = Some (JArr (rev acc @ map g (x # xs)), r)"
  using assms(2,3)
proof (induction xs arbitrary: x n acc)
  case Nil
  then obtain m where n: "n = Suc m" "length (f x) \<le> m" by (cases n) auto
  from Nil have "parse_value m (f x @ CHR '']'' # r) = Some (g x, CHR '']'' # r)"
    by (intro reads_back_value n(2)) simp_all
  with n show ?case by simp
next
  case (Cons y ys)
  then obtain m where n: "n = Suc m" "length (f x) \<le> m"
      "length (join (CHR '','' # w) (map f (y # ys))) < m" by (cases n) auto
  let ?rest = "join (CHR '','' # w) (map f (y # ys)) @ CHR '']'' # r"
  have "parse_value m (f x @ CHR '','' # w @ ?rest) = Some (g x, CHR '','' # w @ ?rest)"
    using Cons.prems(1) n(2) by (intro reads_back_value) simp_all
  moreover have "skip_ws (w @ ?rest) = ?rest"
    using Cons.prems(1) by (simp add: skip_ws_append assms(1) reads_back_skip_join [of f g y])
  moreover have "parse_elems m ?rest (g x # acc) = Some (JArr (rev (g x # acc) @ map g (y # ys)), r)"
    using Cons.prems(1) n(3) by (intro Cons.IH) auto
  ultimately show ?case using n(1) by simp
qed

definition item_text :: "string \<Rightarrow> (json \<Rightarrow> string) \<Rightarrow> string \<times> json \<Rightarrow> string" where
  "item_text ksep f p = quote (fst p) @ ksep @ f (snd p)"

lemma item_text_length: "length (f (snd p)) \<le> length (item_text ksep f p)"
  by (simp add: item_text_def)

lemma dput_fresh: "k \<notin> fst ` set d \<Longrightarrow> dput k v d = d @ [(k, v)]"
  by (induction k v d rule: alist_put.induct) auto

lemma skip_ws_item_join:
  "skip_ws (join sep (item_text ksep f p # ts) @ r) = join sep (item_text ksep f p # ts) @ r"
  by (cases ts) (simp_all add: item_text_def quote_def)

lemma parse_member:
  assumes "list_all is_json_ws w" "reads_back f g (snd p)" "delim r" "length (f (snd p)) \<le> m"
  shows "\<exists>s'. item_text (CHR '':'' # w) f p @ r = CHR 0x22 # s'
     \<and> parse_str s' = Some (fst p, CHR '':'' # w @ f (snd p) @ r)
     \<and> parse_value m (skip_ws (w @ f (snd p) @ r)) = Some (g (snd p), r)"
proof (intro exI conjI)
  show "item_text (CHR '':'' # w) f p @ r
      = CHR 0x22 # (concat (map esc_char (fst p)) @ CHR 0x22 # CHR '':'' # w @ f (snd p) @ r)"
    by (simp add: item_text_def quote_def)
  show "parse_str (concat (map esc_char (fst p)) @ CHR 0x22 # CHR '':'' # w @ f (snd p) @ r)
      = Some (fst p, CHR '':'' # w @ f (snd p) @ r)"
    by (rule parse_str_quote)
  show "parse_value m (skip_ws (w @ f (snd p) @ r)) = Some (g (snd p), r)"
    using assms by (simp add: skip_ws_append reads_back_skip reads_back_value)
qed

lemma parse_members_join:
  assumes ws: "list_all is_json_ws w" "list_all is_json_ws w'"
    and "\<forall>p\<in>set (p # ps). reads_back f g (snd p)"
    and "length (join (CHR '','' # w) (map (item_text (CHR '':'' # w') f) (p # ps))) < n"
    and "distinct (map fst acc @ map fst (p # ps))"
  shows "parse_members n (join (CHR '','' # w) (map (item_text (CHR '':'' # w') f) (p # ps)) @ CHR ''}'' # r) acc
       = Some (JObj (acc @ map (map_prod (\<lambda>k. k) g) (p # ps)), r)"
  using assms(3-)
proof (induction ps arbitrary: p n acc)
  case Nil
  then obtain m where n: "n = Suc m" "length (f (snd p)) \<le> m"
    using item_text_length [of f p "CHR '':'' # w'"] by (cases n) auto
  obtain s' where "item_text (CHR '':'' # w') f p @ CHR ''}'' # r = CHR 0x22 # s'"
      "parse_str s' = Some (fst p, CHR '':'' # w' @ f (snd p) @ CHR ''}'' # r)"
      "parse_value m (skip_ws (w' @ f (snd p) @ CHR ''}'' # r)) = Some (g (snd p), CHR ''}'' # r)"
    using parse_member [OF ws(2), of f g p "CHR ''}'' # r" m] Nil.prems n(2) by auto
  with n Nil.prems show ?case by (simp add: dput_fresh map_prod_def split: prod.splits)
next
  case (Cons q ps)
  then obtain m where n: "n = Suc m" "length (f (snd p)) \<le> m"
      "length (join (CHR '','' # w) (map (item_text (CHR '':'' # w') f) (q # ps))) < m"
    using item_text_length [of f p "CHR '':'' # w'"] by (cases n) auto
  let ?rest = "join (CHR '','' # w) (map (item_text (CHR '':'' # w') f) (q # ps)) @ CHR ''}'' # r"
  obtain s' where s': "item_text (CHR '':'' # w') f p @ CHR '','' # w @ ?rest = CHR 0x22 # s'"
      "parse_str s' = Some (fst p, CHR '':'' # w' @ f (snd p) @ CHR '','' # w @ ?rest)"
      "parse_value m (skip_ws (w' @ f (snd p) @ CHR '','' # w @ ?rest))
       = Some (g (snd p), CHR '','' # w @ ?rest)"
    using parse_member [OF ws(2), of f g p "CHR '','' # w @ ?rest" m] Cons.prems n(2) by auto
  have "skip_ws (w @ ?rest) = ?rest"
    using skip_ws_item_join by (simp add: skip_ws_append ws(1))
  moreover have "dput (fst p) (g (snd p)) acc = acc @ [(fst p, g (snd p))]"
    using Cons.prems(3) by (intro dput_fresh) auto
  moreover have "parse_members m ?rest (acc @ [(fst p, g (snd p))])
      = Some (JObj ((acc @ [(fst p, g (snd p))]) @ map (map_prod (\<lambda>k. k) g) (q # ps)), r)"
    using Cons.prems n(3) by (intro Cons.IH) auto
  ultimately show ?case using n(1) s' by (simp add: map_prod_def split: prod.splits)
qed

lemma dumps_JObj_items:
  "dumps isep ksep (JObj kvs)
   = ''{'' @ join isep (map (item_text ksep (dumps isep ksep)) (sort_key fst kvs)) @ ''}''"
  by (simp add: sort_key_map_values item_text_def [abs_def] case_prod_unfold comp_def)

lemma reads_back_scalar:
  assumes "wf_json v" and "v \<in> {JNull, JBool True, JBool False} \<or> (\<exists>n. v = JInt n)
      \<or> (\<exists>s. v = JFloat s) \<or> (\<exists>s. v = JStr s)"
  shows "reads_back (dumps isep ksep) sort_keys v"
proof -
  have "parse_value n (dumps isep ksep v @ r) = Some (sort_keys v, r)"
    if r: "delim r" and fuel: "length (dumps isep ksep v) \<le> n" for n r
  proof -
    obtain m where n: "n = Suc m"
      using fuel dumps_nonempty [OF assms(1), of isep ksep] by (cases n) auto
    show ?thesis
      using assms r parse_value_int parse_value_float parse_str_quote n
      by (auto simp: scan_word_def startswith_def quote_def simp del: parse_value.simps(2))
        (simp_all add: scan_word_def startswith_def parse_str_quote)
  qed
  then show ?thesis using dumps_start [OF assms(1)] by (simp add: reads_back_def)
qed

lemma reads_back_dumps:
  assumes ws: "list_all is_json_ws w" "list_all is_json_ws w'"
  shows "wf_json v \<Longrightarrow> reads_back (dumps (CHR '','' # w) (CHR '':'' # w')) sort_keys v"
proof (induction v)
  case (JArr xs)
  let ?f = "dumps (CHR '','' # w) (CHR '':'' # w')"
  have all: "\<forall>x\<in>set xs. reads_back ?f sort_keys x"
    using JArr by (simp add: wf_json_JArr)
  have "parse_value n (?f (JArr xs) @ r) = Some (sort_keys (JArr xs), r)"
    if "length (?f (JArr xs)) \<le> n" for n r
  proof (cases xs)
    case Nil
    with that show ?thesis by (cases n) auto
  next
    case (Cons y ys)
    let ?body = "join (CHR '','' # w) (map ?f (y # ys)) @ CHR '']'' # r"
    from all Cons have y: "reads_back ?f sort_keys y" by simp
    then obtain c cs where c: "?body = c # cs" "value_start c"
      by (cases ys) (auto simp: reads_back_def)
    then have "c \<noteq> CHR '']''" by (auto simp: value_start_def is_digit_def)
    moreover from that Cons obtain m where n: "n = Suc m"
        "length (join (CHR '','' # w) (map ?f (y # ys))) < m"
      by (cases n) auto
    moreover have "parse_elems m ?body [] = Some (JArr (map sort_keys xs), r)"
      using parse_elems_join [OF ws(1) _ n(2), of sort_keys r "[]"] all Cons by simp
    moreover have "skip_ws ?body = ?body"
      using reads_back_skip_join [OF y] by simp
    ultimately show ?thesis using Cons c(1) by simp
  qed
  then show ?case using dumps_start [OF JArr.prems] by (simp add: reads_back_def)
next
  case (JObj kvs)
  let ?f = "dumps (CHR '','' # w) (CHR '':'' # w')"
  let ?ps = "sort_key fst kvs"
  have all: "\<forall>p\<in>set ?ps. reads_back ?f sort_keys (snd p)"
    using JObj by (force simp: wf_json_JObj)
  have dist: "distinct (map fst ?ps)"
    using JObj.prems by (simp add: wf_json_JObj distinct_sort_key)
  have "parse_value n (?f (JObj kvs) @ r) = Some (sort_keys (JObj kvs), r)"
    if "length (?f (JObj kvs)) \<le> n" for n r
  proof (cases ?ps)
    case Nil
    then have "kvs = []" by (metis length_0_conv length_sort)
    with that show ?thesis by (cases n) auto
  next
    case (Cons p ps)
    let ?items = "join (CHR '','' # w) (map (item_text (CHR '':'' # w') ?f) (p # ps))"
    obtain cs where c: "?items @ CHR ''}'' # r = CHR 0x22 # cs"
      by (cases ps) (simp_all add: item_text_def quote_def)
    from that obtain m where n: "n = Suc m" "length ?items < m"
      unfolding dumps_JObj_items Cons by (cases n) auto
    have "parse_members m (?items @ CHR ''}'' # r) [] = Some (sort_keys (JObj kvs), r)"
      using parse_members_join [OF ws _ n(2), of sort_keys "[]" r] all dist Cons
      by (simp add: sort_key_map_values)
    with n c show ?thesis unfolding dumps_JObj_items Cons by simp
  qed
  then show ?case using dumps_start [OF JObj.prems] by (simp add: reads_back_def)
qed (simp_all add: reads_back_scalar)

theorem loads_dumps:
  assumes "list_all is_json_ws w" "list_all is_json_ws w'" "list_all is_json_ws r" "wf_json v"
  shows "loads (dumps (CHR '','' # w) (CHR '':'' # w') v @ r) = Some (sort_keys v)"
proof -
  have "delim r" using assms(3)
    by (cases r) (auto simp: delim_def is_json_ws_def is_digit_def Let_def)
  with reads_back_value [OF reads_back_dumps [OF assms(1,2,4)]] assms(3,4) show ?thesis
    by (simp add: loads_def skip_ws_dumps skip_ws_all del: parse_value.simps)
qed

lemma sort_key_sorted_again: "sort_key fst (sort_key fst kvs) = sort_key fst kvs"
  by (rule sort_key_id_if_sorted) simp

lemma sort_key_map_sorted:
  "sort_key fst (map (map_prod (\<lambda>k. k) h) (sort_key fst kvs)) = map (map_prod (\<lambda>k. k) h) (sort_key fst kvs)"
  by (simp add: sort_key_map_values sort_key_sorted_again)

lemma dumps_sort_keys: "dumps isep ksep (sort_keys v) = dumps isep ksep v"
proof (induction v)
  case (JArr xs)
  then have "map (dumps isep ksep \<circ> sort_keys) xs = map (dumps isep ksep) xs" by simp
  then show ?case by (simp only: dumps.simps sort_keys.simps map_map)
next
  case (JObj kvs)
  have "map (item_text ksep (dumps isep ksep)) (map (map_prod (\<lambda>k. k) sort_keys) (sort_key fst kvs))
      = map (item_text ksep (dumps isep ksep)) (sort_key fst kvs)"
    using JObj by (fastforce simp: item_text_def)
  then show ?case
    by (simp only: sort_keys.simps dumps_JObj_items sort_key_map_values sort_key_sorted_again)
qed simp_all

lemma py_norm_sort_keys: "py_norm (sort_keys v) = py_norm v"
proof (induction v)
  case (JObj kvs)
  have "map (map_prod (\<lambda>k. k) (py_norm \<circ> sort_keys)) (sort_key fst kvs)
      = map (map_prod (\<lambda>k. k) py_norm) (sort_key fst kvs)"
    using JObj by (force simp: map_prod_def)
  then show ?case
    by (simp add: sort_key_map_values sort_key_sorted_again prod.map_comp comp_def)
qed simp_all

lemma has_nan_sort_keys: "has_nan (sort_keys v) = has_nan v"
proof (induction v)
  case (JObj kvs)
  then show ?case by (force simp: list_ex_iff)
qed (auto simp: list_ex_iff)

theorem canonical_json_eq_iff:
  assumes "wf_json a" "wf_json b"
  shows "canonical_json a = canonical_json b \<longleftrightarrow> sort_keys a = sort_keys b"
proof
  assume "canonical_json a = canonical_json b"
  then have "loads (canonical_json a @ []) = loads (canonical_json b @ [])" by simp
  then show "sort_keys a = sort_keys b"
    using loads_dumps [of "[]" "[]" "[]" a] loads_dumps [of "[]" "[]" "[]" b] assms
    by (simp add: canonical_json_def)
next
  assume "sort_keys a = sort_keys b"
  then show "canonical_json a = canonical_json b"
    by (metis canonical_json_def dumps_sort_keys)
qed

text \<open>Documents with the same canonical form are equal values of Python.\<close>

lemma canonical_json_py_norm:
  "wf_json a \<Longrightarrow> wf_json b \<Longrightarrow> canonical_json a = canonical_json b \<Longrightarrow> py_norm a = py_norm b"
  by (metis canonical_json_eq_iff py_norm_sort_keys)

end
