(* ===== verification/Ledger.thy ===== *)
theory Ledger
  imports Json_Text
begin

text \<open>
  The append-only workspace ledger of \<^verbatim>\<open>ledger.py\<close>: a chain of events, each signed with an HMAC
  over the SHA-256 of its canonical form. The digests are parameters of the model (the record
  \<open>crypto\<close>); what is proved of the chain holds for every pair of functions, and where the proof
  needs collision resistance the conclusion names the collision instead of assuming it away.

  The first part models the ledger as the list of decoded events the other components see,
  the second part the text of \<^verbatim>\<open>events.jsonl\<close> and how it corresponds to that list.
\<close>

section \<open>Digests\<close>

text \<open>
  \<^verbatim>\<open>hashlib.sha256(x).hexdigest()\<close> and \<^verbatim>\<open>hmac.new(key, x, sha256).hexdigest()\<close>. Both return
  hexadecimal text, which \<open>hex_digests\<close> states as far as the code relies on it.
\<close>

record crypto =
  sha256_hex :: "string \<Rightarrow> string"
  hmac_hex :: "string \<Rightarrow> string \<Rightarrow> string"

definition hex_digests :: "('r) crypto_scheme \<Rightarrow> bool" where
  "hex_digests H \<longleftrightarrow>
     (\<forall>x. fullmatch_hex 64 (sha256_hex H x)) \<and> (\<forall>k x. fullmatch_hex 64 (hmac_hex H k x))"

lemma hex_ascii: "fullmatch_hex n s \<Longrightarrow> is_ascii s"
  by (auto simp: fullmatch_exact_def is_ascii_def list_all_iff is_lower_hex_def is_digit_def)

lemma hex_digests_ascii:
  "hex_digests H \<Longrightarrow> is_ascii (sha256_hex H x)" "hex_digests H \<Longrightarrow> is_ascii (hmac_hex H k x)"
  by (auto simp: hex_digests_def intro: hex_ascii)

section \<open>Hash chains\<close>

text \<open>
  What every signed log of the program relies on: an entry is hashed over an encoding that
  determines the entry's position and the hash of its predecessor.
\<close>

locale hash_chain =
  fixes hash :: "string \<Rightarrow> string"
    and enc :: "'e \<Rightarrow> string"
    and prev :: "'e \<Rightarrow> string"
    and pos :: "'e \<Rightarrow> int"
    and ok :: "'e \<Rightarrow> bool"
    and genesis :: string
  assumes enc_prev: "ok e \<Longrightarrow> ok e' \<Longrightarrow> enc e = enc e' \<Longrightarrow> prev e = prev e'"
    and enc_pos: "ok e \<Longrightarrow> ok e' \<Longrightarrow> enc e = enc e' \<Longrightarrow> pos e = pos e'"
begin

fun chain :: "int \<Rightarrow> string \<Rightarrow> 'e list \<Rightarrow> bool" where
  "chain i p [] \<longleftrightarrow> True"
| "chain i p (e # es) \<longleftrightarrow> ok e \<and> pos e = i \<and> prev e = p \<and> chain (i + 1) (hash (enc e)) es"

fun head :: "string \<Rightarrow> 'e list \<Rightarrow> string" where
  "head p [] = p"
| "head p (e # es) = head (hash (enc e)) es"

lemma chain_append: "chain i p (xs @ ys) \<longleftrightarrow> chain i p xs \<and> chain (i + int (length xs)) (head p xs) ys"
  by (induction xs arbitrary: i p) (auto simp: algebra_simps)

lemma head_append: "head p (xs @ ys) = head (head p xs) ys"
  by (induction xs arbitrary: p) auto

lemma chain_pos: "chain i p es \<Longrightarrow> k < length es \<Longrightarrow> pos (es ! k) = i + int k"
proof (induction es arbitrary: i p k)
  case (Cons e es)
  then show ?case by (cases k) auto
qed simp

lemma chain_same_head:
  assumes "chain 1 genesis es" "chain 1 genesis es'" "head genesis es = head genesis es'"
    and no_coll: "\<And>e e'. e \<in> set es \<Longrightarrow> e' \<in> set es' \<Longrightarrow> hash (enc e) = hash (enc e') \<Longrightarrow> enc e = enc e'"
    and no_gen: "\<And>e. e \<in> set es \<union> set es' \<Longrightarrow> hash (enc e) \<noteq> genesis"
  shows "map enc es = map enc es'"
  using assms
proof (induction es arbitrary: es' rule: rev_induct)
  case Nil
  then show ?case
    by (cases es' rule: rev_cases) (auto simp: head_append)
next
  case (snoc e es)
  show ?case
  proof (cases es' rule: rev_cases)
    case Nil
    with snoc.prems show ?thesis by (auto simp: head_append)
  next
    case (snoc fs f)
    with snoc.prems have eq: "enc e = enc f" and oks: "ok e" "ok f"
      by (auto simp: head_append chain_append)
    have "prev e = head genesis es" "prev f = head genesis fs"
      using snoc.prems(1,2) \<open>es' = fs @ [f]\<close> by (auto simp: chain_append)
    with enc_prev [OF oks eq] have "head genesis es = head genesis fs" by simp
    then have "map enc es = map enc fs"
      using snoc.prems \<open>es' = fs @ [f]\<close> by (intro snoc.IH) (auto simp: chain_append)
    with eq \<open>es' = fs @ [f]\<close> show ?thesis by simp
  qed
qed

text \<open>Two chains with one head agree entry by entry, or there is a collision or a preimage of genesis.\<close>

lemma same_head_or_collision:
  assumes "chain 1 genesis es" "chain 1 genesis es'" "head genesis es = head genesis es'"
  shows "map enc es = map enc es'
    \<or> (\<exists>e\<in>set es. \<exists>e'\<in>set es'. enc e \<noteq> enc e' \<and> hash (enc e) = hash (enc e'))
    \<or> (\<exists>e\<in>set es \<union> set es'. hash (enc e) = genesis)"
  using chain_same_head [OF assms] by blast

end

section \<open>Events and their verification\<close>

definition GENESIS_HASH :: string where
  "GENESIS_HASH = replicate 64 CHR ''0''"

definition CORE_KEYS :: "string list" where
  "CORE_KEYS = [''sequence'', ''timestamp'', ''actor'', ''action'', ''task_id'', ''payload'', ''previous_hash'']"

definition event_core :: "dict \<Rightarrow> dict" where
  "event_core e = map (\<lambda>k. (k, dget e k)) CORE_KEYS"

definition calculated_hash :: "('r) crypto_scheme \<Rightarrow> dict \<Rightarrow> string" where
  "calculated_hash H e = sha256_hex H (canonical_json (JObj (event_core e)))"

fun verify_from :: "('r) crypto_scheme \<Rightarrow> string \<Rightarrow> int \<Rightarrow> string \<Rightarrow> dict list \<Rightarrow> string res" where
  "verify_from H key i previous_hash [] = Inr previous_hash"
| "verify_from H key i previous_hash (e # es) =
     (if \<not> py_eq (dget e ''sequence'') (JInt i)
      then raise IntegrityError ''Ledger sequence mismatch at event ''
      else if \<not> py_eq (dget e ''previous_hash'') (JStr previous_hash)
      then raise IntegrityError ''Ledger chain mismatch at event ''
      else
        let calculated = calculated_hash H e in
        rbind (compare_digest calculated (py_str (dget_or e ''event_hash'' (JStr []))))
          (\<lambda>same_hash.
             if \<not> same_hash then raise IntegrityError ''Ledger event hash mismatch at event ''
             else rbind (compare_digest (hmac_hex H key calculated) (py_str (dget_or e ''signature'' (JStr []))))
               (\<lambda>same_signature.
                  if \<not> same_signature
                  then raise IntegrityError ''Ledger signature mismatch at event ''
                  else verify_from H key (i + 1) calculated es)))"

definition ledger_key :: "string option \<Rightarrow> string res" where
  "ledger_key k =
     (case k of None \<Rightarrow> raise IntegrityError ''Ledger signing key is missing: '' | Some key \<Rightarrow> Inr key)"

definition verify_events :: "('r) crypto_scheme \<Rightarrow> string option \<Rightarrow> dict list \<Rightarrow> dict res" where
  "verify_events H k events =
     rbind (ledger_key k) (\<lambda>key.
     rbind (verify_from H key 1 GENESIS_HASH events) (\<lambda>head.
     Inr [(''valid'', JBool True), (''events'', JInt (int (length events))),
          (''head'', JStr head), (''signed'', JBool True)]))"

definition read_verified :: "('r) crypto_scheme \<Rightarrow> string option \<Rightarrow> dict list \<Rightarrow> dict list res" where
  "read_verified H k events = rbind (verify_events H k events) (\<lambda>_. Inr events)"

text \<open>
  \<^verbatim>\<open>Ledger.append\<close>: the ledger is verified first, the new event is linked to the last one and
  signed. The result is the new event; the ledger afterwards is the old one with it appended.
\<close>

definition ledger_append ::
  "('r) crypto_scheme \<Rightarrow> string option \<Rightarrow> dict list \<Rightarrow> string \<Rightarrow> string \<Rightarrow> string \<Rightarrow> json \<Rightarrow> dict \<Rightarrow> dict res" where
  "ledger_append H k events now actor action task_id payload =
     rbind (verify_events H k events) (\<lambda>_.
     rbind (if events = [] then Inr (JStr GENESIS_HASH) else ditem (last events) ''event_hash'') (\<lambda>previous_hash.
     let core =
       [(''sequence'', JInt (int (length events) + 1)),
        (''timestamp'', JStr now),
        (''actor'', JStr actor),
        (''action'', JStr action),
        (''task_id'', task_id),
        (''payload'', JObj payload),
        (''previous_hash'', previous_hash)];
       event_hash = sha256_hex H (canonical_json (JObj core))
     in rbind (ledger_key k) (\<lambda>key.
        Inr (core @ [(''event_hash'', JStr event_hash),
                     (''signature'', JStr (hmac_hex H key event_hash))]))))"

text \<open>
  \<^verbatim>\<open>Ledger.projected_tasks\<close>: the latest task snapshot of every task, in the order in which the
  tasks first appear. A payload that is not an object stops the projection. The keys of the
  Python dictionary are task ids up to Python equality, that is, their normal forms.
\<close>

definition project_event :: "dict \<Rightarrow> (json \<times> dict) list \<Rightarrow> (json \<times> dict) list res" where
  "project_event e tasks =
     rbind (jget (dget_or e ''payload'' (JObj [])) ''task'') (\<lambda>snapshot.
     let task_id = dget e ''task_id'' in
     case snapshot of
       JObj s \<Rightarrow>
         if \<not> truthy task_id then Inr tasks
         else if \<not> hashable task_id then raise TypeError ''unhashable type''
         else Inr (alist_put (py_norm task_id) s tasks)
     | _ \<Rightarrow> Inr tasks)"

definition projected_tasks :: "dict list \<Rightarrow> (json \<times> dict) list res" where
  "projected_tasks events = rfold project_event events []"

section \<open>The chain of a verified ledger\<close>

definition event_prev :: "dict \<Rightarrow> string" where
  "event_prev e = (case dget e ''previous_hash'' of JStr s \<Rightarrow> s | _ \<Rightarrow> [])"

definition event_pos :: "dict \<Rightarrow> int" where
  "event_pos e = (case py_norm (dget e ''sequence'') of JInt n \<Rightarrow> n | _ \<Rightarrow> 0)"

abbreviation event_text :: "dict \<Rightarrow> string" where
  "event_text e \<equiv> canonical_json (JObj (event_core e))"

lemma dget_wf: "wf_json (JObj e) \<Longrightarrow> wf_json (dget e k)"
  by (auto simp: dget_or_def wf_json_JObj dest!: map_of_SomeD split: option.splits)

lemma wf_event_core: "wf_json (JObj e) \<Longrightarrow> wf_json (JObj (event_core e))"
  using dget_wf by (auto simp: wf_json_JObj event_core_def CORE_KEYS_def)

lemma map_of_event_core: "k \<in> set CORE_KEYS \<Longrightarrow> map_of (event_core e) k = Some (dget e k)"
  by (auto simp: event_core_def CORE_KEYS_def)

lemma distinct_event_core: "distinct (map fst (event_core e))"
  by (simp add: event_core_def CORE_KEYS_def)

lemma event_text_field:
  assumes "wf_json (JObj e)" "wf_json (JObj e')" "event_text e = event_text e'" "k \<in> set CORE_KEYS"
  shows "sort_keys (dget e k) = sort_keys (dget e' k)"
proof -
  have item: "map_of (sort_key fst (map (map_prod (\<lambda>k. k) sort_keys) (event_core d))) k
      = Some (sort_keys (dget d k))" for d
  proof -
    have "distinct (map fst (map (map_prod (\<lambda>k. k) sort_keys) (event_core d)))"
      using distinct_event_core [of d] by (simp add: comp_def)
    then show ?thesis
      using map_of_event_core [OF assms(4), of d]
      by (simp add: map_of_sort_key map_of_map_values)
  qed
  have "sort_keys (JObj (event_core e)) = sort_keys (JObj (event_core e'))"
    using canonical_json_eq_iff [OF wf_event_core wf_event_core] assms(1-3) by simp
  with item [of e] item [of e'] show ?thesis by simp
qed

interpretation hmac_chain: hash_chain
  hash event_text event_prev event_pos "\<lambda>e. wf_json (JObj e)" GENESIS_HASH for hash :: "string \<Rightarrow> string"
proof
  fix e e' :: dict
  assume wf: "wf_json (JObj e)" "wf_json (JObj e')" and eq: "event_text e = event_text e'"
  have "sort_keys (dget e ''previous_hash'') = sort_keys (dget e' ''previous_hash'')"
    using event_text_field [OF wf eq] by (simp add: CORE_KEYS_def)
  then show "event_prev e = event_prev e'"
    by (cases "dget e ''previous_hash''"; cases "dget e' ''previous_hash''") (auto simp: event_prev_def)
  have "sort_keys (dget e ''sequence'') = sort_keys (dget e' ''sequence'')"
    using event_text_field [OF wf eq] by (simp add: CORE_KEYS_def)
  then have "py_norm (dget e ''sequence'') = py_norm (dget e' ''sequence'')"
    by (metis py_norm_sort_keys)
  then show "event_pos e = event_pos e'" by (simp add: event_pos_def)
qed

text \<open>What verification establishes of one event, beside its link to the predecessor.\<close>

definition event_signed :: "('r) crypto_scheme \<Rightarrow> string \<Rightarrow> dict \<Rightarrow> bool" where
  "event_signed H key e \<longleftrightarrow>
     py_str (dget_or e ''event_hash'' (JStr [])) = calculated_hash H e
     \<and> py_str (dget_or e ''signature'' (JStr [])) = hmac_hex H key (calculated_hash H e)
     \<and> is_ascii (calculated_hash H e) \<and> is_ascii (hmac_hex H key (calculated_hash H e))"

lemma py_eq_pos: "py_eq (dget e ''sequence'') (JInt i) \<Longrightarrow> event_pos e = i"
  by (auto simp: py_eq_def event_pos_def)

lemma event_prev_JStr: "dget e ''previous_hash'' = JStr p \<Longrightarrow> event_prev e = p"
  by (simp add: event_prev_def)

lemma verify_from_Cons:
  "verify_from H key i p (e # es) = Inr h \<longleftrightarrow>
     py_eq (dget e ''sequence'') (JInt i) \<and> dget e ''previous_hash'' = JStr p
     \<and> event_signed H key e \<and> verify_from H key (i + 1) (calculated_hash H e) es = Inr h"
  by (auto simp: Let_def event_signed_def compare_digest_def split: if_splits)

lemma verify_from_append:
  "verify_from H key i p (xs @ ys)
   = rbind (verify_from H key i p xs) (\<lambda>h. verify_from H key (i + int (length xs)) h ys)"
proof (induction xs arbitrary: i p)
  case (Cons e es)
  show ?case
    by (simp add: Cons Let_def algebra_simps rbind_assoc if_distrib [of "\<lambda>r. rbind r _"] cong: if_cong)
qed simp

lemma verify_from_chain:
  assumes "verify_from H key i p es = Inr h" "\<forall>e\<in>set es. wf_json (JObj e)"
  shows "hmac_chain.chain (sha256_hex H) i p es \<and> hmac_chain.head (sha256_hex H) p es = h"
  using assms
proof (induction es arbitrary: i p)
  case (Cons e es)
  then show ?case
    by (auto simp: verify_from_Cons event_prev_JStr calculated_hash_def py_eq_pos
        simp del: verify_from.simps(2))
qed simp

lemma verify_from_signed: "verify_from H key i p es = Inr h \<Longrightarrow> e \<in> set es \<Longrightarrow> event_signed H key e"
  by (induction es arbitrary: i p) (auto simp: verify_from_Cons simp del: verify_from.simps(2))

lemma verify_events_eq_Inr:
  "verify_events H k es = Inr r \<longleftrightarrow>
     (\<exists>key h. k = Some key \<and> verify_from H key 1 GENESIS_HASH es = Inr h
        \<and> r = [(''valid'', JBool True), (''events'', JInt (int (length es))),
               (''head'', JStr h), (''signed'', JBool True)])"
  by (cases k) (auto simp: verify_events_def ledger_key_def)

section \<open>Appending keeps the ledger verified\<close>

definition string_hashes :: "dict list \<Rightarrow> bool" where
  "string_hashes events \<longleftrightarrow> (\<forall>e\<in>set events. is_str (dget e ''event_hash''))"

lemma verify_from_last:
  "verify_from H key i p es = Inr h \<Longrightarrow> es \<noteq> [] \<Longrightarrow> h = calculated_hash H (last es)"
proof (induction es arbitrary: i p)
  case (Cons e es)
  then have "verify_from H key (i + 1) (calculated_hash H e) es = Inr h"
    by (simp only: verify_from_Cons)
  with Cons.IH show ?case by (cases "es = []") auto
qed simp

lemma verify_from_head_str:
  assumes "verify_from H key 1 GENESIS_HASH es = Inr h" "string_hashes es"
    and "(if es = [] then Inr (JStr GENESIS_HASH) else ditem (last es) ''event_hash'') = Inr ph"
  shows "ph = JStr h"
proof (cases "es = []")
  case False
  then have signed: "event_signed H key (last es)" and h: "h = calculated_hash H (last es)"
    using verify_from_signed [OF assms(1)] verify_from_last [OF assms(1)] by auto
  have "dget (last es) ''event_hash'' = ph"
    using assms(3) False by (simp add: dget_or_def)
  moreover have "is_str (dget (last es) ''event_hash'')"
    using assms(2) False by (simp add: string_hashes_def)
  ultimately obtain t where t: "ph = JStr t" by (auto simp: is_str_iff)
  have "dget_or (last es) ''event_hash'' (JStr []) = ph"
    using assms(3) False by (simp add: dget_or_def)
  then show ?thesis using signed h t by (simp add: event_signed_def)
qed (use assms in auto)

lemma ledger_append_eq_Inr:
  "ledger_append H k events now actor action task_id payload = Inr ev \<longleftrightarrow>
     (\<exists>key h ph. k = Some key \<and> verify_from H key 1 GENESIS_HASH events = Inr h
        \<and> (if events = [] then Inr (JStr GENESIS_HASH) else ditem (last events) ''event_hash'') = Inr ph
        \<and> (let core =
             [(''sequence'', JInt (int (length events) + 1)), (''timestamp'', JStr now),
              (''actor'', JStr actor), (''action'', JStr action), (''task_id'', task_id),
              (''payload'', JObj payload), (''previous_hash'', ph)];
             event_hash = sha256_hex H (canonical_json (JObj core))
           in ev = core @ [(''event_hash'', JStr event_hash),
                           (''signature'', JStr (hmac_hex H key event_hash))]))"
  by (cases k) (auto simp: ledger_append_def verify_events_def ledger_key_def Let_def)

lemma ledger_append_verified:
  assumes "hex_digests H" "string_hashes events"
    and "ledger_append H (Some key) events now actor action task_id payload = Inr ev"
  shows "verify_from H key 1 GENESIS_HASH (events @ [ev]) = Inr (calculated_hash H ev)"
    and "dget ev ''event_hash'' = JStr (calculated_hash H ev)"
proof -
  obtain h ph where v: "verify_from H key 1 GENESIS_HASH events = Inr h"
    and ph: "(if events = [] then Inr (JStr GENESIS_HASH) else ditem (last events) ''event_hash'') = Inr ph"
    and ev: "ev =
       [(''sequence'', JInt (int (length events) + 1)), (''timestamp'', JStr now),
        (''actor'', JStr actor), (''action'', JStr action), (''task_id'', task_id),
        (''payload'', JObj payload), (''previous_hash'', ph)]
       @ [(''event_hash'', JStr (calculated_hash H ev)),
          (''signature'', JStr (hmac_hex H key (calculated_hash H ev)))]"
    using assms(3) unfolding ledger_append_eq_Inr
    by (auto simp: Let_def calculated_hash_def event_core_def CORE_KEYS_def)
  have "ph = JStr h" using v assms(2) ph by (rule verify_from_head_str)
  then have "dget ev ''previous_hash'' = JStr h" by (subst ev) simp
  moreover have "dget ev ''sequence'' = JInt (int (length events) + 1)" by (subst ev) simp
  moreover have "event_signed H key ev"
    unfolding event_signed_def using hex_digests_ascii [OF assms(1)]
    by (intro conjI; subst ev; simp add: calculated_hash_def)
  ultimately have "verify_from H key (1 + int (length events)) h [ev] = Inr (calculated_hash H ev)"
    by (simp add: verify_from_Cons algebra_simps del: verify_from.simps(2))
  with v show "verify_from H key 1 GENESIS_HASH (events @ [ev]) = Inr (calculated_hash H ev)"
    by (simp add: verify_from_append del: verify_from.simps(2))
  show "dget ev ''event_hash'' = JStr (calculated_hash H ev)" by (subst ev) simp
qed

text \<open>The ledgers that \<^verbatim>\<open>Ledger.append\<close> can produce from an empty one.\<close>

inductive appended :: "('r) crypto_scheme \<Rightarrow> string \<Rightarrow> dict list \<Rightarrow> bool" for H key where
  empty: "appended H key []"
| append: "appended H key events
    \<Longrightarrow> ledger_append H (Some key) events now actor action task_id payload = Inr ev
    \<Longrightarrow> appended H key (events @ [ev])"

lemma appended_invariant:
  assumes "appended H key events" "hex_digests H"
  shows "string_hashes events \<and> (\<exists>h. verify_from H key 1 GENESIS_HASH events = Inr h)"
  using assms(1)
proof (induction rule: appended.induct)
  case (append events now actor action task_id payload ev)
  then show ?case
    using ledger_append_verified [OF assms(2), of events key now actor action task_id payload ev]
    by (auto simp: string_hashes_def)
qed (simp add: string_hashes_def)

section \<open>The text of the ledger file\<close>

text \<open>
  \<^verbatim>\<open>str.splitlines()\<close> ends a line at a line feed, a carriage return, the pair of both, the
  control characters 0x0B, 0x0C and 0x1C to 0x1E, and at U+0085, U+2028 and U+2029.
\<close>

definition is_break1 :: "char \<Rightarrow> bool" where
  "is_break1 c \<longleftrightarrow> (let n = (of_char c :: nat) in 10 \<le> n \<and> n \<le> 13 \<or> 28 \<le> n \<and> n \<le> 30)"

definition is_break2 :: "char \<Rightarrow> char \<Rightarrow> bool" where
  "is_break2 a b \<longleftrightarrow> a = CHR 0xC2 \<and> b = CHR 0x85"

definition is_break3 :: "char \<Rightarrow> char \<Rightarrow> char \<Rightarrow> bool" where
  "is_break3 a b c \<longleftrightarrow> a = CHR 0xE2 \<and> b = CHR 0x80 \<and> (c = CHR 0xA8 \<or> c = CHR 0xA9)"

text \<open>The length of the line boundary a text starts with, zero if it starts with none.\<close>

definition break_length :: "string \<Rightarrow> nat" where
  "break_length s =
     (case s of
        [] \<Rightarrow> 0
      | a # t \<Rightarrow>
          if a = CHR 0x0D \<and> t \<noteq> [] \<and> hd t = CHR 0x0A then 2
          else if is_break1 a then 1
          else if t \<noteq> [] \<and> is_break2 a (hd t) then 2
          else if 2 \<le> length t \<and> is_break3 a (t ! 0) (t ! 1) then 3
          else 0)"

function split_from :: "string \<Rightarrow> string \<Rightarrow> string list" where
  "split_from acc [] = (if acc = [] then [] else [rev acc])"
| "split_from acc (a # s) =
     (if break_length (a # s) = 0 then split_from (a # acc) s
      else rev acc # split_from [] (drop (break_length (a # s)) (a # s)))"
  by pat_completeness auto
termination
  by (relation "measure (length \<circ> snd)") auto

declare split_from.simps(2) [simp del]

definition splitlines :: "string \<Rightarrow> string list" where
  "splitlines s = split_from [] s"

text \<open>\<^verbatim>\<open>Ledger.read\<close> on the text of the file; \<open>None\<close> is a missing file.\<close>

definition read_line :: "string \<Rightarrow> dict list \<Rightarrow> dict list res" where
  "read_line line events =
     (if strip line = [] then Inr events
      else case loads line of
        None \<Rightarrow> raise IntegrityError ''Malformed ledger JSON at line ''
      | Some (JObj e) \<Rightarrow> Inr (events @ [e])
      | Some _ \<Rightarrow> raise IntegrityError ''Ledger line '')"

definition ledger_read :: "string option \<Rightarrow> dict list res" where
  "ledger_read file =
     (case file of None \<Rightarrow> Inr [] | Some text \<Rightarrow> rfold read_line (splitlines text) [])"

text \<open>The line \<^verbatim>\<open>Ledger.append\<close> writes, and the file after it.\<close>

definition event_line :: "dict \<Rightarrow> string" where
  "event_line e = dumps '', '' '': '' (JObj e)"

definition write_event :: "string option \<Rightarrow> dict \<Rightarrow> string option" where
  "write_event file e =
     Some ((case file of None \<Rightarrow> [] | Some text \<Rightarrow> text) @ event_line e @ [CHR 0x0A])"

text \<open>A text with no line boundary in it.\<close>

definition line_safe :: "string \<Rightarrow> bool" where
  "line_safe s \<longleftrightarrow> splitlines (s @ [CHR 0x0A]) = [s]"

lemma break_length_newline [simp]: "break_length (CHR 0x0A # s) = 1"
  by (simp add: break_length_def is_break1_def)

lemma break_length_append:
  assumes "s \<noteq> []"
  shows "break_length (s @ CHR 0x0A # t) = break_length (s @ [CHR 0x0A])"
proof (cases s rule: list.exhaust)
  case (Cons a u)
  then show ?thesis
    by (cases u; cases "tl u")
      (auto simp: break_length_def is_break1_def is_break2_def is_break3_def nth_append)
qed (use assms in simp)

lemma break_length_bound: "break_length (s @ [CHR 0x0A]) \<le> Suc (length s)"
  by (cases s; cases "tl s") (auto simp: break_length_def is_break1_def is_break2_def is_break3_def)

text \<open>A line feed ends a line wherever it stands: the text after it is split on its own.\<close>

lemma split_from_break:
  assumes "break_length s \<noteq> 0"
  shows "split_from acc s = rev acc # split_from [] (drop (break_length s) s)"
proof (cases s)
  case Nil
  with assms show ?thesis by (simp add: break_length_def)
qed (use assms in \<open>simp add: split_from.simps(2)\<close>)

lemma split_from_append:
  "split_from acc (s @ CHR 0x0A # t) = split_from acc (s @ [CHR 0x0A]) @ split_from [] t"
proof (induction "length s" arbitrary: acc s rule: less_induct)
  case less
  show ?case
  proof (cases s)
    case Nil
    then show ?thesis by (simp add: split_from.simps(2))
  next
    case (Cons a u)
    let ?n = "break_length (s @ [CHR 0x0A])"
    have same: "break_length (s @ CHR 0x0A # t) = ?n" using Cons by (intro break_length_append) simp
    show ?thesis
    proof (cases "?n = 0")
      case True
      with Cons less same show ?thesis
        by (simp add: split_from.simps(2))
    next
      case False
      note breaks = split_from_break [of "s @ CHR 0x0A # t" acc] split_from_break [of "s @ [CHR 0x0A]" acc]
      show ?thesis
      proof (cases "?n = Suc (length s)")
        case True
        with breaks False same show ?thesis by simp
      next
        case neq: False
        then have "?n \<le> length s" using break_length_bound [of s] by simp
        moreover have "length (drop ?n s) < length s" using False Cons by simp
        ultimately show ?thesis
          using less [of "drop ?n s" "[]"] breaks False same by simp
      qed
    qed
  qed
qed

lemma splitlines_append:
  "splitlines (s @ CHR 0x0A # t) = splitlines (s @ [CHR 0x0A]) @ splitlines t"
  unfolding splitlines_def by (rule split_from_append)

text \<open>
  A file that is empty or ends with a line feed, extended by a line without line boundaries:
  the lines are the old ones and the new one.
\<close>

lemma splitlines_new_line:
  assumes "text = [] \<or> last text = CHR 0x0A" "line_safe line"
  shows "splitlines (text @ line @ [CHR 0x0A]) = splitlines text @ [line]"
proof (cases "text = []")
  case True
  with assms(2) show ?thesis by (simp add: line_safe_def splitlines_def)
next
  case False
  then obtain t where "text = t @ [CHR 0x0A]"
    using assms(1) by (metis append_butlast_last_id)
  then show ?thesis
    using assms(2) splitlines_append [of t "line @ [CHR 0x0A]"] by (simp add: line_safe_def)
qed

text \<open>The printed form of an event is not blank, and reading it gives the event with sorted keys.\<close>

lemma strip_brace: "strip (CHR ''{'' # s @ ''}'') \<noteq> []"
proof -
  have r: "rstrip_rev (CHR ''}'' # u) \<noteq> []" for u
    by (cases u; cases "tl u") (auto simp: is_space1_def is_space2_def is_space3_def)
  have "lstrip (CHR ''{'' # u) = CHR ''{'' # u" for u
    by (cases u; cases "tl u") (auto simp: is_space1_def is_space2_def is_space3_def)
  then show ?thesis using r by (simp add: strip_def)
qed

lemma event_line_braces: "\<exists>u. event_line e = CHR ''{'' # u @ ''}''"
  by (simp add: event_line_def)

definition sorted_event :: "dict \<Rightarrow> dict" where
  "sorted_event e = (case sort_keys (JObj e) of JObj d \<Rightarrow> d | _ \<Rightarrow> [])"

lemma read_event_line:
  assumes "wf_json (JObj e)"
  shows "read_line (event_line e) events = Inr (events @ [sorted_event e])"
proof -
  have "loads (event_line e) = Some (sort_keys (JObj e))"
    using loads_dumps [of "'' ''" "'' ''" "[]" "JObj e"] assms
    by (simp add: event_line_def is_json_ws_def)
  moreover have "strip (event_line e) \<noteq> []"
    using event_line_braces [of e] strip_brace by auto
  ultimately show ?thesis by (simp add: read_line_def sorted_event_def)
qed

lemma ledger_read_write:
  assumes "wf_json (JObj e)" "line_safe (event_line e)"
    and "file = None \<or> file = Some [] \<or> (\<exists>t. file = Some (t @ [CHR 0x0A]))"
    and "ledger_read file = Inr events"
  shows "ledger_read (write_event file e) = Inr (events @ [sorted_event e])"
proof -
  define t where "t = (case file of None \<Rightarrow> [] | Some text \<Rightarrow> text)"
  have "rfold read_line (splitlines t) [] = Inr events"
    using assms(4) by (cases "file") (auto simp: t_def ledger_read_def splitlines_def)
  moreover have "splitlines (t @ event_line e @ [CHR 0x0A]) = splitlines t @ [event_line e]"
    using assms(2,3) by (intro splitlines_new_line) (auto simp: t_def)
  ultimately show ?thesis
    by (simp add: ledger_read_def write_event_def t_def [symmetric] rfold_append
        read_event_line [OF assms(1)])
qed

text \<open>Texts of ASCII characters from the space on have no line boundary.\<close>

definition plain_char :: "char \<Rightarrow> bool" where
  "plain_char c \<longleftrightarrow> 32 \<le> (of_char c :: nat) \<and> (of_char c :: nat) < 128"

primrec ascii_json :: "json \<Rightarrow> bool" where
  "ascii_json JNull = True"
| "ascii_json (JBool b) = True"
| "ascii_json (JInt n) = True"
| "ascii_json (JFloat s) = list_all plain_char s"
| "ascii_json (JStr s) = is_ascii s"
| "ascii_json (JArr xs) = list_all (\<lambda>b. b) (map ascii_json xs)"
| "ascii_json (JObj kvs) =
     list_all (\<lambda>p. is_ascii (fst p) \<and> snd p) (map (map_prod (\<lambda>k. k) ascii_json) kvs)"

lemma break_length_plain: "plain_char c \<Longrightarrow> break_length (c # s) = 0"
  by (auto simp: plain_char_def break_length_def is_break1_def is_break2_def is_break3_def)

lemma line_safe_plain:
  assumes "list_all plain_char s"
  shows "line_safe s"
proof -
  have "split_from acc (s @ [CHR 0x0A]) = [rev acc @ s]" for acc
    using assms
    by (induction s arbitrary: acc) (auto simp: split_from.simps(2) break_length_plain)
  then show ?thesis by (simp add: line_safe_def splitlines_def)
qed

lemma plain_literals:
  "plain_char CHR ''{''" "plain_char CHR ''}''" "plain_char CHR ''[''" "plain_char CHR '']''"
  by (simp_all add: plain_char_def)

lemma plain_hex_digit: "n < 16 \<Longrightarrow> plain_char (hex_digit n)"
  by (auto simp: plain_char_def hex_digit_def)

lemma plain_quote: "is_ascii s \<Longrightarrow> list_all plain_char (quote s)"
  unfolding quote_def is_ascii_def
proof (induction s)
  case (Cons c s)
  then have "list_all plain_char (esc_char c)"
    using plain_hex_digit by (auto simp: esc_char_def Let_def plain_char_def)
  with Cons show ?case by simp
qed (simp add: plain_char_def)

lemma plain_show_int: "list_all plain_char (show_int n)"
proof -
  have "list_all plain_char (show_nat m)" for m
    using show_nat_digits [of m] by (auto simp: list_all_iff is_digit_def plain_char_def)
  then show ?thesis by (simp add: show_int_def) (simp add: plain_char_def)
qed

lemma plain_join:
  "list_all plain_char sep \<Longrightarrow> \<forall>x\<in>set xs. list_all plain_char x \<Longrightarrow> list_all plain_char (join sep xs)"
  by (auto simp: join_def list_all_iff split: list.splits)

lemma plain_dumps:
  assumes "list_all plain_char isep" "list_all plain_char ksep"
  shows "ascii_json v \<Longrightarrow> list_all plain_char (dumps isep ksep v)"
proof (induction v)
  case (JArr xs)
  then have "list_all plain_char (join isep (map (dumps isep ksep) xs))"
    by (intro plain_join assms) (auto simp: list_all_iff)
  then show ?case by (simp add: plain_literals)
next
  case (JObj kvs)
  have "list_all plain_char (join isep (map (\<lambda>(k, t). quote k @ ksep @ t)
               (sort_key fst (map (map_prod (\<lambda>k. k) (dumps isep ksep)) kvs))))"
    using JObj.prems JObj.IH assms(2) plain_quote
    by (intro plain_join assms) (fastforce simp: list_all_iff snds.simps)
  then show ?case by (simp add: plain_literals)
next
  case (JFloat s)
  then show ?case by (simp add: float_text_def) (simp add: plain_char_def)
qed (use plain_show_int plain_quote in \<open>simp_all add: plain_char_def\<close>)

lemma line_safe_ascii: "ascii_json (JObj e) \<Longrightarrow> line_safe (event_line e)"
  unfolding event_line_def
  by (intro line_safe_plain plain_dumps) (simp_all add: plain_char_def)

section \<open>Properties\<close>

text \<open>Two verified ledgers whose reports give one head.\<close>

lemma verify_events_chain:
  assumes "verify_events H k es = Inr r" "\<forall>e\<in>set es. wf_json (JObj e)"
  shows "hmac_chain.chain (sha256_hex H) 1 GENESIS_HASH es"
    and "dget r ''head'' = JStr (hmac_chain.head (sha256_hex H) GENESIS_HASH es)"
  using assms by (auto simp: verify_events_eq_Inr dest: verify_from_chain)

lemma event_text_core:
  assumes "\<forall>e\<in>set es. wf_json (JObj e)" "\<forall>e\<in>set es'. wf_json (JObj e)"
    and "map event_text es = map event_text es'"
  shows "map (\<lambda>e. sort_keys (JObj (event_core e))) es = map (\<lambda>e. sort_keys (JObj (event_core e))) es'"
proof (rule nth_equalityI)
  have len: "length es = length es'" using assms(3) by (metis length_map)
  then show "length (map (\<lambda>e. sort_keys (JObj (event_core e))) es)
      = length (map (\<lambda>e. sort_keys (JObj (event_core e))) es')" by simp
  fix i assume "i < length (map (\<lambda>e. sort_keys (JObj (event_core e))) es)"
  then have i: "i < length es" "i < length es'" using len by auto
  then have "event_text (es ! i) = event_text (es' ! i)" using assms(3) by (metis nth_map)
  then show "map (\<lambda>e. sort_keys (JObj (event_core e))) es ! i
      = map (\<lambda>e. sort_keys (JObj (event_core e))) es' ! i"
    using canonical_json_eq_iff [OF wf_event_core wf_event_core] assms(1,2) i by simp
qed

text \<open>
  Property C2: the head of a verified ledger commits to its whole content. If two ledgers
  verify, under whatever keys, and their reports give the same head, then they have the same
  number of events and the signed core of every event is the same JSON value; or else two of
  the events at hand have different canonical texts with one SHA-256, or one of them hashes to
  the genesis value.
\<close>

theorem ledger_head_commits:
  assumes "verify_events H k es = Inr r" "verify_events H k' es' = Inr r'"
    and "dget r ''head'' = dget r' ''head''"
    and wf: "\<forall>e\<in>set es. wf_json (JObj e)" "\<forall>e\<in>set es'. wf_json (JObj e)"
  shows "map (\<lambda>e. sort_keys (JObj (event_core e))) es = map (\<lambda>e. sort_keys (JObj (event_core e))) es'
    \<or> (\<exists>e\<in>set es. \<exists>e'\<in>set es'. event_text e \<noteq> event_text e' \<and> calculated_hash H e = calculated_hash H e')
    \<or> (\<exists>e\<in>set es \<union> set es'. calculated_hash H e = GENESIS_HASH)"
  using hmac_chain.same_head_or_collision [of "sha256_hex H" es es'] event_text_core [OF wf]
    verify_events_chain [OF assms(1) wf(1)] verify_events_chain [OF assms(2) wf(2)] assms(3)
  unfolding calculated_hash_def by auto

text \<open>Digest functions for concrete runs: the identity, and a constant hexadecimal digest.\<close>

definition text_digests :: crypto where
  "text_digests = \<lparr>sha256_hex = (\<lambda>x. x), hmac_hex = (\<lambda>k x. k @ x)\<rparr>"

definition flat_digests :: crypto where
  "flat_digests = \<lparr>sha256_hex = (\<lambda>x. replicate 64 CHR ''a''), hmac_hex = (\<lambda>k x. replicate 64 CHR ''b'')\<rparr>"

lemma flat_digests_hex: "hex_digests flat_digests"
  by (simp add: hex_digests_def flat_digests_def fullmatch_exact_def list_all_iff is_lower_hex_def)

definition first_event :: "('r) crypto_scheme \<Rightarrow> dict" where
  "first_event H =
     (case ledger_append H (Some ''k'') [] ''t0'' ''a'' ''workspace.initialized'' JNull [] of
        Inr ev \<Rightarrow> ev | Inl _ \<Rightarrow> [])"

lemma first_event_text: "verify_events text_digests (Some ''k'') [first_event text_digests]
    = Inr [(''valid'', JBool True), (''events'', JInt 1),
           (''head'', JStr (event_text (first_event text_digests))), (''signed'', JBool True)]"
  by code_simp

lemma first_event_wf: "wf_json (JObj (first_event text_digests))"
  by code_simp

theorem ledger_head_commits_witness:
  "map (\<lambda>e. sort_keys (JObj (event_core e))) [first_event text_digests]
     = map (\<lambda>e. sort_keys (JObj (event_core e))) [first_event text_digests]
   \<or> (\<exists>e\<in>set [first_event text_digests]. \<exists>e'\<in>set [first_event text_digests].
        event_text e \<noteq> event_text e' \<and> calculated_hash text_digests e = calculated_hash text_digests e')
   \<or> (\<exists>e\<in>set [first_event text_digests] \<union> set [first_event text_digests].
        calculated_hash text_digests e = GENESIS_HASH)"
  by (rule ledger_head_commits [OF first_event_text first_event_text]) (simp_all add: first_event_wf)


lemma appended_first: "appended flat_digests ''k'' [first_event flat_digests]"
proof -
  have "ledger_append flat_digests (Some ''k'') [] ''t0'' ''a'' ''workspace.initialized'' JNull []
      = Inr (first_event flat_digests)" by code_simp
  from appended.append [OF appended.empty this] show ?thesis by simp
qed


text \<open>
  Property C38: reading the file back after an append gives the events read before it and the
  new event with its keys sorted, for a file that is missing, empty or ends with a line feed,
  when the keys and strings of the event are ASCII.
\<close>

theorem ledger_file_roundtrip:
  assumes "wf_json (JObj e)" "ascii_json (JObj e)"
    and "file = None \<or> file = Some [] \<or> (\<exists>t. file = Some (t @ [CHR 0x0A]))"
    and "ledger_read file = Inr events"
  shows "ledger_read (write_event file e) = Inr (events @ [sorted_event e])
    \<and> (\<exists>t. write_event file e = Some (t @ [CHR 0x0A]))"
  using ledger_read_write [OF assms(1) line_safe_ascii [OF assms(2)] assms(3,4)]
  by (auto simp: write_event_def)

theorem ledger_file_roundtrip_witness:
  "ledger_read (write_event None (first_event flat_digests)) = Inr ([] @ [sorted_event (first_event flat_digests)])
   \<and> (\<exists>t. write_event None (first_event flat_digests) = Some (t @ [CHR 0x0A]))"
proof (rule ledger_file_roundtrip)
  show "wf_json (JObj (first_event flat_digests))" by code_simp
  show "ascii_json (JObj (first_event flat_digests))" by code_simp
qed (simp_all add: ledger_read_def)

definition separator_payload :: dict where
  "separator_payload = [(''reason'', JStr [CHR 0xE2, CHR 0x80, CHR 0xA8])]"


definition snapshot_of :: "string \<Rightarrow> dict \<Rightarrow> dict option" where
  "snapshot_of t e =
     (if dget e ''task_id'' = JStr t then as_dict (vget (dget_or e ''payload'' (JObj [])) ''task'') else None)"

fun latest_snapshot :: "string \<Rightarrow> dict list \<Rightarrow> dict option" where
  "latest_snapshot t [] = None"
| "latest_snapshot t (e # es) =
     (case latest_snapshot t es of Some s \<Rightarrow> Some s | None \<Rightarrow> snapshot_of t e)"

lemma project_event_map_of:
  assumes "project_event e tasks = Inr tasks'" "t \<noteq> []"
  shows "map_of tasks' (JStr t) = (case snapshot_of t e of Some s \<Rightarrow> Some s | None \<Rightarrow> map_of tasks (JStr t))"
  using assms
  by (cases "dget_or e ''payload'' (JObj [])"; cases "vget (dget_or e ''payload'' (JObj [])) ''task''";
      cases "dget e ''task_id'' = JStr t")
    (auto simp: project_event_def snapshot_of_def jget_or_eq_Inr Let_def eq_commute [of "JStr t" "py_norm v" for v] split: if_splits)

lemma projected_map_of:
  assumes "projected_tasks events = Inr tasks" "t \<noteq> []"
  shows "map_of tasks (JStr t) = latest_snapshot t events"
proof -
  have "rfold project_event events acc = Inr tasks \<Longrightarrow>
      map_of tasks (JStr t)
        = (case latest_snapshot t events of Some s \<Rightarrow> Some s | None \<Rightarrow> map_of acc (JStr t))" for acc
    by (induction events arbitrary: acc)
      (auto simp: project_event_map_of [OF _ assms(2)] split: option.splits)
  from this [of "[]"] assms(1) show ?thesis
    by (auto simp: projected_tasks_def split: option.splits)
qed

text \<open>
  The projection of a ledger holds, for every task, the snapshot of the last event
  that carries one for it, and no other task.
\<close>

theorem projected_tasks_latest:
  assumes "projected_tasks events = Inr tasks" "t \<noteq> []"
  shows "map_of tasks (JStr t) = latest_snapshot t events"
  using assms by (rule projected_map_of)

theorem projected_tasks_latest_witness:
  "map_of [(JStr ''T'', [(''revision'', JInt 2)])] (JStr ''T'')
     = latest_snapshot ''T''
        [[(''task_id'', JStr ''T''), (''payload'', JObj [(''task'', JObj [(''revision'', JInt 1)])])],
         [(''task_id'', JStr ''T''), (''payload'', JObj [(''task'', JObj [(''revision'', JInt 2)])])]]"
  by (rule projected_tasks_latest) (code_simp, simp)

end
