(* ===== verification/Task_Model.thy ===== *)
theory Task_Model
  imports Ledger
begin

text \<open>
  Task records and their state machine (\<^verbatim>\<open>model.py\<close>), with the identifier checks and the
  timestamp helpers of \<^verbatim>\<open>util.py\<close> they use. A task is the dictionary the program stores; the
  operations are those of the module, with every exception they raise.

  \<^verbatim>\<open>datetime.fromisoformat\<close> and \<^verbatim>\<open>datetime.isoformat(timespec="seconds")\<close> are fields of the
  record \<open>runtime\<close>; what the lease rules need of them is the named law \<open>iso_roundtrip\<close>. The
  text that \<^verbatim>\<open>utc_now()\<close> returned is an argument of the operations. Floating-point revisions,
  attempts and durations are outside the model: arithmetic on them is a \<open>TypeError\<close>.
\<close>

section \<open>Identifiers\<close>

definition task_id_char :: "char \<Rightarrow> bool" where
  "task_id_char c \<longleftrightarrow> is_alnum c \<or> c = CHR ''.'' \<or> c = CHR ''_'' \<or> c = CHR ''-''"

definition agent_id_head :: "char \<Rightarrow> bool" where
  "agent_id_head c \<longleftrightarrow> is_lower c \<or> is_digit c"

definition agent_id_char :: "char \<Rightarrow> bool" where
  "agent_id_char c \<longleftrightarrow> agent_id_head c \<or> c = CHR ''.'' \<or> c = CHR ''_'' \<or> c = CHR ''-''"

definition TASK_ID_RE :: "string \<Rightarrow> bool" where
  "TASK_ID_RE s = fullmatch_head_rest is_alnum task_id_char 79 s"

definition AGENT_ID_RE :: "string \<Rightarrow> bool" where
  "AGENT_ID_RE s = fullmatch_head_rest agent_id_head agent_id_char 49 s"

definition validate_task_id :: "string \<Rightarrow> string res" where
  "validate_task_id v =
     (if TASK_ID_RE v then Inr v
      else raise ConfigurationError ''Task id must start with an alphanumeric character'')"

definition validate_agent_id :: "string \<Rightarrow> string res" where
  "validate_agent_id v =
     (if AGENT_ID_RE v then Inr v
      else raise ConfigurationError ''Agent id must start with an alphanumeric character'')"

lemma validate_task_id_eq_Inr [simp]: "validate_task_id v = Inr w \<longleftrightarrow> TASK_ID_RE v \<and> w = v"
  by (auto simp: validate_task_id_def)

lemma validate_agent_id_eq_Inr [simp]: "validate_agent_id v = Inr w \<longleftrightarrow> AGENT_ID_RE v \<and> w = v"
  by (auto simp: validate_agent_id_def)

lemma TASK_ID_RE_nonempty [simp]: "\<not> TASK_ID_RE []"
  by (simp add: TASK_ID_RE_def fullmatch_head_rest_def)

lemma AGENT_ID_RE_nonempty [simp]: "\<not> AGENT_ID_RE []"
  by (simp add: AGENT_ID_RE_def fullmatch_head_rest_def)

text \<open>No identifier contains a path separator, and none is a relative path component.\<close>

lemma TASK_ID_RE_path_safe:
  assumes "TASK_ID_RE s"
  shows "CHR ''/'' \<notin> set s \<and> CHR 0x5C \<notin> set s \<and> s \<noteq> ''.'' \<and> s \<noteq> ''..''"
  using assms
  by (cases s)
    (auto simp: TASK_ID_RE_def fullmatch_head_rest_def list_all_iff task_id_char_def char_class_defs
      split: list.splits)

lemma AGENT_ID_RE_path_safe:
  assumes "AGENT_ID_RE s"
  shows "CHR ''/'' \<notin> set s \<and> CHR 0x5C \<notin> set s \<and> s \<noteq> ''.'' \<and> s \<noteq> ''..''"
  using assms
  by (cases s)
    (auto simp: AGENT_ID_RE_def fullmatch_head_rest_def list_all_iff agent_id_char_def
      agent_id_head_def char_class_defs split: list.splits)

section \<open>Files\<close>

text \<open>
  A JSON file: missing, not readable as JSON, or with a value. \<^verbatim>\<open>atomic_write_json\<close> replaces the
  content in one step; what is read back is the value written.
\<close>

datatype jfile = Absent | Unreadable | Content json

definition read_json :: "jfile \<Rightarrow> dict res" where
  "read_json f =
     (case f of
        Absent \<Rightarrow> raise FileNotFoundError []
      | Unreadable \<Rightarrow> raise ConfigurationError ''Cannot read valid JSON from ''
      | Content (JObj d) \<Rightarrow> Inr d
      | Content _ \<Rightarrow> raise ConfigurationError ''Expected a JSON object in '')"

lemma read_json_eq_Inr [simp]: "read_json f = Inr d \<longleftrightarrow> f = Content (JObj d)"
  by (auto simp: read_json_def split: jfile.splits json.splits)

definition file_of :: "('k \<times> jfile) list \<Rightarrow> 'k \<Rightarrow> jfile" where
  "file_of fs k = (case map_of fs k of None \<Rightarrow> Absent | Some f \<Rightarrow> f)"

lemma file_of_put [simp]: "file_of (alist_put k f fs) k' = (if k' = k then f else file_of fs k')"
  by (simp add: file_of_def)

section \<open>Timestamps\<close>

text \<open>
  A datetime is an instant in microseconds; an aware one also has its UTC offset. Adding a
  timedelta keeps the offset and overflows outside the years 1 to 9999 of local time.
\<close>

datatype datetime = Naive int | Aware int int

record runtime = crypto +
  fromisoformat :: "string \<Rightarrow> datetime option"
  isoformat :: "datetime \<Rightarrow> string"

definition MIN_MICROS :: int where "MIN_MICROS = - 62135596800000000"
definition MAX_MICROS :: int where "MAX_MICROS = 253402300799999999"

definition in_range :: "int \<Rightarrow> bool" where
  "in_range n \<longleftrightarrow> MIN_MICROS \<le> n \<and> n \<le> MAX_MICROS"

definition add_seconds :: "datetime \<Rightarrow> int \<Rightarrow> datetime res" where
  "add_seconds t n =
     (if 86400 * 999999999 + 86399 < n \<or> n < - (86400 * 999999999) then raise OverflowError ''days=''
      else case t of
        Naive m \<Rightarrow>
          if in_range (m + 1000000 * n) then Inr (Naive (m + 1000000 * n))
          else raise OverflowError ''date value out of range''
      | Aware m off \<Rightarrow>
          if in_range (m + 1000000 * n + off) then Inr (Aware (m + 1000000 * n) off)
          else raise OverflowError ''date value out of range'')"

definition datetime_ge :: "datetime \<Rightarrow> datetime \<Rightarrow> bool res" where
  "datetime_ge a b =
     (case (a, b) of
        (Naive m, Naive n) \<Rightarrow> Inr (n \<le> m)
      | (Aware m _, Aware n _) \<Rightarrow> Inr (n \<le> m)
      | _ \<Rightarrow> raise TypeError ''can't compare offset-naive and offset-aware datetimes'')"

text \<open>\<^verbatim>\<open>str.replace(old, new)\<close> for a non-empty \<open>old\<close>.\<close>

function py_replace :: "string \<Rightarrow> string \<Rightarrow> string \<Rightarrow> string" where
  "py_replace old new [] = []"
| "py_replace old new (c # s) =
     (if old \<noteq> [] \<and> startswith (c # s) old
      then new @ py_replace old new (drop (length old) (c # s))
      else c # py_replace old new s)"
  by pat_completeness auto
termination
  by (relation "measure (\<lambda>(old, new, s). length s)") (auto simp: neq_Nil_conv)

definition parse_utc :: "('r) runtime_scheme \<Rightarrow> string \<Rightarrow> datetime res" where
  "parse_utc R value =
     (case fromisoformat R (py_replace ''Z'' ''+00:00'' value) of
        None \<Rightarrow> raise ValueError ''Invalid isoformat string: ''
      | Some t \<Rightarrow> Inr t)"

definition format_utc :: "('r) runtime_scheme \<Rightarrow> datetime \<Rightarrow> string" where
  "format_utc R t = py_replace ''+00:00'' ''Z'' (isoformat R t)"

text \<open>\<^verbatim>\<open>utc_now\<close>, from the reading of the clock in microseconds.\<close>

definition utc_now :: "('r) runtime_scheme \<Rightarrow> int \<Rightarrow> string" where
  "utc_now R micros = format_utc R (Aware micros 0)"

text \<open>\<^verbatim>\<open>parse_utc\<close> on a JSON value: only strings have a \<^verbatim>\<open>replace\<close> method.\<close>

definition parse_utc_json :: "('r) runtime_scheme \<Rightarrow> json \<Rightarrow> datetime res" where
  "parse_utc_json R v = (case v of JStr s \<Rightarrow> parse_utc R s | _ \<Rightarrow> raise AttributeError ''replace'')"

text \<open>
  The law of the standard library that the lease rules rest on: the ISO form of a UTC datetime
  is a date and a time of digits, hyphens, colons and a \<open>T\<close>, followed by \<^verbatim>\<open>+00:00\<close>, and reading
  it back gives the datetime without its fraction of a second.
\<close>

definition iso_char :: "char \<Rightarrow> bool" where
  "iso_char c \<longleftrightarrow> is_digit c \<or> c = CHR ''-'' \<or> c = CHR '':'' \<or> c = CHR ''T''"

definition iso_roundtrip :: "('r) runtime_scheme \<Rightarrow> bool" where
  "iso_roundtrip R \<longleftrightarrow>
     (\<forall>m. in_range m \<longrightarrow>
        (\<exists>u. list_all iso_char u \<and> isoformat R (Aware m 0) = u @ ''+00:00''
           \<and> fromisoformat R (u @ ''+00:00'') = Some (Aware (1000000 * (m div 1000000)) 0)))"

section \<open>Tasks\<close>

definition TASK_STATES :: "string list" where
  "TASK_STATES =
     [''pending'', ''claimed'', ''running'', ''blocked'', ''submitted'', ''verified'', ''rejected'', ''archived'']"

definition TRANSITIONS :: "(string \<times> string list) list" where
  "TRANSITIONS =
     [(''pending'', [''claimed'', ''submitted'']),
      (''claimed'', [''running'', ''blocked'']),
      (''running'', [''blocked'', ''submitted'']),
      (''blocked'', [''pending'']),
      (''submitted'', [''verified'', ''rejected'']),
      (''rejected'', [''pending'']),
      (''verified'', [''archived'']),
      (''archived'', [])]"

definition legal :: "string \<Rightarrow> string \<Rightarrow> bool" where
  "legal source target \<longleftrightarrow>
     (case map_of TRANSITIONS source of None \<Rightarrow> False | Some ts \<Rightarrow> List.member ts target)"

text \<open>\<^verbatim>\<open>v + 1\<close> on a JSON number.\<close>

definition plus_one :: "json \<Rightarrow> json res" where
  "plus_one v = (case as_int v of Some n \<Rightarrow> Inr (JInt (n + 1)) | None \<Rightarrow> raise TypeError ''unsupported operand'')"

definition validate_task :: "dict \<Rightarrow> unit res" where
  "validate_task task =
     rbind (validate_task_id (py_str (dget_or task ''id'' (JStr [])))) (\<lambda>_.
     rbind (validate_agent_id (py_str (dget_or task ''owner'' (JStr [])))) (\<lambda>_.
     rbind (in_strs (dget task ''state'') TASK_STATES) (\<lambda>known.
     if \<not> known then raise ConfigurationError ''Unknown task state: ''
     else if strip (py_str (dget_or task ''title'' (JStr []))) = []
     then raise ConfigurationError ''Task title cannot be empty''
     else case as_int (dget task ''revision'') of
       None \<Rightarrow> raise ConfigurationError ''Task revision must be a positive integer''
     | Some n \<Rightarrow>
         if n < 1 then raise ConfigurationError ''Task revision must be a positive integer''
         else if \<not> is_list (dget task ''prerequisites'')
         then raise ConfigurationError ''Task prerequisites must be a list''
         else if \<not> is_dict (dget task ''permissions'')
         then raise ConfigurationError ''Task permissions must be an object''
         else if \<not> is_dict (dget task ''gates'')
         then raise ConfigurationError ''Task gates must be an object''
         else Inr ())))"

definition strs :: "string list option \<Rightarrow> json" where
  "strs xs = (case xs of None \<Rightarrow> JArr [] | Some ys \<Rightarrow> JArr (map JStr ys))"

definition new_task ::
  "string \<Rightarrow> string \<Rightarrow> string \<Rightarrow> string \<Rightarrow> string \<Rightarrow> string \<Rightarrow> string list option \<Rightarrow> string list option
    \<Rightarrow> dict option \<Rightarrow> dict option \<Rightarrow> string option \<Rightarrow> dict res" where
  "new_task now task_id title description owner created_by prerequisites allowed_write_roots
      permissions gates idempotency_key =
     rbind (validate_task_id task_id) (\<lambda>tid.
     rbind (validate_agent_id owner) (\<lambda>own.
     rbind (validate_agent_id created_by) (\<lambda>creator.
     let rec =
       [(''schema_version'', JInt 1),
        (''id'', JStr tid),
        (''title'', JStr (strip title)),
        (''description'', JStr (strip description)),
        (''owner'', JStr own),
        (''created_by'', JStr creator),
        (''state'', JStr ''pending''),
        (''revision'', JInt 1),
        (''attempt'', JInt 0),
        (''created_at'', JStr now),
        (''updated_at'', JStr now),
        (''prerequisites'', strs prerequisites),
        (''allowed_write_roots'', strs allowed_write_roots),
        (''permissions'', JObj (dupdate
           [(''gpu'', JBool False), (''performance_metrics'', JBool False), (''network'', JBool False)]
           (case permissions of None \<Rightarrow> [] | Some p \<Rightarrow> p))),
        (''gates'', JObj (dupdate
           [(''require_validation'', JBool True), (''allow_skips'', JBool False),
            (''require_known_answer_check'', JBool True),
            (''require_independent_verification'', JBool True)]
           (case gates of None \<Rightarrow> [] | Some g \<Rightarrow> g))),
        (''idempotency_key'',
           JStr (case idempotency_key of None \<Rightarrow> task_id | Some k \<Rightarrow> if k = [] then task_id else k)),
        (''lease'', JNull),
        (''result'', JNull),
        (''verification'', JNull),
        (''blocked_reason'', JNull)]
     in rbind (validate_task rec) (\<lambda>_. Inr rec))))"

definition transition :: "string \<Rightarrow> dict \<Rightarrow> string \<Rightarrow> dict \<Rightarrow> dict res" where
  "transition now task target updates =
     rbind (ditem task ''state'') (\<lambda>source.
     if \<not> hashable source then raise TypeError ''unhashable type''
     else if \<not> (case source of JStr s \<Rightarrow> legal s target | _ \<Rightarrow> False)
     then rbind (ditem task ''id'') (\<lambda>_. raise TransitionError ''Task '')
     else
       let result = dput ''state'' (JStr target) task in
       rbind (rbind (ditem result ''revision'') plus_one) (\<lambda>revision.
       let result = dupdate (dput ''updated_at'' (JStr now) (dput ''revision'' revision result)) updates in
       rbind (validate_task result) (\<lambda>_. Inr result)))"

definition lease_expired :: "('r) runtime_scheme \<Rightarrow> string \<Rightarrow> dict \<Rightarrow> bool res" where
  "lease_expired R now task =
     (let lease = dget task ''lease'' in
      if \<not> truthy lease then Inr False
      else
        rbind (parse_utc R now) (\<lambda>current.
        rbind (rbind (jitem lease ''expires_at'') (parse_utc_json R)) (\<lambda>expires.
        datetime_ge current expires)))"

definition lease_expiry :: "('r) runtime_scheme \<Rightarrow> string \<Rightarrow> int \<Rightarrow> string res" where
  "lease_expiry R now seconds =
     (if seconds < 10 then raise ConfigurationError ''Lease duration must be at least 10 seconds''
      else
        rbind (parse_utc R now) (\<lambda>current.
        rbind (add_seconds current seconds) (\<lambda>t. Inr (format_utc R t))))"

section \<open>Lemmas\<close>

lemma validate_task_eq_Inr:
  "validate_task task = Inr u \<longleftrightarrow>
     TASK_ID_RE (py_str (dget_or task ''id'' (JStr [])))
     \<and> AGENT_ID_RE (py_str (dget_or task ''owner'' (JStr [])))
     \<and> (\<exists>s. dget task ''state'' = JStr s \<and> s \<in> set TASK_STATES)
     \<and> strip (py_str (dget_or task ''title'' (JStr []))) \<noteq> []
     \<and> (\<exists>n. as_int (dget task ''revision'') = Some n \<and> 1 \<le> n)
     \<and> is_list (dget task ''prerequisites'') \<and> is_dict (dget task ''permissions'')
     \<and> is_dict (dget task ''gates'')"
  unfolding validate_task_def
  by (auto simp: not_less split: option.splits if_splits)

lemma transition_eq_Inr:
  "transition now task target updates = Inr r \<longleftrightarrow>
     (\<exists>s n. map_of task ''state'' = Some (JStr s) \<and> legal s target
        \<and> as_int (dget task ''revision'') = Some n
        \<and> r = dupdate (dput ''updated_at'' (JStr now)
                 (dput ''revision'' (JInt (n + 1)) (dput ''state'' (JStr target) task))) updates
        \<and> validate_task r = Inr ())"
proof -
  have rev: "(\<exists>w. map_of task ''revision'' = Some w \<and> plus_one w = Inr v)
      \<longleftrightarrow> (\<exists>n. as_int (dget task ''revision'') = Some n \<and> v = JInt (n + 1))" for v
    by (auto simp: plus_one_def dget_or_def split: option.splits)
  show ?thesis
  proof (cases "\<exists>s. map_of task ''state'' = Some (JStr s) \<and> legal s target")
    case True
    then obtain s where "ditem task ''state'' = Inr (JStr s)" "legal s target" by auto
    then show ?thesis
      unfolding transition_def by (auto simp: Let_def hashable_def rev)
  next
    case False
    then show ?thesis
      by (cases "map_of task ''state''"; cases "the (map_of task ''state'')")
        (auto simp: transition_def ditem_def hashable_def)
  qed
qed

text \<open>Lookups in a record after \<^verbatim>\<open>update\<close>.\<close>

lemma dget_dupdate_other: "k \<notin> fst ` set e \<Longrightarrow> dget_or (dupdate d e) k w = dget_or d k w"
proof (induction e arbitrary: d)
  case (Cons p e)
  then show ?case by (cases p) auto
qed simp

lemma transition_fields:
  assumes "transition now task target updates = Inr r"
    and "''state'' \<notin> fst ` set updates" "''revision'' \<notin> fst ` set updates"
  shows "dget r ''state'' = JStr target"
    and "\<exists>n. as_int (dget task ''revision'') = Some n \<and> dget r ''revision'' = JInt (n + 1)"
  using assms by (auto simp: transition_eq_Inr dget_dupdate_other)

lemma transition_other:
  assumes "transition now task target updates = Inr r"
    and "k \<notin> fst ` set updates" "k \<notin> {''state'', ''revision'', ''updated_at''}"
  shows "dget_or r k w = dget_or task k w"
  using assms by (auto simp: transition_eq_Inr dget_dupdate_other)

lemma transition_valid: "transition now task target updates = Inr r \<Longrightarrow> validate_task r = Inr ()"
  by (auto simp: transition_eq_Inr)

lemma transition_legal:
  "transition now task target updates = Inr r
   \<Longrightarrow> \<exists>s. dget task ''state'' = JStr s \<and> legal s target"
  by (auto simp: transition_eq_Inr dget_or_def)

lemma legal_iff:
  "legal s t \<longleftrightarrow> (s, t) \<in>
     {(''pending'', ''claimed''), (''pending'', ''submitted''), (''claimed'', ''running''),
      (''claimed'', ''blocked''), (''running'', ''blocked''), (''running'', ''submitted''),
      (''blocked'', ''pending''), (''submitted'', ''verified''), (''submitted'', ''rejected''),
      (''rejected'', ''pending''), (''verified'', ''archived'')}"
  by (auto simp: legal_def TRANSITIONS_def split: if_splits)

lemma py_replace_absent:
  "c \<notin> set s \<Longrightarrow> py_replace (c # old) new (s @ t) = s @ py_replace (c # old) new t"
  by (induction s) (auto simp: startswith_def)

lemma iso_text_roundtrip:
  assumes "list_all iso_char u"
  shows "py_replace ''Z'' ''+00:00'' (py_replace ''+00:00'' ''Z'' (u @ ''+00:00'')) = u @ ''+00:00''"
proof -
  have "CHR ''+'' \<notin> set u" "CHR ''Z'' \<notin> set u"
    using assms by (auto simp: list_all_iff iso_char_def is_digit_def)
  then show ?thesis by (simp add: py_replace_absent startswith_def)
qed

lemma parse_format_utc:
  assumes "iso_roundtrip R" "in_range m"
  shows "parse_utc R (format_utc R (Aware m 0)) = Inr (Aware (1000000 * (m div 1000000)) 0)"
  using assms iso_text_roundtrip by (fastforce simp: iso_roundtrip_def parse_utc_def format_utc_def)

section \<open>Properties\<close>

text \<open>
  \<^verbatim>\<open>new_task\<close> succeeds exactly on valid identifiers and a title that is not blank,
  and then the record validates and is a pending task of revision 1, attempt 0, with no lease,
  no result and no verification.
\<close>

theorem new_task_spec:
  "(case new_task now task_id title description owner created_by pre roots permissions gates key of
      Inl e \<Rightarrow> exn_class_of e = ConfigurationError
        \<and> \<not> (TASK_ID_RE task_id \<and> AGENT_ID_RE owner \<and> AGENT_ID_RE created_by \<and> strip (strip title) \<noteq> [])
    | Inr t \<Rightarrow> TASK_ID_RE task_id \<and> AGENT_ID_RE owner \<and> AGENT_ID_RE created_by \<and> strip (strip title) \<noteq> []
        \<and> validate_task t = Inr () \<and> dget t ''id'' = JStr task_id \<and> dget t ''owner'' = JStr owner
        \<and> dget t ''state'' = JStr ''pending'' \<and> dget t ''revision'' = JInt 1 \<and> dget t ''attempt'' = JInt 0
        \<and> dget t ''lease'' = JNull \<and> dget t ''result'' = JNull \<and> dget t ''verification'' = JNull)"
  by (auto simp: new_task_def validate_task_def validate_task_id_def validate_agent_id_def Let_def
      in_strs_def hashable_def TASK_STATES_def strs_def raise_def split: option.splits sum.splits)

text \<open>
  Property C30: a transition that succeeds follows an edge of the transition table, raises the
  revision by one, sets the state to its target, leaves every field it is not given unchanged
  and returns a valid record; a target that is not in the table is a \<open>TransitionError\<close>.
\<close>

theorem transition_spec:
  assumes "''state'' \<notin> fst ` set updates" "''revision'' \<notin> fst ` set updates"
    and "''updated_at'' \<notin> fst ` set updates" "dget task ''state'' = JStr s"
  shows "(\<forall>r. transition now task target updates = Inr r \<longrightarrow>
            legal s target \<and> validate_task r = Inr () \<and> dget r ''state'' = JStr target
            \<and> dget r ''updated_at'' = JStr now
            \<and> (\<exists>n. as_int (dget task ''revision'') = Some n \<and> dget r ''revision'' = JInt (n + 1))
            \<and> (\<forall>k. k \<notin> fst ` set updates \<and> k \<notin> {''state'', ''revision'', ''updated_at''}
                  \<longrightarrow> dget r k = dget task k))
       \<and> (\<not> legal s target \<and> (\<exists>v. map_of task ''id'' = Some v) \<longrightarrow>
            transition now task target updates = raise TransitionError ''Task '')"
proof (intro conjI allI impI)
  fix r assume r: "transition now task target updates = Inr r"
  show "legal s target" using transition_legal [OF r] assms(4) by simp
  show "validate_task r = Inr ()" by (rule transition_valid [OF r])
  show "dget r ''state'' = JStr target" using r assms(1,2) by (rule transition_fields)
  show "dget r ''updated_at'' = JStr now" using r assms(3) by (auto simp: transition_eq_Inr dget_dupdate_other)
  show "\<exists>n. as_int (dget task ''revision'') = Some n \<and> dget r ''revision'' = JInt (n + 1)"
    using r assms(1,2) by (rule transition_fields)
  show "dget r k = dget task k"
    if "k \<notin> fst ` set updates \<and> k \<notin> {''state'', ''revision'', ''updated_at''}" for k
    using r that by (intro transition_other) auto
next
  assume "\<not> legal s target \<and> (\<exists>v. map_of task ''id'' = Some v)"
  moreover have "map_of task ''state'' = Some (JStr s)"
    using assms(4) by (auto simp: dget_or_def split: option.splits)
  ultimately show "transition now task target updates = raise TransitionError ''Task ''"
    by (auto simp: transition_def ditem_def hashable_def)
qed

definition sample_task :: "string \<Rightarrow> dict" where
  "sample_task state =
     [(''id'', JStr ''T-1''), (''owner'', JStr ''worker''), (''title'', JStr ''t''), (''state'', JStr state),
      (''revision'', JInt 3), (''attempt'', JInt 1), (''prerequisites'', JArr []), (''permissions'', JObj []),
      (''gates'', JObj []), (''lease'', JNull)]"

theorem transition_spec_witness:
  "\<exists>r. transition ''t1'' (sample_task ''running'') ''submitted'' [(''result'', JObj [])] = Inr r
     \<and> dget r ''state'' = JStr ''submitted'' \<and> dget r ''attempt'' = dget (sample_task ''running'') ''attempt''"
proof -
  have "case transition ''t1'' (sample_task ''running'') ''submitted'' [(''result'', JObj [])] of
      Inl _ \<Rightarrow> False | Inr _ \<Rightarrow> True" by code_simp
  then show ?thesis
    using transition_spec [of "[(''result'', JObj [])]" "sample_task ''running''" "''running''" "''t1''" "''submitted''"]
    by (auto simp: sample_task_def split: sum.splits)
qed

fun history :: "string list \<Rightarrow> bool" where
  "history [] \<longleftrightarrow> False"
| "history [s] \<longleftrightarrow> s = ''pending''"
| "history (t # s # h) \<longleftrightarrow> legal s t \<and> history (s # h)"

text \<open>
  In every history of a task that starts as pending and follows the transition
  table, a verdict (verified or rejected) comes right after a submission, an archived task was
  verified right before, and nothing follows archived.
\<close>

theorem verdict_after_submission:
  assumes "history h" "h = later @ t # earlier"
  shows "(t \<in> {''verified'', ''rejected''} \<longrightarrow> earlier \<noteq> [] \<and> hd earlier = ''submitted'')
       \<and> (t = ''archived'' \<longrightarrow> later = [] \<and> earlier \<noteq> [] \<and> hd earlier = ''verified'')"
proof -
  have suffix: "history (xs @ y # ys) \<Longrightarrow> history (y # ys)" for xs y ys
  proof (induction xs)
    case (Cons x xs)
    then show ?case by (cases xs) auto
  qed simp
  have "history (t # earlier)" using assms suffix by blast
  then have "t \<in> {''verified'', ''rejected''} \<longrightarrow> earlier \<noteq> [] \<and> hd earlier = ''submitted''"
    and "t = ''archived'' \<longrightarrow> earlier \<noteq> [] \<and> hd earlier = ''verified''"
    by (cases earlier; auto simp: legal_iff)+
  moreover have "later = []" if "t = ''archived''"
  proof (cases later rule: rev_cases)
    case (snoc ys y)
    then have "history (y # t # earlier)" using assms suffix [of ys y "t # earlier"] by simp
    then show ?thesis using that by (simp add: legal_iff)
  qed
  ultimately show ?thesis by blast
qed

theorem verdict_after_submission_witness:
  "history [''archived'', ''verified'', ''submitted'', ''running'', ''claimed'', ''pending'']
   \<and> hd [''submitted'', ''running'', ''claimed'', ''pending''] = ''submitted''"
proof
  show h: "history [''archived'', ''verified'', ''submitted'', ''running'', ''claimed'', ''pending'']"
    by (simp add: legal_iff)
  show "hd [''submitted'', ''running'', ''claimed'', ''pending''] = ''submitted''"
    using verdict_after_submission [OF h, of "[''archived'']" "''verified''"] by simp
qed

text \<open>
  Property C40: a lease of \<open>n\<close> seconds taken at one clock reading has expired at another exactly
  if at least \<open>n\<close> whole seconds lie between them, and a duration below ten seconds is refused.
\<close>

theorem lease_expires_exactly:
  assumes "iso_roundtrip R" "in_range t0" "in_range t" "in_range (1000000 * (t0 div 1000000 + n))"
    and "dget task ''lease'' = JObj lease"
    and "\<And>e. lease_expiry R (utc_now R t0) n = Inr e \<Longrightarrow> dget lease ''expires_at'' = JStr e"
  shows "(n < 10 \<longrightarrow> lease_expiry R (utc_now R t0) n
             = raise ConfigurationError ''Lease duration must be at least 10 seconds'')
       \<and> (10 \<le> n \<longrightarrow> lease_expired R (utc_now R t) task = Inr (t0 div 1000000 + n \<le> t div 1000000))"
proof (intro conjI impI)
  assume n: "10 \<le> n"
  let ?e = "1000000 * (t0 div 1000000) + 1000000 * n"
  have range: "in_range ?e" using assms(4) by (simp add: algebra_simps)
  have "t0 - 1000000 < 1000000 * (t0 div 1000000)" by presburger
  with range have "n \<le> 86400 * 999999999 + 86399"
    using assms(2) by (simp add: in_range_def MIN_MICROS_def MAX_MICROS_def)
  then have e: "lease_expiry R (utc_now R t0) n = Inr (format_utc R (Aware ?e 0))"
    using n range assms(1,2) by (simp add: lease_expiry_def utc_now_def parse_format_utc add_seconds_def)
  then have exp: "dget lease ''expires_at'' = JStr (format_utc R (Aware ?e 0))" by (rule assms(6))
  then have "lease \<noteq> []" "jitem (JObj lease) ''expires_at'' = Inr (JStr (format_utc R (Aware ?e 0)))"
    by (auto simp: jitem_def ditem_def dget_or_def split: option.splits)
  moreover have "?e div 1000000 = t0 div 1000000 + n" by simp
  ultimately show "lease_expired R (utc_now R t) task = Inr (t0 div 1000000 + n \<le> t div 1000000)"
    using assms(1,3,5) range
    by (auto simp: lease_expired_def utc_now_def parse_utc_json_def parse_format_utc datetime_ge_def
        simp del: div_mult_self1 div_mult_self2)
qed (simp add: lease_expiry_def)

text \<open>
  A concrete runtime for which the law holds: the seconds since the epoch in decimal, with the
  offset \<^verbatim>\<open>+00:00\<close>.
\<close>

definition seconds_text :: "datetime \<Rightarrow> string" where
  "seconds_text d = show_int ((case d of Naive m \<Rightarrow> m | Aware m _ \<Rightarrow> m) div 1000000) @ ''+00:00''"

definition read_seconds :: "string \<Rightarrow> datetime option" where
  "read_seconds s =
     (if \<not> endswith s ''+00:00'' then None
      else let u = take (length s - 6) s in
        Some (Aware (1000000 * (case u of
            c # ds \<Rightarrow> if c = CHR ''-'' then - int (read_nat ds) else int (read_nat u)
          | [] \<Rightarrow> 0)) 0))"

definition epoch_runtime :: runtime where
  "epoch_runtime = \<lparr>sha256_hex = sha256_hex flat_digests, hmac_hex = hmac_hex flat_digests,
     fromisoformat = read_seconds, isoformat = seconds_text\<rparr>"

lemma show_nat_not_minus: "show_nat n = c # ds \<Longrightarrow> c \<noteq> CHR ''-''"
  using show_nat_digits [of n] by (auto simp: is_digit_def)

lemma epoch_runtime_roundtrip: "iso_roundtrip epoch_runtime"
proof -
  have "read_seconds (show_int k @ ''+00:00'') = Some (Aware (1000000 * k) 0)" for k
    using show_nat_not_minus [of "nat k"] read_show_nat [of "nat k"] read_show_nat [of "nat (- k)"]
      show_nat_nonempty [of "nat k"]
    by (cases "show_nat (nat k)")
      (auto simp: read_seconds_def endswith_def show_int_def Let_def simp del: read_show_nat show_nat_nonempty)
  moreover have "list_all iso_char (show_int k)" for k
    using show_nat_digits [of "nat k"] show_nat_digits [of "nat (- k)"]
    by (auto simp: show_int_def iso_char_def list_all_iff)
  ultimately show ?thesis
    unfolding iso_roundtrip_def by (auto simp: epoch_runtime_def seconds_text_def)
qed

theorem lease_expires_exactly_witness:
  "lease_expired epoch_runtime (utc_now epoch_runtime 1799000000)
     [(''lease'', JObj [(''expires_at'', JStr ''1800Z'')])]
   = Inr ((0::int) div 1000000 + 1800 \<le> 1799000000 div 1000000)"
proof -
  have "lease_expiry epoch_runtime (utc_now epoch_runtime 0) 1800 = Inr ''1800Z''" by code_simp
  then have e: "lease_expiry epoch_runtime (utc_now epoch_runtime 0) 1800 = Inr e
    \<Longrightarrow> dget [(''expires_at'', JStr ''1800Z'')] ''expires_at'' = JStr e" for e by simp
  have r: "in_range 0" "in_range 1799000000" "in_range (1000000 * (0 div 1000000 + 1800))"
    by (simp_all add: in_range_def MIN_MICROS_def MAX_MICROS_def)
  show ?thesis
    using lease_expires_exactly [OF epoch_runtime_roundtrip r _ e,
        of "[(''lease'', JObj [(''expires_at'', JStr ''1800Z'')])]"] by simp
qed

end
