(* ===== verification/Base64.thy ===== *)
theory Base64
  imports Prelude
begin

text \<open>
  The URL-safe base64 of \<^verbatim>\<open>actor_capability.py\<close>: \<^verbatim>\<open>_b64encode\<close> drops the padding, \<^verbatim>\<open>_b64decode\<close>
  adds it again and decodes with \<^verbatim>\<open>base64.urlsafe_b64decode\<close>, which skips the characters that are
  not in the alphabet. The decoder follows \<^verbatim>\<open>binascii.a2b_base64\<close> in its lenient mode. Also the
  well-formedness of UTF-8, which \<^verbatim>\<open>bytes.decode\<close> checks.
\<close>

section \<open>Encoding\<close>

definition b64_char :: "nat \<Rightarrow> char" where
  "b64_char n =
     (if n < 26 then char_of (65 + n) else if n < 52 then char_of (71 + n)
      else if n < 62 then char_of (n - 4) else if n = 62 then CHR ''-'' else CHR ''_'')"

fun b64encode :: "string \<Rightarrow> string" where
  "b64encode [] = []"
| "b64encode [a] =
     (let x = of_char a in [b64_char (x div 4), b64_char ((x mod 4) * 16)])"
| "b64encode [a, b] =
     (let x = of_char a; y = of_char b in
      [b64_char (x div 4), b64_char ((x mod 4) * 16 + y div 16), b64_char ((y mod 16) * 4)])"
| "b64encode (a # b # c # s) =
     (let x = of_char a; y = of_char b; z = of_char c in
      [b64_char (x div 4), b64_char ((x mod 4) * 16 + y div 16), b64_char ((y mod 16) * 4 + z div 64),
       b64_char (z mod 64)] @ b64encode s)"

section \<open>Decoding\<close>

text \<open>The value of a character, of either alphabet: \<^verbatim>\<open>-_\<close> is translated to \<^verbatim>\<open>+/\<close> first.\<close>

definition b64_value :: "char \<Rightarrow> nat option" where
  "b64_value c =
     (let n = (of_char c :: nat) in
      if is_upper c then Some (n - 65)
      else if is_lower c then Some (n - 71)
      else if is_digit c then Some (n + 4)
      else if c = CHR ''-'' \<or> c = CHR ''+'' then Some 62
      else if c = CHR ''_'' \<or> c = CHR ''/'' then Some 63
      else None)"

text \<open>
  One pass over the characters: the position in the group of four, the bits left over, the
  pads seen in a row, the output in reverse. A complete pad ends the input.
\<close>

fun a2b :: "nat \<Rightarrow> nat \<Rightarrow> nat \<Rightarrow> string \<Rightarrow> string \<Rightarrow> string option" where
  "a2b quad_pos leftchar pads out [] = (if quad_pos = 0 then Some (rev out) else None)"
| "a2b quad_pos leftchar pads out (c # s) =
     (if c = CHR ''='' then
        (if 2 \<le> quad_pos then
           (if 4 \<le> quad_pos + (pads + 1) then Some (rev out) else a2b quad_pos leftchar (pads + 1) out s)
         else a2b quad_pos leftchar pads out s)
      else case b64_value c of
          None \<Rightarrow> a2b quad_pos leftchar pads out s
        | Some v \<Rightarrow>
            if quad_pos = 0 then a2b 1 v 0 out s
            else if quad_pos = 1 then a2b 2 (v mod 16) 0 (char_of (leftchar * 4 + v div 16) # out) s
            else if quad_pos = 2 then a2b 3 (v mod 4) 0 (char_of (leftchar * 16 + v div 4) # out) s
            else a2b 0 0 0 (char_of (leftchar * 64 + v) # out) s)"

definition pad4 :: "string \<Rightarrow> string" where
  "pad4 s = s @ replicate ((4 - length s mod 4) mod 4) CHR ''=''"

definition b64decode :: "string \<Rightarrow> string res" where
  "b64decode s =
     (if s = [] \<or> \<not> list_all (\<lambda>c. (of_char c :: nat) < 128) s
      then raise AuthorizationError ''Actor capability is malformed''
      else case a2b 0 0 0 [] (pad4 s) of
          None \<Rightarrow> raise AuthorizationError ''Actor capability is malformed''
        | Some bytes \<Rightarrow> Inr bytes)"

section \<open>Round trip\<close>

lemma b64_value_char [simp]: "n < 64 \<Longrightarrow> b64_value (b64_char n) = Some n"
  by (auto simp: b64_value_def b64_char_def char_class_defs Let_def)

lemma b64_char_code: "n < 64 \<Longrightarrow> (of_char (b64_char n) :: nat) =
    (if n < 26 then 65 + n else if n < 52 then 71 + n else if n < 62 then n - 4 else if n = 62 then 45 else 95)"
  by (simp add: b64_char_def)

lemma b64_char_ascii [simp]: "n < 64 \<Longrightarrow> (of_char (b64_char n) :: nat) < 128"
  by (simp add: b64_char_code) linarith

lemma b64_char_plain [simp]:
  assumes "n < 64"
  shows "b64_char n \<noteq> CHR ''=''" "b64_char n \<noteq> CHR ''.''"
proof -
  have "(of_char (b64_char n) :: nat) \<noteq> 61" "(of_char (b64_char n) :: nat) \<noteq> 46"
    using assms by (auto simp: b64_char_code)
  then show "b64_char n \<noteq> CHR ''=''" "b64_char n \<noteq> CHR ''.''" by auto
qed

lemma of_char_bound: "(of_char c :: nat) < 256"
  by simp

lemma div_mod_join:
  fixes a b m :: nat
  assumes "b < m"
  shows "(a * m + b) div m = a" "(a * m + b) mod m = b"
  using assms by auto

lemma sextets:
  fixes x y :: nat
  assumes "x < 256" "y < 256"
  shows "x div 4 < 64" "(x mod 4) * 16 < 64" "(x mod 4) * 16 + y div 16 < 64" "(y mod 16) * 4 < 64"
    "(y mod 16) * 4 + x div 64 < 64" "x mod 64 < 64"
proof -
  have "x mod 4 < 4" "y mod 16 < 16" "y div 16 < 16" "x div 64 < 4" "x div 4 < 64"
    using assms by (auto simp: less_mult_imp_div_less)
  then show "x div 4 < 64" "(x mod 4) * 16 < 64" "(x mod 4) * 16 + y div 16 < 64" "(y mod 16) * 4 < 64"
    "(y mod 16) * 4 + x div 64 < 64" "x mod 64 < 64" by linarith+
qed

lemma joins:
  fixes x y z :: nat
  assumes "x < 256" "y < 256" "z < 256"
  shows "x div 4 * 4 + ((x mod 4) * 16 + y div 16) div 16 = x"
    "x div 4 * 4 + ((x mod 4) * 16) div 16 = x"
    "((x mod 4) * 16 + y div 16) mod 16 * 16 + ((y mod 16) * 4 + z div 64) div 4 = y"
    "((x mod 4) * 16 + y div 16) mod 16 * 16 + ((y mod 16) * 4) div 4 = y"
    "((y mod 16) * 4 + z div 64) mod 4 * 64 + z mod 64 = z"
proof -
  have "y div 16 < 16" "z div 64 < 4" using assms by (auto simp: less_mult_imp_div_less)
  then show "x div 4 * 4 + ((x mod 4) * 16 + y div 16) div 16 = x"
    "x div 4 * 4 + ((x mod 4) * 16) div 16 = x"
    "((x mod 4) * 16 + y div 16) mod 16 * 16 + ((y mod 16) * 4 + z div 64) div 4 = y"
    "((x mod 4) * 16 + y div 16) mod 16 * 16 + ((y mod 16) * 4) div 4 = y"
    "((y mod 16) * 4 + z div 64) mod 4 * 64 + z mod 64 = z"
    using div_mod_join(1) [of "y div 16" 16] div_mod_join(2) [of "y div 16" 16]
      div_mod_join(1) [of "z div 64" 4] div_mod_join(2) [of "z div 64" 4] by simp_all
qed

text \<open>The decoder on an encoding, padded or followed by more input.\<close>

lemma a2b_encode3:
  "a2b 0 0 0 out (b64encode [a, b, c] @ s) = a2b 0 0 0 (c # b # a # out) s"
proof -
  let ?x = "of_char a :: nat" and ?y = "of_char b :: nat" and ?z = "of_char c :: nat"
  note bounds = of_char_bound [of a] of_char_bound [of b] of_char_bound [of c]
  note sx = sextets [OF bounds(1,2)] sextets [OF bounds(3,2)]
  show ?thesis
    using sx joins [OF bounds] by (simp add: Let_def)
qed

lemma a2b_encode2:
  "a2b 0 0 0 out (b64encode [a, b] @ ''='') = Some (rev (b # a # out))"
proof -
  note bounds = of_char_bound [of a] of_char_bound [of b]
  show ?thesis
    using sextets [OF bounds] joins [OF bounds bounds(2)] by (simp add: Let_def)
qed

lemma a2b_encode1:
  "a2b 0 0 0 out (b64encode [a] @ ''=='') = Some (rev (a # out))"
proof -
  note bounds = of_char_bound [of a] of_char_bound [of a]
  show ?thesis
    using sextets [OF bounds] joins [OF bounds bounds(2)] by (simp add: Let_def)
qed

lemma b64encode_cons3: "b64encode (a # b # c # s) = b64encode [a, b, c] @ b64encode s"
  by (simp add: Let_def)

lemma pad4_cons4: "length q = 4 \<Longrightarrow> pad4 (q @ s) = q @ pad4 s"
  by (simp add: pad4_def)

lemma a2b_encode: "a2b 0 0 0 out (pad4 (b64encode s)) = Some (rev out @ s)"
proof (induction s arbitrary: out rule: b64encode.induct)
  case 1
  then show ?case by (simp add: pad4_def)
next
  case (2 a)
  have "pad4 (b64encode [a]) = b64encode [a] @ ''==''" by (simp add: pad4_def Let_def numeral_2_eq_2)
  then show ?case by (simp only: a2b_encode1) simp
next
  case (3 a b)
  have "pad4 (b64encode [a, b]) = b64encode [a, b] @ ''=''" by (simp add: pad4_def Let_def)
  then show ?case by (simp only: a2b_encode2) simp
next
  case (4 a b c s)
  have "length (b64encode [a, b, c]) = 4" by (simp add: Let_def)
  then have "pad4 (b64encode (a # b # c # s)) = b64encode [a, b, c] @ pad4 (b64encode s)"
    by (subst b64encode_cons3) (rule pad4_cons4)
  then have "a2b 0 0 0 out (pad4 (b64encode (a # b # c # s))) = a2b 0 0 0 (c # b # a # out) (pad4 (b64encode s))"
    by (simp only: a2b_encode3)
  with 4 [OF refl refl refl, of "c # b # a # out"] show ?case by (simp only: rev.simps append_assoc append.simps)
qed

lemma b64encode_chars: "list_all (\<lambda>c. (of_char c :: nat) < 128 \<and> c \<noteq> CHR ''.'') (b64encode s)"
proof (induction s rule: b64encode.induct)
  case (2 a)
  show ?case using sextets [OF of_char_bound [of a] of_char_bound [of a]] by (simp add: Let_def)
next
  case (3 a b)
  show ?case using sextets [OF of_char_bound [of a] of_char_bound [of b]] by (simp add: Let_def)
next
  case (4 a b c s)
  show ?case
    using sextets [OF of_char_bound [of a] of_char_bound [of b]] sextets [OF of_char_bound [of c] of_char_bound [of b]]
      4 by (simp add: Let_def)
qed simp

lemma b64encode_eq_Nil [simp]: "b64encode s = [] \<longleftrightarrow> s = []"
  by (cases s rule: b64encode.cases) (auto simp: Let_def)

lemma length_b64encode: "length (b64encode s) \<le> 2 * length s"
proof (induction s rule: b64encode.induct)
  case (4 a b c s)
  then show ?case using 4 [OF refl refl refl] by (simp add: Let_def)
qed (auto simp: Let_def)

lemma b64decode_encode [simp]: "s \<noteq> [] \<Longrightarrow> b64decode (b64encode s) = Inr s"
  using b64encode_chars [of s] by (auto simp: b64decode_def a2b_encode list_all_iff)

section \<open>UTF-8\<close>

text \<open>Well-formed UTF-8: no overlong forms, no surrogates, nothing above U+10FFFF.\<close>

definition cont :: "nat \<Rightarrow> nat \<Rightarrow> char \<Rightarrow> bool" where
  "cont lo hi c \<longleftrightarrow> lo \<le> (of_char c :: nat) \<and> (of_char c :: nat) \<le> hi"

fun utf8_valid :: "string \<Rightarrow> bool" where
  "utf8_valid [] = True"
| "utf8_valid (a # s) =
     (let n = (of_char a :: nat) in
      if n < 128 then utf8_valid s
      else case s of
        [] \<Rightarrow> False
      | b # t \<Rightarrow>
          if 194 \<le> n \<and> n \<le> 223 then cont 128 191 b \<and> utf8_valid t
          else case t of
            [] \<Rightarrow> False
          | c # u \<Rightarrow>
              if 224 \<le> n \<and> n \<le> 239 then
                cont (if n = 224 then 160 else 128) (if n = 237 then 159 else 191) b
                \<and> cont 128 191 c \<and> utf8_valid u
              else case u of
                [] \<Rightarrow> False
              | d # v \<Rightarrow>
                  240 \<le> n \<and> n \<le> 244
                  \<and> cont (if n = 240 then 144 else 128) (if n = 244 then 143 else 191) b
                  \<and> cont 128 191 c \<and> cont 128 191 d \<and> utf8_valid v)"

lemma utf8_valid_ascii: "list_all (\<lambda>c. (of_char c :: nat) < 128) s \<Longrightarrow> utf8_valid s"
  by (induction s) auto

text \<open>Evaluation looks at the top bit first, which settles ASCII characters without arithmetic.\<close>

lemma ascii_char: "\<not> digit7 c \<Longrightarrow> (of_char c :: nat) < 128"
proof (cases c)
  case (Char b0 b1 b2 b3 b4 b5 b6 b7)
  have le: "of_bool b \<le> (1 :: nat)" for b by simp
  assume "\<not> digit7 c"
  with Char le [of b0] le [of b1] le [of b2] le [of b3] le [of b4] le [of b5] le [of b6] show ?thesis
    by (simp add: of_char_Char del: of_bool_less_eq_one)
qed

lemma utf8_valid_ascii_char: "\<not> digit7 a \<Longrightarrow> utf8_valid (a # s) = utf8_valid s"
  by (simp add: ascii_char Let_def)

lemma utf8_valid_code [code]:
  "utf8_valid [] = True"
  "utf8_valid (a # s) =
     (if \<not> digit7 a then utf8_valid s
      else let n = (of_char a :: nat) in
      if n < 128 then utf8_valid s
      else case s of
        [] \<Rightarrow> False
      | b # t \<Rightarrow>
          if 194 \<le> n \<and> n \<le> 223 then cont 128 191 b \<and> utf8_valid t
          else case t of
            [] \<Rightarrow> False
          | c # u \<Rightarrow>
              if 224 \<le> n \<and> n \<le> 239 then
                cont (if n = 224 then 160 else 128) (if n = 237 then 159 else 191) b
                \<and> cont 128 191 c \<and> utf8_valid u
              else case u of
                [] \<Rightarrow> False
              | d # v \<Rightarrow>
                  240 \<le> n \<and> n \<le> 244
                  \<and> cont (if n = 240 then 144 else 128) (if n = 244 then 143 else 191) b
                  \<and> cont 128 191 c \<and> cont 128 191 d \<and> utf8_valid v)"
  by (simp, cases "digit7 a", simp only: utf8_valid.simps(2) simp_thms if_False, simp only: utf8_valid_ascii_char simp_thms if_True)

end
