(* ===== verification/Capability.thy ===== *)
theory Capability
  imports Task_Model Base64
begin

text \<open>
  One-time actor capabilities (\<^verbatim>\<open>actor_capability.py\<close>): a bootstrap guard is turned into a key
  record, the key mints short-lived proofs bound to an operation, a proof is consumed once and
  leaves a signed receipt and a marker, and keys are rotated while old receipts stay
  verifiable.

  The store is the directory of the workspace under the capability home: for every actor a
  guard file, a key file and the markers of consumed proofs. The raw HMAC, the Windows DPAPI
  and what the operating system reports of the process are fields of the record \<open>host\<close>. A
  secret is its bytes; clock readings and random nonces are arguments.
\<close>

section \<open>Host and store\<close>

record host = runtime +
  hmac_raw :: "string \<Rightarrow> string \<Rightarrow> string"
  sha256_raw :: "string \<Rightarrow> string"
  dpapi_protect :: "string \<Rightarrow> string \<Rightarrow> string res"
  dpapi_unprotect :: "string \<Rightarrow> string \<Rightarrow> string res"
  os_name_nt :: bool
  observed_principal :: dict
  principal_provider :: string
  home_in_workspace :: bool
  home_reparse :: bool

record actor_files =
  guard_file :: jfile
  key_file :: jfile
  used_markers :: "(string \<times> jfile) list"

record cap_store =
  actor_dirs :: "(string \<times> actor_files) list"

definition no_files :: actor_files where
  "no_files = \<lparr>guard_file = Absent, key_file = Absent, used_markers = []\<rparr>"

definition files_of :: "cap_store \<Rightarrow> string \<Rightarrow> actor_files" where
  "files_of st actor = (case map_of (actor_dirs st) actor of None \<Rightarrow> no_files | Some f \<Rightarrow> f)"

definition set_files :: "string \<Rightarrow> actor_files \<Rightarrow> cap_store \<Rightarrow> cap_store" where
  "set_files actor f st = st\<lparr>actor_dirs := alist_put actor f (actor_dirs st)\<rparr>"

lemma files_of_set [simp]: "files_of (set_files a f st) b = (if b = a then f else files_of st b)"
  by (simp add: files_of_def set_files_def)

text \<open>
  The documented behaviour of the digests and of the protector: an HMAC-SHA-256 has 32 bytes,
  and what was protected for an actor is recovered for the same actor.
\<close>

definition host_laws :: "('r) host_scheme \<Rightarrow> bool" where
  "host_laws H \<longleftrightarrow>
     (\<forall>k x. length (hmac_raw H k x) = 32)
     \<and> (\<forall>x. fullmatch_hex 64 (sha256_hex H x))
     \<and> (\<forall>k e p. dpapi_protect H k e = Inr p \<longrightarrow> p \<noteq> [] \<and> dpapi_unprotect H p e = Inr k)"

section \<open>Constants and helpers\<close>

definition MIN_SECRET_BYTES :: nat where "MIN_SECRET_BYTES = 32"
definition MAX_TOKEN_BYTES :: nat where "MAX_TOKEN_BYTES = 8192"
definition DEFAULT_TTL_SECONDS :: int where "DEFAULT_TTL_SECONDS = 120"
definition MAX_TTL_SECONDS :: int where "MAX_TTL_SECONDS = 300"

definition RECEIPT_SIGNATURE_ALGORITHM :: string where
  "RECEIPT_SIGNATURE_ALGORITHM = ''hmac-sha256-local-actor-key-v1''"

definition operation_char :: "char \<Rightarrow> bool" where
  "operation_char c \<longleftrightarrow> is_lower c \<or> is_digit c \<or> c = CHR ''_'' \<or> c = CHR ''.'' \<or> c = CHR '':'' \<or> c = CHR ''-''"

definition OPERATION_RE :: "string \<Rightarrow> bool" where
  "OPERATION_RE s = fullmatch_head_rest is_lower operation_char 99 s"

definition secret_bytes :: "string \<Rightarrow> string \<Rightarrow> string res" where
  "secret_bytes secret label =
     (if length secret < MIN_SECRET_BYTES
      then raise AuthorizationError (label @ '' must contain at least '') else Inr secret)"

definition binding_fields :: "string option \<Rightarrow> string option \<Rightarrow> json \<Rightarrow> dict res" where
  "binding_fields task_id run_id task_attempt =
     (if (case task_id of Some t \<Rightarrow> \<not> TASK_ID_RE t | None \<Rightarrow> False)
      then raise AuthorizationError ''Actor capability task binding is invalid''
      else if (case run_id of Some r \<Rightarrow> \<not> fullmatch_hex 32 r | None \<Rightarrow> False)
      then raise AuthorizationError ''Actor capability run binding is invalid''
      else if task_attempt \<noteq> JNull
           \<and> (case strict_int task_attempt of None \<Rightarrow> True | Some n \<Rightarrow> n < 1)
      then raise AuthorizationError ''Actor capability attempt binding is invalid''
      else if run_id \<noteq> None \<and> task_id = None
      then raise AuthorizationError ''Actor capability run binding requires a task''
      else if task_attempt \<noteq> JNull \<and> task_id = None
      then raise AuthorizationError ''Actor capability attempt binding requires a task''
      else Inr [(''task_id'', opt_str task_id), (''run_id'', opt_str run_id), (''task_attempt'', task_attempt)])"

definition os_principal_attestation :: "('r) host_scheme \<Rightarrow> dict" where
  "os_principal_attestation H =
     [(''schema_version'', JInt 1),
      (''provider'', JStr (principal_provider H)),
      (''principal_sha256'', JStr (sha256_hex H (canonical_json (JObj (observed_principal H))))),
      (''trust_root'', JStr ''same-user-local-key''),
      (''independent_trust_root'', JBool False),
      (''actor_os_isolation_proven'', JBool False)]"

text \<open>The checks of \<^verbatim>\<open>ActorCapabilityAuthority.__init__\<close> and \<^verbatim>\<open>_actor_dir\<close>.\<close>

definition authority_init :: "('r) host_scheme \<Rightarrow> string \<Rightarrow> unit res" where
  "authority_init H workspace_id =
     (if workspace_id = [] then raise ConfigurationError ''Workspace id is required for actor capabilities''
      else if home_in_workspace H
      then raise ConfigurationError ''Actor capability home must be outside the workspace''
      else if home_reparse H
      then raise ConfigurationError ''Actor capability home cannot traverse a reparse point''
      else Inr ())"

definition actor_dir :: "cap_store \<Rightarrow> string \<Rightarrow> actor_files res" where
  "actor_dir st actor =
     (if AGENT_ID_RE actor then Inr (files_of st actor)
      else raise AuthorizationError ''Actor capability principal is invalid'')"

definition secure_directory :: "('r) host_scheme \<Rightarrow> unit res" where
  "secure_directory H =
     (if home_reparse H then raise ConfigurationError ''Actor capability store cannot use reparse points''
      else Inr ())"

definition domain_text :: "string \<Rightarrow> string \<Rightarrow> string \<Rightarrow> string" where
  "domain_text domain workspace_id actor =
     canonical_json (JObj [(''domain'', JStr domain), (''workspace_id'', JStr workspace_id), (''actor'', JStr actor)])"

definition entropy :: "('r) host_scheme \<Rightarrow> string \<Rightarrow> string \<Rightarrow> string" where
  "entropy H workspace_id actor =
     sha256_raw H (domain_text ''cogni-os-actor-capability-dpapi-v1'' workspace_id actor)"

definition derive_key :: "('r) host_scheme \<Rightarrow> string \<Rightarrow> string \<Rightarrow> string \<Rightarrow> string" where
  "derive_key H workspace_id actor secret =
     hmac_raw H secret (domain_text ''cogni-os-actor-capability-key-v1'' workspace_id actor)"

definition guard_digest :: "('r) host_scheme \<Rightarrow> string \<Rightarrow> string \<Rightarrow> string \<Rightarrow> string" where
  "guard_digest H workspace_id actor secret =
     hmac_raw H secret (domain_text ''cogni-os-actor-capability-bootstrap-v1'' workspace_id actor)"

section \<open>Key records\<close>

definition retired_ok :: "int \<Rightarrow> json \<Rightarrow> int list \<Rightarrow> int list res" where
  "retired_ok current retired seen =
     (case retired of
        JObj r \<Rightarrow>
          (case (strict_int (dget r ''key_version''), dget r ''protected_key'') of
             (Some n, JStr p) \<Rightarrow>
               if n < 1 \<or> current \<le> n \<or> n \<in> set seen \<or> p = []
               then raise IntegrityError ''Actor capability retired verifier key is invalid''
               else Inr (n # seen)
           | _ \<Rightarrow> raise IntegrityError ''Actor capability retired verifier key is invalid'')
      | _ \<Rightarrow> raise IntegrityError ''Actor capability retired verifier key is invalid'')"

definition check_record :: "string \<Rightarrow> string \<Rightarrow> dict \<Rightarrow> unit res" where
  "check_record workspace_id actor r =
     (case (strict_int (dget r ''key_version''), dget_or r ''retired_receipt_keys'' (JArr [])) of
        (Some n, JArr retired) \<Rightarrow>
          if \<not> py_eq (dget r ''schema_version'') (JInt 1)
             \<or> dget r ''workspace_id'' \<noteq> JStr workspace_id \<or> dget r ''actor'' \<noteq> JStr actor \<or> n < 1
          then raise IntegrityError ''Actor capability key record is invalid''
          else rbind (rfold (retired_ok n) retired []) (\<lambda>_. Inr ())
      | _ \<Rightarrow> raise IntegrityError ''Actor capability key record is invalid'')"

definition cap_record :: "string \<Rightarrow> cap_store \<Rightarrow> string \<Rightarrow> dict res" where
  "cap_record workspace_id st actor =
     rbind (actor_dir st actor) (\<lambda>fs.
     rbind (ensure (key_file fs \<noteq> Absent) AuthorizationError
              ''Actor capability is unprovisioned; privileged operation denied'') (\<lambda>_.
     rbind (read_json (key_file fs)) (\<lambda>r.
     rbind (check_record workspace_id actor r) (\<lambda>_. Inr r))))"

definition unprotect_key :: "('r) host_scheme \<Rightarrow> string \<Rightarrow> string \<Rightarrow> json \<Rightarrow> string \<Rightarrow> string res" where
  "unprotect_key H workspace_id actor protected message =
     rbind (b64decode (py_str protected)) (\<lambda>p.
     rbind (dpapi_unprotect H p (entropy H workspace_id actor)) (\<lambda>key.
     if length key \<noteq> 32 then raise IntegrityError message else Inr key))"

definition cap_key :: "('r) host_scheme \<Rightarrow> string \<Rightarrow> string \<Rightarrow> dict \<Rightarrow> string res" where
  "cap_key H workspace_id actor r =
     unprotect_key H workspace_id actor (dget_or r ''protected_key'' (JStr []))
       ''Actor capability verifier key is invalid''"

definition receipt_key :: "('r) host_scheme \<Rightarrow> string \<Rightarrow> string \<Rightarrow> dict \<Rightarrow> int \<Rightarrow> string res" where
  "receipt_key H workspace_id actor r key_version =
     (if dget r ''key_version'' = JInt key_version then cap_key H workspace_id actor r
      else case find (\<lambda>item. py_eq (vget item ''key_version'') (JInt key_version))
                  (case dget_or r ''retired_receipt_keys'' (JArr []) of JArr xs \<Rightarrow> xs | _ \<Rightarrow> []) of
          Some (JObj retired) \<Rightarrow>
            unprotect_key H workspace_id actor (dget_or retired ''protected_key'' (JStr []))
              ''Actor capability retired verifier key is invalid''
        | _ \<Rightarrow> raise AuthorizationError ''Actor capability receipt key version is unavailable'')"

section \<open>Status, provisioning, bootstrap\<close>

definition cap_status :: "string \<Rightarrow> cap_store \<Rightarrow> string \<Rightarrow> dict res" where
  "cap_status workspace_id st actor =
     rbind (actor_dir st actor) (\<lambda>fs.
     rbind (if key_file fs = Absent then Inr None
            else rbind (cap_record workspace_id st actor) (\<lambda>r. Inr (Some r))) (\<lambda>r.
     Inr [(''schema_version'', JInt 1),
          (''workspace_id'', JStr workspace_id),
          (''actor'', JStr actor),
          (''state'', JStr (if r \<noteq> None then ''provisioned''
                            else if guard_file fs \<noteq> Absent then ''guard_pending'' else ''unprovisioned'')),
          (''key_version'', case r of Some d \<Rightarrow> dget d ''key_version'' | None \<Rightarrow> JNull),
          (''protector'', case r of Some d \<Rightarrow> dget d ''protector'' | None \<Rightarrow> JNull),
          (''actor_os_isolation_proven'', JBool False),
          (''independent_trust_root'', JBool False),
          (''receipt_signature_algorithm'',
             if r \<noteq> None then JStr RECEIPT_SIGNATURE_ALGORITHM else JNull),
          (''capability_home_outside_workspace'', JBool True)]))"

definition provision_guard ::
  "('r) host_scheme \<Rightarrow> string \<Rightarrow> int \<Rightarrow> string \<Rightarrow> string \<Rightarrow> cap_store \<Rightarrow> dict res \<times> cap_store" where
  "provision_guard H workspace_id now actor bootstrap_secret st =
     keep st (secret_bytes bootstrap_secret ''Bootstrap secret'') (\<lambda>secret.
     keep st (actor_dir st actor) (\<lambda>fs.
     if key_file fs \<noteq> Absent \<or> guard_file fs \<noteq> Absent
     then (raise AuthorizationError ''Actor capability bootstrap is already provisioned'', st)
     else
       keep st (secure_directory H) (\<lambda>_.
       let payload =
             [(''schema_version'', JInt 1), (''workspace_id'', JStr workspace_id), (''actor'', JStr actor),
              (''guard_digest'', JStr (b64encode (guard_digest H workspace_id actor secret))),
              (''created_at_epoch'', JInt now), (''one_time'', JBool True)];
           st' = set_files actor (fs\<lparr>guard_file := Content (JObj payload)\<rparr>) st
       in (cap_status workspace_id st' actor, st'))))"

definition bootstrap ::
  "('r) host_scheme \<Rightarrow> string \<Rightarrow> int \<Rightarrow> string \<Rightarrow> string \<Rightarrow> cap_store \<Rightarrow> dict res \<times> cap_store" where
  "bootstrap H workspace_id now actor bootstrap_secret st =
     keep st (secret_bytes bootstrap_secret ''Bootstrap secret'') (\<lambda>secret.
     keep st (actor_dir st actor) (\<lambda>fs.
     if key_file fs \<noteq> Absent
     then (raise AuthorizationError ''Actor capability is already bootstrapped'', st)
     else if guard_file fs = Absent
     then (raise AuthorizationError ''Actor capability bootstrap guard is unavailable; OS-admin provisioning is required'', st)
     else
       keep st (read_json (guard_file fs)) (\<lambda>guard.
       if \<not> py_eq (dget guard ''schema_version'') (JInt 1)
          \<or> dget guard ''workspace_id'' \<noteq> JStr workspace_id \<or> dget guard ''actor'' \<noteq> JStr actor
          \<or> \<not> is_true (dget guard ''one_time'')
       then (raise IntegrityError ''Actor capability bootstrap guard is invalid'', st)
       else
         keep st (b64decode (py_str (dget_or guard ''guard_digest'' (JStr [])))) (\<lambda>expected_guard.
         if expected_guard \<noteq> guard_digest H workspace_id actor secret
         then (raise AuthorizationError ''Actor capability bootstrap secret is incorrect'', st)
         else
           keep st (dpapi_protect H (derive_key H workspace_id actor secret) (entropy H workspace_id actor))
             (\<lambda>protected.
           keep st (secure_directory H) (\<lambda>_.
           let r =
                 [(''schema_version'', JInt 1), (''workspace_id'', JStr workspace_id), (''actor'', JStr actor),
                  (''key_version'', JInt 1), (''protected_key'', JStr (b64encode protected)),
                  (''retired_receipt_keys'', JArr []),
                  (''protector'', JStr (if os_name_nt H then ''windows-dpapi-current-user'' else ''mode-0600'')),
                  (''actor_os_isolation_proven'', JBool False), (''created_at_epoch'', JInt now)];
               st' = set_files actor (fs\<lparr>key_file := Content (JObj r), guard_file := Absent\<rparr>) st
           in (cap_status workspace_id st' actor, st')))))))"

section \<open>Proofs\<close>

definition token_payload ::
  "string \<Rightarrow> string \<Rightarrow> string \<Rightarrow> string \<Rightarrow> json \<Rightarrow> int \<Rightarrow> int \<Rightarrow> dict \<Rightarrow> dict" where
  "token_payload workspace_id actor operation nonce key_version issued_at expires_at binding =
     [(''token_version'', JInt 1), (''workspace_id'', JStr workspace_id), (''actor'', JStr actor),
      (''operation'', JStr operation), (''nonce'', JStr nonce), (''key_version'', key_version),
      (''issued_at_epoch'', JInt issued_at), (''expires_at_epoch'', JInt expires_at)] @ binding"

definition mint ::
  "('r) host_scheme \<Rightarrow> string \<Rightarrow> cap_store \<Rightarrow> int \<Rightarrow> string \<Rightarrow> string \<Rightarrow> string \<Rightarrow> string \<Rightarrow> int
    \<Rightarrow> string option \<Rightarrow> string option \<Rightarrow> json \<Rightarrow> string res" where
  "mint H workspace_id st now nonce actor operation credential_secret ttl_seconds task_id run_id task_attempt =
     (if \<not> OPERATION_RE operation then raise AuthorizationError ''Actor capability operation is invalid''
      else if ttl_seconds < 1 \<or> MAX_TTL_SECONDS < ttl_seconds
      then raise AuthorizationError ''Actor capability lifetime is outside policy''
      else
        rbind (secret_bytes credential_secret ''Actor credential'') (\<lambda>secret.
        rbind (cap_record workspace_id st actor) (\<lambda>r.
        rbind (cap_key H workspace_id actor r) (\<lambda>stored_key.
        if stored_key \<noteq> derive_key H workspace_id actor secret
        then raise AuthorizationError ''Actor capability credential is incorrect''
        else if \<not> fullmatch_hex 48 nonce then raise AuthorizationError ''Actor capability nonce is invalid''
        else
          rbind (binding_fields task_id run_id task_attempt) (\<lambda>binding.
          let body = canonical_json (JObj (token_payload workspace_id actor operation nonce
                (dget r ''key_version'') now (now + ttl_seconds) binding))
          in Inr (b64encode body @ ''.'' @ b64encode (hmac_raw H stored_key body)))))))"

text \<open>\<^verbatim>\<open>str.split(".")\<close>.\<close>

fun split_dot :: "string \<Rightarrow> string \<Rightarrow> string list" where
  "split_dot cur [] = [rev cur]"
| "split_dot cur (c # s) = (if c = CHR ''.'' then rev cur # split_dot [] s else split_dot (c # cur) s)"

text \<open>The digest that names the marker of a consumed proof.\<close>

definition marker_digest :: "('r) host_scheme \<Rightarrow> string \<Rightarrow> string \<Rightarrow> string \<Rightarrow> string \<Rightarrow> json \<Rightarrow> string" where
  "marker_digest H workspace_id actor operation nonce_sha256 key_version =
     sha256_hex H (canonical_json (JObj
       [(''workspace_id'', JStr workspace_id), (''actor'', JStr actor), (''operation'', JStr operation),
        (''nonce_sha256'', JStr nonce_sha256), (''key_version'', key_version)]))"

definition receipt_body ::
  "('r) host_scheme \<Rightarrow> string \<Rightarrow> string \<Rightarrow> string \<Rightarrow> dict \<Rightarrow> string \<Rightarrow> json \<Rightarrow> json \<Rightarrow> json \<Rightarrow> int \<Rightarrow> dict" where
  "receipt_body H workspace_id actor operation binding nonce_sha256 key_version issued_at expires_at now =
     [(''schema_version'', JInt 2), (''receipt_type'', JStr ''actor-capability-consumption''),
      (''workspace_id'', JStr workspace_id), (''actor'', JStr actor), (''operation'', JStr operation)]
     @ binding
     @ [(''nonce_sha256'', JStr nonce_sha256), (''key_version'', key_version),
        (''issued_at_epoch'', issued_at), (''expires_at_epoch'', expires_at), (''consumed_at_epoch'', JInt now),
        (''os_principal_attestation'', JObj (os_principal_attestation H)),
        (''independent_trust_root'', JBool False), (''actor_os_isolation_proven'', JBool False),
        (''signature_algorithm'', JStr RECEIPT_SIGNATURE_ALGORITHM)]"

text \<open>The steps of \<^verbatim>\<open>verify_and_consume\<close> before the marker is written.\<close>

definition token_parts :: "string \<Rightarrow> (string \<times> string) res" where
  "token_parts token =
     (case split_dot [] token of
        [part0, part1] \<Rightarrow>
          rbind (b64decode part0) (\<lambda>body. rbind (b64decode part1) (\<lambda>signature. Inr (body, signature)))
      | _ \<Rightarrow> raise AuthorizationError ''Actor capability proof is malformed'')"

definition token_body :: "string \<Rightarrow> dict res" where
  "token_body body =
     (case (if utf8_valid body then loads body else None) of
        None \<Rightarrow> raise AuthorizationError ''Actor capability proof is malformed''
      | Some v \<Rightarrow>
          if is_dict v \<and> canonical_json v = body then Inr (case v of JObj d \<Rightarrow> d | _ \<Rightarrow> [])
          else raise AuthorizationError ''Actor capability proof is not canonical'')"

definition proof_scope :: "string \<Rightarrow> string \<Rightarrow> string \<Rightarrow> dict \<Rightarrow> dict \<Rightarrow> dict \<Rightarrow> bool" where
  "proof_scope workspace_id actor operation r binding payload \<longleftrightarrow>
     py_eq (dget payload ''token_version'') (JInt 1)
     \<and> dget payload ''workspace_id'' = JStr workspace_id
     \<and> dget payload ''actor'' = JStr actor
     \<and> dget payload ''operation'' = JStr operation
     \<and> py_eq (dget payload ''key_version'') (dget r ''key_version'')
     \<and> list_all (\<lambda>p. py_eq (dget payload (fst p)) (snd p)) binding"

definition proof_lifetime :: "int \<Rightarrow> dict \<Rightarrow> unit res" where
  "proof_lifetime now payload =
     (case (strict_int (dget payload ''issued_at_epoch''), strict_int (dget payload ''expires_at_epoch'')) of
        (Some issued_at, Some expires_at) \<Rightarrow>
          if expires_at \<le> issued_at \<or> MAX_TTL_SECONDS < expires_at - issued_at
          then raise AuthorizationError ''Actor capability proof lifetime is invalid''
          else if now + 5 < issued_at \<or> expires_at \<le> now
          then raise AuthorizationError ''Actor capability proof is expired or not yet valid''
          else Inr ()
      | _ \<Rightarrow> raise AuthorizationError ''Actor capability proof lifetime is invalid'')"

definition proof_nonce :: "dict \<Rightarrow> string res" where
  "proof_nonce payload =
     (case dget payload ''nonce'' of
        JStr nonce \<Rightarrow>
          if fullmatch_hex 48 nonce then Inr nonce
          else raise AuthorizationError ''Actor capability nonce is invalid''
      | _ \<Rightarrow> raise AuthorizationError ''Actor capability nonce is invalid'')"

definition check_proof ::
  "('r) host_scheme \<Rightarrow> string \<Rightarrow> cap_store \<Rightarrow> int \<Rightarrow> string \<Rightarrow> string \<Rightarrow> string
    \<Rightarrow> string option \<Rightarrow> string option \<Rightarrow> json \<Rightarrow> (dict \<times> dict \<times> string \<times> dict \<times> string) res" where
  "check_proof H workspace_id st now actor operation token task_id run_id task_attempt =
     rbind (ensure (token \<noteq> []) AuthorizationError ''Actor capability proof is required'') (\<lambda>_.
     rbind (ensure (length token \<le> MAX_TOKEN_BYTES) AuthorizationError ''Actor capability proof is malformed'') (\<lambda>_.
     rbind (ensure (OPERATION_RE operation) AuthorizationError ''Actor capability operation is invalid'') (\<lambda>_.
     rbind (binding_fields task_id run_id task_attempt) (\<lambda>binding.
     rbind (token_parts token) (\<lambda>(body, signature).
     rbind (token_body body) (\<lambda>payload.
     rbind (cap_record workspace_id st actor) (\<lambda>r.
     rbind (cap_key H workspace_id actor r) (\<lambda>key.
     rbind (ensure (hmac_raw H key body = signature) AuthorizationError
              ''Actor capability proof signature is invalid'') (\<lambda>_.
     rbind (ensure (proof_scope workspace_id actor operation r binding payload) AuthorizationError
              ''Actor capability proof scope is invalid'') (\<lambda>_.
     rbind (proof_lifetime now payload) (\<lambda>_.
     rbind (proof_nonce payload) (\<lambda>nonce.
     Inr (binding, payload, key, r, nonce)))))))))))))"

definition verify_and_consume ::
  "('r) host_scheme \<Rightarrow> string \<Rightarrow> int \<Rightarrow> string \<Rightarrow> string \<Rightarrow> string
    \<Rightarrow> string option \<Rightarrow> string option \<Rightarrow> json \<Rightarrow> cap_store \<Rightarrow> dict res \<times> cap_store" where
  "verify_and_consume H workspace_id now actor operation token task_id run_id task_attempt st =
     keep st (check_proof H workspace_id st now actor operation token task_id run_id task_attempt)
       (\<lambda>(binding, payload, key, r, nonce).
     let nonce_sha256 = sha256_hex H nonce;
         body = receipt_body H workspace_id actor operation binding nonce_sha256 (dget r ''key_version'')
                  (dget payload ''issued_at_epoch'') (dget payload ''expires_at_epoch'') now;
         receipt = body @ [(''signature'', JStr (b64encode (hmac_raw H key (canonical_json (JObj body)))))];
         marker = marker_digest H workspace_id actor operation nonce_sha256 (dget r ''key_version'');
         fs = files_of st actor
     in
     keep st (secure_directory H) (\<lambda>_.
     if file_of (used_markers fs) marker \<noteq> Absent
     then (raise AuthorizationError ''Actor capability proof has already been consumed'', st)
     else
       let content = JObj
             [(''schema_version'', JInt 1),
              (''receipt_sha256'', JStr (sha256_hex H (canonical_json (JObj receipt)))),
              (''consumed_at_epoch'', JInt now)]
       in (Inr receipt, set_files actor (fs\<lparr>used_markers := alist_put marker (Content content) (used_markers fs)\<rparr>) st)))"

section \<open>Receipts\<close>

definition RECEIPT_KEYS :: "string list" where
  "RECEIPT_KEYS =
     [''schema_version'', ''receipt_type'', ''workspace_id'', ''actor'', ''operation'', ''task_id'', ''run_id'',
      ''task_attempt'', ''nonce_sha256'', ''key_version'', ''issued_at_epoch'', ''expires_at_epoch'',
      ''consumed_at_epoch'', ''os_principal_attestation'', ''independent_trust_root'',
      ''actor_os_isolation_proven'', ''signature_algorithm'', ''signature'']"

definition receipt_scope_ok ::
  "('r) host_scheme \<Rightarrow> string \<Rightarrow> dict \<Rightarrow> string \<Rightarrow> string \<Rightarrow> dict \<Rightarrow> bool" where
  "receipt_scope_ok H workspace_id receipt actor operation binding \<longleftrightarrow>
     py_eq (dget receipt ''schema_version'') (JInt 2)
     \<and> dget receipt ''receipt_type'' = JStr ''actor-capability-consumption''
     \<and> dget receipt ''workspace_id'' = JStr workspace_id
     \<and> dget receipt ''actor'' = JStr actor
     \<and> dget receipt ''operation'' = JStr operation
     \<and> list_all (\<lambda>p. py_eq (dget receipt (fst p)) (snd p)) binding
     \<and> (case dget receipt ''nonce_sha256'' of JStr s \<Rightarrow> fullmatch_hex 64 s | _ \<Rightarrow> False)
     \<and> (case strict_int (dget receipt ''key_version'') of Some n \<Rightarrow> 1 \<le> n | None \<Rightarrow> False)
     \<and> (case (strict_int (dget receipt ''issued_at_epoch''), strict_int (dget receipt ''expires_at_epoch''),
              strict_int (dget receipt ''consumed_at_epoch'')) of
          (Some i, Some e, Some c) \<Rightarrow> i \<le> c \<and> c < e \<and> e - i \<le> MAX_TTL_SECONDS
        | _ \<Rightarrow> False)
     \<and> dget receipt ''signature_algorithm'' = JStr RECEIPT_SIGNATURE_ALGORITHM
     \<and> is_false (dget receipt ''independent_trust_root'')
     \<and> is_false (dget receipt ''actor_os_isolation_proven'')
     \<and> py_eq (dget receipt ''os_principal_attestation'') (JObj (os_principal_attestation H))"

definition validate_receipt ::
  "('r) host_scheme \<Rightarrow> string \<Rightarrow> cap_store \<Rightarrow> json \<Rightarrow> string \<Rightarrow> string
    \<Rightarrow> string option \<Rightarrow> string option \<Rightarrow> json \<Rightarrow> bool \<Rightarrow> dict res" where
  "validate_receipt H workspace_id st receipt actor operation task_id run_id task_attempt
      require_independent_trust_root =
     rbind (binding_fields task_id run_id task_attempt) (\<lambda>binding.
     case receipt of
       JObj rc \<Rightarrow>
         if \<not> exact_keys rc RECEIPT_KEYS
         then raise AuthorizationError ''Actor capability receipt schema is invalid''
         else if \<not> receipt_scope_ok H workspace_id rc actor operation binding
         then raise AuthorizationError ''Actor capability receipt scope is invalid''
         else
           rbind (cap_record workspace_id st actor) (\<lambda>r.
           rbind (receipt_key H workspace_id actor r (case strict_int (dget rc ''key_version'') of Some n \<Rightarrow> n | None \<Rightarrow> 0))
             (\<lambda>key.
           rbind (b64decode (py_str (dget_or rc ''signature'' (JStr [])))) (\<lambda>observed.
           if observed \<noteq> hmac_raw H key (canonical_json (JObj (filter (\<lambda>p. fst p \<noteq> ''signature'') rc)))
           then raise AuthorizationError ''Actor capability receipt signature is invalid''
           else
             let marker = marker_digest H workspace_id actor operation (py_str (dget rc ''nonce_sha256''))
                   (dget rc ''key_version'')
             in
             case read_json (file_of (used_markers (files_of st actor)) marker) of
               Inl _ \<Rightarrow> raise AuthorizationError ''Actor capability receipt has no external consumption record''
             | Inr m \<Rightarrow>
                 if \<not> py_eq (dget m ''schema_version'') (JInt 1)
                    \<or> dget m ''receipt_sha256'' \<noteq> JStr (sha256_hex H (canonical_json (JObj rc)))
                    \<or> \<not> py_eq (dget m ''consumed_at_epoch'') (dget rc ''consumed_at_epoch'')
                 then raise AuthorizationError ''Actor capability receipt replay record is invalid''
                 else if require_independent_trust_root
                 then raise AuthorizationError ''CAPABILITY_UNATTESTED: local same-user HMAC receipts are not an independent actor trust root''
                 else Inr rc)))
     | _ \<Rightarrow> raise AuthorizationError ''Actor capability receipt is missing'')"

section \<open>Rotation\<close>

definition rotate ::
  "('r) host_scheme \<Rightarrow> string \<Rightarrow> int \<Rightarrow> int \<Rightarrow> string \<Rightarrow> string \<Rightarrow> string \<Rightarrow> cap_store
    \<Rightarrow> dict res \<times> cap_store" where
  "rotate H workspace_id now rotated_at actor rotation_token new_secret st =
     keep st (secret_bytes new_secret ''New actor credential'') (\<lambda>secret.
     keep st (actor_dir st actor) (\<lambda>_.
     keep st (secure_directory H) (\<lambda>_.
     case verify_and_consume H workspace_id now actor ''capability.rotate'' rotation_token None None JNull st of
       (Inl e, st1) \<Rightarrow> (Inl e, st1)
     | (Inr receipt, st1) \<Rightarrow>
         keep st1 (cap_record workspace_id st1 actor) (\<lambda>r.
         if \<not> py_eq (dget r ''key_version'') (dget receipt ''key_version'')
         then (raise AuthorizationError ''Actor capability rotation lost its key-version compare-and-swap'', st1)
         else
           keep st1 (dpapi_protect H (derive_key H workspace_id actor secret) (entropy H workspace_id actor))
             (\<lambda>protected.
           keep st1 (ditem r ''protected_key'') (\<lambda>old_key.
           let retired = (case dget_or r ''retired_receipt_keys'' (JArr []) of JArr xs \<Rightarrow> xs | _ \<Rightarrow> [])
                 @ [JObj [(''key_version'', dget r ''key_version''), (''protected_key'', old_key)]];
               version = (case strict_int (dget r ''key_version'') of Some n \<Rightarrow> n | None \<Rightarrow> 0);
               rotated = dupdate r
                 [(''key_version'', JInt (version + 1)), (''protected_key'', JStr (b64encode protected)),
                  (''retired_receipt_keys'', JArr retired), (''rotated_at_epoch'', JInt rotated_at),
                  (''actor_os_isolation_proven'', JBool False)];
               st2 = set_files actor ((files_of st1 actor)\<lparr>key_file := Content (JObj rotated)\<rparr>) st1
           in (cap_status workspace_id st2 actor, st2)))))))"

text \<open>The child environment without the capability secrets.\<close>

definition scrub_capability_environment :: "(string \<times> string) list \<Rightarrow> (string \<times> string) list" where
  "scrub_capability_environment environment =
     filter (\<lambda>p. fst p \<noteq> ''COGNI_ACTOR_CAPABILITY_SECRET''
               \<and> fst p \<noteq> ''COGNI_ACTOR_CAPABILITY_BOOTSTRAP_SECRET''
               \<and> fst p \<noteq> ''COGNI_ACTOR_CAPABILITY_NEW_SECRET'') environment"

section \<open>What an accepted proof satisfies\<close>

lemma proof_lifetime_eq_Inr [simp]:
  "proof_lifetime now payload = Inr u \<longleftrightarrow>
     (\<exists>i e. dget payload ''issued_at_epoch'' = JInt i \<and> dget payload ''expires_at_epoch'' = JInt e
        \<and> i < e \<and> e - i \<le> MAX_TTL_SECONDS \<and> i \<le> now + 5 \<and> now < e)"
  by (auto simp: proof_lifetime_def split: option.splits if_splits)

lemma proof_nonce_eq_Inr [simp]:
  "proof_nonce payload = Inr nonce \<longleftrightarrow> dget payload ''nonce'' = JStr nonce \<and> fullmatch_hex 48 nonce"
  by (auto simp: proof_nonce_def split: json.splits)

lemma token_body_eq_Inr [simp]:
  "token_body body = Inr payload \<longleftrightarrow>
     utf8_valid body \<and> loads body = Some (JObj payload) \<and> canonical_json (JObj payload) = body"
  by (auto simp: token_body_def is_dict_iff split: option.splits if_splits)

lemma check_proof_eq_Inr:
  "check_proof H ws st now actor operation token t rn at = Inr (binding, payload, key, r, nonce) \<longleftrightarrow>
     token \<noteq> [] \<and> length token \<le> MAX_TOKEN_BYTES \<and> OPERATION_RE operation
     \<and> binding_fields t rn at = Inr binding
     \<and> (\<exists>body. token_parts token = Inr (body, hmac_raw H key body) \<and> token_body body = Inr payload)
     \<and> cap_record ws st actor = Inr r \<and> cap_key H ws actor r = Inr key
     \<and> proof_scope ws actor operation r binding payload
     \<and> proof_lifetime now payload = Inr () \<and> proof_nonce payload = Inr nonce"
  unfolding check_proof_def by (auto simp del: token_body_eq_Inr proof_lifetime_eq_Inr proof_nonce_eq_Inr)

lemma check_record_eq_Inr:
  "check_record ws actor r = Inr u \<longleftrightarrow>
     (\<exists>n retired seen. dget r ''key_version'' = JInt n \<and> 1 \<le> n
        \<and> dget_or r ''retired_receipt_keys'' (JArr []) = JArr retired
        \<and> rfold (retired_ok n) retired [] = Inr seen
        \<and> py_eq (dget r ''schema_version'') (JInt 1)
        \<and> dget r ''workspace_id'' = JStr ws \<and> dget r ''actor'' = JStr actor)"
  by (cases "dget_or r ''retired_receipt_keys'' (JArr [])"; cases "strict_int (dget r ''key_version'')")
    (auto simp: check_record_def)

lemma cap_record_eq_Inr:
  "cap_record ws st actor = Inr r \<longleftrightarrow>
     AGENT_ID_RE actor \<and> key_file (files_of st actor) = Content (JObj r) \<and> check_record ws actor r = Inr ()"
  by (auto simp: cap_record_def actor_dir_def)

lemma cap_record_version:
  "cap_record ws st actor = Inr r \<Longrightarrow> \<exists>n. dget r ''key_version'' = JInt n \<and> 1 \<le> n"
  by (auto simp: cap_record_eq_Inr check_record_eq_Inr)

text \<open>A proof that is consumed, and what the store holds afterwards.\<close>

definition receipt_of ::
  "('r) host_scheme \<Rightarrow> string \<Rightarrow> string \<Rightarrow> string \<Rightarrow> int \<Rightarrow> dict \<Rightarrow> dict \<Rightarrow> string \<Rightarrow> dict \<Rightarrow> string \<Rightarrow> dict" where
  "receipt_of H ws actor operation now binding payload key r nonce =
     (let body = receipt_body H ws actor operation binding (sha256_hex H nonce) (dget r ''key_version'')
                  (dget payload ''issued_at_epoch'') (dget payload ''expires_at_epoch'') now
      in body @ [(''signature'', JStr (b64encode (hmac_raw H key (canonical_json (JObj body)))))])"

definition consumed_marker :: "('r) host_scheme \<Rightarrow> int \<Rightarrow> dict \<Rightarrow> jfile" where
  "consumed_marker H now receipt =
     Content (JObj [(''schema_version'', JInt 1),
       (''receipt_sha256'', JStr (sha256_hex H (canonical_json (JObj receipt)))),
       (''consumed_at_epoch'', JInt now)])"

lemma verify_and_consume_eq_Inr:
  "verify_and_consume H ws now actor operation token t rn at st = (Inr receipt, st') \<longleftrightarrow>
     (\<exists>binding payload key r nonce.
        check_proof H ws st now actor operation token t rn at = Inr (binding, payload, key, r, nonce)
        \<and> receipt = receipt_of H ws actor operation now binding payload key r nonce
        \<and> \<not> home_reparse H
        \<and> (let m = marker_digest H ws actor operation (sha256_hex H nonce) (dget r ''key_version'');
               fs = files_of st actor
           in file_of (used_markers fs) m = Absent
              \<and> st' = set_files actor
                   (fs\<lparr>used_markers := alist_put m (consumed_marker H now receipt) (used_markers fs)\<rparr>) st))"
  (is "?l = ?r")
proof (cases "check_proof H ws st now actor operation token t rn at")
  case (Inl e)
  then show ?thesis by (simp add: verify_and_consume_def)
next
  case (Inr x)
  obtain binding payload key r nonce where x: "x = (binding, payload, key, r, nonce)" by (cases x)
  show ?thesis
    unfolding verify_and_consume_def Inr x
    by (auto simp: Let_def secure_directory_def receipt_of_def consumed_marker_def keep_def raise_def
        split: if_splits)
qed

section \<open>Properties of proofs\<close>


text \<open>
  Property C6: a proof is consumed at most once. After a successful consumption, every later
  attempt to consume the same token fails, for whatever actor, operation, binding or time it is
  presented, as long as the markers of consumed proofs are kept.
\<close>

theorem proof_single_use:
  assumes "verify_and_consume H ws now actor operation token t rn at st = (Inr receipt, st')"
    and kept: "\<forall>m. file_of (used_markers (files_of st' actor)) m \<noteq> Absent
                 \<longrightarrow> file_of (used_markers (files_of later actor)) m \<noteq> Absent"
  shows "\<exists>e. fst (verify_and_consume H ws now' actor' operation' token t' rn' at' later) = Inl e"
proof (rule ccontr)
  assume "\<not> ?thesis"
  then obtain receipt' later' where second:
    "verify_and_consume H ws now' actor' operation' token t' rn' at' later = (Inr receipt', later')"
    by (metis prod.collapse sum.exhaust)
  from assms(1) obtain binding payload key r nonce where
    one: "check_proof H ws st now actor operation token t rn at = Inr (binding, payload, key, r, nonce)"
    and m: "file_of (used_markers (files_of st' actor))
              (marker_digest H ws actor operation (sha256_hex H nonce) (dget r ''key_version'')) \<noteq> Absent"
    by (auto simp: verify_and_consume_eq_Inr Let_def consumed_marker_def)
  from second obtain binding' payload' key' r' nonce' where
    two: "check_proof H ws later now' actor' operation' token t' rn' at' = Inr (binding', payload', key', r', nonce')"
    and m': "file_of (used_markers (files_of later actor'))
              (marker_digest H ws actor' operation' (sha256_hex H nonce') (dget r' ''key_version'')) = Absent"
    by (auto simp: verify_and_consume_eq_Inr Let_def)
  obtain body where b: "token_parts token = Inr (body, hmac_raw H key body)" "token_body body = Inr payload"
      "proof_scope ws actor operation r binding payload" "proof_nonce payload = Inr nonce"
      "cap_record ws st actor = Inr r"
    using one by (auto simp only: check_proof_eq_Inr)
  obtain body' where b': "token_parts token = Inr (body', hmac_raw H key' body')" "token_body body' = Inr payload'"
      "proof_scope ws actor' operation' r' binding' payload'" "proof_nonce payload' = Inr nonce'"
      "cap_record ws later actor' = Inr r'"
    using two by (auto simp only: check_proof_eq_Inr)
  have same: "payload' = payload" using b(1,2) b'(1,2) by (metis Inr_inject prod.inject)
  have scope: "proof_scope ws actor operation r binding payload" "proof_scope ws actor' operation' r' binding' payload"
    using b(3) b'(3) same by simp_all
  then have ids: "actor' = actor" "operation' = operation" "nonce' = nonce"
    using b(4) b'(4) same by (auto simp: proof_scope_def)
  obtain n n' where n: "dget r ''key_version'' = JInt n" "dget r' ''key_version'' = JInt n'"
    using cap_record_version [OF b(5)] cap_record_version [OF b'(5)] by blast
  have "n = n'" using scope n by (auto simp: proof_scope_def py_eq_def)
  then show False using m m' kept ids n by simp
qed

text \<open>A concrete host and a provisioned store.\<close>

definition hex_text :: "string \<Rightarrow> string" where
  "hex_text x = take 64 (filter is_lower_hex x @ replicate 64 CHR ''a'')"

definition test_host :: host where
  "test_host = \<lparr>sha256_hex = hex_text, hmac_hex = (\<lambda>k x. replicate 64 CHR ''b''),
     fromisoformat = read_seconds, isoformat = seconds_text,
     hmac_raw = (\<lambda>k x. take 32 (k @ replicate 32 CHR ''h'')), sha256_raw = (\<lambda>x. ''e''),
     dpapi_protect = (\<lambda>k e. if k = [] then raise AuthorizationError ''empty'' else Inr k),
     dpapi_unprotect = (\<lambda>p e. Inr p), os_name_nt = False,
     observed_principal = [(''platform'', JStr ''linux''), (''effective_uid'', JInt 1000), (''effective_gid'', JInt 1000)],
     principal_provider = ''posix-effective-principal-observation'',
     home_in_workspace = False, home_reparse = False\<rparr>"

lemma hex_text_hex: "fullmatch_hex 64 (hex_text x)"
proof -
  have "list_all is_lower_hex (filter is_lower_hex x @ replicate 64 CHR ''a'')"
    by (auto simp: list_all_iff) (simp add: is_lower_hex_def)
  then show ?thesis
    by (auto simp: hex_text_def fullmatch_exact_def list_all_iff dest!: in_set_takeD)
qed

lemma test_host_laws: "host_laws test_host"
  by (auto simp: host_laws_def test_host_def hex_text_hex split: if_splits)

definition test_secret :: string where "test_secret = replicate 32 CHR ''s''"
definition test_nonce :: string where "test_nonce = replicate 48 CHR ''1''"

definition test_key :: string where
  "test_key = derive_key test_host ''ws'' ''codex'' test_secret"

definition provisioned :: cap_store where
  "provisioned = \<lparr>actor_dirs = [(''codex'', \<lparr>guard_file = Absent,
     key_file = Content (JObj
       [(''schema_version'', JInt 1), (''workspace_id'', JStr ''ws''), (''actor'', JStr ''codex''),
        (''key_version'', JInt 1), (''protected_key'', JStr (b64encode test_key)),
        (''retired_receipt_keys'', JArr []), (''protector'', JStr ''mode-0600''),
        (''actor_os_isolation_proven'', JBool False), (''created_at_epoch'', JInt 0)]),
     used_markers = []\<rparr>)]\<rparr>"

section \<open>Minting and consuming\<close>

lemma split_dot_plain: "CHR ''.'' \<notin> set u \<Longrightarrow> split_dot cur u = [rev cur @ u]"
  by (induction cur u rule: split_dot.induct) auto

lemma split_dot_dot: "CHR ''.'' \<notin> set u \<Longrightarrow> split_dot cur (u @ CHR ''.'' # v) = (rev cur @ u) # split_dot [] v"
  by (induction u arbitrary: cur) auto

lemma token_parts_encode:
  assumes "body \<noteq> []" "sig \<noteq> []"
  shows "token_parts (b64encode body @ ''.'' @ b64encode sig) = Inr (body, sig)"
proof -
  have "CHR ''.'' \<notin> set (b64encode x)" for x
    using b64encode_chars [of x] by (auto simp: list_all_iff)
  then show ?thesis
    using assms by (simp add: token_parts_def split_dot_dot split_dot_plain)
qed

text \<open>Dictionaries without nested objects whose texts are ASCII, as in a proof.\<close>

definition flat_ascii :: "dict \<Rightarrow> bool" where
  "flat_ascii d \<longleftrightarrow>
     distinct (map fst d)
     \<and> (\<forall>p\<in>set d. is_ascii (fst p) \<and>
          (snd p = JNull \<or> (\<exists>n. snd p = JInt n) \<or> (\<exists>s. snd p = JStr s \<and> is_ascii s)))"

lemma flat_ascii_wf: "flat_ascii d \<Longrightarrow> wf_json (JObj d) \<and> ascii_json (JObj d)"
  by (fastforce simp: flat_ascii_def wf_json_JObj list_all_iff)

lemma flat_ascii_sort_keys: "flat_ascii d \<Longrightarrow> sort_keys (JObj d) = JObj (sort_key fst d)"
proof -
  assume "flat_ascii d"
  then have "map (map_prod (\<lambda>k. k) sort_keys) d = d"
    by (intro map_idI) (auto simp: flat_ascii_def map_prod_def split: prod.splits)
  then show ?thesis by simp
qed

lemma token_body_canonical:
  assumes "flat_ascii d"
  shows "token_body (canonical_json (JObj d)) = Inr (sort_key fst d)"
proof -
  have "loads (canonical_json (JObj d)) = Some (JObj (sort_key fst d))"
    using loads_dumps [of "[]" "[]" "[]" "JObj d"] flat_ascii_wf [OF assms] flat_ascii_sort_keys [OF assms]
    by (simp add: canonical_json_def)
  moreover have "canonical_json (JObj (sort_key fst d)) = canonical_json (JObj d)"
    using dumps_sort_keys [of "'',''" "'':''" "JObj d"] flat_ascii_sort_keys [OF assms]
      flat_ascii_wf [OF assms] by (simp add: canonical_json_def)
  moreover have "list_all plain_char (canonical_json (JObj d))"
    unfolding canonical_json_def using flat_ascii_wf [OF assms]
    by (intro plain_dumps) (auto simp: plain_char_def)
  then have "utf8_valid (canonical_json (JObj d))"
    by (intro utf8_valid_ascii) (auto simp: list_all_iff plain_char_def)
  ultimately show ?thesis by simp
qed

lemma dget_sort_key: "distinct (map fst d) \<Longrightarrow> dget_or (sort_key fst d) k w = dget_or d k w"
  by (simp add: dget_or_def map_of_sort_key)

lemma id_ascii:
  "TASK_ID_RE s \<Longrightarrow> is_ascii s" "AGENT_ID_RE s \<Longrightarrow> is_ascii s" "OPERATION_RE s \<Longrightarrow> is_ascii s"
  by (auto simp: TASK_ID_RE_def AGENT_ID_RE_def OPERATION_RE_def fullmatch_head_rest_def is_ascii_def
      list_all_iff task_id_char_def agent_id_head_def agent_id_char_def operation_char_def char_class_defs
      split: list.splits)

lemma binding_fields_eq_Inr:
  "binding_fields t rn at = Inr binding \<Longrightarrow>
     binding = [(''task_id'', opt_str t), (''run_id'', opt_str rn), (''task_attempt'', at)]
     \<and> (t = None \<or> (\<exists>s. t = Some s \<and> TASK_ID_RE s))
     \<and> (rn = None \<or> (\<exists>s. rn = Some s \<and> fullmatch_hex 32 s))
     \<and> (at = JNull \<or> (\<exists>n. at = JInt n \<and> 1 \<le> n))"
  by (auto simp: binding_fields_def split: if_splits option.splits)

lemma flat_token_payload:
  assumes "is_ascii ws" "AGENT_ID_RE actor" "OPERATION_RE operation" "fullmatch_hex 48 nonce"
    and "binding_fields t rn at = Inr binding"
  shows "flat_ascii (token_payload ws actor operation nonce (JInt n) i e binding)"
  using assms id_ascii hex_ascii binding_fields_eq_Inr [OF assms(5)]
  by (auto simp: flat_ascii_def token_payload_def is_ascii_def opt_str_def split: option.splits)

lemma mint_eq_Inr:
  "mint H ws st now nonce actor operation secret ttl t rn at = Inr token \<longleftrightarrow>
     (\<exists>r key binding. OPERATION_RE operation \<and> 1 \<le> ttl \<and> ttl \<le> MAX_TTL_SECONDS
        \<and> secret_bytes secret ''Actor credential'' = Inr secret
        \<and> cap_record ws st actor = Inr r \<and> cap_key H ws actor r = Inr key
        \<and> key = derive_key H ws actor secret \<and> fullmatch_hex 48 nonce
        \<and> binding_fields t rn at = Inr binding
        \<and> (let body = canonical_json (JObj (token_payload ws actor operation nonce (dget r ''key_version'')
                 now (now + ttl) binding))
           in token = b64encode body @ ''.'' @ b64encode (hmac_raw H key body)))"
  by (auto simp: mint_def secret_bytes_def Let_def split: if_splits)

lemma mint_check_proof:
  assumes "mint H ws st now0 nonce actor operation secret ttl t rn at = Inr token"
    and "host_laws H" "is_ascii ws" "length token \<le> MAX_TOKEN_BYTES" "now0 \<le> now + 5" "now < now0 + ttl"
  shows "\<exists>binding payload key r.
    check_proof H ws st now actor operation token t rn at = Inr (binding, payload, key, r, nonce)
    \<and> dget payload ''issued_at_epoch'' = JInt now0"
proof -
  obtain r key binding where m: "OPERATION_RE operation" "1 \<le> ttl" "ttl \<le> MAX_TTL_SECONDS"
      "cap_record ws st actor = Inr r" "cap_key H ws actor r = Inr key" "fullmatch_hex 48 nonce"
      "binding_fields t rn at = Inr binding"
    and tok: "token = b64encode (canonical_json (JObj (token_payload ws actor operation nonce
          (dget r ''key_version'') now0 (now0 + ttl) binding))) @ ''.'' @
        b64encode (hmac_raw H key (canonical_json (JObj (token_payload ws actor operation nonce
          (dget r ''key_version'') now0 (now0 + ttl) binding))))"
    using assms(1) by (auto simp: mint_eq_Inr Let_def)
  obtain n where n: "dget r ''key_version'' = JInt n" using cap_record_version [OF m(4)] by blast
  define d where "d = token_payload ws actor operation nonce (JInt n) now0 (now0 + ttl) binding"
  have flat: "flat_ascii d"
    unfolding d_def using assms(3) m by (intro flat_token_payload) (auto simp: cap_record_eq_Inr)
  have "length (hmac_raw H key (canonical_json (JObj d))) = 32" using assms(2) by (simp add: host_laws_def)
  then have parts: "token_parts token = Inr (canonical_json (JObj d), hmac_raw H key (canonical_json (JObj d)))"
    unfolding tok n d_def [symmetric] by (intro token_parts_encode) (auto simp: canonical_json_def)
  have get: "dget (sort_key fst d) k = dget d k" for k
    using flat by (simp add: flat_ascii_def dget_sort_key)
  have "proof_scope ws actor operation r binding (sort_key fst d)"
    using binding_fields_eq_Inr [OF m(7)] n
    by (auto simp: proof_scope_def get d_def token_payload_def opt_str_def split: option.splits)
  moreover have "token \<noteq> []" by (simp add: tok)
  ultimately show ?thesis
    using m assms(4-6) parts token_body_canonical [OF flat] get
    by (auto simp: check_proof_eq_Inr d_def token_payload_def simp del: token_body_eq_Inr intro!: exI)
qed

text \<open>
  Property C32: a proof minted with the actor's credential is accepted for exactly the operation
  and binding it was minted for, from five seconds before its issue to its expiry, when its
  marker has not been used; consuming it yields a receipt.
\<close>

theorem minted_proof_accepted:
  assumes "mint H ws st now0 nonce actor operation secret ttl t rn at = Inr token"
    and "host_laws H" "is_ascii ws" "length token \<le> MAX_TOKEN_BYTES" "\<not> home_reparse H"
    and "now0 \<le> now + 5" "now < now0 + ttl"
    and "\<And>v. file_of (used_markers (files_of st actor))
           (marker_digest H ws actor operation (sha256_hex H nonce) v) = Absent"
  shows "\<exists>receipt st'. verify_and_consume H ws now actor operation token t rn at st = (Inr receipt, st')
    \<and> dget receipt ''actor'' = JStr actor \<and> dget receipt ''operation'' = JStr operation
    \<and> dget receipt ''task_id'' = opt_str t \<and> dget receipt ''run_id'' = opt_str rn"
proof -
  obtain binding payload key r where check:
    "check_proof H ws st now actor operation token t rn at = Inr (binding, payload, key, r, nonce)"
    using mint_check_proof [OF assms(1-4,6,7)] by blast
  then have "binding_fields t rn at = Inr binding" by (auto simp: check_proof_eq_Inr)
  then have "binding = [(''task_id'', opt_str t), (''run_id'', opt_str rn), (''task_attempt'', at)]"
    using binding_fields_eq_Inr by blast
  with check assms(5,8) show ?thesis
    unfolding verify_and_consume_eq_Inr by (auto simp: Let_def receipt_of_def receipt_body_def)
qed

text \<open>The concrete host mints a proof for the bootstrapped actor.\<close>

definition test_body :: "string \<Rightarrow> string \<Rightarrow> string" where
  "test_body operation nonce = canonical_json (JObj (token_payload ''ws'' ''codex'' operation nonce (JInt 1) 100 220
     [(''task_id'', JNull), (''run_id'', JNull), (''task_attempt'', JNull)]))"

definition token_for :: "string \<Rightarrow> string \<Rightarrow> string" where
  "token_for operation nonce =
     b64encode (test_body operation nonce) @ ''.'' @ b64encode (hmac_raw test_host test_key (test_body operation nonce))"

abbreviation test_token :: string where
  "test_token \<equiv> token_for ''task.add'' test_nonce"

lemma length_test_key: "length test_key = 32"
  using test_host_laws by (simp add: host_laws_def test_key_def derive_key_def)

lemma provisioned_record:
  assumes "key_file (files_of st ''codex'') = key_file (files_of provisioned ''codex'')"
  shows "\<exists>r. cap_record ''ws'' st ''codex'' = Inr r \<and> cap_key test_host ''ws'' ''codex'' r = Inr test_key
     \<and> dget r ''key_version'' = JInt 1 \<and> dget_or r ''retired_receipt_keys'' (JArr []) = JArr []
     \<and> map_of r ''protected_key'' = Some (JStr (b64encode test_key))"
proof -
  have "AGENT_ID_RE ''codex''" by code_simp
  moreover have "test_key \<noteq> []" using length_test_key by auto
  ultimately show ?thesis
    using length_test_key assms
    by (simp add: cap_record_eq_Inr check_record_eq_Inr provisioned_def files_of_def cap_key_def unprotect_key_def)
      (auto simp: test_host_def)
qed

lemma provisioned_unused: "used_markers (files_of provisioned ''codex'') = []"
  by (simp add: provisioned_def files_of_def)

lemma mint_for:
  assumes "key_file (files_of st ''codex'') = key_file (files_of provisioned ''codex'')"
    and "OPERATION_RE operation" "fullmatch_hex 48 nonce"
  shows "mint test_host ''ws'' st 100 nonce ''codex'' operation test_secret 120 None None JNull
   = Inr (token_for operation nonce)"
proof -
  obtain r where r: "cap_record ''ws'' st ''codex'' = Inr r"
      "cap_key test_host ''ws'' ''codex'' r = Inr test_key" "dget r ''key_version'' = JInt 1"
    using provisioned_record [OF assms(1)] by blast
  have "secret_bytes test_secret ''Actor credential'' = Inr test_secret" by code_simp
  moreover have "binding_fields None None JNull
      = Inr [(''task_id'', JNull), (''run_id'', JNull), (''task_attempt'', JNull)]" by code_simp
  ultimately show ?thesis
    using r assms(2,3) by (auto simp: mint_eq_Inr Let_def token_for_def test_body_def test_key_def MAX_TTL_SECONDS_def)
qed

lemma token_length:
  assumes "length (test_body operation nonce) \<le> 400"
  shows "length (token_for operation nonce) \<le> MAX_TOKEN_BYTES"
proof -
  have "length (hmac_raw test_host test_key (test_body operation nonce)) = 32"
    using test_host_laws by (simp add: host_laws_def)
  then show ?thesis
    using assms length_b64encode [of "test_body operation nonce"]
      length_b64encode [of "hmac_raw test_host test_key (test_body operation nonce)"]
    by (simp add: token_for_def MAX_TOKEN_BYTES_def)
qed

lemma test_mint:
  "mint test_host ''ws'' provisioned 100 test_nonce ''codex'' ''task.add'' test_secret 120 None None JNull
   = Inr test_token"
  by (rule mint_for) (simp, code_simp, code_simp)

lemma test_token_length: "length test_token \<le> MAX_TOKEN_BYTES"
  by (rule token_length) code_simp

theorem minted_proof_accepted_witness:
  "\<exists>receipt st'. verify_and_consume test_host ''ws'' 101 ''codex'' ''task.add'' test_token None None JNull provisioned
      = (Inr receipt, st')
    \<and> dget receipt ''actor'' = JStr ''codex'' \<and> dget receipt ''operation'' = JStr ''task.add''
    \<and> dget receipt ''task_id'' = opt_str None \<and> dget receipt ''run_id'' = opt_str None"
  by (rule minted_proof_accepted [OF test_mint test_host_laws _ test_token_length])
    (simp_all add: is_ascii_def test_host_def provisioned_unused file_of_def)

lemma test_consume_at:
  assumes "95 \<le> now" "now < 220"
  shows "\<exists>receipt st'. verify_and_consume test_host ''ws'' now ''codex'' ''task.add'' test_token None None JNull provisioned
      = (Inr receipt, st') \<and> dget receipt ''issued_at_epoch'' = JInt 100"
proof -
  have "is_ascii ''ws''" by (simp add: is_ascii_def)
  then obtain binding payload key r where check:
    "check_proof test_host ''ws'' provisioned now ''codex'' ''task.add'' test_token None None JNull
       = Inr (binding, payload, key, r, test_nonce)" "dget payload ''issued_at_epoch'' = JInt 100"
    using mint_check_proof [OF test_mint test_host_laws _ test_token_length, of now] assms by auto
  moreover have "binding = [(''task_id'', JNull), (''run_id'', JNull), (''task_attempt'', JNull)]"
    using check(1) by (auto simp: check_proof_eq_Inr dest!: binding_fields_eq_Inr simp: opt_str_def)
  moreover have "\<not> home_reparse test_host" by (simp add: test_host_def)
  ultimately show ?thesis
    unfolding verify_and_consume_eq_Inr
    by (auto simp: Let_def provisioned_unused file_of_def receipt_of_def receipt_body_def)
qed

lemmas test_consume = test_consume_at [of 101, simplified]


theorem proof_single_use_witness:
  "\<exists>receipt st' e. verify_and_consume test_host ''ws'' 101 ''codex'' ''task.add'' test_token None None JNull provisioned
        = (Inr receipt, st')
     \<and> fst (verify_and_consume test_host ''ws'' 102 ''codex'' ''task.add'' test_token None None JNull st') = Inl e"
proof -
  obtain receipt st' where run: "verify_and_consume test_host ''ws'' 101 ''codex'' ''task.add'' test_token None None
      JNull provisioned = (Inr receipt, st')" using test_consume by blast
  have "\<exists>e. fst (verify_and_consume test_host ''ws'' 102 ''codex'' ''task.add'' test_token None None JNull st') = Inl e"
    using run by (rule proof_single_use) simp
  with run show ?thesis by blast
qed

section \<open>Properties of receipts\<close>

lemma receipt_keys:
  assumes "binding_fields t rn at = Inr binding"
  shows "exact_keys (receipt_of H ws actor operation now binding payload key r nonce) RECEIPT_KEYS"
  using binding_fields_eq_Inr [OF assms]
  by (auto simp: exact_keys_iff receipt_of_def receipt_body_def RECEIPT_KEYS_def Let_def)

lemma receipt_fields:
  assumes "binding_fields t rn at = Inr binding"
  shows "dget_or (receipt_of H ws actor operation now binding payload key r nonce) k w =
    (if k = ''signature'' then JStr (b64encode (hmac_raw H key (canonical_json (JObj
          (receipt_body H ws actor operation binding (sha256_hex H nonce) (dget r ''key_version'')
             (dget payload ''issued_at_epoch'') (dget payload ''expires_at_epoch'') now)))))
     else dget_or (receipt_body H ws actor operation binding (sha256_hex H nonce) (dget r ''key_version'')
             (dget payload ''issued_at_epoch'') (dget payload ''expires_at_epoch'') now) k w)"
  using binding_fields_eq_Inr [OF assms]
  by (auto simp: receipt_of_def receipt_body_def Let_def)

lemma receipt_unsigned:
  assumes "binding_fields t rn at = Inr binding"
  shows "filter (\<lambda>p. fst p \<noteq> ''signature'') (receipt_of H ws actor operation now binding payload key r nonce)
    = receipt_body H ws actor operation binding (sha256_hex H nonce) (dget r ''key_version'')
             (dget payload ''issued_at_epoch'') (dget payload ''expires_at_epoch'') now"
  using binding_fields_eq_Inr [OF assms]
  by (auto simp: receipt_of_def receipt_body_def Let_def)

lemma receipt_scope:
  assumes "host_laws H" "binding_fields t rn at = Inr binding" "dget r ''key_version'' = JInt n" "1 \<le> n"
    and "dget payload ''issued_at_epoch'' = JInt i" "dget payload ''expires_at_epoch'' = JInt e"
    and "now < e" "e - i \<le> MAX_TTL_SECONDS"
  shows "receipt_scope_ok H ws (receipt_of H ws actor operation now binding payload key r nonce) actor operation binding
    \<longleftrightarrow> i \<le> now"
proof -
  have "py_eq (JObj (os_principal_attestation H)) (JObj (os_principal_attestation H))"
    by (intro py_eq_refl) (simp add: os_principal_attestation_def)
  moreover have "fullmatch_hex 64 (sha256_hex H nonce)" using assms(1) by (simp add: host_laws_def)
  ultimately show ?thesis
    unfolding receipt_scope_ok_def receipt_fields [OF assms(2)]
    using assms(3-8) binding_fields_eq_Inr [OF assms(2)]
    by (auto simp: receipt_body_def is_false_def opt_str_def split: option.splits)
qed

text \<open>
  Validation of a receipt whose consumption record is in the store, given the key that signed
  it under the version the receipt names.
\<close>

lemma validate_consumed_receipt:
  assumes "host_laws H" "binding_fields t rn at = Inr binding" "dget r0 ''key_version'' = JInt n" "1 \<le> n"
    and "dget payload ''issued_at_epoch'' = JInt i" "dget payload ''expires_at_epoch'' = JInt e"
    and "now < e" "e - i \<le> MAX_TTL_SECONDS" "i \<le> now"
    and "cap_record ws st actor = Inr r" "receipt_key H ws actor r n = Inr key"
    and receipt: "receipt = receipt_of H ws actor operation now binding payload key r0 nonce"
    and marker: "file_of (used_markers (files_of st actor))
           (marker_digest H ws actor operation (sha256_hex H nonce) (JInt n)) = consumed_marker H now receipt"
  shows "validate_receipt H ws st (JObj receipt) actor operation t rn at False = Inr receipt"
proof -
  have "hmac_raw H key x \<noteq> []" for x using assms(1) by (metis host_laws_def length_0_conv zero_neq_numeral)
  then have sig: "b64decode (py_str (dget_or receipt ''signature'' (JStr [])))
      = Inr (hmac_raw H key (canonical_json (JObj (filter (\<lambda>p. fst p \<noteq> ''signature'') receipt))))"
    unfolding receipt receipt_unsigned [OF assms(2)] receipt_fields [OF assms(2)] by simp
  have fields: "dget receipt ''key_version'' = JInt n" "dget receipt ''nonce_sha256'' = JStr (sha256_hex H nonce)"
      "dget receipt ''consumed_at_epoch'' = JInt now"
    unfolding receipt receipt_fields [OF assms(2)] using assms(3) binding_fields_eq_Inr [OF assms(2)]
    by (auto simp: receipt_body_def)
  have "exact_keys receipt RECEIPT_KEYS" unfolding receipt by (rule receipt_keys [OF assms(2)])
  moreover have "receipt_scope_ok H ws receipt actor operation binding"
    unfolding receipt using receipt_scope [OF assms(1-8)] assms(9) by blast
  ultimately show ?thesis
    using assms(2,10,11) sig fields marker
    by (simp add: validate_receipt_def Let_def consumed_marker_def read_json_def)
qed

text \<open>
  Property C33: the receipt that consuming a proof returns validates against the store afterwards,
  for the same actor, operation and binding, unless the proof was issued by a clock ahead of the
  one that consumed it.
\<close>

theorem receipt_validates:
  assumes "host_laws H"
    and "verify_and_consume H ws now actor operation token t rn at st = (Inr receipt, st')"
    and "dget receipt ''issued_at_epoch'' = JInt i" "i \<le> now"
  shows "validate_receipt H ws st' (JObj receipt) actor operation t rn at False = Inr receipt"
proof -
  obtain binding payload key r nonce where
    check: "check_proof H ws st now actor operation token t rn at = Inr (binding, payload, key, r, nonce)"
    and receipt: "receipt = receipt_of H ws actor operation now binding payload key r nonce"
    and st': "st' = set_files actor ((files_of st actor)\<lparr>used_markers := alist_put
        (marker_digest H ws actor operation (sha256_hex H nonce) (dget r ''key_version''))
        (consumed_marker H now receipt) (used_markers (files_of st actor))\<rparr>) st"
    using assms(2) by (auto simp: verify_and_consume_eq_Inr Let_def)
  from check have b: "binding_fields t rn at = Inr binding" and cr: "cap_record ws st actor = Inr r"
    and ck: "cap_key H ws actor r = Inr key" and "proof_lifetime now payload = Inr ()"
    by (auto simp only: check_proof_eq_Inr)
  then obtain i' e where times: "dget payload ''issued_at_epoch'' = JInt i'" "dget payload ''expires_at_epoch'' = JInt e"
      "now < e" "e - i' \<le> MAX_TTL_SECONDS" by auto
  obtain n where n: "dget r ''key_version'' = JInt n" "1 \<le> n" using cap_record_version [OF cr] by blast
  have "i' = i"
    using assms(3) times(1) binding_fields_eq_Inr [OF b] unfolding receipt receipt_fields [OF b]
    by (auto simp: receipt_body_def)
  moreover have "cap_record ws st' actor = Inr r" using cr by (simp add: cap_record_eq_Inr st')
  moreover have "receipt_key H ws actor r n = Inr key" using n ck by (simp add: receipt_key_def)
  ultimately show ?thesis
    using validate_consumed_receipt [OF assms(1) b n times _ _ _ receipt] assms(4) n
    by (simp add: st')
qed

text \<open>
  Property C34: the five seconds of clock skew that consumption tolerates are not tolerated by
  validation. A proof issued ahead of the consuming clock is accepted and consumed, but the
  receipt it leaves is refused by every later validation.
\<close>

theorem skewed_receipt_never_validates:
  assumes "host_laws H"
    and "verify_and_consume H ws now actor operation token t rn at st = (Inr receipt, st')"
    and "dget receipt ''issued_at_epoch'' = JInt i" "now < i"
  shows "validate_receipt H ws later (JObj receipt) actor operation t rn at require
    = raise AuthorizationError ''Actor capability receipt scope is invalid''"
proof -
  obtain binding payload key r nonce where
    check: "check_proof H ws st now actor operation token t rn at = Inr (binding, payload, key, r, nonce)"
    and receipt: "receipt = receipt_of H ws actor operation now binding payload key r nonce"
    using assms(2) by (auto simp: verify_and_consume_eq_Inr Let_def)
  from check have b: "binding_fields t rn at = Inr binding" by (auto simp only: check_proof_eq_Inr)
  have consumed: "dget receipt ''consumed_at_epoch'' = JInt now"
    using binding_fields_eq_Inr [OF b] unfolding receipt receipt_fields [OF b] by (auto simp: receipt_body_def)
  have "\<not> receipt_scope_ok H ws receipt actor operation binding"
    using assms(3,4) consumed by (auto simp: receipt_scope_ok_def split: option.splits)
  moreover have "exact_keys receipt RECEIPT_KEYS" unfolding receipt by (rule receipt_keys [OF b])
  ultimately show ?thesis using b by (simp add: validate_receipt_def)
qed

theorem receipt_validates_witness:
  "\<exists>receipt st'. verify_and_consume test_host ''ws'' 101 ''codex'' ''task.add'' test_token None None JNull provisioned
        = (Inr receipt, st')
     \<and> validate_receipt test_host ''ws'' st' (JObj receipt) ''codex'' ''task.add'' None None JNull False = Inr receipt"
proof -
  obtain receipt st' where run: "verify_and_consume test_host ''ws'' 101 ''codex'' ''task.add'' test_token None None
      JNull provisioned = (Inr receipt, st')" and i: "dget receipt ''issued_at_epoch'' = JInt 100"
    using test_consume by blast
  have "validate_receipt test_host ''ws'' st' (JObj receipt) ''codex'' ''task.add'' None None JNull False = Inr receipt"
    by (rule receipt_validates [OF test_host_laws run i]) simp
  with run show ?thesis by blast
qed

theorem skewed_receipt_never_validates_witness:
  "\<exists>receipt st'. verify_and_consume test_host ''ws'' 97 ''codex'' ''task.add'' test_token None None JNull provisioned
        = (Inr receipt, st')
     \<and> validate_receipt test_host ''ws'' st' (JObj receipt) ''codex'' ''task.add'' None None JNull False
        = raise AuthorizationError ''Actor capability receipt scope is invalid''"
proof -
  obtain receipt st' where run: "verify_and_consume test_host ''ws'' 97 ''codex'' ''task.add'' test_token None None
      JNull provisioned = (Inr receipt, st')" and i: "dget receipt ''issued_at_epoch'' = JInt 100"
    using test_consume_at [of 97] by auto
  have "validate_receipt test_host ''ws'' st' (JObj receipt) ''codex'' ''task.add'' None None JNull False
      = raise AuthorizationError ''Actor capability receipt scope is invalid''"
    by (rule skewed_receipt_never_validates [OF test_host_laws run i]) simp
  with run show ?thesis by blast
qed

section \<open>Properties of key management\<close>

lemma verify_and_consume_keeps:
  assumes "verify_and_consume H ws now actor operation token t rn at st = (res, st')"
  shows "key_file (files_of st' a) = key_file (files_of st a)"
    and "file_of (used_markers (files_of st a)) m \<noteq> Absent \<Longrightarrow>
      file_of (used_markers (files_of st' a)) m = file_of (used_markers (files_of st a)) m"
proof -
  have "st' = st \<or> (\<exists>m f. file_of (used_markers (files_of st actor)) m = Absent \<and>
      st' = set_files actor ((files_of st actor)\<lparr>used_markers := alist_put m f (used_markers (files_of st actor))\<rparr>) st)"
  proof (cases res)
    case (Inr receipt)
    with assms show ?thesis by (auto simp: verify_and_consume_eq_Inr Let_def)
  next
    case (Inl e)
    with assms show ?thesis
      by (auto simp: verify_and_consume_def keep_def Let_def split: sum.splits if_splits prod.splits)
  qed
  then show "key_file (files_of st' a) = key_file (files_of st a)"
    and "file_of (used_markers (files_of st a)) m \<noteq> Absent \<Longrightarrow>
      file_of (used_markers (files_of st' a)) m = file_of (used_markers (files_of st a)) m"
    by auto
qed

text \<open>The versions of the retired keys are below the current one.\<close>

lemma retired_ok_versions:
  "rfold (retired_ok n) retired seen = Inr seen' \<Longrightarrow> item \<in> set retired \<Longrightarrow>
     \<exists>r m. item = JObj r \<and> dget r ''key_version'' = JInt m \<and> m < n"
proof (induction retired arbitrary: seen)
  case (Cons x xs)
  then obtain s where "retired_ok n x seen = Inr s" and rest: "rfold (retired_ok n) xs s = Inr seen'" by auto
  then have "\<exists>r m. x = JObj r \<and> dget r ''key_version'' = JInt m \<and> m < n"
    by (cases x; cases "strict_int (vget x ''key_version'')"; cases "vget x ''protected_key''")
      (auto simp: retired_ok_def split: if_splits)
  with Cons rest show ?case by auto
qed simp

lemma find_append_none: "(\<forall>x\<in>set xs. \<not> P x) \<Longrightarrow> find P (xs @ ys) = find P ys"
  by (induction xs) auto

text \<open>What a successful rotation did.\<close>

lemma rotate_eq_Inr:
  assumes "rotate H ws now rotated_at actor token secret st = (Inr status, st2)"
  shows "\<exists>receipt st1 r n xs old protected rotated.
    verify_and_consume H ws now actor ''capability.rotate'' token None None JNull st = (Inr receipt, st1)
    \<and> cap_record ws st1 actor = Inr r \<and> dget r ''key_version'' = JInt n
    \<and> dget_or r ''retired_receipt_keys'' (JArr []) = JArr xs \<and> map_of r ''protected_key'' = Some old
    \<and> dpapi_protect H (derive_key H ws actor secret) (entropy H ws actor) = Inr protected
    \<and> st2 = set_files actor ((files_of st1 actor)\<lparr>key_file := Content (JObj rotated)\<rparr>) st1
    \<and> cap_record ws st2 actor = Inr rotated
    \<and> dget rotated ''key_version'' = JInt (n + 1)
    \<and> dget_or rotated ''protected_key'' (JStr []) = JStr (b64encode protected)
    \<and> dget_or rotated ''retired_receipt_keys'' (JArr [])
        = JArr (xs @ [JObj [(''key_version'', JInt n), (''protected_key'', old)]])"
proof -
  obtain receipt st1 where vc:
    "verify_and_consume H ws now actor ''capability.rotate'' token None None JNull st = (Inr receipt, st1)"
    using assms
    by (cases "verify_and_consume H ws now actor ''capability.rotate'' token None None JNull st")
      (auto simp: rotate_def keep_def split: sum.splits)
  obtain r where r: "cap_record ws st1 actor = Inr r"
    using assms vc by (auto simp: rotate_def keep_def split: sum.splits)
  obtain n xs where n: "dget r ''key_version'' = JInt n" and xs: "dget_or r ''retired_receipt_keys'' (JArr []) = JArr xs"
    using r by (auto simp: cap_record_eq_Inr check_record_eq_Inr)
  obtain old protected where old: "map_of r ''protected_key'' = Some old"
    and prot: "dpapi_protect H (derive_key H ws actor secret) (entropy H ws actor) = Inr protected"
    using assms vc r by (auto simp: rotate_def keep_def secret_bytes_def ditem_def split: sum.splits if_splits option.splits)
  define rotated where "rotated = dupdate r
      [(''key_version'', JInt (n + 1)), (''protected_key'', JStr (b64encode protected)),
       (''retired_receipt_keys'', JArr (xs @ [JObj [(''key_version'', JInt n), (''protected_key'', old)]])),
       (''rotated_at_epoch'', JInt rotated_at), (''actor_os_isolation_proven'', JBool False)]"
  have st2: "st2 = set_files actor ((files_of st1 actor)\<lparr>key_file := Content (JObj rotated)\<rparr>) st1"
    and status: "cap_status ws st2 actor = Inr status"
    using assms vc r n xs old prot
    by (auto simp: rotate_def keep_def secret_bytes_def ditem_def Let_def rotated_def split: sum.splits if_splits)
  have "cap_record ws st2 actor = Inr rotated"
    using status st2 by (auto simp: cap_status_def actor_dir_def cap_record_eq_Inr split: if_splits)
  moreover have "dget rotated ''key_version'' = JInt (n + 1)"
      "dget_or rotated ''protected_key'' (JStr []) = JStr (b64encode protected)"
      "dget_or rotated ''retired_receipt_keys'' (JArr [])
        = JArr (xs @ [JObj [(''key_version'', JInt n), (''protected_key'', old)]])"
    by (simp_all add: rotated_def)
  ultimately show ?thesis using vc r n xs old prot st2 by blast
qed

lemma unprotect_key_message:
  "unprotect_key H ws actor protected m = Inr key \<Longrightarrow> unprotect_key H ws actor protected m' = Inr key"
  by (auto simp: unprotect_key_def split: if_splits)

lemma rotated_receipt_key:
  assumes "check_record ws actor r = Inr ()" "dget r ''key_version'' = JInt n" "cap_key H ws actor r = Inr key"
    and "dget_or r ''retired_receipt_keys'' (JArr []) = JArr xs" "map_of r ''protected_key'' = Some old"
    and "dget rotated ''key_version'' = JInt (n + 1)"
    and "dget_or rotated ''retired_receipt_keys'' (JArr [])
        = JArr (xs @ [JObj [(''key_version'', JInt n), (''protected_key'', old)]])"
  shows "receipt_key H ws actor rotated n = Inr key"
proof -
  obtain seen where "rfold (retired_ok n) xs [] = Inr seen" using assms(1,2,4) by (auto simp: check_record_eq_Inr)
  then have "\<forall>item\<in>set xs. \<not> py_eq (vget item ''key_version'') (JInt n)"
    using retired_ok_versions by fastforce
  then have "find (\<lambda>item. py_eq (vget item ''key_version'') (JInt n))
      (xs @ [JObj [(''key_version'', JInt n), (''protected_key'', old)]])
      = Some (JObj [(''key_version'', JInt n), (''protected_key'', old)])"
    by (simp add: find_append_none)
  moreover have "unprotect_key H ws actor old ''Actor capability retired verifier key is invalid'' = Inr key"
    using assms(3,5) unprotect_key_message by (auto simp: cap_key_def dget_or_def)
  ultimately show ?thesis using assms(6,7) by (simp add: receipt_key_def)
qed

text \<open>
  Rotation replaces the credential and keeps the past verifiable. After a key is
  rotated, a receipt issued under the old key still validates, through the retired key, and the
  current key is the one derived from the new secret.
\<close>

theorem rotation_keeps_receipts:
  assumes "host_laws H"
    and "verify_and_consume H ws now actor operation token t rn at st = (Inr receipt, st1)"
    and "dget receipt ''issued_at_epoch'' = JInt i" "i \<le> now"
    and "rotate H ws now' rotated_at actor token' secret st1 = (Inr status, st3)"
  shows "validate_receipt H ws st3 (JObj receipt) actor operation t rn at False = Inr receipt
    \<and> (\<exists>r. cap_record ws st3 actor = Inr r \<and> cap_key H ws actor r = Inr (derive_key H ws actor secret))"
proof
  obtain binding payload key r0 nonce where
    check: "check_proof H ws st now actor operation token t rn at = Inr (binding, payload, key, r0, nonce)"
    and receipt: "receipt = receipt_of H ws actor operation now binding payload key r0 nonce"
    and st1: "st1 = set_files actor ((files_of st actor)\<lparr>used_markers := alist_put
        (marker_digest H ws actor operation (sha256_hex H nonce) (dget r0 ''key_version''))
        (consumed_marker H now receipt) (used_markers (files_of st actor))\<rparr>) st"
    using assms(2) by (auto simp: verify_and_consume_eq_Inr Let_def)
  from check have b: "binding_fields t rn at = Inr binding" and cr: "cap_record ws st actor = Inr r0"
    and ck: "cap_key H ws actor r0 = Inr key" and "proof_lifetime now payload = Inr ()"
    by (auto simp only: check_proof_eq_Inr)
  then obtain i' e where times: "dget payload ''issued_at_epoch'' = JInt i'" "dget payload ''expires_at_epoch'' = JInt e"
      "now < e" "e - i' \<le> MAX_TTL_SECONDS" by auto
  have "i' = i"
    using assms(3) times(1) binding_fields_eq_Inr [OF b] unfolding receipt receipt_fields [OF b]
    by (auto simp: receipt_body_def)
  then have "i' \<le> now" using assms(4) by simp
  obtain rc st2 r n xs old protected rotated where
    rot: "verify_and_consume H ws now' actor ''capability.rotate'' token' None None JNull st1 = (Inr rc, st2)"
      "cap_record ws st2 actor = Inr r" "dget r ''key_version'' = JInt n"
      "dget_or r ''retired_receipt_keys'' (JArr []) = JArr xs" "map_of r ''protected_key'' = Some old"
      "dpapi_protect H (derive_key H ws actor secret) (entropy H ws actor) = Inr protected"
      "st3 = set_files actor ((files_of st2 actor)\<lparr>key_file := Content (JObj rotated)\<rparr>) st2"
      "cap_record ws st3 actor = Inr rotated" "dget rotated ''key_version'' = JInt (n + 1)"
      "dget_or rotated ''protected_key'' (JStr []) = JStr (b64encode protected)"
      "dget_or rotated ''retired_receipt_keys'' (JArr [])
        = JArr (xs @ [JObj [(''key_version'', JInt n), (''protected_key'', old)]])"
    using rotate_eq_Inr [OF assms(5)] by blast
  have "r = r0" using cr rot(2) verify_and_consume_keeps(1) [OF rot(1), of actor]
    by (auto simp: cap_record_eq_Inr st1)
  then have "receipt_key H ws actor rotated n = Inr key"
    using rot ck by (intro rotated_receipt_key) (auto simp: cap_record_eq_Inr)
  moreover have "file_of (used_markers (files_of st3 actor))
      (marker_digest H ws actor operation (sha256_hex H nonce) (JInt n)) = consumed_marker H now receipt"
    using verify_and_consume_keeps(2) [OF rot(1), of actor "marker_digest H ws actor operation (sha256_hex H nonce) (JInt n)"]
      rot(3,7) \<open>r = r0\<close> by (simp add: st1 consumed_marker_def)
  moreover have "1 \<le> n" using rot(3) cap_record_version [OF rot(2)] by auto
  ultimately show "validate_receipt H ws st3 (JObj receipt) actor operation t rn at False = Inr receipt"
    using validate_consumed_receipt [OF assms(1) b _ _ times \<open>i' \<le> now\<close> rot(8) _ receipt] rot(3) \<open>r = r0\<close> by blast
  have "protected \<noteq> []" "dpapi_unprotect H protected (entropy H ws actor) = Inr (derive_key H ws actor secret)"
      "length (derive_key H ws actor secret) = 32"
    using assms(1) rot(6) by (auto simp: host_laws_def derive_key_def)
  then have "cap_key H ws actor rotated = Inr (derive_key H ws actor secret)"
    by (simp add: cap_key_def unprotect_key_def rot(10))
  with rot(8) show "\<exists>r. cap_record ws st3 actor = Inr r \<and> cap_key H ws actor r = Inr (derive_key H ws actor secret)"
    by blast
qed

text \<open>
  A guard is consumed by the one bootstrap that presents its secret. A successful
  bootstrap matched the guard, removed it, stored version 1 of the key derived from the secret,
  and every further bootstrap or provisioning of the actor is refused.
\<close>

theorem bootstrap_consumes_guard:
  assumes "host_laws H" "bootstrap H ws now actor secret st = (Inr status, st')"
  shows "(\<exists>guard. guard_file (files_of st actor) = Content (JObj guard)
            \<and> b64decode (py_str (dget_or guard ''guard_digest'' (JStr []))) = Inr (guard_digest H ws actor secret))
    \<and> guard_file (files_of st' actor) = Absent
    \<and> (\<exists>r. cap_record ws st' actor = Inr r \<and> dget r ''key_version'' = JInt 1
          \<and> cap_key H ws actor r = Inr (derive_key H ws actor secret))
    \<and> (\<forall>now' secret'. (\<exists>m. fst (bootstrap H ws now' actor secret' st') = raise AuthorizationError m)
          \<and> (\<exists>m. fst (provision_guard H ws now' actor secret' st') = raise AuthorizationError m))"
proof -
  obtain guard where actor: "AGENT_ID_RE actor" and guard: "guard_file (files_of st actor) = Content (JObj guard)"
    using assms(2) by (auto simp: bootstrap_def keep_def actor_dir_def split: sum.splits if_splits)
  have ad: "actor_dir st actor = Inr (files_of st actor)" using actor by (simp add: actor_dir_def)
  obtain protected where
    g: "b64decode (py_str (dget_or guard ''guard_digest'' (JStr []))) = Inr (guard_digest H ws actor secret)"
    and p: "dpapi_protect H (derive_key H ws actor secret) (entropy H ws actor) = Inr protected"
    using assms(2) guard ad by (auto simp: bootstrap_def keep_def secret_bytes_def split: sum.splits if_splits)
  define r where "r = [(''schema_version'', JInt 1), (''workspace_id'', JStr ws), (''actor'', JStr actor),
      (''key_version'', JInt 1), (''protected_key'', JStr (b64encode protected)), (''retired_receipt_keys'', JArr []),
      (''protector'', JStr (if os_name_nt H then ''windows-dpapi-current-user'' else ''mode-0600'')),
      (''actor_os_isolation_proven'', JBool False), (''created_at_epoch'', JInt now)]"
  have st': "st' = set_files actor ((files_of st actor)\<lparr>key_file := Content (JObj r), guard_file := Absent\<rparr>) st"
    using assms(2) guard g p ad
    by (auto simp: bootstrap_def keep_def secret_bytes_def secure_directory_def Let_def r_def
        split: sum.splits if_splits)
  have "protected \<noteq> []" "dpapi_unprotect H protected (entropy H ws actor) = Inr (derive_key H ws actor secret)"
      "length (derive_key H ws actor secret) = 32"
    using assms(1) p by (auto simp: host_laws_def derive_key_def)
  then have "cap_key H ws actor r = Inr (derive_key H ws actor secret)"
    by (simp add: cap_key_def unprotect_key_def r_def)
  moreover have "cap_record ws st' actor = Inr r"
    using actor by (simp add: cap_record_eq_Inr check_record_eq_Inr st' r_def)
  moreover have "dget r ''key_version'' = JInt 1" by (simp add: r_def)
  moreover have "(\<exists>m. fst (bootstrap H ws now' actor secret' st') = raise AuthorizationError m)
      \<and> (\<exists>m. fst (provision_guard H ws now' actor secret' st') = raise AuthorizationError m)" for now' secret'
    using actor
    by (auto simp: bootstrap_def provision_guard_def keep_def secret_bytes_def actor_dir_def st' raise_def)
  ultimately show ?thesis using guard g by (auto simp: st')
qed

lemma cap_status_defined:
  assumes "cap_record ws st actor = Inr r"
  shows "\<exists>status. cap_status ws st actor = Inr status"
proof -
  have "AGENT_ID_RE actor" "key_file (files_of st actor) \<noteq> Absent" using assms by (auto simp: cap_record_eq_Inr)
  then show ?thesis using assms by (simp add: cap_status_def actor_dir_def)
qed

lemma cap_status_isolation: "cap_status ws st actor = Inr s \<Longrightarrow> dget s ''actor_os_isolation_proven'' = JBool False"
  by (auto simp: cap_status_def)

lemma cap_status_state:
  "cap_status ws st actor = Inr s \<Longrightarrow> dget s ''state'' = JStr ''provisioned'' \<longleftrightarrow> (\<exists>r. cap_record ws st actor = Inr r)"
  by (auto simp: cap_status_def cap_record_def actor_dir_def split: if_splits)

text \<open>A second proof, for the rotation, and the rotation of the concrete actor.\<close>

definition rotate_nonce :: string where "rotate_nonce = replicate 48 CHR ''2''"

abbreviation rotate_token :: string where
  "rotate_token \<equiv> token_for ''capability.rotate'' rotate_nonce"

lemma consume_for:
  assumes "key_file (files_of st ''codex'') = key_file (files_of provisioned ''codex'')"
    and "OPERATION_RE operation" "fullmatch_hex 48 nonce" "length (test_body operation nonce) \<le> 400"
    and "file_of (used_markers (files_of st ''codex''))
           (marker_digest test_host ''ws'' ''codex'' operation (sha256_hex test_host nonce) (JInt 1)) = Absent"
  shows "\<exists>receipt st'. verify_and_consume test_host ''ws'' 101 ''codex'' operation (token_for operation nonce)
      None None JNull st = (Inr receipt, st')
    \<and> dget receipt ''key_version'' = JInt 1 \<and> dget receipt ''issued_at_epoch'' = JInt 100
    \<and> (\<forall>m. m \<noteq> marker_digest test_host ''ws'' ''codex'' operation (sha256_hex test_host nonce) (JInt 1)
          \<longrightarrow> file_of (used_markers (files_of st' ''codex'')) m = file_of (used_markers (files_of st ''codex'')) m)"
proof -
  have "is_ascii ''ws''" by (simp add: is_ascii_def)
  then obtain binding payload key r where check:
    "check_proof test_host ''ws'' st 101 ''codex'' operation (token_for operation nonce) None None JNull
       = Inr (binding, payload, key, r, nonce)" "dget payload ''issued_at_epoch'' = JInt 100"
    using mint_check_proof [OF mint_for [OF assms(1-3)] test_host_laws _ token_length [OF assms(4)], of 101] by auto
  from check(1) have b: "binding_fields None None JNull = Inr binding" and cr: "cap_record ''ws'' st ''codex'' = Inr r"
    by (auto simp only: check_proof_eq_Inr)
  have "dget r ''key_version'' = JInt 1" using provisioned_record [OF assms(1)] cr by auto
  moreover have "\<not> home_reparse test_host" by (simp add: test_host_def)
  ultimately show ?thesis
    using check assms(5) binding_fields_eq_Inr [OF b] unfolding verify_and_consume_eq_Inr
    by (auto simp: Let_def receipt_of_def receipt_body_def)
qed

lemma rotate_for:
  assumes "key_file (files_of st ''codex'') = key_file (files_of provisioned ''codex'')"
    and "file_of (used_markers (files_of st ''codex''))
      (marker_digest test_host ''ws'' ''codex'' ''capability.rotate'' (sha256_hex test_host rotate_nonce) (JInt 1)) = Absent"
  shows "\<exists>status st'. rotate test_host ''ws'' 101 101 ''codex'' rotate_token test_secret st = (Inr status, st')"
proof -
  have ops: "OPERATION_RE ''capability.rotate''" "fullmatch_hex 48 rotate_nonce"
      "length (test_body ''capability.rotate'' rotate_nonce) \<le> 400" by code_simp+
  obtain receipt st1 where vc: "verify_and_consume test_host ''ws'' 101 ''codex'' ''capability.rotate'' rotate_token
      None None JNull st = (Inr receipt, st1)" "dget receipt ''key_version'' = JInt 1"
    using consume_for [OF assms(1) ops assms(2)] by blast
  have "key_file (files_of st1 ''codex'') = key_file (files_of provisioned ''codex'')"
    using verify_and_consume_keeps(1) [OF vc(1)] assms(1) by simp
  then obtain r where r: "cap_record ''ws'' st1 ''codex'' = Inr r" "dget r ''key_version'' = JInt 1"
      "dget_or r ''retired_receipt_keys'' (JArr []) = JArr []"
      "map_of r ''protected_key'' = Some (JStr (b64encode test_key))"
    using provisioned_record by blast
  have "test_key \<noteq> []" using length_test_key by auto
  then have "dpapi_protect test_host test_key (entropy test_host ''ws'' ''codex'') = Inr test_key"
    by (simp add: test_host_def)
  moreover have "AGENT_ID_RE ''codex''" "secret_bytes test_secret ''New actor credential'' = Inr test_secret" by code_simp+
  moreover have "secure_directory test_host = Inr ()" by (simp add: secure_directory_def test_host_def)
  moreover define rotated where "rotated = dupdate r
      [(''key_version'', JInt 2), (''protected_key'', JStr (b64encode test_key)),
       (''retired_receipt_keys'', JArr [JObj [(''key_version'', JInt 1), (''protected_key'', JStr (b64encode test_key))]]),
       (''rotated_at_epoch'', JInt 101), (''actor_os_isolation_proven'', JBool False)]"
  moreover define st2 where "st2 = set_files ''codex'' ((files_of st1 ''codex'')\<lparr>key_file := Content (JObj rotated)\<rparr>) st1"
  ultimately have "rotate test_host ''ws'' 101 101 ''codex'' rotate_token test_secret st = (cap_status ''ws'' st2 ''codex'', st2)"
    using vc r by (simp add: rotate_def actor_dir_def test_key_def [symmetric] ditem_def Let_def)
  moreover have "cap_record ''ws'' st2 ''codex'' = Inr rotated"
    using r \<open>test_key \<noteq> []\<close>
    by (simp add: cap_record_eq_Inr check_record_eq_Inr st2_def rotated_def retired_ok_def)
  then have "\<exists>status. cap_status ''ws'' st2 ''codex'' = Inr status"
    by (rule cap_status_defined)
  ultimately show ?thesis by auto
qed

theorem rotation_keeps_receipts_witness:
  "\<exists>receipt st1 status st3.
     verify_and_consume test_host ''ws'' 101 ''codex'' ''task.add'' test_token None None JNull provisioned = (Inr receipt, st1)
     \<and> rotate test_host ''ws'' 101 101 ''codex'' rotate_token test_secret st1 = (Inr status, st3)
     \<and> validate_receipt test_host ''ws'' st3 (JObj receipt) ''codex'' ''task.add'' None None JNull False = Inr receipt"
proof -
  have ops: "OPERATION_RE ''task.add''" "fullmatch_hex 48 test_nonce" "length (test_body ''task.add'' test_nonce) \<le> 400"
    by code_simp+
  have none: "file_of (used_markers (files_of provisioned ''codex'')) m = Absent" for m
    by (simp add: provisioned_unused file_of_def)
  obtain receipt st1 where run: "verify_and_consume test_host ''ws'' 101 ''codex'' ''task.add'' test_token None None
      JNull provisioned = (Inr receipt, st1)" and i: "dget receipt ''issued_at_epoch'' = JInt 100"
    and keep: "\<forall>m. m \<noteq> marker_digest test_host ''ws'' ''codex'' ''task.add'' (sha256_hex test_host test_nonce) (JInt 1)
          \<longrightarrow> file_of (used_markers (files_of st1 ''codex'')) m = file_of (used_markers (files_of provisioned ''codex'')) m"
    using consume_for [OF refl ops none] by blast
  have other: "marker_digest test_host ''ws'' ''codex'' ''capability.rotate'' (sha256_hex test_host rotate_nonce) (JInt 1)
      \<noteq> marker_digest test_host ''ws'' ''codex'' ''task.add'' (sha256_hex test_host test_nonce) (JInt 1)" by code_simp
  have "file_of (used_markers (files_of st1 ''codex''))
      (marker_digest test_host ''ws'' ''codex'' ''capability.rotate'' (sha256_hex test_host rotate_nonce) (JInt 1)) = Absent"
    using keep other none by simp
  then obtain status st3 where rot: "rotate test_host ''ws'' 101 101 ''codex'' rotate_token test_secret st1 = (Inr status, st3)"
    using rotate_for [OF verify_and_consume_keeps(1) [OF run]] by blast
  have "validate_receipt test_host ''ws'' st3 (JObj receipt) ''codex'' ''task.add'' None None JNull False = Inr receipt"
    using rotation_keeps_receipts [OF test_host_laws run i _ rot] by simp
  with run rot show ?thesis by blast
qed

definition guarded :: cap_store where
  "guarded = \<lparr>actor_dirs = [(''codex'', \<lparr>guard_file = Content (JObj
       [(''schema_version'', JInt 1), (''workspace_id'', JStr ''ws''), (''actor'', JStr ''codex''),
        (''guard_digest'', JStr (b64encode (guard_digest test_host ''ws'' ''codex'' test_secret))),
        (''created_at_epoch'', JInt 0), (''one_time'', JBool True)]),
     key_file = Absent, used_markers = []\<rparr>)]\<rparr>"

theorem bootstrap_consumes_guard_witness:
  "\<exists>status st'. bootstrap test_host ''ws'' 1 ''codex'' test_secret guarded = (Inr status, st')
     \<and> guard_file (files_of st' ''codex'') = Absent
     \<and> (\<exists>r. cap_record ''ws'' st' ''codex'' = Inr r \<and> dget r ''key_version'' = JInt 1)"
proof -
  have len: "length (guard_digest test_host ''ws'' ''codex'' test_secret) = 32"
    using test_host_laws by (simp add: host_laws_def guard_digest_def)
  then have "guard_digest test_host ''ws'' ''codex'' test_secret \<noteq> []" by auto
  moreover have "test_key \<noteq> []" using length_test_key by auto
  then have "dpapi_protect test_host test_key (entropy test_host ''ws'' ''codex'') = Inr test_key"
    by (simp add: test_host_def)
  moreover have "AGENT_ID_RE ''codex''" "secret_bytes test_secret ''Bootstrap secret'' = Inr test_secret" by code_simp+
  moreover have "secure_directory test_host = Inr ()" by (simp add: secure_directory_def test_host_def)
  ultimately have "\<exists>status st'. bootstrap test_host ''ws'' 1 ''codex'' test_secret guarded = (Inr status, st')"
    by (simp add: bootstrap_def actor_dir_def guarded_def files_of_def read_json_def is_true_def Let_def
        test_key_def [symmetric] cap_status_def cap_record_eq_Inr check_record_eq_Inr set_files_def)
  then obtain status st' where run: "bootstrap test_host ''ws'' 1 ''codex'' test_secret guarded = (Inr status, st')"
    by blast
  with bootstrap_consumes_guard [OF test_host_laws run] show ?thesis by blast
qed

end
