(* ===== verification/Identity.thy ===== *)
theory Identity
  imports Task_Model
begin

text \<open>
  Agent identities and independent verification (\<^verbatim>\<open>independence.py\<close>): identity declarations,
  the collapse of role-labelled model families, the decision whether two identities are
  independent, the resolution of alias chains, and the audit of verification events and their
  restatements. Python's recursion limit is not modelled: \<open>resolve\<close> is total.
\<close>

section \<open>Identity declarations\<close>

definition identity_char :: "char \<Rightarrow> bool" where
  "identity_char c \<longleftrightarrow> task_id_char c \<or> c = CHR '':'' \<or> c = CHR ''/''"

definition IDENTITY_VALUE_RE :: "string \<Rightarrow> bool" where
  "IDENTITY_VALUE_RE s = fullmatch_head_rest is_alnum identity_char 127 s"

definition MODEL_ROLE_SUFFIXES :: "string list" where
  "MODEL_ROLE_SUFFIXES =
     [''advisor'', ''auditor'', ''checker'', ''executant'', ''executor'', ''reviewer'', ''verifier'', ''worker'']"

definition validate_identity_value :: "string \<Rightarrow> string \<Rightarrow> string res" where
  "validate_identity_value value field =
     (let normalized = strip value in
      if IDENTITY_VALUE_RE normalized then Inr normalized
      else raise ConfigurationError (field @ '' must start with an alphanumeric character''))"

definition is_sep :: "char \<Rightarrow> bool" where
  "is_sep c \<longleftrightarrow> c = CHR '':'' \<or> c = CHR ''/'' \<or> c = CHR ''.'' \<or> c = CHR ''_'' \<or> c = CHR ''-''"

text \<open>\<^verbatim>\<open>re.split(r"([:/._-])", s)\<close>: the pieces and, between them, the separators.\<close>

fun split_sep :: "string \<Rightarrow> string \<Rightarrow> string list" where
  "split_sep cur [] = [rev cur]"
| "split_sep cur (c # s) =
     (if is_sep c then rev cur # [c] # split_sep [] s else split_sep (c # cur) s)"

function strip_roles :: "string list \<Rightarrow> string list" where
  "strip_roles parts =
     (if 3 \<le> length parts \<and> List.member MODEL_ROLE_SUFFIXES (last parts)
      then strip_roles (take (length parts - 2) parts) else parts)"
  by pat_completeness auto
termination
  by (relation "measure length") auto

declare strip_roles.simps [simp del]

definition rstrip_seps :: "string \<Rightarrow> string" where
  "rstrip_seps s = rev (dropWhile is_sep (rev s))"

definition canonical_model_family :: "string \<Rightarrow> string res" where
  "canonical_model_family value =
     rbind (validate_identity_value value ''model_family'') (\<lambda>v.
     let normalized = lower v;
         canonical = rstrip_seps (concat (strip_roles (split_sep [] normalized)))
     in Inr (if canonical = [] then normalized else canonical))"

text \<open>
  \<^verbatim>\<open>list(v)\<close>: the items of a list, the keys of a dictionary, the characters of a string (the
  code points of its UTF-8 form).
\<close>

fun code_points :: "string \<Rightarrow> string list" where
  "code_points [] = []"
| "code_points (c # s) =
     (case code_points s of
        [] \<Rightarrow> [[c]]
      | p # ps \<Rightarrow> if is_continuation (hd s) then (c # p) # ps else [c] # p # ps)"

fun py_list :: "json \<Rightarrow> json list res" where
  "py_list (JArr xs) = Inr xs"
| "py_list (JObj d) = Inr (map (JStr \<circ> fst) d)"
| "py_list (JStr s) = Inr (map JStr (code_points s))"
| "py_list _ = raise TypeError ''object is not iterable''"

definition validate_agent_json :: "json \<Rightarrow> string res" where
  "validate_agent_json v =
     (case v of JStr s \<Rightarrow> validate_agent_id s | _ \<Rightarrow> raise TypeError ''expected string or bytes-like object'')"

definition build_identity :: "string \<Rightarrow> string \<Rightarrow> json \<Rightarrow> json list \<Rightarrow> dict res" where
  "build_identity control_principal model_family alias_of alias_chain =
     rbind (if truthy alias_of then rbind (validate_agent_json alias_of) (\<lambda>a. Inr (JStr a)) else Inr JNull)
       (\<lambda>normalized_alias.
     rbind (rmap validate_agent_json alias_chain) (\<lambda>normalized_chain.
     if \<not> distinct normalized_chain
     then raise ConfigurationError ''Agent identity alias chain contains a cycle''
     else
       rbind (validate_identity_value control_principal ''control_principal'') (\<lambda>cp.
       rbind (validate_identity_value model_family ''model_family'') (\<lambda>mf.
       Inr [(''schema_version'', JInt 1), (''control_principal'', JStr cp), (''model_family'', JStr mf),
            (''alias_of'', normalized_alias), (''alias_chain'', JArr (map JStr normalized_chain))]))))"

definition identity_snapshot :: "string \<Rightarrow> json \<Rightarrow> json res" where
  "identity_snapshot actor identity =
     (case identity of
        JObj d \<Rightarrow>
          rbind (py_list (dget_or d ''alias_chain'' (JArr []))) (\<lambda>chain.
          rbind (build_identity (py_str (dget_or d ''control_principal'' (JStr [])))
                   (py_str (dget_or d ''model_family'' (JStr []))) (dget d ''alias_of'') chain) (\<lambda>validated.
          rbind (validate_agent_id actor) (\<lambda>a.
          Inr (JObj ((''actor'', JStr a) # validated)))))
      | _ \<Rightarrow> Inr JNull)"

section \<open>Independence\<close>

text \<open>\<^verbatim>\<open>set(map(str, x.get("alias_chain", [])))\<close> and the actor, if there is one.\<close>

definition lineage :: "dict \<Rightarrow> string list res" where
  "lineage d =
     rbind (py_list (dget_or d ''alias_chain'' (JArr []))) (\<lambda>chain.
     Inr (map py_str chain @ (if dget d ''actor'' = JNull then [] else [py_str (dget d ''actor'')])))"

definition same_family :: "dict \<Rightarrow> dict \<Rightarrow> bool res" where
  "same_family worker verifier =
     (case (dget worker ''model_family'', dget verifier ''model_family'') of
        (JStr a, JStr b) \<Rightarrow>
          rbind (canonical_model_family a) (\<lambda>x. rbind (canonical_model_family b) (\<lambda>y. Inr (x = y)))
      | _ \<Rightarrow> Inr False)"

definition pair_reasons :: "dict \<Rightarrow> dict \<Rightarrow> string list res" where
  "pair_reasons worker verifier =
     rbind (same_family worker verifier) (\<lambda>family.
     rbind (lineage worker) (\<lambda>worker_lineage.
     rbind (lineage verifier) (\<lambda>verifier_lineage.
     Inr ((if dget worker ''actor'' \<noteq> JNull \<and> py_eq (dget worker ''actor'') (dget verifier ''actor'')
           then [''same_actor''] else [])
        @ (if py_eq (dget worker ''control_principal'') (dget verifier ''control_principal'')
           then [''same_control_principal''] else [])
        @ (if family then [''same_model_family''] else [])
        @ (if list_ex (List.member verifier_lineage) worker_lineage
           then [''shared_alias_lineage''] else [])))))"

definition evaluate_independence :: "json \<Rightarrow> json \<Rightarrow> dict res" where
  "evaluate_independence worker verifier =
     rbind (if worker = JNull \<or> verifier = JNull
            then Inr ((if worker = JNull then [''worker_identity_unknown''] else [])
                    @ (if verifier = JNull then [''verifier_identity_unknown''] else []))
            else case (worker, verifier) of
                (JObj w, JObj v) \<Rightarrow> pair_reasons w v
              | _ \<Rightarrow> raise AttributeError ''get'') (\<lambda>reasons.
     Inr [(''independent'', JBool (reasons = [])),
          (''reasons'', JArr (map JStr reasons)),
          (''worker'', worker),
          (''verifier'', verifier)])"

section \<open>Alias resolution\<close>

type_synonym registry = "(string \<times> dict option) list"

definition policy_agents :: "dict option \<Rightarrow> (string \<times> dict) list res" where
  "policy_agents policy =
     (case policy of
        None \<Rightarrow> Inr []
      | Some p \<Rightarrow>
          (case dget p ''agents'' of
             JObj agents \<Rightarrow>
               rmap (\<lambda>(agent_id, identity).
                       rbind (validate_agent_id agent_id) (\<lambda>a. Inr (a, case identity of JObj d \<Rightarrow> d | _ \<Rightarrow> [])))
                 (filter (\<lambda>p. is_dict (snd p)) agents)
           | _ \<Rightarrow> raise ConfigurationError ''Identity policy must contain an 'agents' object''))"

function resolve :: "registry \<Rightarrow> string list \<Rightarrow> registry \<Rightarrow> string \<Rightarrow> (registry \<times> dict option) res" where
  "resolve declarations stack resolved agent_id =
     (case map_of resolved agent_id of
        Some v \<Rightarrow> Inr (resolved, v)
      | None \<Rightarrow>
          if agent_id \<in> set stack then raise ConfigurationError ''Identity policy alias cycle: ''
          else if agent_id \<notin> fst ` set declarations then Inr (alist_put agent_id None resolved, None)
          else case map_of declarations agent_id of
              None \<Rightarrow> Inr (alist_put agent_id None resolved, None)
            | Some None \<Rightarrow> Inr (alist_put agent_id None resolved, None)
            | Some (Some declaration) \<Rightarrow>
                let alias_of = dget declaration ''alias_of'' in
                if truthy alias_of then
                  (case validate_agent_id (py_str alias_of) of
                     Inl e \<Rightarrow> Inl e
                   | Inr target_id \<Rightarrow>
                       (case resolve declarations (stack @ [agent_id]) resolved target_id of
                          Inl e \<Rightarrow> Inl e
                        | Inr (resolved', None) \<Rightarrow> Inr (alist_put agent_id None resolved', None)
                        | Inr (resolved', Some target) \<Rightarrow>
                            rbind (py_list (dget_or target ''alias_chain'' (JArr []))) (\<lambda>chain.
                            rbind (build_identity (py_str (dget target ''control_principal''))
                                     (py_str (dget target ''model_family'')) (JStr target_id)
                                     (JStr target_id # chain)) (\<lambda>value.
                            rbind (identity_snapshot agent_id (JObj value)) (\<lambda>snapshot.
                            Inr (alist_put agent_id (as_dict snapshot) resolved', as_dict snapshot))))))
                else
                  rbind (py_list (dget_or declaration ''alias_chain'' (JArr []))) (\<lambda>chain.
                  rbind (build_identity (py_str (dget_or declaration ''control_principal'' (JStr [])))
                           (py_str (dget_or declaration ''model_family'' (JStr []))) JNull chain) (\<lambda>value.
                  rbind (identity_snapshot agent_id (JObj value)) (\<lambda>snapshot.
                  Inr (alist_put agent_id (as_dict snapshot) resolved, as_dict snapshot)))))"
  by pat_completeness auto
termination
proof (relation "measure (\<lambda>(d, s, r, a). card (fst ` set d - set s))", goal_cases)
  case (2 declarations stack resolved agent_id)
  then have "fst ` set declarations - set (stack @ [agent_id]) \<subset> fst ` set declarations - set stack"
    by auto
  then show ?case by (auto intro!: psubset_card_mono)
qed simp

declare resolve.simps [simp del]

definition declared :: "(string \<times> dict) list \<Rightarrow> registry" where
  "declared agents =
     map (\<lambda>(agent_id, r). (agent_id, as_dict (dget r ''identity''))) agents"

definition with_policy :: "registry \<Rightarrow> (string \<times> dict) list \<Rightarrow> registry" where
  "with_policy declarations policy =
     fold (\<lambda>(agent_id, identity) ds.
        case map_of ds agent_id of
          Some (Some _) \<Rightarrow> ds
        | _ \<Rightarrow> alist_put agent_id (Some identity) ds) policy declarations"

definition resolve_identity_registry :: "(string \<times> dict) list \<Rightarrow> dict option \<Rightarrow> registry res" where
  "resolve_identity_registry agents policy =
     rbind (policy_agents policy) (\<lambda>pa.
     let declarations = with_policy (declared agents) pa in
     rfold (\<lambda>agent_id resolved. rbind (resolve declarations [] resolved agent_id) (\<lambda>r. Inr (fst r)))
       (map fst declarations) [])"

section \<open>Audit of verification events\<close>

record identity_audit =
  audited_verifications :: "dict list"
  audited_submissions :: "dict list"
  task_submissions :: "(string \<times> dict) list"
  verifications_by_sequence :: "(int \<times> dict) list"
  restatement_events :: "dict list"

definition identity_of :: "registry \<Rightarrow> string \<Rightarrow> json" where
  "identity_of identities actor =
     (case map_of identities actor of Some (Some d) \<Rightarrow> JObj d | _ \<Rightarrow> JNull)"

definition declared_identity :: "(string \<times> dict) list \<Rightarrow> string \<Rightarrow> bool" where
  "declared_identity agents actor =
     (case map_of agents actor of Some r \<Rightarrow> is_dict (dget r ''identity'') | None \<Rightarrow> False)"

definition current_source :: "(string \<times> dict) list \<Rightarrow> (string \<times> dict) list \<Rightarrow> string \<Rightarrow> string" where
  "current_source agents policy actor =
     (if declared_identity agents actor then ''agent_declaration''
      else if actor \<in> fst ` set policy then ''policy_override''
      else ''missing'')"

text \<open>One event of the first loop: submissions, verifications and restatements are collected.\<close>

definition audit_event ::
  "(string \<times> dict) list \<Rightarrow> (string \<times> dict) list \<Rightarrow> registry \<Rightarrow> dict \<Rightarrow> identity_audit
    \<Rightarrow> identity_audit res" where
  "audit_event agents policy identities event st =
     (let action = dget event ''action'';
          task_id = py_str (dget_or event ''task_id'' (JStr []));
          actor = py_str (dget_or event ''actor'' (JStr []));
          payload = dget_or event ''payload'' (JObj [])
      in
      if action = JStr ''task.submitted'' then
        rbind (jget payload ''worker_identity'') (\<lambda>wi.
        let worker_identity = (if is_dict wi then wi else identity_of identities actor);
            submission =
              [(''sequence'', dget event ''sequence''), (''task_id'', JStr task_id),
               (''actor'', JStr actor), (''worker_identity'', worker_identity)]
        in Inr (st\<lparr>task_submissions := alist_put task_id submission (task_submissions st),
                   audited_submissions := audited_submissions st @ [submission]\<rparr>))
      else if action = JStr ''task.verified'' then
        rbind (jget payload ''verifier_identity'') (\<lambda>vi.
        let verifier_identity = (if is_dict vi then vi else identity_of identities actor);
            submission = map_of (task_submissions st) task_id;
            worker_identity = (case submission of None \<Rightarrow> JNull | Some s \<Rightarrow> dget s ''worker_identity'');
            worker_actor = (case submission of None \<Rightarrow> JNull | Some s \<Rightarrow> dget s ''actor'')
        in
        rbind (evaluate_independence worker_identity verifier_identity) (\<lambda>eval_result.
        let entry =
              [(''sequence'', dget event ''sequence''), (''event_hash'', dget event ''event_hash''),
               (''task_id'', JStr task_id), (''worker_actor'', worker_actor), (''verifier_actor'', JStr actor),
               (''worker_identity'', worker_identity), (''verifier_identity'', verifier_identity),
               (''worker_identity_source'',
                  JStr (if truthy worker_actor then current_source agents policy (py_str worker_actor)
                        else ''missing'')),
               (''verifier_identity_source'', JStr (current_source agents policy actor)),
               (''recorded_independence'', vget payload ''independence''),
               (''audited_independence'', JObj eval_result)]
        in Inr (st\<lparr>audited_verifications := audited_verifications st @ [entry],
                   verifications_by_sequence :=
                     (case as_int (dget event ''sequence'') of
                        Some n \<Rightarrow> alist_put n entry (verifications_by_sequence st)
                      | None \<Rightarrow> verifications_by_sequence st)\<rparr>)))
      else if action = JStr ''verification.restatement'' then
        Inr (st\<lparr>restatement_events := restatement_events st @ [event]\<rparr>)
      else Inr st)"

text \<open>The reasons for which one restatement is refused, before the rule on revocations.\<close>

definition restatement_reasons ::
  "(int \<times> dict) list \<Rightarrow> string option \<Rightarrow> dict \<Rightarrow> string list res" where
  "restatement_reasons by_sequence orchestrator event =
     (let is_obj = is_dict (dget event ''payload'');
          payload = (case dget event ''payload'' of JObj d \<Rightarrow> d | _ \<Rightarrow> []);
          target_sequence = strict_int (dget payload ''target_verification_sequence'');
          target = (case target_sequence of Some n \<Rightarrow> map_of by_sequence n | None \<Rightarrow> None)
      in
      rbind (in_strs (dget payload ''effective_status'') [''verification_disputed'', ''verification_revoked''])
        (\<lambda>status_known.
      Inr ((if is_obj then [] else [''payload_not_object''])
         @ (case target of
              None \<Rightarrow> [''target_verification_missing'']
            | Some t \<Rightarrow>
                (if \<not> py_eq (dget event ''task_id'') (dget t ''task_id'') then [''task_id_mismatch''] else [])
              @ (if \<not> py_eq (dget payload ''target_verification_hash'') (dget t ''event_hash'')
                 then [''target_hash_mismatch''] else [])
              @ (case (strict_int (dget event ''sequence''), target_sequence) of
                   (Some s, Some n) \<Rightarrow> if s \<le> n then [''restatement_not_after_target''] else []
                 | _ \<Rightarrow> [''restatement_not_after_target''])
              @ (if \<not> py_eq (dget payload ''original_verifier'') (dget t ''verifier_actor'')
                 then [''original_verifier_mismatch''] else []))
         @ (if \<not> py_eq (dget payload ''schema_version'') (JInt 1) then [''unsupported_schema_version''] else [])
         @ (if \<not> status_known then [''invalid_effective_status''] else [])
         @ (case dget payload ''reason'' of
              JStr r \<Rightarrow> if strip r = [] then [''missing_reason''] else []
            | _ \<Rightarrow> [''missing_reason''])
         @ (case orchestrator of
              None \<Rightarrow> []
            | Some orc \<Rightarrow> if dget event ''actor'' \<noteq> JStr orc then [''actor_is_not_orchestrator''] else []))))"

record restatement_audit =
  restatements :: "dict list"
  invalid_restatements :: "dict list"
  latest_restatement :: "(int \<times> dict) list"

definition restatement_entry :: "dict \<Rightarrow> dict \<Rightarrow> string list \<Rightarrow> dict" where
  "restatement_entry event payload reasons =
     [(''sequence'', dget event ''sequence''), (''task_id'', dget event ''task_id''),
      (''actor'', dget event ''actor''),
      (''target_verification_sequence'', dget payload ''target_verification_sequence''),
      (''target_verification_hash'', dget payload ''target_verification_hash''),
      (''effective_status'', dget payload ''effective_status''), (''reason'', dget payload ''reason''),
      (''valid'', JBool (reasons = [])), (''reasons'', JArr (map JStr reasons))]"

definition restate_event ::
  "(int \<times> dict) list \<Rightarrow> string option \<Rightarrow> dict \<Rightarrow> restatement_audit \<Rightarrow> restatement_audit res" where
  "restate_event by_sequence orchestrator event st =
     rbind (restatement_reasons by_sequence orchestrator event) (\<lambda>reasons.
     let payload = (case dget event ''payload'' of JObj d \<Rightarrow> d | _ \<Rightarrow> []);
         effective_status = dget payload ''effective_status'';
         entry = restatement_entry event payload
     in
     if reasons \<noteq> [] then
       Inr (st\<lparr>restatements := restatements st @ [entry reasons],
               invalid_restatements := invalid_restatements st @ [entry reasons]\<rparr>)
     else case strict_int (dget payload ''target_verification_sequence'') of
         None \<Rightarrow> Inr st
       | Some n \<Rightarrow>
           (case map_of (latest_restatement st) n of
              Some previous \<Rightarrow>
                if dget previous ''effective_status'' = JStr ''verification_revoked''
                   \<and> effective_status \<noteq> JStr ''verification_revoked''
                then let weakened = entry [''revocation_cannot_be_weakened''] in
                  Inr (st\<lparr>restatements := restatements st @ [weakened],
                          invalid_restatements := invalid_restatements st @ [weakened]\<rparr>)
                else Inr (st\<lparr>restatements := restatements st @ [entry []],
                             latest_restatement := alist_put n (entry []) (latest_restatement st)\<rparr>)
            | None \<Rightarrow> Inr (st\<lparr>restatements := restatements st @ [entry []],
                               latest_restatement := alist_put n (entry []) (latest_restatement st)\<rparr>)))"

text \<open>The last loop: the effective status of one verification.\<close>

definition latest_for :: "(int \<times> dict) list \<Rightarrow> json \<Rightarrow> dict option res" where
  "latest_for latest sequence =
     (if \<not> hashable sequence then raise TypeError ''unhashable type''
      else Inr (case py_norm sequence of JInt n \<Rightarrow> map_of latest n | _ \<Rightarrow> None))"

definition effective_verification :: "(int \<times> dict) list \<Rightarrow> dict \<Rightarrow> (dict \<times> dict list) res" where
  "effective_verification latest verification =
     (let sequence = dget verification ''sequence'';
          independence = dget verification ''audited_independence''
      in
      rbind (latest_for latest sequence) (\<lambda>restatement.
      case restatement of
        Some r \<Rightarrow>
          Inr (dput ''effective_status'' (dget r ''effective_status'')
                 (dput ''restatement'' (JObj r) verification), [])
      | None \<Rightarrow>
          if is_true (vget independence ''independent'') then
            Inr (dput ''effective_status'' (JStr ''verified'') (dput ''restatement'' JNull verification), [])
          else
            Inr (dput ''effective_status'' (JStr ''verification_disputed'')
                   (dput ''restatement'' JNull verification),
                 [[(''sequence'', sequence), (''task_id'', dget verification ''task_id''),
                   (''reasons'', vget independence ''reasons'')]])))"

definition audit_verification_events ::
  "dict list \<Rightarrow> (string \<times> dict) list \<Rightarrow> dict option \<Rightarrow> string option \<Rightarrow> dict res" where
  "audit_verification_events events agents policy orchestrator =
     rbind (resolve_identity_registry agents policy) (\<lambda>identities.
     rbind (policy_agents policy) (\<lambda>pa.
     rbind (rfold (audit_event agents pa identities) events
              \<lparr>audited_verifications = [], audited_submissions = [], task_submissions = [],
               verifications_by_sequence = [], restatement_events = []\<rparr>) (\<lambda>st.
     rbind (rfold (restate_event (verifications_by_sequence st) orchestrator) (restatement_events st)
              \<lparr>restatements = [], invalid_restatements = [], latest_restatement = []\<rparr>) (\<lambda>rst.
     rbind (rmap (effective_verification (latest_restatement rst)) (audited_verifications st)) (\<lambda>vs.
     let unresolved = concat (map snd vs) in
     Inr [(''valid'', JBool (invalid_restatements rst = [] \<and> unresolved = [])),
          (''audited_submissions'', JInt (int (length (audited_submissions st)))),
          (''audited_verifications'', JInt (int (length (audited_verifications st)))),
          (''verifications'', JArr (map (JObj \<circ> fst) vs)),
          (''restatements'', JArr (map JObj (restatements rst))),
          (''invalid_restatements'', JArr (map JObj (invalid_restatements rst))),
          (''unresolved_untrusted_verifications'', JArr (map JObj unresolved))])))))"

section \<open>Model families\<close>

lemma split_sep_append:
  "is_sep c \<Longrightarrow> split_sep cur (f @ c # s) = split_sep cur f @ [c] # split_sep [] s"
  by (induction cur f rule: split_sep.induct) auto

lemma split_sep_no_sep: "list_all (\<lambda>c. \<not> is_sep c) s \<Longrightarrow> split_sep cur s = [rev cur @ s]"
  by (induction cur s rule: split_sep.induct) auto

lemma split_sep_nonempty [simp]: "split_sep cur s \<noteq> []" "0 < length (split_sep cur s)"
  by (induction cur s rule: split_sep.induct) auto

lemma role_no_sep: "r \<in> set MODEL_ROLE_SUFFIXES \<Longrightarrow> list_all (\<lambda>c. \<not> is_sep c) r"
  by (auto simp: MODEL_ROLE_SUFFIXES_def is_sep_def)

lemma strip_roles_role:
  assumes "r \<in> set MODEL_ROLE_SUFFIXES" "is_sep c"
  shows "strip_roles (split_sep [] (f @ c # r)) = strip_roles (split_sep [] f)"
proof -
  have "split_sep [] (f @ c # r) = split_sep [] f @ [[c], r]"
    using split_sep_no_sep [OF role_no_sep [OF assms(1)], of "[]"] assms(2) by (simp add: split_sep_append)
  moreover have "3 \<le> length (split_sep [] f @ [[c], r])"
    using split_sep_nonempty(1) [of "[]" f] by (cases "split_sep [] f") auto
  ultimately show ?thesis using assms(1) by (simp add: strip_roles.simps)
qed

lemma lower_id: "list_all (\<lambda>c. \<not> is_upper c) s \<Longrightarrow> lower s = s"
  by (induction s) (auto simp: lower_def lower_char_def)

lemma is_upper_sep_role:
  "is_sep c \<Longrightarrow> lower_char c = c"
  "r \<in> set MODEL_ROLE_SUFFIXES \<Longrightarrow> lower r = r"
  by (auto simp: is_sep_def lower_char_def is_upper_def MODEL_ROLE_SUFFIXES_def lower_def)

text \<open>Identity values have no white space at their ends, so \<^verbatim>\<open>strip\<close> leaves them alone.\<close>

lemma strip_plain:
  assumes "list_all (\<lambda>c. 33 \<le> (of_char c :: nat) \<and> (of_char c :: nat) < 128) s"
  shows "strip s = s"
proof -
  have l: "lstrip t = t" if "list_all (\<lambda>c. 33 \<le> (of_char c :: nat) \<and> (of_char c :: nat) < 128) t" for t
    using that by (cases t; cases "tl t"; cases "tl (tl t)")
      (auto simp: is_space1_def is_space2_def is_space3_def)
  have r: "rstrip_rev t = t" if "list_all (\<lambda>c. 33 \<le> (of_char c :: nat) \<and> (of_char c :: nat) < 128) t" for t
    using that by (cases t; cases "tl t"; cases "tl (tl t)")
      (auto simp: is_space1_def is_space2_def is_space3_def)
  show ?thesis using l [OF assms] r [of "rev s"] assms by (simp add: strip_def)
qed

lemma identity_value_plain:
  "IDENTITY_VALUE_RE s \<Longrightarrow> list_all (\<lambda>c. 33 \<le> (of_char c :: nat) \<and> (of_char c :: nat) < 128) s"
  by (auto simp: IDENTITY_VALUE_RE_def fullmatch_head_rest_def identity_char_def task_id_char_def
      char_class_defs list_all_iff split: list.splits)

lemma identity_value_strip [simp]: "IDENTITY_VALUE_RE s \<Longrightarrow> strip s = s"
  by (intro strip_plain identity_value_plain)

lemma validate_identity_value_eq_Inr [simp]:
  "validate_identity_value v f = Inr w \<longleftrightarrow> IDENTITY_VALUE_RE (strip v) \<and> w = strip v"
  by (auto simp: validate_identity_value_def Let_def)

lemma strip_roles_hd: "parts \<noteq> [] \<Longrightarrow> strip_roles parts \<noteq> [] \<and> hd (strip_roles parts) = hd parts"
proof (induction parts rule: strip_roles.induct)
  case (1 parts)
  then show ?case by (subst (1 2) strip_roles.simps) (auto simp: hd_take)
qed

lemma split_sep_hd: "\<exists>u. hd (split_sep cur s) = rev cur @ u"
  by (induction cur s rule: split_sep.induct) auto

lemma canonical_nonempty:
  assumes "\<not> is_sep a"
  shows "rstrip_seps (concat (strip_roles (split_sep [] (a # s)))) \<noteq> []"
proof -
  obtain u where u: "hd (split_sep [] (a # s)) = a # u"
    using split_sep_hd [of "[a]" s] assms by auto
  let ?p = "strip_roles (split_sep [] (a # s))"
  have "?p \<noteq> []" "hd ?p = a # u" using strip_roles_hd u by auto
  then have "a \<in> set (concat ?p)" by (cases ?p) auto
  then show ?thesis using assms by (auto simp: rstrip_seps_def dropWhile_eq_Nil_conv)
qed

lemma is_alnum_lower: "is_alnum a \<Longrightarrow> \<not> is_sep (lower_char a)"
  by (auto simp: is_sep_def lower_char_def char_class_defs of_char_eq_iff [symmetric, where 'a = nat] simp del: of_char_eq_iff)

lemma canonical_model_family_role:
  assumes "IDENTITY_VALUE_RE f" "IDENTITY_VALUE_RE (f @ c # r)" "is_sep c" "r \<in> set MODEL_ROLE_SUFFIXES"
  shows "canonical_model_family (f @ c # r) = canonical_model_family f"
proof -
  let ?canon = "\<lambda>v. rstrip_seps (concat (strip_roles (split_sep [] v)))"
  have low: "lower (f @ c # r) = lower f @ c # r"
    using is_upper_sep_role(1) [OF assms(3)] is_upper_sep_role(2) [OF assms(4)] by (simp add: lower_def)
  have same: "?canon (lower f @ c # r) = ?canon (lower f)"
    using strip_roles_role [OF assms(4,3)] by simp
  obtain a u where "f = a # u" "is_alnum a"
    using assms(1) by (auto simp: IDENTITY_VALUE_RE_def fullmatch_head_rest_def split: list.splits)
  then have "?canon (lower f) \<noteq> []"
    using canonical_nonempty [OF is_alnum_lower, of a "lower u"] by (simp add: lower_def del: split_sep.simps)
  then show ?thesis
    using assms(1,2) by (simp add: canonical_model_family_def validate_identity_value_def Let_def low same)
qed

section \<open>Properties of the independence decision\<close>

text \<open>What a positive decision rests on.\<close>

definition independent_pair :: "dict \<Rightarrow> dict \<Rightarrow> bool" where
  "independent_pair w v \<longleftrightarrow>
     (dget w ''actor'' \<noteq> JNull \<longrightarrow> \<not> py_eq (dget w ''actor'') (dget v ''actor''))
     \<and> \<not> py_eq (dget w ''control_principal'') (dget v ''control_principal'')
     \<and> same_family w v = Inr False
     \<and> (\<exists>lw lv. lineage w = Inr lw \<and> lineage v = Inr lv \<and> set lw \<inter> set lv = {})"

lemma pair_reasons_Nil: "pair_reasons w v = Inr [] \<longleftrightarrow> independent_pair w v"
  by (auto simp: pair_reasons_def independent_pair_def list_ex_iff split: if_splits)

lemma evaluate_independence_pair:
  "evaluate_independence (JObj w) (JObj v) = Inr r \<longleftrightarrow>
     (\<exists>reasons. pair_reasons w v = Inr reasons
        \<and> r = [(''independent'', JBool (reasons = [])), (''reasons'', JArr (map JStr reasons)),
               (''worker'', JObj w), (''verifier'', JObj v)])"
  by (auto simp: evaluate_independence_def)

lemma evaluate_independence_unknown:
  assumes "evaluate_independence worker verifier = Inr r" "\<not> (is_dict worker \<and> is_dict verifier)"
  shows "dget r ''independent'' = JBool False"
proof (cases "worker = JNull \<or> verifier = JNull")
  case True
  with assms(1) show ?thesis by (auto simp: evaluate_independence_def split: if_splits)
next
  case False
  with assms show ?thesis
    by (cases worker; cases verifier) (simp_all add: evaluate_independence_def)
qed

text \<open>
  The decision is positive exactly for two known identities with different actors,
  different control principals, different canonical model families and disjoint alias lineages;
  a missing identity on either side is never independent.
\<close>

theorem evaluate_independence_iff:
  assumes "evaluate_independence worker verifier = Inr r"
  shows "is_true (dget r ''independent'') \<longleftrightarrow>
     (\<exists>w v. worker = JObj w \<and> verifier = JObj v \<and> independent_pair w v)"
proof (cases "is_dict worker \<and> is_dict verifier")
  case True
  with assms show ?thesis
    by (auto simp: is_dict_iff evaluate_independence_pair is_true_def pair_reasons_Nil [symmetric])
next
  case False
  with evaluate_independence_unknown [OF assms] show ?thesis by (auto simp: is_true_def)
qed

theorem evaluate_independence_iff_witness:
  "is_true (dget [(''independent'', JBool False), (''reasons'', JArr [JStr ''verifier_identity_unknown'']),
                  (''worker'', JObj []), (''verifier'', JNull)] ''independent'') \<longleftrightarrow>
     (\<exists>w v. JObj [] = JObj w \<and> JNull = JObj v \<and> independent_pair w v)"
  by (rule evaluate_independence_iff) code_simp

text \<open>
  Labelling a model family with a role (\<^verbatim>\<open>-verifier\<close>, \<^verbatim>\<open>.auditor\<close>, ...) does not
  make it a different family: the decision reports \<^verbatim>\<open>same_model_family\<close> and is negative.
\<close>

theorem role_label_not_independent:
  assumes "IDENTITY_VALUE_RE f" "IDENTITY_VALUE_RE (f @ c # role)" "is_sep c"
    and "role \<in> set MODEL_ROLE_SUFFIXES"
    and "dget w ''model_family'' = JStr f" "dget v ''model_family'' = JStr (f @ c # role)"
    and "evaluate_independence (JObj w) (JObj v) = Inr r"
  shows "dget r ''independent'' = JBool False
    \<and> (\<exists>reasons. dget r ''reasons'' = JArr (map JStr reasons) \<and> ''same_model_family'' \<in> set reasons)"
proof -
  obtain reasons where r: "r = [(''independent'', JBool (reasons = [])), (''reasons'', JArr (map JStr reasons)),
      (''worker'', JObj w), (''verifier'', JObj v)]" and pr: "pair_reasons w v = Inr reasons"
    using assms(7) by (auto simp: evaluate_independence_pair)
  obtain b where "same_family w v = Inr b" using pr by (auto simp: pair_reasons_def)
  then have "same_family w v = Inr True"
    using canonical_model_family_role [OF assms(1-4)] assms(5,6) by (auto simp: same_family_def)
  then have "''same_model_family'' \<in> set reasons" using pr by (auto simp: pair_reasons_def)
  then show ?thesis using r by auto
qed

definition sample_identity :: "string \<Rightarrow> string \<Rightarrow> string \<Rightarrow> dict" where
  "sample_identity actor cp family =
     [(''actor'', JStr actor), (''schema_version'', JInt 1), (''control_principal'', JStr cp),
      (''model_family'', JStr family), (''alias_of'', JNull), (''alias_chain'', JArr [])]"

theorem role_label_not_independent_witness:
  "dget [(''independent'', JBool False), (''reasons'', JArr [JStr ''same_model_family'']),
         (''worker'', JObj (sample_identity ''antigravity'' ''executant'' ''google-antigravity'')),
         (''verifier'', JObj (sample_identity ''verifier'' ''control'' (''google-antigravity'' @ CHR ''-'' # ''verifier'')))]
     ''independent'' = JBool False
   \<and> (\<exists>reasons. dget [(''independent'', JBool False), (''reasons'', JArr [JStr ''same_model_family'']),
         (''worker'', JObj (sample_identity ''antigravity'' ''executant'' ''google-antigravity'')),
         (''verifier'', JObj (sample_identity ''verifier'' ''control'' (''google-antigravity'' @ CHR ''-'' # ''verifier'')))]
       ''reasons'' = JArr (map JStr reasons) \<and> ''same_model_family'' \<in> set reasons)"
proof (rule role_label_not_independent)
  show "IDENTITY_VALUE_RE ''google-antigravity''" by code_simp
  show "IDENTITY_VALUE_RE (''google-antigravity'' @ CHR ''-'' # ''verifier'')" by code_simp
  show "is_sep CHR ''-''" by code_simp
  show "''verifier'' \<in> set MODEL_ROLE_SUFFIXES" by code_simp
  show "evaluate_independence
      (JObj (sample_identity ''antigravity'' ''executant'' ''google-antigravity''))
      (JObj (sample_identity ''verifier'' ''control'' (''google-antigravity'' @ CHR ''-'' # ''verifier'')))
    = Inr [(''independent'', JBool False), (''reasons'', JArr [JStr ''same_model_family'']),
         (''worker'', JObj (sample_identity ''antigravity'' ''executant'' ''google-antigravity'')),
         (''verifier'', JObj (sample_identity ''verifier'' ''control'' (''google-antigravity'' @ CHR ''-'' # ''verifier'')))]"
    by code_simp
qed (simp_all add: sample_identity_def)


section \<open>Properties of alias resolution\<close>

lemma rmap_validate_agent_json:
  "rmap validate_agent_json xs = Inr ys \<Longrightarrow> xs = map JStr ys"
  by (induction xs arbitrary: ys) (auto simp: validate_agent_json_def split: json.splits)

text \<open>The snapshot taken of a freshly built identity has the fields it was built from.\<close>

lemma build_snapshot:
  assumes "build_identity cp mf al ch = Inr val" "identity_snapshot a (JObj val) = Inr s"
  shows "\<exists>d. s = JObj d \<and> dget d ''actor'' = JStr a \<and> dget d ''control_principal'' = JStr (strip cp)
    \<and> dget d ''model_family'' = JStr (strip mf) \<and> dget_or d ''alias_chain'' (JArr []) = JArr ch
    \<and> IDENTITY_VALUE_RE (strip cp) \<and> IDENTITY_VALUE_RE (strip mf)"
proof -
  obtain na nch where val: "val = [(''schema_version'', JInt 1), (''control_principal'', JStr (strip cp)),
      (''model_family'', JStr (strip mf)), (''alias_of'', na), (''alias_chain'', JArr (map JStr nch))]"
    and ch: "rmap validate_agent_json ch = Inr nch"
    and re: "IDENTITY_VALUE_RE (strip cp)" "IDENTITY_VALUE_RE (strip mf)"
    using assms(1) unfolding build_identity_def by (auto split: if_splits)
  obtain na' nch' where "s = JObj [(''actor'', JStr a), (''schema_version'', JInt 1),
      (''control_principal'', JStr (strip cp)), (''model_family'', JStr (strip mf)),
      (''alias_of'', na'), (''alias_chain'', JArr (map JStr nch'))]"
    and "rmap validate_agent_json (map JStr nch) = Inr nch'"
    using assms(2) re unfolding identity_snapshot_def build_identity_def val
    by (auto split: if_splits)
  then show ?thesis
    using re rmap_validate_agent_json [OF ch] rmap_validate_agent_json [of "map JStr nch" nch'] by auto
qed

text \<open>
  What a resolved registry satisfies: an identity names its agent, and the identity of an agent
  declared as an alias has the control principal and the model family of the identity that its
  target resolved to, and lists the target in its alias chain.
\<close>

definition resolved_entry :: "registry \<Rightarrow> registry \<Rightarrow> string \<Rightarrow> dict \<Rightarrow> bool" where
  "resolved_entry declarations resolved a d \<longleftrightarrow>
     dget d ''actor'' = JStr a
     \<and> (\<exists>c. dget d ''control_principal'' = JStr c \<and> IDENTITY_VALUE_RE c)
     \<and> (\<exists>m. dget d ''model_family'' = JStr m \<and> IDENTITY_VALUE_RE m)
     \<and> (\<exists>ch. dget_or d ''alias_chain'' (JArr []) = JArr ch)
     \<and> (\<forall>decl. map_of declarations a = Some (Some decl) \<and> truthy (dget decl ''alias_of'') \<longrightarrow>
          (\<exists>t ch. map_of resolved (py_str (dget decl ''alias_of'')) = Some (Some t)
             \<and> dget d ''control_principal'' = dget t ''control_principal''
             \<and> dget d ''model_family'' = dget t ''model_family''
             \<and> dget_or t ''alias_chain'' (JArr []) = JArr ch
             \<and> dget_or d ''alias_chain'' (JArr []) = JArr (JStr (py_str (dget decl ''alias_of'')) # ch)))"

definition registry_inv :: "registry \<Rightarrow> registry \<Rightarrow> bool" where
  "registry_inv declarations resolved \<longleftrightarrow>
     (\<forall>a d. map_of resolved a = Some (Some d) \<longrightarrow> resolved_entry declarations resolved a d)"

definition extends :: "registry \<Rightarrow> registry \<Rightarrow> bool" where
  "extends resolved resolved' \<longleftrightarrow> map_of resolved \<subseteq>\<^sub>m map_of resolved'"

lemma extends_refl: "extends r r"
  by (simp add: extends_def)

lemma extends_put: "extends r r' \<Longrightarrow> map_of r' a = None \<Longrightarrow> extends r (alist_put a v r')"
  by (auto simp: extends_def map_le_def) (metis domI option.distinct(1))

lemma registry_inv_put:
  assumes "registry_inv declarations r" "map_of r a = None"
    and "\<And>d. v = Some d \<Longrightarrow> resolved_entry declarations (alist_put a v r) a d"
  shows "registry_inv declarations (alist_put a v r)"
proof -
  have "resolved_entry declarations (alist_put a v r) b d" if "map_of r b = Some (Some d)" "b \<noteq> a" for b d
  proof -
    have "resolved_entry declarations r b d" using assms(1) that by (auto simp: registry_inv_def)
    then show ?thesis using assms(2) unfolding resolved_entry_def by fastforce
  qed
  then show ?thesis using assms(3) by (auto simp: registry_inv_def split: if_splits)
qed

definition resolve_post :: "registry \<Rightarrow> string list \<Rightarrow> registry \<Rightarrow> string \<Rightarrow> registry \<Rightarrow> dict option \<Rightarrow> bool" where
  "resolve_post declarations stack resolved a resolved' v \<longleftrightarrow>
     registry_inv declarations resolved' \<and> extends resolved resolved'
     \<and> map_of resolved' a = Some v \<and> (\<forall>k\<in>set stack. map_of resolved' k = map_of resolved k)"

lemma resolve_post_put:
  assumes "registry_inv declarations r" "extends resolved r" "map_of r a = None" "a \<notin> set stack"
    and "\<forall>k\<in>set stack. map_of r k = map_of resolved k"
    and "\<And>d. v = Some d \<Longrightarrow> resolved_entry declarations (alist_put a v r) a d"
  shows "resolve_post declarations stack resolved a (alist_put a v r) v"
  using assms registry_inv_put [OF assms(1,3,6)] extends_put [OF assms(2,3)]
  by (auto simp: resolve_post_def)

text \<open>The two ways in which \<open>resolve\<close> computes a new entry.\<close>

lemma resolved_entry_plain:
  assumes "map_of declarations a = Some (Some decl)" "\<not> truthy (dget decl ''alias_of'')"
    and "build_identity cp mf al ch = Inr val" "identity_snapshot a (JObj val) = Inr (JObj d)"
  shows "resolved_entry declarations r a d"
  using build_snapshot [OF assms(3,4)] assms(1,2) by (auto simp: resolved_entry_def)

lemma resolved_entry_alias:
  assumes "map_of declarations a = Some (Some decl)" "t = py_str (dget decl ''alias_of'')"
    and "resolved_entry declarations r' t target" "map_of r t = Some (Some target)"
    and "dget_or target ''alias_chain'' (JArr []) = JArr ch"
    and "build_identity (py_str (dget target ''control_principal'')) (py_str (dget target ''model_family''))
           (JStr t) (JStr t # ch) = Inr val"
    and "identity_snapshot a (JObj val) = Inr (JObj d)"
  shows "resolved_entry declarations r a d"
proof -
  obtain c m where "dget target ''control_principal'' = JStr c" "IDENTITY_VALUE_RE c"
      "dget target ''model_family'' = JStr m" "IDENTITY_VALUE_RE m"
    using assms(3) by (auto simp: resolved_entry_def)
  then show ?thesis
    using build_snapshot [OF assms(6,7)] assms(1,2,4,5) by (auto simp: resolved_entry_def)
qed

lemma snapshot_is_dict: "identity_snapshot a (JObj val) = Inr s \<Longrightarrow> \<exists>d. s = JObj d"
  by (auto simp: identity_snapshot_def)

lemma resolve_correct:
  "resolve declarations stack resolved a = Inr (resolved', v) \<Longrightarrow> registry_inv declarations resolved
   \<Longrightarrow> resolve_post declarations stack resolved a resolved' v"
proof (induction declarations stack resolved a arbitrary: resolved' v rule: resolve.induct)
  case (1 declarations stack resolved a)
  show ?case
  proof (cases "map_of resolved a")
    case (Some w)
    with "1.prems" show ?thesis
      by (subst (asm) resolve.simps) (auto simp: resolve_post_def extends_refl)
  next
    case None
    then have ns: "a \<notin> set stack" using "1.prems"(1) by (subst (asm) resolve.simps) auto
    note put = resolve_post_put [OF "1.prems"(2) extends_refl None ns]
    show ?thesis
    proof (cases "map_of declarations a")
      case nodecl: None
      then have "resolved' = alist_put a None resolved \<and> v = None"
        using "1.prems"(1) None ns by (subst (asm) resolve.simps) (auto split: if_splits)
      then show ?thesis using put [of None] by auto
    next
      case (Some decl)
      then have dom: "a \<in> fst ` set declarations" by (metis domI dom_map_of_conv_image_fst)
      show ?thesis
      proof (cases decl)
        case nodecl: None
        then have "resolved' = alist_put a None resolved \<and> v = None"
          using "1.prems"(1) None ns dom Some by (subst (asm) resolve.simps) auto
        then show ?thesis using put [of None] by auto
      next
        case decl: (Some d)
        show ?thesis
        proof (cases "truthy (dget d ''alias_of'')")
          case False
          then obtain ch val s where val: "build_identity (py_str (dget_or d ''control_principal'' (JStr [])))
              (py_str (dget_or d ''model_family'' (JStr []))) JNull ch = Inr val"
            and s: "identity_snapshot a (JObj val) = Inr s"
            and r: "resolved' = alist_put a (as_dict s) resolved" "v = as_dict s"
            using "1.prems"(1) None ns dom Some decl by (subst (asm) resolve.simps) (auto simp: Let_def)
          then show ?thesis
            using put [of v] resolved_entry_plain [OF _ False val, of declarations a] Some decl snapshot_is_dict [OF s]
            by auto
        next
          case True
          let ?t = "py_str (dget d ''alias_of'')"
          have vt: "validate_agent_id ?t = Inr ?t"
            using "1.prems"(1) None ns dom Some decl True
            by (subst (asm) resolve.simps) (auto simp: Let_def split: sum.splits)
          obtain r' tv where rec: "resolve declarations (stack @ [a]) resolved ?t = Inr (r', tv)"
            using "1.prems"(1) None ns dom Some decl True vt
            by (subst (asm) resolve.simps) (auto simp: Let_def split: sum.splits)
          have post: "resolve_post declarations (stack @ [a]) resolved ?t r' tv"
            using "1.IH" [OF None ns _ Some decl refl True vt rec "1.prems"(2)] dom by simp
          then have inv': "registry_inv declarations r'" and ext: "extends resolved r'"
            and t': "map_of r' ?t = Some tv" and a': "map_of r' a = None"
            and st: "\<forall>k\<in>set stack. map_of r' k = map_of resolved k"
            using None by (auto simp: resolve_post_def)
          note put' = resolve_post_put [OF inv' ext a' ns st]
          show ?thesis
          proof (cases tv)
            case tv: None
            then have "resolved' = alist_put a None r' \<and> v = None"
              using "1.prems"(1) None ns dom Some decl True vt rec by (subst (asm) resolve.simps) (auto simp: Let_def)
            then show ?thesis using put' [of None] by auto
          next
            case tv: (Some target)
            have te: "resolved_entry declarations r' ?t target" using inv' t' tv by (simp add: registry_inv_def)
            then obtain ch where ch: "dget_or target ''alias_chain'' (JArr []) = JArr ch"
              by (auto simp: resolved_entry_def)
            then obtain val s where val: "build_identity (py_str (dget target ''control_principal''))
                (py_str (dget target ''model_family'')) (JStr ?t) (JStr ?t # ch) = Inr val"
              and s: "identity_snapshot a (JObj val) = Inr s"
              and r: "resolved' = alist_put a (as_dict s) r'" "v = as_dict s"
              using "1.prems"(1) None ns dom Some decl True vt rec tv
              by (subst (asm) resolve.simps) (auto simp: Let_def)
            obtain e where e: "s = JObj e" using snapshot_is_dict [OF s] by blast
            have "?t \<noteq> a" using t' a' by auto
            then have "map_of (alist_put a v r') ?t = Some (Some target)" using t' tv by simp
            from resolved_entry_alias [OF _ refl te this ch val] Some decl s e
            have "resolved_entry declarations (alist_put a v r') a e" by simp
            then show ?thesis using put' [of v] r e by auto
          qed
        qed
      qed
    qed
  qed
qed

lemma map_of_declared: "map_of (declared agents) a = map_option (\<lambda>r. as_dict (dget r ''identity'')) (map_of agents a)"
  by (induction agents) (auto simp: declared_def)

lemma with_policy_keeps: "map_of ds a = Some (Some d) \<Longrightarrow> map_of (with_policy ds pa) a = Some (Some d)"
proof (induction pa arbitrary: ds)
  case (Cons p pa)
  obtain b i where p: "p = (b, i)" by (cases p)
  define ds' where "ds' = (case map_of ds b of Some (Some _) \<Rightarrow> ds | _ \<Rightarrow> alist_put b (Some i) ds)"
  have "with_policy ds (p # pa) = with_policy ds' pa" by (simp add: with_policy_def p ds'_def)
  moreover have "map_of ds' a = Some (Some d)"
    using Cons.prems by (cases "map_of ds b"; cases "the (map_of ds b)") (auto simp: ds'_def)
  ultimately show ?case using Cons.IH by simp
qed (simp add: with_policy_def)

lemma resolve_identity_registry_inv:
  assumes "resolve_identity_registry agents policy = Inr reg"
  shows "\<exists>pa. policy_agents policy = Inr pa \<and> registry_inv (with_policy (declared agents) pa) reg"
proof -
  obtain pa where pa: "policy_agents policy = Inr pa"
    and fold: "rfold (\<lambda>agent_id resolved.
        rbind (resolve (with_policy (declared agents) pa) [] resolved agent_id) (\<lambda>r. Inr (fst r)))
      (map fst (with_policy (declared agents) pa)) [] = Inr reg"
    using assms by (auto simp: resolve_identity_registry_def Let_def)
  have "registry_inv (with_policy (declared agents) pa) reg"
    using fold
  proof (rule rfold_invariant)
    show "registry_inv (with_policy (declared agents) pa) []" by (simp add: registry_inv_def)
  qed (auto dest!: resolve_correct simp: resolve_post_def)
  with pa show ?thesis by blast
qed

lemma canonical_model_family_defined: "IDENTITY_VALUE_RE m \<Longrightarrow> \<exists>c. canonical_model_family m = Inr c"
  by (auto simp: canonical_model_family_def validate_identity_value_def Let_def)

lemma same_principal_not_independent:
  assumes "resolved_entry ds r a d" "resolved_entry ds r b e"
    and "dget d ''control_principal'' = dget e ''control_principal''"
  shows "\<exists>res. evaluate_independence (JObj d) (JObj e) = Inr res \<and> dget res ''independent'' = JBool False"
proof -
  obtain m m' c where fam: "dget d ''model_family'' = JStr m" "dget e ''model_family'' = JStr m'"
      "IDENTITY_VALUE_RE m" "IDENTITY_VALUE_RE m'" and c: "dget d ''control_principal'' = JStr c"
    using assms by (auto simp: resolved_entry_def)
  obtain f where "same_family d e = Inr f"
    using fam canonical_model_family_defined [of m] canonical_model_family_defined [of m']
    by (auto simp: same_family_def)
  moreover obtain ld le where "lineage d = Inr ld" "lineage e = Inr le"
    using assms by (auto simp: resolved_entry_def lineage_def)
  ultimately have "\<exists>reasons. pair_reasons d e = Inr reasons \<and> ''same_control_principal'' \<in> set reasons"
    using c assms(3) by (auto simp: pair_reasons_def)
  then show ?thesis by (auto simp: evaluate_independence_pair)
qed

text \<open>
  An alias cannot be used to launder an identity. In a registry that resolves, the
  identity of an agent declared as an alias of another carries that agent's control principal
  and model family, and the two are never judged independent, in either role.
\<close>

theorem alias_never_independent:
  assumes "resolve_identity_registry agents policy = Inr reg"
    and "map_of agents a = Some r" "dget r ''identity'' = JObj decl" "truthy (dget decl ''alias_of'')"
    and "map_of reg a = Some (Some ia)"
  shows "\<exists>it. map_of reg (py_str (dget decl ''alias_of'')) = Some (Some it)
    \<and> dget ia ''model_family'' = dget it ''model_family''
    \<and> (\<exists>res. evaluate_independence (JObj ia) (JObj it) = Inr res \<and> dget res ''independent'' = JBool False)
    \<and> (\<exists>res. evaluate_independence (JObj it) (JObj ia) = Inr res \<and> dget res ''independent'' = JBool False)"
proof -
  obtain pa where inv: "registry_inv (with_policy (declared agents) pa) reg"
    using resolve_identity_registry_inv [OF assms(1)] by blast
  then have ia: "resolved_entry (with_policy (declared agents) pa) reg a ia"
    using assms(5) by (simp add: registry_inv_def)
  have "map_of (with_policy (declared agents) pa) a = Some (Some decl)"
    using assms(2,3) by (intro with_policy_keeps) (simp add: map_of_declared)
  with ia assms(4) obtain it where it: "map_of reg (py_str (dget decl ''alias_of'')) = Some (Some it)"
      "dget ia ''control_principal'' = dget it ''control_principal''"
      "dget ia ''model_family'' = dget it ''model_family''"
    unfolding resolved_entry_def by fast
  then have "resolved_entry (with_policy (declared agents) pa) reg (py_str (dget decl ''alias_of'')) it"
    using inv by (simp add: registry_inv_def)
  with ia it same_principal_not_independent show ?thesis by metis
qed

definition alias_agents :: "(string \<times> dict) list" where
  "alias_agents =
     [(''codex'', [(''identity'', JObj [(''control_principal'', JStr ''conductor''), (''model_family'', JStr ''openai-codex'')])]),
      (''shadow'', [(''identity'', JObj [(''alias_of'', JStr ''codex'')])])]"

definition alias_registry :: registry where
  "alias_registry = (case resolve_identity_registry alias_agents None of Inr reg \<Rightarrow> reg | Inl _ \<Rightarrow> [])"

definition shadow_identity :: dict where
  "shadow_identity = (case map_of alias_registry ''shadow'' of Some (Some d) \<Rightarrow> d | _ \<Rightarrow> [])"

theorem alias_never_independent_witness:
  "\<exists>it. map_of alias_registry (py_str (dget [(''alias_of'', JStr ''codex'')] ''alias_of'')) = Some (Some it)
    \<and> dget shadow_identity ''model_family'' = dget it ''model_family''
    \<and> (\<exists>res. evaluate_independence (JObj shadow_identity) (JObj it) = Inr res \<and> dget res ''independent'' = JBool False)
    \<and> (\<exists>res. evaluate_independence (JObj it) (JObj shadow_identity) = Inr res \<and> dget res ''independent'' = JBool False)"
proof (rule alias_never_independent)
  show "resolve_identity_registry alias_agents None = Inr alias_registry" by code_simp
  show "map_of alias_agents ''shadow'' = Some [(''identity'', JObj [(''alias_of'', JStr ''codex'')])]" by code_simp
  show "map_of alias_registry ''shadow'' = Some (Some shadow_identity)" by code_simp
qed simp_all

section \<open>Properties of the audit\<close>

lemma latest_for_eq_Inr:
  "latest_for latest seq = Inr r \<Longrightarrow> r = (case py_norm seq of JInt n \<Rightarrow> map_of latest n | _ \<Rightarrow> None)"
  by (auto simp: latest_for_def split: if_splits)

text \<open>The latest restatements are valid ones, and a revocation is never replaced.\<close>

definition valid_restatement :: "dict \<Rightarrow> bool" where
  "valid_restatement r \<longleftrightarrow>
     dget r ''effective_status'' \<in> {JStr ''verification_disputed'', JStr ''verification_revoked''}
     \<and> dget r ''valid'' = JBool True"

definition latest_inv :: "(int \<times> dict) list \<Rightarrow> bool" where
  "latest_inv latest \<longleftrightarrow> (\<forall>n r. map_of latest n = Some r \<longrightarrow> valid_restatement r)"

lemma restatement_reasons_status:
  assumes "restatement_reasons by orc event = Inr []" "dget event ''payload'' = JObj payload"
  shows "dget payload ''effective_status'' \<in> {JStr ''verification_disputed'', JStr ''verification_revoked''}"
  using assms by (auto simp: restatement_reasons_def Let_def in_strs_def split: if_splits json.splits)

lemma restatement_reasons_payload:
  "restatement_reasons by orc event = Inr [] \<Longrightarrow> \<exists>payload. dget event ''payload'' = JObj payload"
  by (auto simp: restatement_reasons_def Let_def is_dict_iff split: if_splits)

definition is_revoked :: "dict \<Rightarrow> bool" where
  "is_revoked r \<longleftrightarrow> dget r ''effective_status'' = JStr ''verification_revoked''"

text \<open>How one restatement changes the table of latest restatements.\<close>

lemma restate_event_latest:
  assumes "restate_event by orc event st = Inr st'"
  shows "latest_restatement st' = latest_restatement st
    \<or> (\<exists>n r. latest_restatement st' = alist_put n r (latest_restatement st)
        \<and> valid_restatement r
        \<and> (\<forall>p. map_of (latest_restatement st) n = Some p \<and> is_revoked p \<longrightarrow> is_revoked r))"
proof -
  obtain reasons where reasons: "restatement_reasons by orc event = Inr reasons"
    using assms by (auto simp: restate_event_def)
  show ?thesis
  proof (cases "reasons = []")
    case True
    with reasons obtain payload where payload: "dget event ''payload'' = JObj payload"
      using restatement_reasons_payload by blast
    have status: "dget payload ''effective_status'' \<in> {JStr ''verification_disputed'', JStr ''verification_revoked''}"
      using restatement_reasons_status reasons True payload by blast
    define e where "e = restatement_entry event payload []"
    have e: "valid_restatement e" "is_revoked e \<longleftrightarrow> dget payload ''effective_status'' = JStr ''verification_revoked''"
      using status by (auto simp: valid_restatement_def is_revoked_def e_def restatement_entry_def)
    have "latest_restatement st' = latest_restatement st
      \<or> (\<exists>n. latest_restatement st' = alist_put n e (latest_restatement st)
          \<and> (\<forall>p. map_of (latest_restatement st) n = Some p \<and> is_revoked p \<longrightarrow> is_revoked e))"
      using assms reasons True payload unfolding e(2)
      by (auto simp: restate_event_def Let_def e_def [symmetric] is_revoked_def split: option.splits if_splits)
    with e(1) show ?thesis by blast
  next
    case False
    with assms reasons show ?thesis by (auto simp: restate_event_def Let_def)
  qed
qed

lemma restate_event_latest_inv:
  "restate_event by orc event st = Inr st' \<Longrightarrow> latest_inv (latest_restatement st) \<Longrightarrow> latest_inv (latest_restatement st')"
  using restate_event_latest [of "by" orc event st st'] by (auto simp: latest_inv_def split: if_splits)

text \<open>
  Property C29: a revocation is final. Whatever restatements follow, the latest restatement of a
  revoked verification stays a revocation.
\<close>

theorem revocation_is_final:
  assumes "rfold (restate_event by_sequence orchestrator) events st = Inr st'"
    and "map_of (latest_restatement st) n = Some r" "is_revoked r"
  shows "\<exists>r'. map_of (latest_restatement st') n = Some r' \<and> is_revoked r'"
proof (rule rfold_invariant [OF assms(1), where P = "\<lambda>s. \<exists>r. map_of (latest_restatement s) n = Some r \<and> is_revoked r"])
  show "\<exists>r. map_of (latest_restatement st) n = Some r \<and> is_revoked r" using assms(2,3) by blast
  fix x s s' assume "\<exists>r. map_of (latest_restatement s) n = Some r \<and> is_revoked r"
    "restate_event by_sequence orchestrator x s = Inr s'"
  then show "\<exists>r. map_of (latest_restatement s') n = Some r \<and> is_revoked r"
    using restate_event_latest [of by_sequence orchestrator x s s'] by (auto split: if_splits)
qed

definition weakening :: dict where
  "weakening = [(''sequence'', JInt 5), (''task_id'', JStr ''T''), (''actor'', JStr ''codex''),
     (''payload'', JObj [(''schema_version'', JInt 1), (''target_verification_sequence'', JInt 3),
        (''target_verification_hash'', JStr ''h''), (''original_verifier'', JStr ''v''),
        (''effective_status'', JStr ''verification_disputed''), (''reason'', JStr ''r'')])]"

definition verification3 :: "(int \<times> dict) list" where
  "verification3 = [(3, [(''task_id'', JStr ''T''), (''event_hash'', JStr ''h''), (''verifier_actor'', JStr ''v'')])]"

definition revoked_state :: restatement_audit where
  "revoked_state = \<lparr>restatements = [], invalid_restatements = [],
     latest_restatement = [(3, [(''effective_status'', JStr ''verification_revoked'')])]\<rparr>"

definition weakened_state :: restatement_audit where
  "weakened_state =
     (case restate_event verification3 (Some ''codex'') weakening revoked_state of Inr st \<Rightarrow> st | Inl _ \<Rightarrow> revoked_state)"

theorem revocation_is_final_witness:
  "length (invalid_restatements weakened_state) = 1
   \<and> (\<exists>r'. map_of (latest_restatement weakened_state) 3 = Some r' \<and> is_revoked r')"
proof
  show "length (invalid_restatements weakened_state) = 1" by code_simp
  show "\<exists>r'. map_of (latest_restatement weakened_state) 3 = Some r' \<and> is_revoked r'"
  proof (rule revocation_is_final)
    show "rfold (restate_event verification3 (Some ''codex'')) [weakening] revoked_state = Inr weakened_state"
      by code_simp
    show "map_of (latest_restatement revoked_state) 3 = Some [(''effective_status'', JStr ''verification_revoked'')]"
      by code_simp
    show "is_revoked [(''effective_status'', JStr ''verification_revoked'')]" by code_simp
  qed
qed

lemma effective_verification_spec:
  assumes "effective_verification latest verification = Inr (v, unresolved)" "latest_inv latest"
  shows "dget v ''audited_independence'' = dget verification ''audited_independence''"
    and "dget v ''effective_status'' = JStr ''verified'' \<Longrightarrow>
           is_true (vget (dget verification ''audited_independence'') ''independent'') \<and> dget v ''restatement'' = JNull"
    and "unresolved = [] \<Longrightarrow> \<not> is_true (vget (dget verification ''audited_independence'') ''independent'') \<Longrightarrow>
           is_dict (dget v ''restatement'')
           \<and> dget v ''effective_status'' \<in> {JStr ''verification_disputed'', JStr ''verification_revoked''}"
proof -
  obtain res where res: "latest_for latest (dget verification ''sequence'') = Inr res"
    using assms(1) by (auto simp: effective_verification_def Let_def)
  have st: "dget r ''effective_status'' \<in> {JStr ''verification_disputed'', JStr ''verification_revoked''}"
    if "res = Some r" for r
    using latest_for_eq_Inr [OF res] that assms(2)
    by (auto simp: latest_inv_def valid_restatement_def split: json.splits)
  show "dget v ''audited_independence'' = dget verification ''audited_independence''"
    using assms(1) res by (auto simp: effective_verification_def Let_def split: option.splits if_splits)
  show "dget v ''effective_status'' = JStr ''verified'' \<Longrightarrow>
      is_true (vget (dget verification ''audited_independence'') ''independent'') \<and> dget v ''restatement'' = JNull"
    using assms(1) res st by (auto simp: effective_verification_def Let_def split: option.splits if_splits)
  show "unresolved = [] \<Longrightarrow> \<not> is_true (vget (dget verification ''audited_independence'') ''independent'') \<Longrightarrow>
      is_dict (dget v ''restatement'')
      \<and> dget v ''effective_status'' \<in> {JStr ''verification_disputed'', JStr ''verification_revoked''}"
    using assms(1) res st by (auto simp: effective_verification_def Let_def split: option.splits if_splits)
qed

text \<open>
  Property C36: when the audit reports a ledger as valid, every verification it lists as verified
  was judged independent, and every verification that was not judged independent carries a
  restatement that disputes or revokes it.
\<close>

theorem audit_valid_sound:
  assumes "audit_verification_events events agents policy orchestrator = Inr r"
    and "dget r ''valid'' = JBool True" "dget r ''verifications'' = JArr vs" "JObj v \<in> set vs"
  shows "(dget v ''effective_status'' = JStr ''verified'' \<longrightarrow>
            is_true (vget (dget v ''audited_independence'') ''independent''))
       \<and> (\<not> is_true (vget (dget v ''audited_independence'') ''independent'') \<longrightarrow>
            is_dict (dget v ''restatement'')
            \<and> dget v ''effective_status'' \<in> {JStr ''verification_disputed'', JStr ''verification_revoked''})"
proof -
  obtain by_seq evs rst avs pairs where
    rst: "rfold (restate_event by_seq orchestrator) evs
            \<lparr>restatements = [], invalid_restatements = [], latest_restatement = []\<rparr> = Inr rst"
    and pairs: "rmap (effective_verification (latest_restatement rst)) avs = Inr pairs"
    and vs: "vs = map (JObj \<circ> fst) pairs" and un: "concat (map snd pairs) = []"
    using assms(1-3) unfolding audit_verification_events_def by (auto simp: Let_def)
  have inv: "latest_inv (latest_restatement rst)"
    using rst by (rule rfold_invariant [where P = "\<lambda>s. latest_inv (latest_restatement s)"])
      (auto intro: restate_event_latest_inv simp: latest_inv_def [of "[]"])
  obtain u where "(v, u) \<in> set pairs" using assms(4) vs by auto
  then obtain verification where ev: "effective_verification (latest_restatement rst) verification = Inr (v, u)"
    using pairs by (auto simp: rmap_eq_Inr list_all2_conv_all_nth in_set_conv_nth)
  have "u = []" using un \<open>(v, u) \<in> set pairs\<close> by auto
  with effective_verification_spec [OF ev inv] show ?thesis by metis
qed

definition audited_ledger :: "dict list" where
  "audited_ledger =
     [[(''sequence'', JInt 1), (''action'', JStr ''task.submitted''), (''task_id'', JStr ''T''), (''actor'', JStr ''w''),
       (''payload'', JObj [(''worker_identity'', JObj (sample_identity ''w'' ''cw'' ''google-antigravity''))])],
      [(''sequence'', JInt 2), (''action'', JStr ''task.verified''), (''task_id'', JStr ''T''), (''actor'', JStr ''v''),
       (''payload'', JObj [(''verifier_identity'', JObj (sample_identity ''v'' ''cv'' ''openai-codex''))])]]"

definition audited_report :: dict where
  "audited_report =
     (case audit_verification_events audited_ledger [] None (Some ''v'') of Inr r \<Rightarrow> r | Inl _ \<Rightarrow> [])"

definition audited_record :: dict where
  "audited_record =
     (case dget audited_report ''verifications'' of JArr [JObj v] \<Rightarrow> v | _ \<Rightarrow> [])"

theorem audit_valid_sound_witness:
  "dget audited_record ''effective_status'' = JStr ''verified''
   \<and> is_true (vget (dget audited_record ''audited_independence'') ''independent'')"
proof
  show status: "dget audited_record ''effective_status'' = JStr ''verified''" by code_simp
  have run: "audit_verification_events audited_ledger [] None (Some ''v'') = Inr audited_report" by code_simp
  have "dget audited_report ''valid'' = JBool True" by code_simp
  moreover have "dget audited_report ''verifications'' = JArr [JObj audited_record]" by code_simp
  ultimately show "is_true (vget (dget audited_record ''audited_independence'') ''independent'')"
    using audit_valid_sound [OF run, of _ audited_record] status by simp
qed

end
