(* ===== verification/Verification_Run.thy ===== *)
theory Verification_Run
  imports Task_Model
begin

text \<open>
  The lifecycle audit of verification runs (\<^verbatim>\<open>verification_lifecycle.py\<close>): a run is opened by
  one \<^verbatim>\<open>verification.started\<close> event and closed by at most one terminal event that is bound to
  it. The audit groups the events by run, \<open>find_verification_run\<close> looks one run up, and
  \<open>require_authoritative_verification_terminal\<close> accepts a terminal event only if it is the only
  one of a valid run.

  Comparing a sequence number with a non-integral float is outside the model (a \<open>TypeError\<close>).
\<close>

section \<open>Bindings\<close>

definition VERIFICATION_TERMINAL_ACTIONS :: "string list" where
  "VERIFICATION_TERMINAL_ACTIONS = [''verification.failed'', ''task.verified'', ''task.rejected'']"

abbreviation RUN_ID_RE :: "string \<Rightarrow> bool" where "RUN_ID_RE \<equiv> fullmatch_hex 32"
abbreviation SHA256_RE :: "string \<Rightarrow> bool" where "SHA256_RE \<equiv> fullmatch_hex 64"

fun is_sha_text :: "json \<Rightarrow> bool" where
  "is_sha_text (JStr s) = SHA256_RE (lower s)"
| "is_sha_text _ = False"

definition receipt_is_bound :: "json \<Rightarrow> json \<Rightarrow> string \<Rightarrow> json \<Rightarrow> json \<Rightarrow> json \<Rightarrow> bool" where
  "receipt_is_bound receipt actor operation task_id run_id task_attempt =
     (case receipt of
        JObj r \<Rightarrow>
          let attestation = dget r ''os_principal_attestation'' in
          py_eq (dget r ''schema_version'') (JInt 2)
          \<and> py_eq (dget r ''receipt_type'') (JStr ''actor-capability-consumption'')
          \<and> py_eq (dget r ''actor'') actor
          \<and> py_eq (dget r ''operation'') (JStr operation)
          \<and> py_eq (dget r ''task_id'') task_id
          \<and> py_eq (dget r ''run_id'') run_id
          \<and> py_eq (dget r ''task_attempt'') task_attempt
          \<and> (case dget r ''nonce_sha256'' of JStr s \<Rightarrow> SHA256_RE s | _ \<Rightarrow> False)
          \<and> (case dget r ''signature'' of JStr s \<Rightarrow> s \<noteq> [] | _ \<Rightarrow> False)
          \<and> is_dict attestation
          \<and> is_bool (dget r ''independent_trust_root'')
          \<and> is_bool (dget r ''actor_os_isolation_proven'')
          \<and> vget attestation ''independent_trust_root'' = dget r ''independent_trust_root''
          \<and> vget attestation ''actor_os_isolation_proven'' = dget r ''actor_os_isolation_proven''
      | _ \<Rightarrow> False)"

text \<open>\<^verbatim>\<open>event.get("payload", {})\<close>, on which the code goes on to call \<^verbatim>\<open>get\<close>.\<close>

definition payload_of :: "dict \<Rightarrow> dict res" where
  "payload_of e =
     (case dget_or e ''payload'' (JObj []) of JObj d \<Rightarrow> Inr d | _ \<Rightarrow> raise AttributeError ''get'')"

text \<open>\<open>reason_if b r\<close>: \<^verbatim>\<open>if b: reasons.append(r)\<close>.\<close>

definition reason_if :: "bool \<Rightarrow> string \<Rightarrow> string list" where
  "reason_if b r = (if b then [r] else [])"

text \<open>The checks of a started event that do not depend on the terminal event.\<close>

definition started_reasons :: "dict \<Rightarrow> dict \<Rightarrow> string list" where
  "started_reasons start sp =
     (let worker_manifest = dget sp ''worker_manifest_sha256'' in
      reason_if (\<not> receipt_is_bound (dget sp ''capability_receipt'') (dget start ''actor'') ''task.verify''
                    (dget start ''task_id'') (dget sp ''run_id'') (dget sp ''task_attempt''))
        ''started_capability_receipt_invalid''
      @ reason_if (\<not> is_dict (dget sp ''verifier_identity'')) ''started_verifier_identity_missing''
      @ reason_if (\<not> is_sha_text (dget sp ''verifier_manifest_sha256'')) ''started_verifier_manifest_invalid''
      @ reason_if (worker_manifest \<noteq> JNull \<and> \<not> is_sha_text worker_manifest) ''started_worker_manifest_invalid''
      @ reason_if (\<not> is_sha_text (dget sp ''verification_contract_inputs_sha256''))
          ''started_contract_inputs_invalid'')"

text \<open>A verdict must repeat what the started event fixed.\<close>

definition verdict_reasons :: "dict \<Rightarrow> dict \<Rightarrow> dict \<Rightarrow> dict \<Rightarrow> string list" where
  "verdict_reasons start sp terminal tp =
     reason_if (\<not> py_eq (dget terminal ''actor'') (dget start ''actor'')) ''terminal_actor_mismatch''
     @ (case (case dget tp ''task'' of JObj t \<Rightarrow> dget t ''verification'' | _ \<Rightarrow> JNull) of
          JObj v \<Rightarrow>
            let evidence = dget v ''verifier_evidence'';
                trusted = dget v ''trusted_validation'';
                same = (\<lambda>k k'. py_eq (dget v k) (dget sp k') \<and> py_eq (dget tp k) (dget sp k'))
            in
            reason_if (\<not> same ''verifier_identity'' ''verifier_identity'') ''terminal_verifier_identity_mismatch''
            @ (if \<not> is_dict evidence
                  \<or> \<not> py_eq (vget evidence ''manifest_sha256'') (dget sp ''verifier_manifest_sha256'')
                  \<or> \<not> py_eq (dget tp ''verifier_evidence'') evidence
               then [''terminal_verifier_manifest_mismatch'']
               else reason_if (\<not> is_dict (vget evidence ''executor_attestation''))
                      ''terminal_executor_attestation_missing'')
            @ reason_if (\<not> same ''worker_manifest_sha256'' ''worker_manifest_sha256'')
                ''terminal_worker_manifest_mismatch''
            @ reason_if (\<not> same ''verification_contract_inputs_sha256'' ''verification_contract_inputs_sha256'')
                ''terminal_contract_inputs_mismatch''
            @ reason_if (\<not> same ''capability_receipt'' ''capability_receipt'')
                ''terminal_capability_receipt_mismatch''
            @ (if \<not> py_eq (dget tp ''trusted_validation'') trusted
               then [''terminal_trusted_contract_mismatch'']
               else reason_if (\<not> is_dict trusted \<or> \<not> is_sha_text (vget trusted ''validation_contract_sha256''))
                      ''terminal_trusted_contract_invalid'')
        | _ \<Rightarrow> [''terminal_verification_missing''])"

definition failure_reasons :: "dict \<Rightarrow> dict \<Rightarrow> dict \<Rightarrow> dict \<Rightarrow> string list" where
  "failure_reasons start sp terminal tp =
     (if dget tp ''stage'' = JStr ''recovery'' then
        reason_if (\<not> py_eq (dget tp ''started_actor'') (dget start ''actor'')
                   \<or> \<not> py_eq (dget tp ''started_capability_receipt'') (dget sp ''capability_receipt''))
          ''recovery_started_binding_mismatch''
        @ reason_if (\<not> receipt_is_bound (dget tp ''capability_receipt'') (dget terminal ''actor'')
                        ''task.reconcile_verification'' (dget start ''task_id'') (dget sp ''run_id'')
                        (dget sp ''task_attempt''))
            ''recovery_capability_receipt_invalid''
      else
        reason_if (\<not> py_eq (dget terminal ''actor'') (dget start ''actor'')) ''failed_terminal_actor_mismatch''
        @ reason_if (\<not> py_eq (dget tp ''capability_receipt'') (dget sp ''capability_receipt''))
            ''failed_terminal_capability_receipt_mismatch'')
     @ reason_if (\<not> py_eq (dget tp ''verifier_identity'') (dget sp ''verifier_identity'')
                  \<or> \<not> py_eq (dget tp ''verifier_manifest_sha256'') (dget sp ''verifier_manifest_sha256'')
                  \<or> \<not> py_eq (dget tp ''worker_manifest_sha256'') (dget sp ''worker_manifest_sha256'')
                  \<or> \<not> py_eq (dget tp ''verification_contract_inputs_sha256'')
                        (dget sp ''verification_contract_inputs_sha256''))
         ''failed_terminal_context_mismatch''"

definition verification_binding_reasons :: "dict \<Rightarrow> dict \<Rightarrow> string list res" where
  "verification_binding_reasons start terminal =
     rbind (payload_of start) (\<lambda>sp.
     rbind (payload_of terminal) (\<lambda>tp.
     rbind (in_strs (dget terminal ''action'') [''task.verified'', ''task.rejected'']) (\<lambda>verdict.
     Inr (started_reasons start sp
          @ (if verdict then verdict_reasons start sp terminal tp
             else if dget terminal ''action'' = JStr ''verification.failed''
             then failure_reasons start sp terminal tp
             else [])))))"

definition validate_verification_run_id :: "json \<Rightarrow> string res" where
  "validate_verification_run_id v =
     (case v of
        JStr s \<Rightarrow>
          if RUN_ID_RE s then Inr s
          else raise ValueError ''Verification run id must be 32 lowercase hexadecimal chars''
      | _ \<Rightarrow> raise ValueError ''Verification run id must be 32 lowercase hexadecimal chars'')"

section \<open>The audit\<close>

record run_group =
  started_events :: "dict list"
  terminal_events :: "dict list"

text \<open>\<^verbatim>\<open>action == "verification.started" or action in VERIFICATION_TERMINAL_ACTIONS\<close>.\<close>

definition lifecycle_action :: "json \<Rightarrow> bool res" where
  "lifecycle_action action =
     (if action = JStr ''verification.started'' then Inr True
      else in_strs action VERIFICATION_TERMINAL_ACTIONS)"

text \<open>The run id of an event, \<open>None\<close> when its payload is not an object.\<close>

definition event_run :: "dict \<Rightarrow> json" where
  "event_run e = (case dget e ''payload'' of JObj p \<Rightarrow> dget p ''run_id'' | _ \<Rightarrow> JNull)"

definition add_event :: "dict \<Rightarrow> run_group \<Rightarrow> run_group" where
  "add_event event g =
     (if dget event ''action'' = JStr ''verification.started''
      then g\<lparr>started_events := started_events g @ [event]\<rparr>
      else g\<lparr>terminal_events := terminal_events g @ [event]\<rparr>)"

definition new_group :: run_group where
  "new_group = \<lparr>started_events = [], terminal_events = []\<rparr>"

text \<open>One event of the grouping loop.\<close>

definition group_event ::
  "dict \<Rightarrow> (string \<times> run_group) list \<times> dict list \<Rightarrow> ((string \<times> run_group) list \<times> dict list) res" where
  "group_event event st =
     (let action = dget event ''action''; run_id = event_run event in
      rbind (lifecycle_action action) (\<lambda>relevant.
      if \<not> relevant then Inr st
      else if run_id = JNull \<and> (action = JStr ''task.verified'' \<or> action = JStr ''task.rejected'') then Inr st
      else if \<not> (case run_id of JStr s \<Rightarrow> RUN_ID_RE s | _ \<Rightarrow> False) then
        Inr (fst st, snd st @
          [[(''sequence'', dget event ''sequence''), (''task_id'', dget event ''task_id''),
            (''action'', action), (''reason'', JStr ''invalid_run_id'')]])
      else
        let s = py_str run_id;
            g = (case map_of (fst st) s of Some g \<Rightarrow> g | None \<Rightarrow> new_group)
        in Inr (alist_put s (add_event event g) (fst st), snd st)))"

text \<open>\<^verbatim>\<open>not isinstance(a, int) or a <= b\<close>.\<close>

definition not_after :: "json \<Rightarrow> json \<Rightarrow> bool res" where
  "not_after a b =
     (case as_int a of
        None \<Rightarrow> Inr True
      | Some n \<Rightarrow>
          (case py_norm b of JInt m \<Rightarrow> Inr (n \<le> m) | _ \<Rightarrow> raise TypeError ''<= not supported''))"

definition terminal_shape_reasons :: "string \<Rightarrow> dict \<Rightarrow> dict \<Rightarrow> dict \<Rightarrow> string list" where
  "terminal_shape_reasons run_id start terminal tp =
     (if dget terminal ''action'' = JStr ''task.verified'' \<or> dget terminal ''action'' = JStr ''task.rejected'' then
        let expected_state =
              (if dget terminal ''action'' = JStr ''task.verified'' then ''verified'' else ''rejected'')
        in case dget tp ''task'' of
             JObj t \<Rightarrow>
               reason_if (\<not> py_eq (dget t ''id'') (dget start ''task_id'')) ''terminal_task_snapshot_id_mismatch''
               @ reason_if (dget t ''state'' \<noteq> JStr expected_state) ''terminal_task_state_mismatch''
               @ (case dget t ''verification'' of
                    JObj v \<Rightarrow> reason_if (dget v ''run_id'' \<noteq> JStr run_id) ''terminal_task_run_id_mismatch''
                  | _ \<Rightarrow> [''terminal_task_run_id_mismatch''])
           | _ \<Rightarrow> [''terminal_task_missing'']
      else if dget terminal ''action'' = JStr ''verification.failed'' then
        reason_if (\<not> py_eq (dget tp ''schema_version'') (JInt 1)) ''failed_terminal_schema_mismatch''
        @ reason_if (\<not> is_str (dget tp ''stage'')) ''failed_terminal_stage_missing''
        @ reason_if (\<not> is_str (dget tp ''error_type'')) ''failed_terminal_error_type_missing''
      else [])"

definition pair_audit_reasons :: "string \<Rightarrow> dict \<Rightarrow> dict \<Rightarrow> string list res" where
  "pair_audit_reasons run_id start terminal =
     rbind (not_after (dget terminal ''sequence'') (dget_or start ''sequence'' (JInt 0))) (\<lambda>early.
     rbind (payload_of start) (\<lambda>sp.
     rbind (payload_of terminal) (\<lambda>tp.
     rbind (verification_binding_reasons start terminal) (\<lambda>binding.
     let terminal_attempt =
           (if dget tp ''task_attempt'' \<noteq> JNull then dget tp ''task_attempt''
            else case dget tp ''task'' of JObj t \<Rightarrow> dget t ''attempt'' | _ \<Rightarrow> JNull)
     in
     Inr (reason_if (\<not> py_eq (dget terminal ''task_id'') (dget start ''task_id'')) ''terminal_task_id_mismatch''
          @ reason_if early ''terminal_not_after_started''
          @ reason_if (\<not> py_eq terminal_attempt (dget sp ''task_attempt'')) ''terminal_attempt_mismatch''
          @ terminal_shape_reasons run_id start terminal tp
          @ binding)))))"

text \<open>The record of one run; \<open>single xs\<close> is the element of a one-element list.\<close>

fun single :: "'a list \<Rightarrow> 'a option" where
  "single [x] = Some x"
| "single _ = None"

definition run_reasons :: "string \<Rightarrow> run_group \<Rightarrow> string list res" where
  "run_reasons run_id g =
     rbind (case (single (started_events g), single (terminal_events g)) of
              (Some start, Some terminal) \<Rightarrow> pair_audit_reasons run_id start terminal
            | _ \<Rightarrow> Inr []) (\<lambda>pair.
     Inr (reason_if (started_events g = []) ''missing_started''
          @ reason_if (1 < length (started_events g)) ''duplicate_started''
          @ reason_if (1 < length (terminal_events g)) ''multiple_terminal_events''
          @ pair))"

definition opt_field :: "dict option \<Rightarrow> string \<Rightarrow> json" where
  "opt_field e k = (case e of None \<Rightarrow> JNull | Some d \<Rightarrow> dget d k)"

definition run_record :: "string \<Rightarrow> run_group \<Rightarrow> string list \<Rightarrow> dict" where
  "run_record run_id g reasons =
     (let start = single (started_events g); terminal = single (terminal_events g) in
      [(''run_id'', JStr run_id),
       (''task_id'', if start \<noteq> None then opt_field start ''task_id'' else opt_field terminal ''task_id''),
       (''started_sequence'', opt_field start ''sequence''),
       (''terminal_sequence'', opt_field terminal ''sequence''),
       (''terminal_action'', opt_field terminal ''action''),
       (''valid'', JBool (reasons = [])),
       (''reasons'', JArr (map JStr reasons))])"

definition audit_run :: "string \<times> run_group \<Rightarrow> (run_group \<times> string list \<times> dict) res" where
  "audit_run p =
     rbind (run_reasons (fst p) (snd p)) (\<lambda>reasons.
     Inr (snd p, reasons, run_record (fst p) (snd p) reasons))"

definition is_orphaned :: "run_group \<times> string list \<times> dict \<Rightarrow> bool" where
  "is_orphaned r \<longleftrightarrow>
     single (started_events (fst r)) \<noteq> None \<and> terminal_events (fst r) = [] \<and> fst (snd r) = []"

definition audit_verification_runs :: "dict list \<Rightarrow> dict res" where
  "audit_verification_runs events =
     rbind (rfold group_event events ([], [])) (\<lambda>(grouped, invalid_events).
     rbind (rmap audit_run (sort_key fst grouped)) (\<lambda>rs.
     let orphaned = filter is_orphaned rs;
         invalid = filter (\<lambda>r. fst (snd r) \<noteq> []) rs
     in
     Inr [(''valid'', JBool (invalid_events = [] \<and> invalid = [] \<and> orphaned = [])),
          (''runs'', JArr (map (\<lambda>r. JObj (snd (snd r))) rs)),
          (''orphaned_runs'', JArr (map (\<lambda>r. JObj (snd (snd r))) orphaned)),
          (''invalid_runs'', JArr (map (\<lambda>r. JObj (snd (snd r))) invalid)),
          (''invalid_events'', JArr (map JObj invalid_events))]))"

section \<open>Looking a run up\<close>

definition find_event ::
  "string \<Rightarrow> string \<Rightarrow> dict \<Rightarrow> dict list \<times> dict list \<Rightarrow> (dict list \<times> dict list) res" where
  "find_event task_id run_id event st =
     (case dget event ''payload'' of
        JObj payload \<Rightarrow>
          if dget payload ''run_id'' \<noteq> JStr run_id then Inr st
          else
            let action = dget event ''action'' in
            rbind (lifecycle_action action) (\<lambda>relevant.
            if \<not> relevant then Inr st
            else if dget event ''task_id'' \<noteq> JStr task_id
            then raise ValueError ''Verification run id is bound to a different task''
            else if action = JStr ''verification.started'' then Inr (fst st @ [event], snd st)
            else Inr (fst st, snd st @ [event]))
      | _ \<Rightarrow> Inr st)"

definition find_verification_run ::
  "dict list \<Rightarrow> string \<Rightarrow> string \<Rightarrow> (dict option \<times> dict list) res" where
  "find_verification_run events task_id run_id =
     rbind (rfold (find_event task_id run_id) events ([], [])) (\<lambda>(starts, terminals).
     if 1 < length starts then raise ValueError ''Verification run has duplicate started events''
     else
       rbind (case (single starts, single terminals) of
                (Some s, Some t) \<Rightarrow> verification_binding_reasons s t
              | _ \<Rightarrow> Inr []) (\<lambda>reasons.
       if reasons \<noteq> [] then raise ValueError ''Verification run start/terminal binding is invalid: ''
       else Inr (case starts of [] \<Rightarrow> None | s # _ \<Rightarrow> Some s, terminals)))"

definition require_authoritative_verification_terminal ::
  "dict list \<Rightarrow> string \<Rightarrow> string \<Rightarrow> dict \<Rightarrow> dict res" where
  "require_authoritative_verification_terminal events task_id run_id terminal_event =
     rbind (validate_verification_run_id (JStr run_id)) (\<lambda>_.
     rbind (find_verification_run events task_id run_id) (\<lambda>(started, terminals).
     case (started, single terminals) of
       (Some start, Some t) \<Rightarrow>
         if \<not> py_eq (JObj t) (JObj terminal_event)
         then raise ValueError ''Verification run must have one exact selected terminal event''
         else
           rbind (audit_verification_runs events) (\<lambda>audit.
           let matching = filter (\<lambda>r. vget r ''run_id'' = JStr run_id \<and> vget r ''task_id'' = JStr task_id)
                 (case dget audit ''runs'' of JArr rs \<Rightarrow> rs | _ \<Rightarrow> [])
           in case single matching of
                Some r \<Rightarrow>
                  if is_true (vget r ''valid'')
                     \<and> py_eq (vget r ''started_sequence'') (dget start ''sequence'')
                     \<and> py_eq (vget r ''terminal_sequence'') (dget terminal_event ''sequence'')
                     \<and> py_eq (vget r ''terminal_action'') (dget terminal_event ''action'')
                  then Inr start
                  else raise ValueError ''Verification run lifecycle audit rejected the terminal''
              | None \<Rightarrow> raise ValueError ''Verification run lifecycle audit rejected the terminal'')
     | _ \<Rightarrow> raise ValueError ''Verification run must have one exact selected terminal event''))"

section \<open>The events of a run\<close>

definition is_start :: "string \<Rightarrow> dict \<Rightarrow> bool" where
  "is_start run_id e \<longleftrightarrow> event_run e = JStr run_id \<and> dget e ''action'' = JStr ''verification.started''"

definition is_terminal :: "string \<Rightarrow> dict \<Rightarrow> bool" where
  "is_terminal run_id e \<longleftrightarrow>
     event_run e = JStr run_id \<and> (\<exists>a\<in>set VERIFICATION_TERMINAL_ACTIONS. dget e ''action'' = JStr a)"

lemma terminal_not_start: "is_terminal s e \<Longrightarrow> \<not> is_start s e"
  by (auto simp: is_start_def is_terminal_def VERIFICATION_TERMINAL_ACTIONS_def)

lemma lifecycle_action_eq_Inr:
  "lifecycle_action a = Inr b \<Longrightarrow>
     b \<longleftrightarrow> a = JStr ''verification.started'' \<or> (\<exists>t\<in>set VERIFICATION_TERMINAL_ACTIONS. a = JStr t)"
  by (auto simp: lifecycle_action_def in_strs_def split: if_splits json.splits)

definition add_to_group :: "string \<Rightarrow> dict \<Rightarrow> run_group option \<Rightarrow> run_group option" where
  "add_to_group s e g =
     (if is_start s e \<or> is_terminal s e
      then Some (add_event e (case g of None \<Rightarrow> new_group | Some h \<Rightarrow> h)) else g)"

lemma group_event_map_of:
  assumes "group_event e st = Inr st'" "RUN_ID_RE s"
  shows "map_of (fst st') s = add_to_group s e (map_of (fst st) s)"
proof -
  obtain rel where rel: "lifecycle_action (dget e ''action'') = Inr rel"
    using assms(1) by (auto simp: group_event_def Let_def)
  have rel_iff: "event_run e = JStr s \<Longrightarrow> rel \<longleftrightarrow> is_start s e \<or> is_terminal s e"
    using lifecycle_action_eq_Inr [OF rel] by (auto simp: is_start_def is_terminal_def)
  show ?thesis
  proof (cases "event_run e = JStr s")
    case True
    then show ?thesis
      using assms rel rel_iff by (auto simp: group_event_def Let_def add_to_group_def split: if_splits)
  next
    case False
    then have "add_to_group s e (map_of (fst st) s) = map_of (fst st) s"
      by (simp add: add_to_group_def is_start_def is_terminal_def)
    moreover have "map_of (fst st') s = map_of (fst st) s"
      using assms False rel
      by (cases "event_run e") (auto simp: group_event_def Let_def split: if_splits)
    ultimately show ?thesis by simp
  qed
qed

text \<open>After the grouping loop, the group of a run holds exactly its events, in ledger order.\<close>

definition group_of :: "string \<Rightarrow> dict list \<Rightarrow> run_group option" where
  "group_of s es =
     (if filter (is_start s) es = [] \<and> filter (is_terminal s) es = [] then None
      else Some \<lparr>started_events = filter (is_start s) es, terminal_events = filter (is_terminal s) es\<rparr>)"

lemma group_of_snoc: "add_to_group s e (group_of s es) = group_of s (es @ [e])"
  using terminal_not_start [of s e]
  by (auto simp: add_to_group_def group_of_def add_event_def new_group_def is_start_def is_terminal_def)

lemma grouped_map_of:
  assumes "rfold group_event es ([], []) = Inr st" "RUN_ID_RE s"
  shows "map_of (fst st) s = group_of s es"
  using assms(1)
proof (induction es arbitrary: st rule: rev_induct)
  case Nil
  then show ?case by (auto simp: group_of_def)
next
  case (snoc e es)
  then show ?case
    using group_event_map_of [OF _ assms(2)] group_of_snoc [of s e es]
    by (fastforce simp: rfold_append)
qed

lemma group_event_put:
  "group_event e st = Inr st' \<Longrightarrow>
     fst st' = fst st \<or> (\<exists>k g. RUN_ID_RE k \<and> fst st' = alist_put k g (fst st))"
  by (cases "event_run e", auto simp: group_event_def Let_def split: if_splits) blast

definition keys_ok :: "(string \<times> 'a) list \<Rightarrow> bool" where
  "keys_ok kvs \<longleftrightarrow> distinct (map fst kvs) \<and> (\<forall>k\<in>fst ` set kvs. RUN_ID_RE k)"

lemma keys_ok_put: "keys_ok kvs \<Longrightarrow> RUN_ID_RE k \<Longrightarrow> keys_ok (alist_put k v kvs)"
  by (simp add: keys_ok_def)

lemma grouped_keys:
  assumes "rfold group_event es ([], []) = Inr st"
  shows "keys_ok (fst st)"
proof (rule rfold_invariant [OF assms, where P = "\<lambda>st. keys_ok (fst st)"])
  fix e st st' assume "keys_ok (fst st)" "group_event e st = Inr st'"
  then show "keys_ok (fst st')" using group_event_put [of e st st'] keys_ok_put by metis
qed (simp add: keys_ok_def)

lemma single_eq_Some [simp]: "single xs = Some x \<longleftrightarrow> xs = [x]"
  by (cases xs rule: single.cases) auto

lemma reason_if_Nil [simp]: "reason_if b r = [] \<longleftrightarrow> \<not> b"
  by (simp add: reason_if_def)

text \<open>A run without findings has one started event and, if it is not open, one terminal event bound to it.\<close>

lemma run_reasons_Nil:
  "run_reasons run_id g = Inr [] \<longleftrightarrow>
     (\<exists>s. started_events g = [s]
        \<and> (terminal_events g = []
           \<or> (\<exists>t. terminal_events g = [t] \<and> pair_audit_reasons run_id s t = Inr [])))"
proof (cases "single (started_events g)")
  case None
  then have "started_events g = [] \<or> 1 < length (started_events g)"
    by (cases "started_events g" rule: single.cases) auto
  then show ?thesis by (auto simp: run_reasons_def None split: option.splits)
next
  case (Some s)
  show ?thesis
    by (cases "terminal_events g" rule: single.cases) (use Some in \<open>auto simp: run_reasons_def\<close>)
qed

section \<open>Properties\<close>

lemma audit_verification_runs_eq_Inr:
  "audit_verification_runs events = Inr r \<Longrightarrow>
     \<exists>grouped bad rs. rfold group_event events ([], []) = Inr (grouped, bad)
       \<and> rmap audit_run (sort_key fst grouped) = Inr rs
       \<and> dget r ''valid'' = JBool (bad = [] \<and> filter (\<lambda>r. fst (snd r) \<noteq> []) rs = [] \<and> filter is_orphaned rs = [])
       \<and> dget r ''runs'' = JArr (map (\<lambda>r. JObj (snd (snd r))) rs)"
  by (auto simp: audit_verification_runs_def Let_def)

lemma audited_group:
  assumes "rfold group_event events ([], []) = Inr (grouped, bad)"
    and "rmap audit_run (sort_key fst grouped) = Inr rs"
    and "RUN_ID_RE run_id" "group_of run_id events = Some g"
  shows "\<exists>reasons. run_reasons run_id g = Inr reasons \<and> (g, reasons, run_record run_id g reasons) \<in> set rs"
proof -
  have "map_of grouped run_id = Some g" using grouped_map_of [OF assms(1,3)] assms(4) by simp
  then have "(run_id, g) \<in> set (sort_key fst grouped)" by (simp add: map_of_SomeD)
  then obtain i where "i < length (sort_key fst grouped)" "sort_key fst grouped ! i = (run_id, g)"
    unfolding in_set_conv_nth by blast
  then have "audit_run (run_id, g) = Inr (rs ! i)" "i < length rs"
    using assms(2) by (auto simp: rmap_eq_Inr list_all2_conv_all_nth)
  then show ?thesis using nth_mem by (fastforce simp: audit_run_def)
qed

text \<open>
  When the audit reports a ledger as valid, every run that has any lifecycle event
  has exactly one started event and exactly one terminal event, and the two pass every binding
  check: no run is left open, closed twice, or closed by an event bound to something else.
\<close>

theorem audit_runs_valid_complete:
  assumes "audit_verification_runs events = Inr r" "dget r ''valid'' = JBool True" "RUN_ID_RE run_id"
    and "\<exists>e\<in>set events. is_start run_id e \<or> is_terminal run_id e"
  shows "\<exists>s t. filter (is_start run_id) events = [s] \<and> filter (is_terminal run_id) events = [t]
    \<and> pair_audit_reasons run_id s t = Inr []"
proof -
  obtain grouped bad rs where
    grouped: "rfold group_event events ([], []) = Inr (grouped, bad)"
    and rs: "rmap audit_run (sort_key fst grouped) = Inr rs"
    and ok: "filter (\<lambda>r. fst (snd r) \<noteq> []) rs = []" "filter is_orphaned rs = []"
    using audit_verification_runs_eq_Inr [OF assms(1)] assms(2) by auto
  let ?g = "\<lparr>started_events = filter (is_start run_id) events, terminal_events = filter (is_terminal run_id) events\<rparr>"
  have "group_of run_id events = Some ?g" using assms(4) by (auto simp: group_of_def filter_empty_conv)
  then obtain reasons where reasons: "run_reasons run_id ?g = Inr reasons"
    and mem: "(?g, reasons, run_record run_id ?g reasons) \<in> set rs"
    using audited_group [OF grouped rs assms(3)] by blast
  have "reasons = []" using ok(1) mem by (auto simp: filter_empty_conv)
  with reasons obtain s where s: "filter (is_start run_id) events = [s]"
    and t: "filter (is_terminal run_id) events = []
      \<or> (\<exists>t. filter (is_terminal run_id) events = [t] \<and> pair_audit_reasons run_id s t = Inr [])"
    by (auto simp: run_reasons_Nil)
  have "\<not> is_orphaned (?g, reasons, run_record run_id ?g reasons)"
    using ok(2) mem by (auto simp: filter_empty_conv)
  then have "filter (is_terminal run_id) events \<noteq> []" using s \<open>reasons = []\<close> by (simp add: is_orphaned_def)
  with s t show ?thesis by blast
qed

lemma find_events:
  assumes "rfold (find_event task_id run_id) es st = Inr st'"
  shows "st' = (fst st @ filter (is_start run_id) es, snd st @ filter (is_terminal run_id) es)
    \<and> (\<forall>e\<in>set es. is_start run_id e \<or> is_terminal run_id e \<longrightarrow> dget e ''task_id'' = JStr task_id)"
  using assms
proof (induction es arbitrary: st)
  case (Cons e es)
  then obtain st1 where st1: "find_event task_id run_id e st = Inr st1"
    and rest: "rfold (find_event task_id run_id) es st1 = Inr st'" by auto
  have "st1 = (fst st @ (if is_start run_id e then [e] else []), snd st @ (if is_terminal run_id e then [e] else []))
      \<and> (is_start run_id e \<or> is_terminal run_id e \<longrightarrow> dget e ''task_id'' = JStr task_id)"
  proof (cases "event_run e = JStr run_id")
    case True
    then obtain p where p: "dget e ''payload'' = JObj p" "dget p ''run_id'' = JStr run_id"
      by (auto simp: event_run_def split: json.splits)
    then obtain rel where rel: "lifecycle_action (dget e ''action'') = Inr rel"
      using st1 by (auto simp: find_event_def Let_def)
    then show ?thesis
      using st1 p True lifecycle_action_eq_Inr [OF rel] terminal_not_start [of run_id e]
      by (auto simp: find_event_def Let_def is_start_def is_terminal_def split: if_splits)
  next
    case False
    then show ?thesis
      using st1 by (auto simp: find_event_def event_run_def is_start_def is_terminal_def split: json.splits)
  qed
  with Cons.IH [OF rest] show ?case by auto
qed simp

lemma find_verification_run_eq_Inr:
  assumes "find_verification_run events task_id run_id = Inr (started, terminals)"
  shows "terminals = filter (is_terminal run_id) events"
    and "(case started of None \<Rightarrow> filter (is_start run_id) events = []
          | Some s \<Rightarrow> filter (is_start run_id) events = [s])"
    and "\<forall>e\<in>set events. is_start run_id e \<or> is_terminal run_id e \<longrightarrow> dget e ''task_id'' = JStr task_id"
proof -
  obtain st where st: "rfold (find_event task_id run_id) events ([], []) = Inr st"
    using assms by (auto simp: find_verification_run_def)
  note ev = find_events [OF st]
  show "terminals = filter (is_terminal run_id) events"
    using assms st ev by (auto simp: find_verification_run_def split: if_splits)
  show "case started of None \<Rightarrow> filter (is_start run_id) events = []
          | Some s \<Rightarrow> filter (is_start run_id) events = [s]"
    using assms st ev
    by (cases "filter (is_start run_id) events" rule: single.cases)
      (auto simp: find_verification_run_def split: if_splits)
  show "\<forall>e\<in>set events. is_start run_id e \<or> is_terminal run_id e \<longrightarrow> dget e ''task_id'' = JStr task_id"
    using ev by blast
qed

text \<open>A record the audit lists for a run is the record of the group of that run.\<close>

lemma audited_record_of:
  assumes "rfold group_event events ([], []) = Inr (grouped, bad)"
    and "rmap audit_run (sort_key fst grouped) = Inr rs" "(g, reasons, d) \<in> set rs"
    and "dget d ''run_id'' = JStr run_id"
  shows "RUN_ID_RE run_id \<and> group_of run_id events = Some g \<and> run_reasons run_id g = Inr reasons
    \<and> d = run_record run_id g reasons"
proof -
  obtain i where i: "i < length rs" "rs ! i = (g, reasons, d)" using assms(3) by (auto simp: in_set_conv_nth)
  obtain k h where kh: "sort_key fst grouped ! i = (k, h)" by (cases "sort_key fst grouped ! i")
  have run: "audit_run (k, h) = Inr (g, reasons, d)" "i < length (sort_key fst grouped)"
    using assms(2) i kh by (auto simp: rmap_eq_Inr list_all2_conv_all_nth)
  then have "h = g" "run_reasons k g = Inr reasons" and d: "d = run_record k g reasons"
    by (auto simp: audit_run_def)
  moreover have k: "k = run_id" using assms(4) d by (simp add: run_record_def Let_def)
  moreover have mem: "(k, h) \<in> set grouped" using run(2) kh by (metis nth_mem set_sort)
  moreover have "keys_ok grouped" using grouped_keys [OF assms(1)] by simp
  ultimately have "RUN_ID_RE run_id" "map_of grouped run_id = Some g"
    by (auto simp: keys_ok_def)
  with grouped_map_of [OF assms(1)] \<open>run_reasons k g = Inr reasons\<close> d k show ?thesis by simp
qed

text \<open>What the binding checks of a verdict establish.\<close>

definition verdict_bound :: "string \<Rightarrow> dict \<Rightarrow> dict \<Rightarrow> bool" where
  "verdict_bound run_id s t \<longleftrightarrow>
     (\<exists>sp tp task v. payload_of s = Inr sp \<and> payload_of t = Inr tp
        \<and> dget tp ''task'' = JObj task \<and> dget task ''verification'' = JObj v
        \<and> py_eq (dget t ''actor'') (dget s ''actor'')
        \<and> py_eq (dget task ''id'') (dget s ''task_id'') \<and> dget v ''run_id'' = JStr run_id
        \<and> receipt_is_bound (dget sp ''capability_receipt'') (dget s ''actor'') ''task.verify''
             (dget s ''task_id'') (dget sp ''run_id'') (dget sp ''task_attempt'')
        \<and> py_eq (dget v ''capability_receipt'') (dget sp ''capability_receipt'')
        \<and> py_eq (dget v ''verifier_identity'') (dget sp ''verifier_identity'')
        \<and> py_eq (vget (dget v ''verifier_evidence'') ''manifest_sha256'') (dget sp ''verifier_manifest_sha256'')
        \<and> py_eq (dget v ''worker_manifest_sha256'') (dget sp ''worker_manifest_sha256''))"

lemma pair_audit_verdict:
  assumes "pair_audit_reasons run_id s t = Inr []"
    and "dget t ''action'' \<in> {JStr ''task.verified'', JStr ''task.rejected''}"
  shows "verdict_bound run_id s t"
proof -
  obtain sp tp where p: "payload_of s = Inr sp" "payload_of t = Inr tp"
    and binding: "verification_binding_reasons s t = Inr []"
    and shape: "terminal_shape_reasons run_id s t tp = []"
    using assms(1) by (auto simp: pair_audit_reasons_def Let_def)
  have verdict: "started_reasons s sp = []" "verdict_reasons s sp t tp = []"
    using binding p assms(2) by (auto simp: verification_binding_reasons_def in_strs_def split: if_splits)
  obtain task v where tv: "dget tp ''task'' = JObj task" "dget task ''verification'' = JObj v"
    using shape assms(2) by (auto simp: terminal_shape_reasons_def Let_def split: json.splits if_splits)
  have receipt: "receipt_is_bound (dget sp ''capability_receipt'') (dget s ''actor'') ''task.verify''
      (dget s ''task_id'') (dget sp ''run_id'') (dget sp ''task_attempt'')"
    using verdict(1) by (simp add: started_reasons_def Let_def)
  have same: "py_eq (dget t ''actor'') (dget s ''actor'')"
      "py_eq (dget v ''capability_receipt'') (dget sp ''capability_receipt'')"
      "py_eq (dget v ''verifier_identity'') (dget sp ''verifier_identity'')"
      "py_eq (vget (dget v ''verifier_evidence'') ''manifest_sha256'') (dget sp ''verifier_manifest_sha256'')"
      "py_eq (dget v ''worker_manifest_sha256'') (dget sp ''worker_manifest_sha256'')"
    using verdict(2) tv by (simp_all add: verdict_reasons_def Let_def split: if_splits)
  have ids: "py_eq (dget task ''id'') (dget s ''task_id'')" "dget v ''run_id'' = JStr run_id"
    using shape tv assms(2) by (auto simp: terminal_shape_reasons_def Let_def)
  show ?thesis
    unfolding verdict_bound_def using p tv receipt same ids by blast
qed

lemma pair_audit_order:
  assumes "pair_audit_reasons run_id s t = Inr []"
  shows "\<exists>m n. as_int (dget t ''sequence'') = Some n
    \<and> py_norm (dget_or s ''sequence'' (JInt 0)) = JInt m \<and> m < n"
proof -
  have "not_after (dget t ''sequence'') (dget_or s ''sequence'' (JInt 0)) = Inr False"
    using assms by (auto simp: pair_audit_reasons_def Let_def)
  then show ?thesis by (auto simp: not_after_def split: option.splits json.splits)
qed

lemma require_authoritative_eq_Inr:
  assumes "require_authoritative_verification_terminal events task_id run_id te = Inr s"
  shows "\<exists>t audit r. find_verification_run events task_id run_id = Inr (Some s, [t])
    \<and> py_eq (JObj t) (JObj te) \<and> audit_verification_runs events = Inr audit
    \<and> single (filter (\<lambda>r. vget r ''run_id'' = JStr run_id \<and> vget r ''task_id'' = JStr task_id)
          (case dget audit ''runs'' of JArr rs \<Rightarrow> rs | _ \<Rightarrow> [])) = Some r
    \<and> is_true (vget r ''valid'')"
proof -
  obtain started terminals where find: "find_verification_run events task_id run_id = Inr (started, terminals)"
    using assms by (auto simp: require_authoritative_verification_terminal_def)
  obtain start t where st: "started = Some start" "single terminals = Some t"
    using assms find
    by (cases started; cases "single terminals") (auto simp: require_authoritative_verification_terminal_def)
  obtain audit where audit: "audit_verification_runs events = Inr audit" and eq: "py_eq (JObj t) (JObj te)"
    using assms find st by (auto simp: require_authoritative_verification_terminal_def split: if_splits)
  define rs where "rs = filter (\<lambda>r. vget r ''run_id'' = JStr run_id \<and> vget r ''task_id'' = JStr task_id)
          (case dget audit ''runs'' of JArr rs \<Rightarrow> rs | _ \<Rightarrow> [])"
  obtain r where "single rs = Some r" "is_true (vget r ''valid'')" "start = s"
    using assms find st audit eq
    by (cases "single rs")
      (auto simp: require_authoritative_verification_terminal_def Let_def rs_def [symmetric]
        simp del: single_eq_Some split: if_splits)
  with find st audit eq show ?thesis by (auto simp: rs_def)
qed

text \<open>
  Property C37: a terminal event that \<^verbatim>\<open>require_authoritative_verification_terminal\<close> accepts is the
  only terminal event of its run in the whole ledger. The run has one started event, the one
  returned; both belong to the task, the terminal event comes later, and a verdict is bound to
  the actor, identity, evidence, attempt and capability receipt of the started event.
\<close>

theorem authoritative_terminal_sound:
  assumes "require_authoritative_verification_terminal events task_id run_id te = Inr s"
  shows "\<exists>t. filter (is_start run_id) events = [s] \<and> filter (is_terminal run_id) events = [t]
    \<and> py_eq (JObj t) (JObj te)
    \<and> dget s ''task_id'' = JStr task_id \<and> dget t ''task_id'' = JStr task_id
    \<and> (\<exists>m n. as_int (dget t ''sequence'') = Some n
          \<and> py_norm (dget_or s ''sequence'' (JInt 0)) = JInt m \<and> m < n)
    \<and> (dget t ''action'' \<in> {JStr ''task.verified'', JStr ''task.rejected''} \<longrightarrow> verdict_bound run_id s t)"
proof -
  obtain t audit r where find: "find_verification_run events task_id run_id = Inr (Some s, [t])"
    and eq: "py_eq (JObj t) (JObj te)"
    and audit: "audit_verification_runs events = Inr audit"
    and match: "single (filter (\<lambda>r. vget r ''run_id'' = JStr run_id \<and> vget r ''task_id'' = JStr task_id)
          (case dget audit ''runs'' of JArr rs \<Rightarrow> rs | _ \<Rightarrow> [])) = Some r"
    and valid: "is_true (vget r ''valid'')"
    using require_authoritative_eq_Inr [OF assms] by blast
  note found = find_verification_run_eq_Inr [OF find]
  obtain grouped bad rs where grouped: "rfold group_event events ([], []) = Inr (grouped, bad)"
    and rs: "rmap audit_run (sort_key fst grouped) = Inr rs"
    and runs: "dget audit ''runs'' = JArr (map (\<lambda>r. JObj (snd (snd r))) rs)"
    using audit_verification_runs_eq_Inr [OF audit] by blast
  have "r \<in> set (filter (\<lambda>r. vget r ''run_id'' = JStr run_id \<and> vget r ''task_id'' = JStr task_id)
          (map (\<lambda>r. JObj (snd (snd r))) rs))"
    using match runs by (simp only: single_eq_Some json.case list.set) simp
  then obtain g reasons d where mem: "(g, reasons, d) \<in> set rs" and r: "r = JObj d" "dget d ''run_id'' = JStr run_id"
    by auto
  from audited_record_of [OF grouped rs mem r(2)]
  have g: "group_of run_id events = Some g" "run_reasons run_id g = Inr reasons" "d = run_record run_id g reasons"
    by auto
  then have "reasons = []" using valid r by (simp add: is_true_def run_record_def Let_def)
  have fs: "filter (is_start run_id) events = [s]" and ft: "filter (is_terminal run_id) events = [t]"
    using found(1,2) by simp_all
  have pa: "pair_audit_reasons run_id s t = Inr []"
    using g \<open>reasons = []\<close> fs ft by (auto simp: group_of_def run_reasons_Nil)
  have "s \<in> set (filter (is_start run_id) events)" "t \<in> set (filter (is_terminal run_id) events)"
    unfolding fs ft by simp_all
  then have "dget s ''task_id'' = JStr task_id" "dget t ''task_id'' = JStr task_id"
    using found(3) by auto
  with fs ft eq pair_audit_order [OF pa] pair_audit_verdict [OF pa] show ?thesis by blast
qed

text \<open>A verified run for concrete evaluation.\<close>

definition run1 :: string where "run1 = replicate 32 CHR ''a''"
definition sha1 :: string where "sha1 = replicate 64 CHR ''b''"

definition receipt1 :: json where
  "receipt1 = JObj
     [(''schema_version'', JInt 2), (''receipt_type'', JStr ''actor-capability-consumption''),
      (''actor'', JStr ''v''), (''operation'', JStr ''task.verify''), (''task_id'', JStr ''T''),
      (''run_id'', JStr run1), (''task_attempt'', JInt 1), (''nonce_sha256'', JStr sha1),
      (''signature'', JStr ''s''), (''independent_trust_root'', JBool False),
      (''actor_os_isolation_proven'', JBool False),
      (''os_principal_attestation'', JObj [(''independent_trust_root'', JBool False),
         (''actor_os_isolation_proven'', JBool False)])]"

definition started1 :: dict where
  "started1 =
     [(''sequence'', JInt 1), (''action'', JStr ''verification.started''), (''task_id'', JStr ''T''), (''actor'', JStr ''v''),
      (''payload'', JObj [(''run_id'', JStr run1), (''task_attempt'', JInt 1), (''capability_receipt'', receipt1),
         (''verifier_identity'', JObj []), (''verifier_manifest_sha256'', JStr sha1),
         (''worker_manifest_sha256'', JNull), (''verification_contract_inputs_sha256'', JStr sha1)])]"

definition verified1 :: dict where
  "verified1 =
     (let evidence = JObj [(''manifest_sha256'', JStr sha1), (''executor_attestation'', JObj [])];
          trusted = JObj [(''validation_contract_sha256'', JStr sha1)];
          common = [(''run_id'', JStr run1), (''capability_receipt'', receipt1), (''verifier_identity'', JObj []),
            (''verifier_evidence'', evidence), (''worker_manifest_sha256'', JNull),
            (''verification_contract_inputs_sha256'', JStr sha1), (''trusted_validation'', trusted)]
      in
      [(''sequence'', JInt 2), (''action'', JStr ''task.verified''), (''task_id'', JStr ''T''), (''actor'', JStr ''v''),
       (''payload'', JObj ((''task'', JObj [(''id'', JStr ''T''), (''state'', JStr ''verified''), (''attempt'', JInt 1),
          (''verification'', JObj common)]) # common))])"

lemma verified_run_audit:
  "(case audit_verification_runs [started1, verified1] of Inr r \<Rightarrow> dget r ''valid'' = JBool True | Inl _ \<Rightarrow> False)"
  by code_simp

theorem audit_runs_valid_complete_witness:
  "\<exists>s t. filter (is_start run1) [started1, verified1] = [s] \<and> filter (is_terminal run1) [started1, verified1] = [t]
    \<and> pair_audit_reasons run1 s t = Inr []"
proof -
  obtain r where r: "audit_verification_runs [started1, verified1] = Inr r" "dget r ''valid'' = JBool True"
    using verified_run_audit by (auto split: sum.splits)
  show ?thesis
  proof (rule audit_runs_valid_complete [OF r])
    show "RUN_ID_RE run1" by code_simp
    show "\<exists>e\<in>set [started1, verified1]. is_start run1 e \<or> is_terminal run1 e"
      by (simp add: is_start_def event_run_def started1_def)
  qed
qed

theorem authoritative_terminal_sound_witness:
  "filter (is_start run1) [started1, verified1] = [started1]
   \<and> filter (is_terminal run1) [started1, verified1] = [verified1] \<and> verdict_bound run1 started1 verified1"
proof -
  have r: "require_authoritative_verification_terminal [started1, verified1] ''T'' run1 verified1 = Inr started1"
    by code_simp
  have "filter (is_terminal run1) [started1, verified1] = [verified1]" by code_simp
  moreover have "dget verified1 ''action'' = JStr ''task.verified''" by code_simp
  ultimately show ?thesis using authoritative_terminal_sound [OF r] by auto
qed

end
