(* ===== verification/Workspace.thy ===== *)
theory Workspace
  imports Capability Identity Verification_Run
begin

text \<open>
  The workspace broker (\<^verbatim>\<open>workspace.py\<close>): agents, tasks and their leases, submissions and verdicts.
  The state is what the files of a workspace hold; every operation returns its result or its
  exception, and the state afterwards.

  The operations run under the program's file locks, so the model runs them one after the other.
  A JSON file or ledger line is its value; the text of the ledger is the subject of \<open>Ledger\<close>.
  Readings of the clock and of the random source are the fields of \<open>inputs\<close>. The functions of
  \<open>services\<close> stand for the evidence checks, the trusted runner, the executor attestation and the
  archive, which read and write files or run processes.
\<close>

section \<open>State\<close>

record workspace =
  config :: dict
  agents :: "(string \<times> jfile) list"
  tasks :: "(string \<times> jfile) list"
  events :: "dict list"
  signing_key :: "string option"
  caps :: cap_store

text \<open>
  \<open>clock k\<close>, \<open>epoch k\<close> and \<open>token16 k\<close> are the values of the \<open>k\<close>-th call of \<^verbatim>\<open>utc_now()\<close>,
  \<^verbatim>\<open>time.time()\<close> and \<^verbatim>\<open>secrets.token_hex(16)\<close> in one operation.
\<close>

record inputs =
  clock :: "nat \<Rightarrow> string"
  epoch :: "nat \<Rightarrow> int"
  token16 :: "nat \<Rightarrow> string"
  token24 :: string

record services =
  validate_submission :: "string \<Rightarrow> json \<Rightarrow> json \<Rightarrow> dict res"
  validate_manifest :: "string \<Rightarrow> json \<Rightarrow> json \<Rightarrow> dict res"
  run_trusted_validations :: "string \<Rightarrow> json \<Rightarrow> string \<Rightarrow> string \<Rightarrow> dict \<Rightarrow> json res"
  request_executor_attestation :: "dict \<Rightarrow> json \<Rightarrow> json res"
  verify_executor_attestation :: "json \<Rightarrow> dict \<Rightarrow> json \<Rightarrow> unit res"
  archive_evidence_bundle :: "string \<Rightarrow> json \<Rightarrow> string \<Rightarrow> json \<Rightarrow> json \<Rightarrow> json list \<Rightarrow> json res"

definition VERIFICATION_FAILURE_STAGES :: "string list" where
  "VERIFICATION_FAILURE_STAGES =
     [''trusted_runner'', ''executor_attestation'', ''archive'', ''state_transition'', ''recovery'']"

definition VERIFICATION_FAILURE_ERROR_TYPES :: "string list" where
  "VERIFICATION_FAILURE_ERROR_TYPES =
     [''authorization_error'', ''configuration_error'', ''evidence_error'', ''integrity_error'', ''io_error'',
      ''state_error'', ''timeout_error'', ''unexpected_error'', ''interrupted_error'']"

definition verification_error_type :: "exn \<Rightarrow> string" where
  "verification_error_type error =
     (let c = exn_class_of error in
      if exn_isinstance c TimeoutError then ''timeout_error''
      else if exn_isinstance c EvidenceError then ''evidence_error''
      else if exn_isinstance c IntegrityError then ''integrity_error''
      else if exn_isinstance c AuthorizationError then ''authorization_error''
      else if exn_isinstance c ConfigurationError then ''configuration_error''
      else if exn_isinstance c LeaseError \<or> exn_isinstance c TransitionError then ''state_error''
      else if exn_isinstance c OSError then ''io_error''
      else ''unexpected_error'')"

section \<open>Files\<close>

text \<open>\<^verbatim>\<open>try: m except (c1, c2, ...): h\<close>.\<close>

definition catch_any :: "exn_class list \<Rightarrow> 'a res \<Rightarrow> 'a res \<Rightarrow> 'a res" where
  "catch_any cs m h =
     (case m of
        Inl e \<Rightarrow> if list_ex (exn_isinstance (exn_class_of e)) cs then h else Inl e
      | Inr x \<Rightarrow> Inr x)"

definition orchestrator :: "workspace \<Rightarrow> string res" where
  "orchestrator w = rbind (ditem (config w) ''orchestrator'') (\<lambda>v. Inr (py_str v))"

text \<open>\<^verbatim>\<open>sorted(directory.glob("*.json"))\<close>, reading each file and skipping what is not a JSON object.\<close>

definition json_paths :: "(string \<times> jfile) list \<Rightarrow> (string \<times> jfile) list" where
  "json_paths fs = sort_key (\<lambda>p. fst p @ ''.json'') (filter (\<lambda>p. snd p \<noteq> Absent) fs)"

definition read_records :: "(string \<times> jfile) list \<Rightarrow> dict list" where
  "read_records fs =
     concat (map (\<lambda>p. case read_json (snd p) of Inr d \<Rightarrow> [d] | Inl _ \<Rightarrow> []) (json_paths fs))"

definition get_agent :: "workspace \<Rightarrow> string \<Rightarrow> dict res" where
  "get_agent w agent_id =
     rbind (validate_agent_id agent_id) (\<lambda>a.
     if file_of (agents w) a = Absent then raise ConfigurationError ''Agent not found: ''
     else read_json (file_of (agents w) a))"

definition list_agents :: "workspace \<Rightarrow> dict list" where
  "list_agents w = read_records (agents w)"

definition get_task :: "workspace \<Rightarrow> string \<Rightarrow> dict res" where
  "get_task w task_id =
     rbind (validate_task_id task_id) (\<lambda>t.
     if file_of (tasks w) t = Absent then raise ConfigurationError ''Task not found: ''
     else read_json (file_of (tasks w) t))"

definition list_tasks :: "workspace \<Rightarrow> dict list" where
  "list_tasks w = read_records (tasks w)"

text \<open>\<^verbatim>\<open>self.ledger.append\<close> and the write of a task record after it.\<close>

definition append_event ::
  "('r) host_scheme \<Rightarrow> workspace \<Rightarrow> string \<Rightarrow> string \<Rightarrow> string \<Rightarrow> json \<Rightarrow> dict \<Rightarrow> dict res \<times> workspace" where
  "append_event H w now actor action task_id payload =
     keep w (ledger_append H (signing_key w) (events w) now actor action task_id payload) (\<lambda>e.
     (Inr e, w\<lparr>events := events w @ [e]\<rparr>))"

definition write_task :: "string \<Rightarrow> dict \<Rightarrow> workspace \<Rightarrow> workspace" where
  "write_task t task w = w\<lparr>tasks := alist_put t (Content (JObj task)) (tasks w)\<rparr>"

definition commit_task ::
  "('r) host_scheme \<Rightarrow> workspace \<Rightarrow> string \<Rightarrow> string \<Rightarrow> string \<Rightarrow> string \<Rightarrow> dict \<Rightarrow> dict \<Rightarrow> dict res \<times> workspace" where
  "commit_task H w now actor action t payload task =
     andthen (append_event H w now actor action (JStr t) payload) (\<lambda>_ w'. (Inr task, write_task t task w'))"

section \<open>Opening and initializing\<close>

definition initialized_config :: "dict list \<Rightarrow> json res" where
  "initialized_config evs =
     (case find (\<lambda>e. dget e ''action'' = JStr ''workspace.initialized'') evs of
        None \<Rightarrow> Inr JNull
      | Some e \<Rightarrow> jget (dget_or e ''payload'' (JObj [])) ''config'')"

definition open_workspace :: "('r) host_scheme \<Rightarrow> jfile \<Rightarrow> workspace \<Rightarrow> unit res \<times> workspace" where
  "open_workspace H config_file w =
     keep w (ensure (config_file \<noteq> Absent) ConfigurationError ''Not a valid Cogni-OS workspace: '') (\<lambda>_.
     keep w (read_json config_file) (\<lambda>c.
     keep w (ensure (py_eq (dget c ''schema_version'') (JInt 1)) ConfigurationError
               ''Unsupported workspace schema version'') (\<lambda>_.
     keep w (if signing_key w = None \<or> events w = [] then Inr ()
             else
               rbind (verify_events H (signing_key w) (events w)) (\<lambda>_.
               rbind (initialized_config (events w)) (\<lambda>expected.
               ensure (py_eq expected (JObj c)) IntegrityError
                 ''Workspace configuration differs from the signed ledger''))) (\<lambda>_.
     (Inr (), w\<lparr>config := c\<rparr>)))))"

definition strings :: "string list \<Rightarrow> json" where
  "strings xs = JArr (map JStr xs)"

definition agent_record ::
  "string \<Rightarrow> string \<Rightarrow> string \<Rightarrow> string list option \<Rightarrow> string \<Rightarrow> string list \<Rightarrow> json \<Rightarrow> dict" where
  "agent_record agent_id role mode command created_at write_roots identity =
     [(''schema_version'', JInt 2), (''id'', JStr agent_id), (''role'', JStr role), (''mode'', JStr mode),
      (''command'', case command of None \<Rightarrow> JNull | Some c \<Rightarrow> strings c), (''created_at'', JStr created_at),
      (''write_roots'', strings write_roots), (''identity'', identity)]"

definition write_agent :: "dict \<Rightarrow> workspace \<Rightarrow> unit res \<times> workspace" where
  "write_agent r w =
     keep w (rbind (ditem r ''id'') validate_agent_json) (\<lambda>a.
     (Inr (), w\<lparr>agents := alist_put a (Content (JObj r)) (agents w)\<rparr>))"

definition commit_agent ::
  "('r) host_scheme \<Rightarrow> workspace \<Rightarrow> string \<Rightarrow> string \<Rightarrow> string \<Rightarrow> dict \<Rightarrow> dict res \<times> workspace" where
  "commit_agent H w now actor action r =
     andthen (append_event H w now actor action JNull [(''agent'', JObj r)]) (\<lambda>_ w'.
     andthen (write_agent r w') (\<lambda>_ w''. (Inr r, w'')))"

definition initial_config :: "string \<Rightarrow> string \<Rightarrow> string \<Rightarrow> string \<Rightarrow> dict" where
  "initial_config workspace_id name orc created_at =
     [(''schema_version'', JInt 1), (''workspace_id'', JStr workspace_id), (''name'', JStr name),
      (''orchestrator'', JStr orc), (''created_at'', JStr created_at),
      (''defaults'', JObj
         [(''lease_seconds'', JInt 1800),
          (''permissions'', JObj [(''gpu'', JBool False), (''performance_metrics'', JBool False),
                                  (''network'', JBool False)]),
          (''gates'', JObj [(''require_validation'', JBool True), (''allow_skips'', JBool False),
                            (''require_known_answer_check'', JBool True),
                            (''require_independent_verification'', JBool True)]),
          (''max_evidence_bytes'', JInt (50 * 1024 * 1024))])]"

text \<open>An optional text argument that is given and not empty.\<close>

definition given :: "string option \<Rightarrow> bool" where
  "given v = (case v of None \<Rightarrow> False | Some s \<Rightarrow> s \<noteq> [])"

definition declared_pair :: "string option \<Rightarrow> string option \<Rightarrow> json res" where
  "declared_pair control_principal model_family =
     (if \<not> given control_principal \<and> \<not> given model_family then Inr JNull
      else if \<not> given control_principal \<or> \<not> given model_family
      then raise ConfigurationError ''control_principal and model_family must be provided together''
      else rbind (build_identity (the control_principal) (the model_family) JNull []) (\<lambda>d. Inr (JObj d)))"

definition preset_agents :: "('r) host_scheme \<Rightarrow> inputs \<Rightarrow> string \<Rightarrow> workspace \<Rightarrow> unit res \<times> workspace" where
  "preset_agents H i orc w =
     keep w (build_identity ''antigravity-executant'' ''google-antigravity'' JNull []) (\<lambda>worker.
     andthen (commit_agent H w (clock i 5) orc ''agent.added''
       (agent_record ''antigravity'' ''worker'' ''manual'' None (clock i 4) [] (JObj worker))) (\<lambda>_ w.
     keep w (build_identity ''antigravity-verifier-control'' ''google-antigravity-verifier'' JNull []) (\<lambda>verifier.
     andthen (commit_agent H w (clock i 7) orc ''agent.added''
       (agent_record ''antigravity-verifier'' ''verifier'' ''manual'' None (clock i 6) [] (JObj verifier))) (\<lambda>_ w.
     (Inr (), w)))))"

text \<open>The agents a new workspace starts with.\<close>

definition initial_agents ::
  "('r) host_scheme \<Rightarrow> inputs \<Rightarrow> string \<Rightarrow> string option \<Rightarrow> string option \<Rightarrow> string option \<Rightarrow> workspace
    \<Rightarrow> unit res \<times> workspace" where
  "initial_agents H i orc control_principal model_family preset w =
     keep w (declared_pair control_principal model_family) (\<lambda>identity.
     andthen (commit_agent H w (clock i 3) orc ''agent.added''
       (agent_record orc ''orchestrator'' ''manual'' None (clock i 2) [''tasks'', ''shared'', ''archive''] identity))
       (\<lambda>_ w.
     if preset = Some ''cogni-codex-antigravity'' then preset_agents H i orc w
     else if preset \<noteq> None then (raise ConfigurationError ''Unknown workspace preset: '', w)
     else (Inr (), w)))"

definition initialize ::
  "('r) host_scheme \<Rightarrow> inputs \<Rightarrow> bool \<Rightarrow> string \<Rightarrow> string \<Rightarrow> string \<Rightarrow> string \<Rightarrow> string option \<Rightarrow> string option
    \<Rightarrow> string option \<Rightarrow> workspace \<Rightarrow> unit res \<times> workspace" where
  "initialize H i present root_name urandom name orc control_principal model_family preset w =
     keep w (ensure (\<not> present) ConfigurationError ''Workspace already initialized: '') (\<lambda>_.
     keep w (validate_agent_id orc) (\<lambda>orc.
     let c = initial_config (token16 i 0) (if strip name = [] then root_name else strip name) orc (clock i 0) in
     andthen (open_workspace H (Content (JObj c)) w) (\<lambda>_ w.
     let w = w\<lparr>signing_key := Some (case signing_key w of None \<Rightarrow> urandom | Some k \<Rightarrow> k)\<rparr> in
     andthen (append_event H w (clock i 1) orc ''workspace.initialized'' JNull [(''config'', JObj c)]) (\<lambda>_ w.
     initial_agents H i orc control_principal model_family preset w))))"

section \<open>Authorization\<close>

definition authorize_actor_capability ::
  "('r) host_scheme \<Rightarrow> inputs \<Rightarrow> string \<Rightarrow> string \<Rightarrow> string option \<Rightarrow> bool \<Rightarrow> string option \<Rightarrow> string option
    \<Rightarrow> json \<Rightarrow> workspace \<Rightarrow> dict res \<times> workspace" where
  "authorize_actor_capability H i actor operation capability_secret require_isolation task_id run_id attempt w =
     keep w (validate_agent_id actor) (\<lambda>actor.
     keep w (case capability_secret of
               None \<Rightarrow> raise AuthorizationError ''Actor capability credential is required''
             | Some s \<Rightarrow> Inr s) (\<lambda>secret.
     keep w (rbind (ditem (config w) ''workspace_id'') (\<lambda>v. Inr (py_str v))) (\<lambda>ws.
     keep w (authority_init H ws) (\<lambda>_.
     keep w (cap_status ws (caps w) actor) (\<lambda>posture.
     keep w (ensure (dget posture ''state'' = JStr ''provisioned'') AuthorizationError
               ''CAPABILITY_UNPROVISIONED: privileged operation denied'') (\<lambda>_.
     keep w (ensure (\<not> (require_isolation \<and> \<not> truthy (dget posture ''actor_os_isolation_proven'')))
               AuthorizationError ''CAPABILITY_UNATTESTED: release-critical operation requires an OS-separated actor principal or external secret broker'')
       (\<lambda>_.
     keep w (mint H ws (caps w) (epoch i 0) (token24 i) actor operation secret DEFAULT_TTL_SECONDS
               task_id run_id attempt) (\<lambda>token.
     let (r, c) = verify_and_consume H ws (epoch i 1) actor operation token task_id run_id attempt (caps w)
     in (r, w\<lparr>caps := c\<rparr>)))))))))"

section \<open>Agents and tasks\<close>

text \<open>The identity of an alias: that of its target, with the target added to the chain.\<close>

definition text_item :: "json \<Rightarrow> string \<Rightarrow> string res" where
  "text_item v k =
     rbind (jitem v k) (\<lambda>x. case x of JStr s \<Rightarrow> Inr s | _ \<Rightarrow> raise AttributeError ''strip'')"

definition alias_identity :: "workspace \<Rightarrow> string \<Rightarrow> json res" where
  "alias_identity w alias_of =
     rbind (get_agent w alias_of) (\<lambda>target.
     let identity = dget target ''identity'' in
     rbind (ensure (truthy identity) ConfigurationError ''Alias target agent '') (\<lambda>_.
     rbind (text_item identity ''control_principal'') (\<lambda>cp.
     rbind (text_item identity ''model_family'') (\<lambda>mf.
     rbind (validate_agent_id alias_of) (\<lambda>a.
     rbind (rbind (jget_or identity ''alias_chain'' (JArr [])) py_list) (\<lambda>chain.
     rbind (build_identity cp mf (JStr a) (JStr a # chain)) (\<lambda>d.
     Inr (JObj d))))))))"

definition add_agent ::
  "('r) host_scheme \<Rightarrow> inputs \<Rightarrow> string \<Rightarrow> string option \<Rightarrow> string \<Rightarrow> string \<Rightarrow> string \<Rightarrow> string list option
    \<Rightarrow> string list option \<Rightarrow> string option \<Rightarrow> string option \<Rightarrow> string option \<Rightarrow> workspace
    \<Rightarrow> dict res \<times> workspace" where
  "add_agent H i actor secret agent_id role mode command write_roots control_principal model_family alias_of w =
     keep w (orchestrator w) (\<lambda>orc.
     keep w (ensure (actor = orc) AuthorizationError ''Only the orchestrator can register agents'') (\<lambda>_.
     andthen (authorize_actor_capability H i actor ''agent.add'' secret False None None JNull w) (\<lambda>_ w.
     keep w (validate_agent_id agent_id) (\<lambda>target_id.
     keep w (ensure (file_of (agents w) target_id = Absent) ConfigurationError ''Agent already exists: '') (\<lambda>_.
     keep w (ensure (role \<in> set [''orchestrator'', ''worker'', ''verifier'', ''advisor'']) ConfigurationError
               ''Invalid agent role: '') (\<lambda>_.
     keep w (ensure (mode \<in> set [''manual'', ''command'']) ConfigurationError ''Invalid agent mode: '') (\<lambda>_.
     keep w (if given alias_of then alias_identity w (the alias_of)
             else declared_pair control_principal model_family) (\<lambda>identity.
     commit_agent H w (clock i 1) actor ''agent.added''
       (agent_record target_id role mode command (clock i 0)
          (case write_roots of None \<Rightarrow> [] | Some rs \<Rightarrow> rs) identity)))))))))"

definition add_task ::
  "('r) host_scheme \<Rightarrow> inputs \<Rightarrow> string \<Rightarrow> string option \<Rightarrow> string \<Rightarrow> string \<Rightarrow> string \<Rightarrow> string
    \<Rightarrow> string list option \<Rightarrow> string list option \<Rightarrow> dict option \<Rightarrow> dict option \<Rightarrow> string option \<Rightarrow> workspace
    \<Rightarrow> dict res \<times> workspace" where
  "add_task H i actor secret task_id title description owner prerequisites write_roots permissions gates
      idempotency_key w =
     keep w (orchestrator w) (\<lambda>orc.
     keep w (ensure (actor = orc) AuthorizationError ''Only the orchestrator can create tasks'') (\<lambda>_.
     andthen (authorize_actor_capability H i actor ''task.add'' secret False None None JNull w) (\<lambda>_ w.
     keep w (validate_task_id task_id) (\<lambda>target_id.
     keep w (ensure (file_of (tasks w) target_id = Absent) ConfigurationError ''Task already exists: '') (\<lambda>_.
     keep w (get_agent w owner) (\<lambda>_.
     keep w (rmap validate_task_id (case prerequisites of None \<Rightarrow> [] | Some ps \<Rightarrow> ps)) (\<lambda>pre.
     keep w (ensure (target_id \<notin> set pre) ConfigurationError ''A task cannot depend on itself'') (\<lambda>_.
     keep w (ensure (distinct pre) ConfigurationError ''Task prerequisites cannot contain duplicates'') (\<lambda>_.
     keep w (ensure (filter (\<lambda>p. file_of (tasks w) p = Absent) pre = []) ConfigurationError
               ''Task prerequisites do not exist: '') (\<lambda>_.
     keep w (new_task (clock i 0) target_id title description owner actor (Some pre) write_roots permissions
               gates idempotency_key) (\<lambda>r.
     commit_task H w (clock i 1) actor ''task.created'' target_id [(''task'', JObj r)] r)))))))))))"

section \<open>Leases\<close>

text \<open>One prerequisite: the text that names it if it is missing or not verified.\<close>

definition unsatisfied :: "workspace \<Rightarrow> json \<Rightarrow> string list res" where
  "unsatisfied w p =
     (case get_task w (py_str p) of
        Inl e \<Rightarrow>
          if exn_isinstance (exn_class_of e) ConfigurationError then Inr [py_str p @ '':missing''] else Inl e
      | Inr task \<Rightarrow>
          rbind (in_strs (dget task ''state'') [''verified'', ''archived'']) (\<lambda>done.
          Inr (if done then [] else [py_str p @ '':'' @ py_str (dget_or task ''state'' (JStr ''unknown''))])))"

definition unsatisfied_prerequisites :: "workspace \<Rightarrow> dict \<Rightarrow> string list res" where
  "unsatisfied_prerequisites w task =
     rbind (py_list (dget_or task ''prerequisites'' (JArr []))) (\<lambda>ps.
     rbind (rmap (unsatisfied w) ps) (\<lambda>xs. Inr (concat xs)))"

definition task_id_item :: "dict \<Rightarrow> string res" where
  "task_id_item task =
     rbind (ditem task ''id'') (\<lambda>v.
     case v of JStr s \<Rightarrow> validate_task_id s | _ \<Rightarrow> raise TypeError ''expected string or bytes-like object'')"

text \<open>The loop of \<^verbatim>\<open>claim\<close>: the first candidate that the actor owns and can claim, as it is now.\<close>

fun claimable :: "workspace \<Rightarrow> string \<Rightarrow> bool \<Rightarrow> dict list \<Rightarrow> (string \<times> dict) res" where
  "claimable w actor explicit [] = raise LeaseError ''No matching claimable task available''"
| "claimable w actor explicit (task # rest) =
     rbind (ditem task ''owner'') (\<lambda>owner.
     if owner \<noteq> JStr actor then claimable w actor explicit rest
     else rbind (ditem task ''state'') (\<lambda>state.
     if state \<noteq> JStr ''pending'' then claimable w actor explicit rest
     else rbind (task_id_item task) (\<lambda>t.
     rbind (get_task w t) (\<lambda>current.
     rbind (ditem current ''state'') (\<lambda>state.
     if state \<noteq> JStr ''pending'' then claimable w actor explicit rest
     else rbind (unsatisfied_prerequisites w current) (\<lambda>missing.
     if missing = [] then Inr (t, current)
     else if explicit then raise LeaseError ''Task prerequisites are not verified: ''
     else claimable w actor explicit rest))))))"

definition duration_of :: "json \<Rightarrow> int res" where
  "duration_of v = (case as_int v of Some n \<Rightarrow> Inr n | None \<Rightarrow> raise TypeError ''unsupported operand'')"

definition new_lease :: "('r) host_scheme \<Rightarrow> inputs \<Rightarrow> string \<Rightarrow> json \<Rightarrow> dict res" where
  "new_lease H i actor duration =
     rbind (rbind (duration_of duration) (lease_expiry H (clock i 0))) (\<lambda>expires_at.
     Inr [(''holder'', JStr actor), (''session_id'', JStr (token16 i 1)), (''issued_at'', JStr (clock i 0)),
          (''token_hash'', JStr (sha256_hex H (token16 i 0))), (''expires_at'', JStr expires_at),
          (''duration_seconds'', duration)])"

definition claim_task ::
  "('r) host_scheme \<Rightarrow> inputs \<Rightarrow> string \<Rightarrow> json \<Rightarrow> string \<Rightarrow> dict \<Rightarrow> workspace \<Rightarrow> (dict \<times> string) res \<times> workspace" where
  "claim_task H i actor duration t current w =
     keep w (new_lease H i actor duration) (\<lambda>lease.
     keep w (rbind (ditem current ''attempt'') plus_one) (\<lambda>attempt.
     keep w (transition (clock i 1) current ''claimed'' [(''attempt'', attempt), (''lease'', JObj lease)])
       (\<lambda>updated.
     andthen (commit_task H w (clock i 2) actor ''task.claimed'' t [(''task'', JObj updated)] updated)
       (\<lambda>r w. (Inr (r, token16 i 0), w)))))"

definition claim ::
  "('r) host_scheme \<Rightarrow> inputs \<Rightarrow> string \<Rightarrow> string option \<Rightarrow> int option \<Rightarrow> workspace
    \<Rightarrow> (dict \<times> string) res \<times> workspace" where
  "claim H i actor task_id lease_seconds w =
     keep w (validate_agent_id actor) (\<lambda>actor.
     keep w (get_agent w actor) (\<lambda>_.
     keep w (case lease_seconds of
               Some n \<Rightarrow> if n \<noteq> 0 then Inr (JInt n)
                 else rbind (ditem (config w) ''defaults'') (\<lambda>d. jitem d ''lease_seconds'')
             | None \<Rightarrow> rbind (ditem (config w) ''defaults'') (\<lambda>d. jitem d ''lease_seconds'')) (\<lambda>duration.
     keep w (if given task_id then rbind (get_task w (the task_id)) (\<lambda>t. Inr [t]) else Inr (list_tasks w))
       (\<lambda>candidates.
     keep w (claimable w actor (given task_id) candidates) (\<lambda>(t, current).
     claim_task H i actor duration t current w)))))"

definition check_lease :: "('r) host_scheme \<Rightarrow> string \<Rightarrow> dict \<Rightarrow> string \<Rightarrow> string \<Rightarrow> unit res" where
  "check_lease H now task actor lease_token =
     (let lease = dget task ''lease'' in
      rbind (if truthy lease then rbind (jitem lease ''holder'') (\<lambda>h. Inr (h = JStr actor)) else Inr False)
        (\<lambda>holds.
      rbind (ensure holds LeaseError ''Actor does not hold the lease for this task'') (\<lambda>_.
      rbind (ensure (is_ascii lease_token) UnicodeEncodeError ''ascii'') (\<lambda>_.
      rbind (jitem lease ''token_hash'') (\<lambda>h.
      rbind (case h of JStr s \<Rightarrow> compare_digest s (sha256_hex H lease_token)
             | _ \<Rightarrow> raise TypeError ''unsupported operand types'') (\<lambda>same.
      rbind (ensure same LeaseError ''Invalid lease token'') (\<lambda>_.
      rbind (lease_expired H now task) (\<lambda>expired.
      ensure (\<not> expired) LeaseError ''Task lease has expired''))))))))"

definition start ::
  "('r) host_scheme \<Rightarrow> inputs \<Rightarrow> string \<Rightarrow> string \<Rightarrow> string \<Rightarrow> workspace \<Rightarrow> dict res \<times> workspace" where
  "start H i actor task_id lease_token w =
     keep w (get_task w task_id) (\<lambda>task.
     keep w (check_lease H (clock i 0) task actor lease_token) (\<lambda>_.
     keep w (transition (clock i 1) task ''running'' []) (\<lambda>updated.
     commit_task H w (clock i 2) actor ''task.started'' task_id [(''task'', JObj updated)] updated)))"

definition extend_lease :: "('r) host_scheme \<Rightarrow> inputs \<Rightarrow> dict \<Rightarrow> dict res" where
  "extend_lease H i task =
     rbind (ditem task ''lease'') (\<lambda>lease.
     rbind (jitem lease ''duration_seconds'') (\<lambda>duration.
     rbind (rbind (duration_of duration) (lease_expiry H (clock i 1))) (\<lambda>expires_at.
     case lease of
       JObj l \<Rightarrow> Inr (dput ''updated_at'' (JStr (clock i 2))
                   (dput ''lease'' (JObj (dput ''expires_at'' (JStr expires_at) l)) task))
     | _ \<Rightarrow> raise TypeError ''object does not support item assignment'')))"

definition heartbeat ::
  "('r) host_scheme \<Rightarrow> inputs \<Rightarrow> string \<Rightarrow> string \<Rightarrow> string \<Rightarrow> workspace \<Rightarrow> dict res \<times> workspace" where
  "heartbeat H i actor task_id lease_token w =
     keep w (get_task w task_id) (\<lambda>task.
     keep w (check_lease H (clock i 0) task actor lease_token) (\<lambda>_.
     keep w (rbind (ditem task ''state'') (\<lambda>s. in_strs s [''claimed'', ''running''])) (\<lambda>active.
     keep w (ensure active TransitionError ''Cannot heartbeat task in state '') (\<lambda>_.
     keep w (extend_lease H i task) (\<lambda>updated.
     commit_task H w (clock i 3) actor ''task.heartbeat'' task_id [(''task'', JObj updated)] updated)))))"

definition block ::
  "('r) host_scheme \<Rightarrow> inputs \<Rightarrow> string \<Rightarrow> string \<Rightarrow> string \<Rightarrow> string \<Rightarrow> workspace \<Rightarrow> dict res \<times> workspace" where
  "block H i actor task_id lease_token reason w =
     keep w (get_task w task_id) (\<lambda>task.
     keep w (check_lease H (clock i 0) task actor lease_token) (\<lambda>_.
     keep w (transition (clock i 1) task ''blocked''
               [(''lease'', JNull), (''blocked_reason'', JStr (strip reason))]) (\<lambda>updated.
     commit_task H w (clock i 2) actor ''task.blocked'' task_id
       [(''task'', JObj updated), (''reason'', JStr (strip reason))] updated)))"

text \<open>
  The latest event of a ledger that carries a snapshot of the task:
  \<^verbatim>\<open>next((e for e in reversed(events) if ...), None)\<close>.
\<close>

fun find_signed :: "string \<Rightarrow> dict list \<Rightarrow> dict option res" where
  "find_signed t [] = Inr None"
| "find_signed t (e # es) =
     (if dget e ''task_id'' = JStr t then
        rbind (jget (dget_or e ''payload'' (JObj [])) ''task'') (\<lambda>s.
        if is_dict s then Inr (Some e) else find_signed t es)
      else find_signed t es)"

abbreviation signed_event :: "string \<Rightarrow> dict list \<Rightarrow> dict option res" where
  "signed_event t evs \<equiv> find_signed t (rev evs)"

definition task_of_event :: "dict option \<Rightarrow> json" where
  "task_of_event e = (case e of None \<Rightarrow> JNull | Some d \<Rightarrow> vget (dget_or d ''payload'' (JObj [])) ''task'')"

text \<open>The checks of \<^verbatim>\<open>recover_lease\<close> on the lease and on the event that last signed the task.\<close>

definition nonempty_str :: "json \<Rightarrow> bool" where
  "nonempty_str v = (case v of JStr s \<Rightarrow> s \<noteq> [] | _ \<Rightarrow> False)"

definition session_valid :: "json \<Rightarrow> bool" where
  "session_valid v = (case v of JStr s \<Rightarrow> fullmatch_hex 32 s | _ \<Rightarrow> False)"

definition recoverable_lease :: "dict \<Rightarrow> bool \<Rightarrow> dict res" where
  "recoverable_lease task force =
     rbind (rbind (ditem task ''state'') (\<lambda>s. in_strs s [''claimed'', ''running''])) (\<lambda>active.
     rbind (ensure active TransitionError ''Task '') (\<lambda>_.
     rbind (case dget task ''lease'' of JObj l \<Rightarrow> Inr l
            | _ \<Rightarrow> raise LeaseError ''Active task has no recoverable lease metadata'') (\<lambda>lease.
     rbind (ensure (nonempty_str (dget lease ''holder'')) LeaseError ''Active task lease holder is invalid'') (\<lambda>_.
     rbind (ensure (nonempty_str (dget lease ''expires_at'')) LeaseError
              ''Active task lease expiration is invalid'') (\<lambda>_.
     rbind (ensure (force \<or> session_valid (dget lease ''session_id'')) LeaseError
              ''Active task has no signed recovery session identity'') (\<lambda>_.
     rbind (ensure (force \<or> nonempty_str (dget lease ''issued_at'')) LeaseError
              ''Active task has no signed lease issue time'') (\<lambda>_.
     Inr lease)))))))"

definition liveness_source :: "dict \<Rightarrow> dict \<Rightarrow> unit res" where
  "liveness_source source lease =
     rbind (in_strs (dget source ''action'') [''task.claimed'', ''task.started'', ''task.heartbeat'']) (\<lambda>live.
     rbind (ensure live IntegrityError ''Latest signed active task event is not liveness evidence'') (\<lambda>_.
     ensure (py_eq (dget source ''actor'') (dget lease ''holder'')) IntegrityError
       ''Signed liveness event actor differs from the lease holder''))"

definition recovery_checks ::
  "('r) host_scheme \<Rightarrow> inputs \<Rightarrow> workspace \<Rightarrow> string \<Rightarrow> bool \<Rightarrow> (dict \<times> dict \<times> dict \<times> bool) res" where
  "recovery_checks H i w task_id force =
     rbind (get_task w task_id) (\<lambda>task.
     rbind (read_verified H (signing_key w) (events w)) (\<lambda>evs.
     rbind (signed_event task_id evs) (\<lambda>found.
     rbind (ensure (py_eq (task_of_event found) (JObj task)) IntegrityError
              ''Task projection differs from the signed ledger before recovery'') (\<lambda>_.
     rbind (recoverable_lease task force) (\<lambda>lease.
     rbind (case found of None \<Rightarrow> raise IntegrityError ''Latest signed active task event is not liveness evidence''
            | Some source \<Rightarrow> Inr source) (\<lambda>source.
     rbind (liveness_source source lease) (\<lambda>_.
     rbind (catch_any [KeyError, TypeError, ValueError] (lease_expired H (clock i 0) task)
              (raise LeaseError ''Active task lease expiration is invalid'')) (\<lambda>expired.
     rbind (ensure (force \<or> expired) LeaseError ''A healthy task lease cannot be recovered'') (\<lambda>_.
     rbind (ditem task ''attempt'') (\<lambda>attempt.
     rbind (ensure (case strict_int attempt of Some n \<Rightarrow> 1 \<le> n | None \<Rightarrow> False) IntegrityError
              ''Active task attempt is invalid'') (\<lambda>_.
     Inr (task, lease, source, expired))))))))))))"

definition recovery_payload ::
  "inputs \<Rightarrow> string \<Rightarrow> bool \<Rightarrow> dict \<Rightarrow> dict \<Rightarrow> dict \<Rightarrow> bool \<Rightarrow> json \<Rightarrow> dict \<Rightarrow> dict" where
  "recovery_payload i reason force task lease source expired receipt requeued =
     [(''schema_version'', JInt 2),
      (''recovery_mode'', JStr (if force then ''forced'' else ''expired_lease'')),
      (''reason'', JStr reason),
      (''previous_state'', dget task ''state''),
      (''previous_holder'', dget lease ''holder''),
      (''previous_expires_at'', dget lease ''expires_at''),
      (''previous_attempt'', dget task ''attempt''),
      (''liveness_evidence'', JObj
         [(''kind'', JStr (if force then ''forced_capability_override'' else ''signed_activity_plus_expired_lease'')),
          (''session_id'', if session_valid (dget lease ''session_id'') then dget lease ''session_id'' else JNull),
          (''issued_at'', dget lease ''issued_at''),
          (''lease_expired'', JBool expired),
          (''source_action'', dget source ''action''),
          (''source_sequence'', dget source ''sequence''),
          (''source_event_hash'', dget source ''event_hash''),
          (''observed_at'', JStr (clock i 3))]),
      (''capability_receipt'', receipt),
      (''transition'', JObj [(''from'', dget task ''state''), (''via'', JStr ''blocked''), (''to'', JStr ''pending'')]),
      (''task'', JObj requeued)]"

definition forced_receipt ::
  "('r) host_scheme \<Rightarrow> inputs \<Rightarrow> string \<Rightarrow> string \<Rightarrow> bool \<Rightarrow> string option \<Rightarrow> dict \<Rightarrow> dict \<Rightarrow> workspace
    \<Rightarrow> json res \<times> workspace" where
  "forced_receipt H i actor task_id force secret task lease w =
     (if \<not> force then (Inr JNull, w)
      else
        andthen (authorize_actor_capability H i actor ''task.recover_lease.force'' secret True (Some task_id)
                   (if session_valid (dget lease ''session_id'') then as_str (dget lease ''session_id'') else None)
                   (dget task ''attempt'') w) (\<lambda>receipt w. (Inr (JObj receipt), w)))"

definition recover_lease ::
  "('r) host_scheme \<Rightarrow> inputs \<Rightarrow> string \<Rightarrow> string \<Rightarrow> string \<Rightarrow> bool \<Rightarrow> string option \<Rightarrow> workspace
    \<Rightarrow> dict res \<times> workspace" where
  "recover_lease H i actor task_id reason force secret w =
     keep w (validate_task_id task_id) (\<lambda>task_id.
     keep w (validate_agent_id actor) (\<lambda>actor.
     keep w (orchestrator w) (\<lambda>orc.
     keep w (ensure (actor = orc) AuthorizationError
               ''Only the accountable orchestrator can recover a task lease'') (\<lambda>_.
     keep w (ensure (strip reason \<noteq> []) EvidenceError ''Lease recovery reason must be non-empty'') (\<lambda>_.
     keep w (recovery_checks H i w task_id force) (\<lambda>(task, lease, source, expired).
     andthen (forced_receipt H i actor task_id force secret task lease w) (\<lambda>receipt w.
     keep w (transition (clock i 1) task ''blocked''
               [(''lease'', JNull), (''blocked_reason'', JStr (strip reason))]) (\<lambda>blocked.
     keep w (transition (clock i 2) blocked ''pending'' [(''lease'', JNull), (''blocked_reason'', JNull)])
       (\<lambda>requeued.
     keep w (ensure (py_eq (dget requeued ''attempt'') (dget task ''attempt'')) IntegrityError
               ''Lease recovery changed the task attempt'') (\<lambda>_.
     keep w (rbind (ditem source ''sequence'') (\<lambda>_. ditem source ''event_hash'')) (\<lambda>_.
     commit_task H w (clock i 4) actor (if force then ''task.lease_force_recovered'' else ''task.lease_recovered'')
       task_id (recovery_payload i (strip reason) force task lease source expired receipt requeued)
       requeued)))))))))))"

section \<open>Submission\<close>

definition submission_result :: "string \<Rightarrow> string \<Rightarrow> json \<Rightarrow> json \<Rightarrow> dict" where
  "submission_result now actor report manifest =
     [(''submitted_at'', JStr now), (''submitted_by'', JStr actor), (''report'', report), (''manifest'', manifest)]"

definition submit ::
  "('r) host_scheme \<Rightarrow> services \<Rightarrow> inputs \<Rightarrow> string \<Rightarrow> string \<Rightarrow> string \<Rightarrow> workspace \<Rightarrow> dict res \<times> workspace" where
  "submit H S i actor task_id lease_token w =
     keep w (get_task w task_id) (\<lambda>task.
     keep w (check_lease H (clock i 0) task actor lease_token) (\<lambda>_.
     keep w (ditem task ''permissions'') (\<lambda>permissions.
     keep w (ditem task ''gates'') (\<lambda>gates.
     keep w (validate_submission S actor permissions gates) (\<lambda>validated.
     keep w (get_agent w actor) (\<lambda>worker_agent.
     keep w (identity_snapshot actor (dget worker_agent ''identity'')) (\<lambda>worker_identity.
     keep w (ditem validated ''report'') (\<lambda>report.
     keep w (ditem validated ''manifest'') (\<lambda>manifest.
     keep w (transition (clock i 2) task ''submitted''
               [(''lease'', JNull), (''result'', JObj (submission_result (clock i 1) actor report manifest))])
       (\<lambda>updated.
     keep w (ditem updated ''attempt'') (\<lambda>attempt.
     keep w (rbind (ditem (config w) ''defaults'') (\<lambda>d. jitem d ''max_evidence_bytes'')) (\<lambda>_.
     keep w (archive_evidence_bundle S task_id attempt ''worker'' report manifest []) (\<lambda>bundle.
     commit_task H w (clock i 3) actor ''task.submitted'' task_id
       [(''task'', JObj updated), (''worker_identity'', worker_identity), (''bundle'', bundle)]
       updated)))))))))))))"

section \<open>Verification\<close>

definition TRUSTED_RECEIPT_RESULT_KEYS :: "string list" where
  "TRUSTED_RECEIPT_RESULT_KEYS =
     [''schema_version'', ''runner'', ''task_id'', ''attempt'', ''actor'', ''run_id'', ''source_commit'',
      ''verifier_manifest_sha256'', ''validation_contract_sha256'', ''receipt_preimage_sha256'', ''source_clean'',
      ''source_postcheck_passed'', ''source_postcheck_error'', ''isolation_policy'', ''isolation_attested'',
      ''isolation_backend'', ''snapshot'', ''snapshot_precheck_passed'', ''snapshot_protection'',
      ''snapshot_postcheck_passed'', ''snapshot_postcheck_error'', ''operational_change_count'',
      ''operational_paths_sha256'', ''started_at'', ''completed_at'', ''gpu_allowed'', ''cuda_visible_devices'',
      ''network_allowed'', ''network_enforcement'', ''environment_sha256'', ''sandbox_environment'',
      ''sandbox_environment_sha256'', ''max_output_bytes'', ''validations'', ''passed'', ''failure'',
      ''receipt_path'', ''receipt_sha256'']"

text \<open>The run ids that the ledger already uses, and the first of eight random ones that is free.\<close>

definition used_run_id :: "dict \<Rightarrow> json list \<Rightarrow> json list res" where
  "used_run_id e used =
     (case dget_or e ''action'' (JStr []) of
        JStr a \<Rightarrow>
          if startswith a ''verification.'' then
            rbind (jget (dget_or e ''payload'' (JObj [])) ''run_id'') (\<lambda>r.
            if hashable r then Inr (used @ [r]) else raise TypeError ''unhashable type'')
          else Inr used
      | _ \<Rightarrow> raise AttributeError ''startswith'')"

definition allocate_run_id :: "inputs \<Rightarrow> dict list \<Rightarrow> string res" where
  "allocate_run_id i evs =
     rbind (rfold used_run_id evs []) (\<lambda>used.
     case find (\<lambda>c. JStr c \<notin> set used) (map (token16 i) [0..<8]) of
       None \<Rightarrow> raise IntegrityError ''Could not allocate a unique verification run ID''
     | Some c \<Rightarrow>
         rbind (ensure (c \<noteq> []) IntegrityError ''Could not allocate a unique verification run ID'') (\<lambda>_. Inr c))"

record verification_context =
  vc_task :: dict
  vc_identity :: json
  vc_independence :: dict
  vc_evidence :: dict
  vc_manifest :: string
  vc_worker_manifest :: json
  vc_run_id :: string

definition submitted_identity :: "string \<Rightarrow> dict list \<Rightarrow> json res" where
  "submitted_identity task_id evs =
     (case find (\<lambda>e. dget e ''action'' = JStr ''task.submitted'' \<and> dget e ''task_id'' = JStr task_id) (rev evs) of
        None \<Rightarrow> Inr JNull
      | Some e \<Rightarrow> jget (dget_or e ''payload'' (JObj [])) ''worker_identity'')"

definition worker_manifest_sha :: "dict \<Rightarrow> json res" where
  "worker_manifest_sha task =
     rbind (jget_or (dget_or task ''result'' (JObj [])) ''manifest'' (JObj [])) (\<lambda>m.
     jget m ''manifest_sha256'')"

definition distinct_manifests :: "json \<Rightarrow> string \<Rightarrow> unit res" where
  "distinct_manifests worker verifier =
     (case worker of
        JStr s \<Rightarrow>
          rbind (compare_digest (lower s) (lower verifier)) (\<lambda>same.
          ensure (\<not> same) EvidenceError
            ''Verifier evidence must be independently produced, not the worker submission manifest'')
      | _ \<Rightarrow> Inr ())"

definition verify_checks ::
  "('r) host_scheme \<Rightarrow> services \<Rightarrow> inputs \<Rightarrow> workspace \<Rightarrow> string \<Rightarrow> string \<Rightarrow> string \<Rightarrow> string \<Rightarrow> bool
    \<Rightarrow> verification_context res" where
  "verify_checks H S i w actor task_id decision note evidence_given =
     rbind (ensure (decision \<in> set [''accept'', ''reject'']) ConfigurationError
              ''Verification decision must be 'accept' or 'reject' '') (\<lambda>_.
     rbind (ensure (strip note \<noteq> []) EvidenceError ''Verification note must be non-empty'') (\<lambda>_.
     rbind (ensure evidence_given EvidenceError ''Verifier evidence manifest is required'') (\<lambda>_.
     rbind (get_agent w actor) (\<lambda>verifier_agent.
     rbind (rbind (ditem verifier_agent ''role'') (\<lambda>r. in_strs r [''verifier'', ''orchestrator''])) (\<lambda>authorized.
     rbind (ensure authorized AuthorizationError ''Actor role is not authorized for verification'') (\<lambda>_.
     rbind (get_task w task_id) (\<lambda>task.
     rbind (ditem task ''state'') (\<lambda>state.
     rbind (ensure (state = JStr ''submitted'') TransitionError ''Task '') (\<lambda>_.
     rbind (identity_snapshot actor (dget verifier_agent ''identity'')) (\<lambda>verifier_identity.
     rbind (read_verified H (signing_key w) (events w)) (\<lambda>evs.
     rbind (submitted_identity task_id evs) (\<lambda>worker_identity.
     rbind (evaluate_independence worker_identity verifier_identity) (\<lambda>independence.
     rbind (ensure (truthy (dget independence ''independent'')) AuthorizationError
              ''Independent verification failed: '') (\<lambda>_.
     rbind (ditem task ''permissions'') (\<lambda>permissions.
     rbind (ditem task ''gates'') (\<lambda>gates.
     rbind (validate_manifest S actor permissions gates) (\<lambda>evidence.
     rbind (worker_manifest_sha task) (\<lambda>worker_manifest.
     rbind (text_item (JObj evidence) ''manifest_sha256'') (\<lambda>manifest.
     rbind (distinct_manifests worker_manifest manifest) (\<lambda>_.
     rbind (allocate_run_id i evs) (\<lambda>run_id.
     rbind (ditem task ''attempt'') (\<lambda>_.
     Inr \<lparr>vc_task = task, vc_identity = verifier_identity, vc_independence = independence, vc_evidence = evidence,
          vc_manifest = manifest, vc_worker_manifest = worker_manifest, vc_run_id = run_id\<rparr>))))))))))))))))))))))"

definition contract_inputs_sha256 :: "('r) host_scheme \<Rightarrow> string \<Rightarrow> string \<Rightarrow> verification_context \<Rightarrow> string" where
  "contract_inputs_sha256 H actor task_id c =
     sha256_hex H (canonical_json (JObj
       [(''task_id'', JStr task_id), (''task_attempt'', dget (vc_task c) ''attempt''),
        (''run_id'', JStr (vc_run_id c)), (''actor'', JStr actor), (''verifier_identity'', vc_identity c),
        (''verifier_manifest_sha256'', JStr (vc_manifest c)), (''worker_manifest_sha256'', vc_worker_manifest c),
        (''permissions'', dget (vc_task c) ''permissions''), (''gates'', dget (vc_task c) ''gates'')]))"

definition started_payload :: "verification_context \<Rightarrow> string \<Rightarrow> dict \<Rightarrow> dict" where
  "started_payload c inputs_sha receipt =
     [(''schema_version'', JInt 1), (''run_id'', JStr (vc_run_id c)),
      (''task_attempt'', dget (vc_task c) ''attempt''),
      (''verifier_manifest_sha256'', JStr (vc_manifest c)), (''worker_manifest_sha256'', vc_worker_manifest c),
      (''verifier_identity'', vc_identity c), (''verification_contract_inputs_sha256'', JStr inputs_sha),
      (''capability_receipt'', JObj receipt)]"

definition record_verification_failure ::
  "('r) host_scheme \<Rightarrow> string \<Rightarrow> string \<Rightarrow> string \<Rightarrow> string \<Rightarrow> json \<Rightarrow> string \<Rightarrow> exn \<Rightarrow> dict \<Rightarrow> string \<Rightarrow> workspace
    \<Rightarrow> unit res \<times> workspace" where
  "record_verification_failure H now actor task_id run_id attempt stage error receipt inputs_sha w =
     keep w (ensure (stage \<in> set VERIFICATION_FAILURE_STAGES) IntegrityError
               ''Verification failure stage is not allowlisted'') (\<lambda>_.
     keep w (ensure (verification_error_type error \<in> set VERIFICATION_FAILURE_ERROR_TYPES) IntegrityError
               ''Verification failure type is not allowlisted'') (\<lambda>_.
     keep w (read_verified H (signing_key w) (events w)) (\<lambda>evs.
     keep w (catch_any [ValueError] (find_verification_run evs task_id run_id) (raise IntegrityError [])) (\<lambda>(found, terminals).
     keep w (case found of None \<Rightarrow> raise IntegrityError ''Verification failure has no signed started event''
             | Some s \<Rightarrow> payload_of s) (\<lambda>sp.
     keep w (ensure (py_eq (dget sp ''task_attempt'') attempt) IntegrityError
               ''Verification failure attempt differs from started run'') (\<lambda>_.
     case terminals of
       [] \<Rightarrow>
         andthen (append_event H w now actor ''verification.failed'' (JStr task_id)
           [(''schema_version'', JInt 1), (''run_id'', JStr run_id), (''task_attempt'', attempt),
            (''stage'', JStr stage), (''error_type'', JStr (verification_error_type error)),
            (''verifier_identity'', dget sp ''verifier_identity''),
            (''verifier_manifest_sha256'', dget sp ''verifier_manifest_sha256''),
            (''worker_manifest_sha256'', dget sp ''worker_manifest_sha256''),
            (''verification_contract_inputs_sha256'', JStr inputs_sha),
            (''capability_receipt'', JObj receipt)]) (\<lambda>_ w. (Inr (), w))
     | [t] \<Rightarrow>
         if dget t ''action'' = JStr ''verification.failed'' then (Inr (), w)
         else (raise IntegrityError ''Verification run already has a task terminal event'', w)
     | _ \<Rightarrow> (raise IntegrityError ''Verification run already has multiple terminal events'', w)))))))"

text \<open>
  \<^verbatim>\<open>try: m except Exception as error: self._record_verification_failure(...); raise\<close>
\<close>

definition or_record_failure ::
  "('r) host_scheme \<Rightarrow> string \<Rightarrow> string \<Rightarrow> string \<Rightarrow> verification_context \<Rightarrow> string \<Rightarrow> dict \<Rightarrow> string
    \<Rightarrow> 'a res \<Rightarrow> workspace \<Rightarrow> ('a \<Rightarrow> workspace \<Rightarrow> 'b res \<times> workspace) \<Rightarrow> 'b res \<times> workspace" where
  "or_record_failure H now actor task_id c stage receipt inputs_sha m w k =
     (case m of
        Inr x \<Rightarrow> k x w
      | Inl error \<Rightarrow>
          andthen (record_verification_failure H now actor task_id (vc_run_id c) (dget (vc_task c) ''attempt'')
                     stage error receipt inputs_sha w) (\<lambda>_ w. (Inl error, w)))"

definition attested_validation :: "services \<Rightarrow> verification_context \<Rightarrow> json \<Rightarrow> (dict \<times> json list \<times> json) res" where
  "attested_validation S c trusted =
     (case trusted of
        JObj tv \<Rightarrow>
          rbind (ensure (exact_keys tv TRUSTED_RECEIPT_RESULT_KEYS) VerifierAttestationError
                   ''Trusted runner result schema is invalid'') (\<lambda>_.
          case dget tv ''validations'' of
            JArr validations \<Rightarrow>
              rbind (request_executor_attestation S tv (vc_identity c)) (\<lambda>attestation.
              rbind (verify_executor_attestation S attestation tv (vc_identity c)) (\<lambda>_.
              Inr (tv, validations, attestation)))
          | _ \<Rightarrow> raise VerifierAttestationError ''Trusted runner validations must be a list'')
      | _ \<Rightarrow> raise VerifierAttestationError ''Trusted runner result is not an object'')"

definition trusted_file :: "json \<Rightarrow> json \<Rightarrow> string \<Rightarrow> json" where
  "trusted_file path sha kind =
     JObj [(''path'', path), (''sha256'', sha), (''kind'', JStr kind), (''force'', JBool True)]"

definition archived_bundle ::
  "services \<Rightarrow> workspace \<Rightarrow> string \<Rightarrow> verification_context \<Rightarrow> dict \<Rightarrow> json list \<Rightarrow> json res" where
  "archived_bundle S w task_id c tv validations =
     rbind (rmap (\<lambda>v. rbind (jitem v ''output_path'') (\<lambda>p. rbind (jitem v ''output_sha256'') (\<lambda>s.
                      Inr (trusted_file p s ''trusted_runner_output'')))) validations) (\<lambda>outputs.
     rbind (rbind (ditem (config w) ''defaults'') (\<lambda>d. jitem d ''max_evidence_bytes'')) (\<lambda>_.
     archive_evidence_bundle S task_id (dget (vc_task c) ''attempt'') ''verifier'' JNull (JObj (vc_evidence c))
       (trusted_file (dget tv ''receipt_path'') (dget tv ''receipt_sha256'') ''trusted_runner_receipt'' # outputs)))"

definition verification_record ::
  "string \<Rightarrow> string \<Rightarrow> string \<Rightarrow> string \<Rightarrow> verification_context \<Rightarrow> string \<Rightarrow> dict \<Rightarrow> dict \<Rightarrow> dict \<Rightarrow> dict" where
  "verification_record now actor decision note c inputs_sha receipt tv verifier_evidence =
     [(''run_id'', JStr (vc_run_id c)), (''verified_at'', JStr now), (''verified_by'', JStr actor),
      (''decision'', JStr decision), (''note'', JStr note), (''independence'', JObj (vc_independence c)),
      (''verifier_evidence'', JObj verifier_evidence),
      (''trusted_validation'', JObj tv), (''verifier_identity'', vc_identity c),
      (''worker_manifest_sha256'', vc_worker_manifest c),
      (''verification_contract_inputs_sha256'', JStr inputs_sha), (''capability_receipt'', JObj receipt)]"

definition verdict_payload ::
  "verification_context \<Rightarrow> string \<Rightarrow> dict \<Rightarrow> dict \<Rightarrow> dict \<Rightarrow> dict \<Rightarrow> dict" where
  "verdict_payload c inputs_sha receipt tv verifier_evidence updated =
     [(''run_id'', JStr (vc_run_id c)), (''task'', JObj updated), (''verifier_identity'', vc_identity c),
      (''independence'', JObj (vc_independence c)), (''verifier_evidence'', JObj verifier_evidence),
      (''trusted_validation'', JObj tv), (''worker_manifest_sha256'', vc_worker_manifest c),
      (''verification_contract_inputs_sha256'', JStr inputs_sha), (''capability_receipt'', JObj receipt)]"

text \<open>The part of \<^verbatim>\<open>verify\<close> after the capability was consumed: the run from its start to its verdict.\<close>

definition verify_run ::
  "('r) host_scheme \<Rightarrow> services \<Rightarrow> inputs \<Rightarrow> string \<Rightarrow> string \<Rightarrow> string \<Rightarrow> string \<Rightarrow> verification_context \<Rightarrow> dict
    \<Rightarrow> workspace \<Rightarrow> dict res \<times> workspace" where
  "verify_run H S i actor task_id decision note c receipt w =
     (let target = (if decision = ''accept'' then ''verified'' else ''rejected'');
          sha = contract_inputs_sha256 H actor task_id c;
          attempt = dget (vc_task c) ''attempt''
      in
      andthen (append_event H w (clock i 0) actor ''verification.started'' (JStr task_id)
                 (started_payload c sha receipt)) (\<lambda>_ w.
      or_record_failure H (clock i 1) actor task_id c ''trusted_runner'' receipt sha
        (run_trusted_validations S task_id attempt actor (vc_run_id c) (vc_evidence c)) w (\<lambda>trusted w.
      or_record_failure H (clock i 1) actor task_id c ''executor_attestation'' receipt sha
        (attested_validation S c trusted) w (\<lambda>(tv, validations, attestation) w.
      or_record_failure H (clock i 1) actor task_id c ''archive'' receipt sha
        (archived_bundle S w task_id c tv validations) w (\<lambda>bundle w.
      let evidence = [(''manifest_sha256'', JStr (vc_manifest c)), (''bundle'', bundle),
                      (''executor_attestation'', attestation)];
          r = verification_record (clock i 1) actor decision (strip note) c sha receipt tv evidence
      in
      or_record_failure H (clock i 3) actor task_id c ''state_transition'' receipt sha
        (transition (clock i 2) (vc_task c) target [(''verification'', JObj r)]) w (\<lambda>updated w.
      commit_task H w (clock i 3) actor (''task.'' @ target) task_id
        (verdict_payload c sha receipt tv evidence updated) updated))))))"

definition verify ::
  "('r) host_scheme \<Rightarrow> services \<Rightarrow> inputs \<Rightarrow> string \<Rightarrow> string option \<Rightarrow> string \<Rightarrow> string \<Rightarrow> string \<Rightarrow> bool
    \<Rightarrow> workspace \<Rightarrow> dict res \<times> workspace" where
  "verify H S i actor secret task_id decision note evidence_given w =
     keep w (verify_checks H S i w actor task_id decision note evidence_given) (\<lambda>c.
     andthen (authorize_actor_capability H i actor ''task.verify'' secret True (Some task_id)
                (Some (vc_run_id c)) (dget (vc_task c) ''attempt'') w) (\<lambda>receipt w.
     verify_run H S i actor task_id decision note c receipt w))"

section \<open>Reconciliation and restatement\<close>

definition signed_task_projection :: "dict list \<Rightarrow> string \<Rightarrow> dict res" where
  "signed_task_projection evs task_id =
     rbind (signed_event task_id evs) (\<lambda>found.
     case task_of_event found of
       JObj s \<Rightarrow>
         rbind (ensure (dget s ''id'' = JStr task_id) IntegrityError
                  ''Signed task projection is missing or malformed'') (\<lambda>_. Inr s)
     | _ \<Rightarrow> raise IntegrityError ''Signed task projection is missing or malformed'')"

definition positive_attempt :: "json \<Rightarrow> bool" where
  "positive_attempt v = (case strict_int v of Some n \<Rightarrow> 1 \<le> n | None \<Rightarrow> False)"

definition recovery_terminal :: "string \<Rightarrow> string \<Rightarrow> dict \<Rightarrow> dict \<Rightarrow> dict \<Rightarrow> dict" where
  "recovery_terminal actor run_id started sp receipt =
     [(''schema_version'', JInt 1), (''run_id'', JStr run_id), (''task_attempt'', dget sp ''task_attempt''),
      (''stage'', JStr ''recovery''), (''error_type'', JStr ''interrupted_error''),
      (''started_sequence'', dget started ''sequence''), (''started_event_hash'', dget started ''event_hash''),
      (''started_actor'', dget started ''actor''), (''verifier_identity'', dget sp ''verifier_identity''),
      (''verifier_manifest_sha256'', dget sp ''verifier_manifest_sha256''),
      (''worker_manifest_sha256'', dget sp ''worker_manifest_sha256''),
      (''verification_contract_inputs_sha256'', dget sp ''verification_contract_inputs_sha256''),
      (''started_capability_receipt'', dget sp ''capability_receipt''),
      (''recovered_by'', JStr actor), (''capability_receipt'', JObj receipt)]"

definition terminal_attempt :: "dict \<Rightarrow> json res" where
  "terminal_attempt terminal =
     rbind (payload_of terminal) (\<lambda>tp.
     Inr (if dget tp ''task_attempt'' \<noteq> JNull then dget tp ''task_attempt''
          else case dget tp ''task'' of JObj t \<Rightarrow> dget t ''attempt'' | _ \<Rightarrow> JNull))"

definition check_terminal :: "dict \<Rightarrow> json \<Rightarrow> unit res" where
  "check_terminal terminal task_attempt =
     rbind (terminal_attempt terminal) (\<lambda>a.
     rbind (ensure (py_eq a task_attempt) IntegrityError
              ''Verification terminal attempt differs from started run'') (\<lambda>_.
     rbind (in_strs (dget terminal ''action'') VERIFICATION_TERMINAL_ACTIONS) (\<lambda>known.
     ensure known IntegrityError ''Verification terminal action is unsupported'')))"

text \<open>The end of \<^verbatim>\<open>reconcile_verification\<close>: the signed snapshot is replayed to the task file.\<close>

definition replay_projection ::
  "string \<Rightarrow> string \<Rightarrow> dict \<Rightarrow> bool \<Rightarrow> workspace \<Rightarrow> dict res \<times> workspace" where
  "replay_projection task_id run_id terminal was_appended w =
     keep w (signed_task_projection (events w) task_id) (\<lambda>authoritative.
     let changed = (case read_json (file_of (tasks w) task_id) of
                      Inr d \<Rightarrow> \<not> py_eq (JObj d) (JObj authoritative) | Inl _ \<Rightarrow> True);
         w = (if changed then write_task task_id authoritative w else w)
     in
     keep w (ditem terminal ''action'') (\<lambda>action.
     keep w (ditem terminal ''sequence'') (\<lambda>seq.
     (Inr [(''schema_version'', JInt 1), (''task_id'', JStr task_id), (''run_id'', JStr run_id),
           (''terminal_action'', action), (''terminal_sequence'', seq), (''terminal_appended'', JBool was_appended),
           (''projection_rebuilt'', JBool changed), (''task'', JObj authoritative)], w))))"

definition close_run ::
  "('r) host_scheme \<Rightarrow> inputs \<Rightarrow> string \<Rightarrow> string \<Rightarrow> string \<Rightarrow> dict \<Rightarrow> dict \<Rightarrow> dict list \<Rightarrow> dict \<Rightarrow> workspace
    \<Rightarrow> dict res \<times> workspace" where
  "close_run H i actor task_id run_id started sp terminals receipt w =
     (case terminals of
        [] \<Rightarrow>
          keep w (rbind (ditem started ''sequence'') (\<lambda>_. ditem started ''event_hash'')) (\<lambda>_.
          andthen (append_event H w (clock i 0) actor ''verification.failed'' (JStr task_id)
                     (recovery_terminal actor run_id started sp receipt)) (\<lambda>terminal w.
          replay_projection task_id run_id terminal True w))
      | terminal # _ \<Rightarrow>
          keep w (check_terminal terminal (dget sp ''task_attempt'')) (\<lambda>_.
          replay_projection task_id run_id terminal False w))"

definition reconcile_verification ::
  "('r) host_scheme \<Rightarrow> inputs \<Rightarrow> string \<Rightarrow> string option \<Rightarrow> string \<Rightarrow> string \<Rightarrow> workspace \<Rightarrow> dict res \<times> workspace" where
  "reconcile_verification H i actor secret task_id run_id w =
     keep w (validate_agent_id actor) (\<lambda>actor.
     keep w (orchestrator w) (\<lambda>orc.
     keep w (ensure (actor = orc) AuthorizationError
               ''Only the accountable orchestrator can reconcile verification'') (\<lambda>_.
     keep w (validate_task_id task_id) (\<lambda>task_id.
     keep w (catch_any [ValueError] (validate_verification_run_id (JStr run_id)) (raise ConfigurationError [])) (\<lambda>run_id.
     keep w (read_verified H (signing_key w) (events w)) (\<lambda>evs.
     keep w (catch_any [ValueError] (find_verification_run evs task_id run_id) (raise IntegrityError [])) (\<lambda>(found, terminals).
     keep w (case found of None \<Rightarrow> raise EvidenceError ''Verification run has no signed started event''
             | Some s \<Rightarrow> Inr s) (\<lambda>started.
     keep w (ensure (length terminals \<le> 1) IntegrityError
               ''Verification run has more than one terminal event'') (\<lambda>_.
     keep w (payload_of started) (\<lambda>sp.
     keep w (ensure (positive_attempt (dget sp ''task_attempt'')) IntegrityError
               ''Verification started event has invalid attempt'') (\<lambda>_.
     andthen (authorize_actor_capability H i actor ''task.reconcile_verification'' secret True (Some task_id)
                (Some run_id) (dget sp ''task_attempt'') w) (\<lambda>receipt w.
     close_run H i actor task_id run_id started sp terminals receipt w))))))))))))"

definition restatement_target :: "dict list \<Rightarrow> string \<Rightarrow> int option \<Rightarrow> dict res" where
  "restatement_target evs task_id target_sequence =
     (let candidates = filter (\<lambda>e. dget e ''action'' = JStr ''task.verified'' \<and> dget e ''task_id'' = JStr task_id) evs;
          target = (case target_sequence of
              None \<Rightarrow> if candidates = [] then None else Some (last candidates)
            | Some n \<Rightarrow> find (\<lambda>e. py_eq (dget e ''sequence'') (JInt n)) candidates)
      in case target of None \<Rightarrow> raise EvidenceError ''No task.verified event found for '' | Some e \<Rightarrow> Inr e)"

definition target_binding :: "dict \<Rightarrow> (string option \<times> json) res" where
  "target_binding target =
     rbind (jget (dget_or target ''payload'' (JObj [])) ''task'') (\<lambda>task.
     let run_id = vget (vget task ''verification'') ''run_id''; attempt = vget task ''attempt'' in
     rbind (if run_id = JNull then Inr None
            else rbind (catch_any [TypeError, ValueError] (validate_verification_run_id run_id)
                          (raise IntegrityError ''Target verification has an invalid run binding'')) (\<lambda>r. Inr (Some r)))
       (\<lambda>r.
     rbind (ensure (positive_attempt attempt) IntegrityError
              ''Target verification lacks a valid attempt binding'') (\<lambda>_.
     Inr (r, attempt))))"

text \<open>
  The loop over the earlier restatements of the target, latest first: the answer is the event to
  return again, if the latest one says the same, and nothing if a new event is to be appended.
\<close>

fun earlier_restatement :: "dict \<Rightarrow> string \<Rightarrow> string \<Rightarrow> dict list \<Rightarrow> dict option res" where
  "earlier_restatement target status reason [] = Inr None"
| "earlier_restatement target status reason (e # es) =
     (if dget e ''action'' \<noteq> JStr ''verification.restatement'' then earlier_restatement target status reason es
      else rbind (payload_of e) (\<lambda>p.
        if \<not> py_eq (dget p ''target_verification_sequence'') (dget target ''sequence'')
           \<or> dget p ''target_verification_hash'' \<noteq> JStr (py_str (dget_or target ''event_hash'' (JStr [])))
        then earlier_restatement target status reason es
        else if dget p ''effective_status'' = JStr status \<and> dget p ''reason'' = JStr reason then Inr (Some e)
        else if dget p ''effective_status'' = JStr ''verification_revoked''
        then raise TransitionError ''A revoked verification cannot be restored or weakened''
        else Inr None))"

definition append_restatement ::
  "('r) host_scheme \<Rightarrow> inputs \<Rightarrow> string \<Rightarrow> string \<Rightarrow> dict \<Rightarrow> string \<Rightarrow> string \<Rightarrow> dict \<Rightarrow> workspace
    \<Rightarrow> dict res \<times> workspace" where
  "append_restatement H i actor task_id target status reason receipt w =
     keep w (earlier_restatement target status reason (rev (events w))) (\<lambda>again.
     case again of
       Some e \<Rightarrow> (Inr e, w)
     | None \<Rightarrow>
         keep w (ditem target ''sequence'') (\<lambda>seq.
         append_event H w (clock i 0) actor ''verification.restatement'' (JStr task_id)
           [(''schema_version'', JInt 1), (''target_verification_sequence'', seq),
            (''target_verification_hash'', JStr (py_str (dget_or target ''event_hash'' (JStr [])))),
            (''original_verifier'', dget target ''actor''), (''effective_status'', JStr status),
            (''reason'', JStr reason), (''capability_receipt'', JObj receipt)]))"

definition restate_verification ::
  "('r) host_scheme \<Rightarrow> inputs \<Rightarrow> string \<Rightarrow> string option \<Rightarrow> string \<Rightarrow> string \<Rightarrow> string \<Rightarrow> int option \<Rightarrow> workspace
    \<Rightarrow> dict res \<times> workspace" where
  "restate_verification H i actor secret task_id status reason target_sequence w =
     keep w (orchestrator w) (\<lambda>orc.
     keep w (ensure (actor = orc) AuthorizationError
               ''Only the accountable orchestrator can restate verification trust'') (\<lambda>_.
     keep w (ensure (status \<in> set [''verification_disputed'', ''verification_revoked'']) ConfigurationError
               ''Effective verification status must be verification_disputed or verification_revoked'') (\<lambda>_.
     keep w (ensure (strip reason \<noteq> []) EvidenceError ''Verification restatement reason must be non-empty'') (\<lambda>_.
     keep w (ensure (case target_sequence of None \<Rightarrow> True | Some n \<Rightarrow> 1 \<le> n) ConfigurationError
               ''Target verification sequence must be a positive integer'') (\<lambda>_.
     keep w (get_task w task_id) (\<lambda>_.
     keep w (read_verified H (signing_key w) (events w)) (\<lambda>evs.
     keep w (restatement_target evs task_id target_sequence) (\<lambda>target.
     keep w (target_binding target) (\<lambda>(run_id, attempt).
     andthen (authorize_actor_capability H i actor ''task.restate_verification'' secret True (Some task_id)
                run_id attempt w) (\<lambda>receipt w.
     append_restatement H i actor task_id target status (strip reason) receipt w))))))))))"

section \<open>Status and audit\<close>

definition count_state :: "dict list \<Rightarrow> string \<Rightarrow> int" where
  "count_state ts state = int (length (filter (\<lambda>t. dget t ''state'' = JStr state) ts))"

definition workspace_status :: "('r) host_scheme \<Rightarrow> string \<Rightarrow> workspace \<Rightarrow> dict res" where
  "workspace_status H root w =
     rbind (reach (\<lambda>t. ensure (hashable (dget t ''state'')) TypeError ''unhashable type'') (list_tasks w)) (\<lambda>_.
     rbind (verify_events H (signing_key w) (events w)) (\<lambda>info.
     rbind (ditem (config w) ''name'') (\<lambda>name.
     rbind (orchestrator w) (\<lambda>orc.
     Inr [(''workspace'', JStr root), (''name'', name), (''orchestrator'', JStr orc),
          (''total_tasks'', JInt (int (length (list_tasks w)))),
          (''states'', JObj (map (\<lambda>s. (s, JInt (count_state (list_tasks w) s)))
             [''pending'', ''claimed'', ''running'', ''blocked'', ''submitted'', ''verified'', ''rejected'', ''archived''])),
          (''ledger'', JObj info)]))))"

definition actual_tasks :: "workspace \<Rightarrow> (json \<times> dict) list res" where
  "actual_tasks w =
     rfold (\<lambda>t acc. rbind (ditem t ''id'') (\<lambda>v.
       if hashable v then Inr (alist_put (py_norm v) t acc) else raise TypeError ''unhashable type''))
       (list_tasks w) []"

definition audit_projections :: "('r) host_scheme \<Rightarrow> workspace \<Rightarrow> dict res" where
  "audit_projections H w =
     rbind (verify_events H (signing_key w) (events w)) (\<lambda>_.
     rbind (projected_tasks (events w)) (\<lambda>projected.
     rbind (actual_tasks w) (\<lambda>actual.
     let mismatches = filter (\<lambda>p. case map_of actual (fst p) of
             None \<Rightarrow> True | Some a \<Rightarrow> \<not> py_eq (JObj a) (JObj (snd p))) projected
     in
     Inr [(''valid'', JBool (mismatches = [])), (''events_count'', JInt (int (length (events w)))),
          (''projected_count'', JInt (int (length projected))), (''actual_count'', JInt (int (length actual))),
          (''mismatches'', JArr (map fst mismatches))])))"

end
