(* ===== verification/Workspace_Safety.thy ===== *)
theory Workspace_Safety
  imports Workspace
begin

text \<open>
  What the workspace operations guarantee: the operations that demand an isolated actor always
  fail and change nothing; in every reachable state the ledger verifies and the task files are
  the projections of the ledger; leases are held by the owner of the task and respected.
\<close>

section \<open>Authorization\<close>

lemma authorize_state:
  "\<exists>c. snd (authorize_actor_capability H i actor op secret isolated t rn at w) = w\<lparr>caps := c\<rparr>"
proof -
  have same: "\<exists>c. w = w\<lparr>caps := c\<rparr>" by (rule exI [of _ "caps w"]) simp
  show ?thesis unfolding authorize_actor_capability_def
    by (intro keep_state [where P = "\<lambda>s. \<exists>c. s = w\<lparr>caps := c\<rparr>"] same) (auto simp: Let_def split: prod.splits)
qed

text \<open>No status ever reports an isolated actor, so a demand for isolation is never met.\<close>

lemma authorize_isolated:
  "\<exists>e. authorize_actor_capability H i actor op secret True t rn at w = (Inl e, w)"
  unfolding authorize_actor_capability_def
  by (auto simp: keep_def dest: cap_status_isolation split: sum.splits)

lemma nested_state_eq: "(case m of (r, c) \<Rightarrow> (r, g c)) = (x, w') \<longleftrightarrow> (\<exists>c. m = (x, c) \<and> w' = g c)"
  by (cases m) auto

lemma authorize_eq_Inr:
  "authorize_actor_capability H i actor op secret isolated t rn at w = (Inr receipt, w') \<longleftrightarrow>
     (\<exists>s ws posture token c. AGENT_ID_RE actor \<and> secret = Some s
        \<and> rbind (ditem (config w) ''workspace_id'') (\<lambda>v. Inr (py_str v)) = Inr ws \<and> authority_init H ws = Inr ()
        \<and> cap_status ws (caps w) actor = Inr posture \<and> dget posture ''state'' = JStr ''provisioned'' \<and> \<not> isolated
        \<and> mint H ws (caps w) (epoch i 0) (token24 i) actor op s DEFAULT_TTL_SECONDS t rn at = Inr token
        \<and> verify_and_consume H ws (epoch i 1) actor op token t rn at (caps w) = (Inr receipt, c)
        \<and> w' = w\<lparr>caps := c\<rparr>)"
  unfolding authorize_actor_capability_def
  by (auto simp: keep_eq_pair cap_status_isolation Let_def nested_state_eq split: option.splits)

lemma andthen_isolated:
  "\<exists>e. andthen (authorize_actor_capability H i actor op secret True t rn at w) f = (Inl e, w)"
  using authorize_isolated [of H i actor op secret t rn at w] by auto

lemma keep_fails: "(\<And>x. r = Inr x \<Longrightarrow> \<exists>e. f x = (Inl e, s)) \<Longrightarrow> \<exists>e. keep s r f = (Inl e, s)"
  by (cases r) auto

lemma recover_forced_closed: "\<exists>e. recover_lease H i actor t reason True secret w = (Inl e, w)"
proof -
  have "\<exists>e. forced_receipt H i actor t True secret task lease w = (Inl e, w)" for actor t task lease
    unfolding forced_receipt_def by (simp add: andthen_isolated)
  then have "\<exists>e. andthen (forced_receipt H i actor t True secret task lease w) f = (Inl e, w)"
    for actor t task lease and f :: "json \<Rightarrow> workspace \<Rightarrow> dict res \<times> workspace"
    by (metis andthen_Inl)
  then show ?thesis unfolding recover_lease_def by (intro keep_fails) (auto split: prod.splits)
qed

lemma closed_operations:
  "\<exists>e. verify H S i actor secret t decision note given_evidence w = (Inl e, w)"
  "\<exists>e. reconcile_verification H i actor secret t run w = (Inl e, w)"
  "\<exists>e. restate_verification H i actor secret t status reason target w = (Inl e, w)"
proof -
  show "\<exists>e. verify H S i actor secret t decision note given_evidence w = (Inl e, w)"
    unfolding verify_def by (intro keep_fails andthen_isolated)
  show "\<exists>e. reconcile_verification H i actor secret t run w = (Inl e, w)"
    unfolding reconcile_verification_def
    by (intro keep_fails) (auto split: prod.splits intro!: keep_fails andthen_isolated)
  show "\<exists>e. restate_verification H i actor secret t status reason target w = (Inl e, w)"
    unfolding restate_verification_def
    by (intro keep_fails) (auto split: prod.splits intro!: andthen_isolated)
qed

lemma closed_states:
  "snd (verify H S i actor secret t decision note given_evidence w) = w"
  "snd (reconcile_verification H i actor secret t run w) = w"
  "snd (restate_verification H i actor secret t status reason target w) = w"
  by (metis closed_operations(1) snd_conv, metis closed_operations(2) snd_conv, metis closed_operations(3) snd_conv)

text \<open>
  Property C11: the operations that decide on submitted work are closed. Whatever the state, the
  arguments and the outcome of every check, \<^verbatim>\<open>verify\<close>, \<^verbatim>\<open>reconcile_verification\<close>,
  \<^verbatim>\<open>restate_verification\<close> and forced lease recovery raise an exception and leave the workspace
  unchanged, because they demand an isolated actor and no capability status reports one.
\<close>

theorem release_operations_closed:
  "(\<exists>e. verify H S i actor secret t decision note given_evidence w = (Inl e, w))
   \<and> (\<exists>e. reconcile_verification H i actor secret t run w = (Inl e, w))
   \<and> (\<exists>e. restate_verification H i actor secret t status reason target w = (Inl e, w))
   \<and> (\<exists>e. recover_lease H i actor t reason True secret w = (Inl e, w))"
  by (intro conjI closed_operations recover_forced_closed)

section \<open>The invariant\<close>

text \<open>
  A task record: its id is its file name, an active task has a lease of its owner and at least one
  attempt, and every other task has no lease. No verdict is among the states.
\<close>

definition active_state :: "string \<Rightarrow> bool" where
  "active_state s \<longleftrightarrow> s = ''claimed'' \<or> s = ''running''"

definition open_state :: "string \<Rightarrow> bool" where
  "open_state s \<longleftrightarrow> s \<in> set [''pending'', ''claimed'', ''running'', ''blocked'', ''submitted'']"

definition lease_inv :: "string \<Rightarrow> dict \<Rightarrow> bool" where
  "lease_inv s r \<longleftrightarrow>
     (if active_state s then \<exists>l. dget r ''lease'' = JObj l \<and> map_of l ''holder'' = Some (dget r ''owner'')
      else dget r ''lease'' = JNull)"

definition attempt_inv :: "string \<Rightarrow> int \<Rightarrow> bool" where
  "attempt_inv s n \<longleftrightarrow> 0 \<le> n \<and> (active_state s \<or> s = ''submitted'' \<longrightarrow> 1 \<le> n)"

definition task_inv :: "string \<Rightarrow> dict \<Rightarrow> bool" where
  "task_inv t r \<longleftrightarrow> TASK_ID_RE t \<and> dget r ''id'' = JStr t \<and> is_str (dget r ''owner'')
     \<and> (\<exists>s n. dget r ''state'' = JStr s \<and> dget r ''attempt'' = JInt n
          \<and> open_state s \<and> attempt_inv s n \<and> lease_inv s r)"

lemma state_classes [simp]:
  "active_state ''claimed''" "active_state ''running''" "\<not> active_state ''pending''"
  "\<not> active_state ''blocked''" "\<not> active_state ''submitted''"
  "open_state ''pending''" "open_state ''claimed''" "open_state ''running''" "open_state ''blocked''"
  "open_state ''submitted''"
  by (simp_all add: active_state_def open_state_def)

lemma task_invI:
  assumes "TASK_ID_RE t" "dget r ''id'' = JStr t" "is_str (dget r ''owner'')" "dget r ''state'' = JStr s"
    and "dget r ''attempt'' = JInt n" "open_state s" "attempt_inv s n" "lease_inv s r"
  shows "task_inv t r"
  using assms by (simp add: task_inv_def)

lemma task_invE:
  assumes "task_inv t r"
  obtains s n where "TASK_ID_RE t" "dget r ''id'' = JStr t" "is_str (dget r ''owner'')" "dget r ''state'' = JStr s"
    "dget r ''attempt'' = JInt n" "open_state s" "attempt_inv s n" "lease_inv s r"
  using assms by (auto simp: task_inv_def)

definition event_inv :: "dict \<Rightarrow> bool" where
  "event_inv e \<longleftrightarrow> is_dict (dget e ''payload'')
     \<and> (dget e ''task_id'' = JNull \<or> (\<exists>t. TASK_ID_RE t \<and> dget e ''task_id'' = JStr t))"

definition projected_file :: "dict list \<Rightarrow> string \<Rightarrow> jfile" where
  "projected_file evs t = (case latest_snapshot t evs of None \<Rightarrow> Absent | Some r \<Rightarrow> Content (JObj r))"

definition ws_inv :: "('r) host_scheme \<Rightarrow> workspace \<Rightarrow> bool" where
  "ws_inv H w \<longleftrightarrow> (\<exists>key. signing_key w = Some key \<and> appended H key (events w))
     \<and> (\<forall>t. file_of (tasks w) t = projected_file (events w) t)
     \<and> (\<forall>t r. latest_snapshot t (events w) = Some r \<longrightarrow> task_inv t r)
     \<and> (\<forall>e\<in>set (events w). event_inv e) \<and> distinct (map fst (tasks w))"

lemma ws_inv_fields [simp]:
  "ws_inv H (w\<lparr>caps := c\<rparr>) = ws_inv H w" "ws_inv H (w\<lparr>agents := a\<rparr>) = ws_inv H w"
  "ws_inv H (w\<lparr>config := d\<rparr>) = ws_inv H w"
  by (simp_all add: ws_inv_def)

lemma latest_snapshot_snoc:
  "latest_snapshot t (es @ [e]) = (case snapshot_of t e of Some s \<Rightarrow> Some s | None \<Rightarrow> latest_snapshot t es)"
  by (induction es) (auto split: option.splits)

lemma ledger_append_fields:
  assumes "ledger_append H k evs now actor action tid payload = Inr e"
  shows "dget e ''task_id'' = tid" "dget_or e ''payload'' v = JObj payload" "dget e ''action'' = JStr action"
    "dget e ''actor'' = JStr actor"
  using assms by (auto simp: ledger_append_eq_Inr Let_def)

lemma snapshot_of_appended:
  assumes "ledger_append H k evs now actor action tid payload = Inr e"
  shows "snapshot_of t e = (if tid = JStr t then as_dict (dget payload ''task'') else None)"
  by (simp add: snapshot_of_def ledger_append_fields [OF assms])

lemma inv_append_event:
  assumes "ws_inv H w" "ledger_append H (signing_key w) (events w) now actor action tid payload = Inr e"
    and "tid = JNull \<or> (\<exists>t. TASK_ID_RE t \<and> tid = JStr t)"
  shows "(\<exists>key. signing_key w = Some key \<and> appended H key (events w @ [e])) \<and> (\<forall>e'\<in>set (events w @ [e]). event_inv e')"
  using assms by (auto simp: ws_inv_def event_inv_def ledger_append_fields [OF assms(2)] intro: appended.append)

lemma inv_agent_event:
  assumes "ws_inv H w"
  shows "ws_inv H (snd (append_event H w now actor action JNull payload))"
  unfolding append_event_def
proof (rule keep_state)
  fix e assume e: "ledger_append H (signing_key w) (events w) now actor action JNull payload = Inr e"
  have "latest_snapshot t (events w @ [e]) = latest_snapshot t (events w)" for t
    by (simp add: latest_snapshot_snoc snapshot_of_appended [OF e])
  then show "ws_inv H (snd (Inr e, w\<lparr>events := events w @ [e]\<rparr>))"
    using assms inv_append_event [OF assms e] by (simp add: ws_inv_def projected_file_def)
qed (rule assms)

lemma inv_commit_task:
  assumes "ws_inv H w" "task_inv t task" "dget payload ''task'' = JObj task"
  shows "ws_inv H (snd (commit_task H w now actor action t payload task))"
proof (cases "ledger_append H (signing_key w) (events w) now actor action (JStr t) payload")
  case (Inr e)
  have t: "TASK_ID_RE t" using assms(2) by (simp add: task_inv_def)
  have "latest_snapshot t' (events w @ [e]) = (if t' = t then Some task else latest_snapshot t' (events w))" for t'
    by (simp add: latest_snapshot_snoc snapshot_of_appended [OF Inr] assms(3))
  then have "ws_inv H (write_task t task (w\<lparr>events := events w @ [e]\<rparr>))"
    using assms(1,2) inv_append_event [OF assms(1) Inr] t
    by (auto simp: ws_inv_def write_task_def projected_file_def distinct_alist_put)
  then show ?thesis by (simp add: commit_task_def append_event_def Inr)
qed (simp add: commit_task_def append_event_def assms(1))

lemma inv_write_agent: "ws_inv H w \<Longrightarrow> ws_inv H (snd (write_agent r w))"
  unfolding write_agent_def by (rule keep_state) auto

lemma inv_commit_agent:
  assumes "ws_inv H w"
  shows "ws_inv H (snd (commit_agent H w now actor action r))"
  unfolding commit_agent_def
proof (rule andthen_state [where P = "ws_inv H"])
  let ?w = "snd (append_event H w now actor action JNull [(''agent'', JObj r)])"
  show w: "ws_inv H ?w" using assms by (rule inv_agent_event)
  show "ws_inv H (snd (andthen (write_agent r ?w) (\<lambda>_ w''. (Inr r, w''))))"
    using inv_write_agent [OF w] by (intro andthen_state [where P = "ws_inv H"]) auto
qed

lemma inv_authorize:
  "ws_inv H w \<Longrightarrow> ws_inv H (snd (authorize_actor_capability H i actor op secret isolated t rn at w))"
  using authorize_state [of H i actor op secret isolated t rn at w] by auto

section \<open>Reading tasks\<close>

lemma get_task_file: "get_task w t = Inr r \<longleftrightarrow> TASK_ID_RE t \<and> file_of (tasks w) t = Content (JObj r)"
  by (auto simp: get_task_def)

lemma inv_file: "ws_inv H w \<Longrightarrow> file_of (tasks w) t = Content (JObj r) \<Longrightarrow> task_inv t r"
  by (auto simp: ws_inv_def projected_file_def split: option.splits)

lemma inv_get_task: "ws_inv H w \<Longrightarrow> get_task w t = Inr r \<Longrightarrow> task_inv t r"
  by (auto simp: get_task_file dest: inv_file)

lemma set_read_records: "set (read_records fs) = {d. \<exists>k. (k, Content (JObj d)) \<in> set fs}"
proof -
  have "set (case read_json f of Inr d \<Rightarrow> [d] | Inl _ \<Rightarrow> []) = {d. f = Content (JObj d)}" for f
    by (auto simp: read_json_def raise_def split: jfile.splits json.splits)
  then show ?thesis by (auto simp: read_records_def json_paths_def)
qed

lemma inv_list_tasks:
  assumes "ws_inv H w" "task \<in> set (list_tasks w)"
  shows "\<exists>t. file_of (tasks w) t = Content (JObj task) \<and> dget task ''id'' = JStr t"
proof -
  obtain t where "(t, Content (JObj task)) \<in> set (tasks w)"
    using assms(2) by (auto simp: list_tasks_def set_read_records)
  then have "file_of (tasks w) t = Content (JObj task)"
    using assms(1) by (simp add: ws_inv_def file_of_def)
  then show ?thesis using inv_file [OF assms(1)] by (auto simp: task_inv_def)
qed

section \<open>Every operation keeps the invariant\<close>

text \<open>The three kinds of change: a transition to an inactive state, a claim, and a longer lease.\<close>

lemma task_inv_release:
  assumes "task_inv t task" "transition now task target ((''lease'', JNull) # upd) = Inr r"
    and "{''id'', ''owner'', ''state'', ''revision'', ''attempt'', ''lease''} \<inter> fst ` set upd = {}"
    and "open_state target" "\<not> active_state target" "target = ''submitted'' \<Longrightarrow> dget task ''lease'' \<noteq> JNull"
  shows "task_inv t r"
  using assms(1)
proof (rule task_invE)
  fix s n assume task: "TASK_ID_RE t" "dget task ''id'' = JStr t" "is_str (dget task ''owner'')"
    "dget task ''attempt'' = JInt n" "attempt_inv s n" "lease_inv s task"
  have keeps: "dget r ''id'' = dget task ''id''" "dget r ''owner'' = dget task ''owner''"
    "dget r ''attempt'' = dget task ''attempt''"
    using assms(3) by (auto intro!: transition_other [OF assms(2)])
  have "dget r ''state'' = JStr target"
    using assms(3) by (intro transition_fields [OF assms(2)]) auto
  moreover have "dget r ''lease'' = JNull"
    using assms(2,3) by (auto simp: transition_eq_Inr dget_dupdate_other)
  moreover have "attempt_inv target n"
    using task(5,6) assms(5,6) by (auto simp: attempt_inv_def lease_inv_def split: if_splits)
  ultimately show ?thesis
    using task keeps assms(4,5) by (intro task_invI [where s = target and n = n]) (simp_all add: lease_inv_def)
qed

lemma task_inv_claimed:
  assumes "task_inv t task" "dget task ''owner'' = JStr actor" "rbind (ditem task ''attempt'') plus_one = Inr a"
    and "new_lease H i actor duration = Inr lease"
    and "transition now task ''claimed'' [(''attempt'', a), (''lease'', JObj lease)] = Inr r"
  shows "task_inv t r"
  using assms(1)
proof (rule task_invE)
  fix s n assume task: "TASK_ID_RE t" "dget task ''id'' = JStr t" "dget task ''attempt'' = JInt n" "attempt_inv s n"
  have "a = JInt (n + 1)"
    using assms(3) task(3) by (auto simp: ditem_def dget_or_def plus_one_def split: option.splits)
  then have r: "dget r ''attempt'' = JInt (n + 1)" "dget r ''lease'' = JObj lease" "dget r ''state'' = JStr ''claimed''"
    using assms(5) by (auto simp: transition_eq_Inr)
  have keeps: "dget r ''id'' = JStr t" "dget r ''owner'' = JStr actor"
    using transition_other [OF assms(5), of "''id''" JNull] transition_other [OF assms(5), of "''owner''" JNull]
      task(2) assms(2) by simp_all
  have "map_of lease ''holder'' = Some (JStr actor)" using assms(4) by (auto simp: new_lease_def)
  then show ?thesis
    using task keeps r by (intro task_invI [where s = "''claimed''" and n = "n + 1"])
      (simp_all add: lease_inv_def attempt_inv_def)
qed

lemma task_inv_running:
  assumes "task_inv t task" "transition now task ''running'' [] = Inr r"
  shows "task_inv t r"
  using assms(1)
proof (rule task_invE)
  fix s n assume task: "TASK_ID_RE t" "dget task ''id'' = JStr t" "is_str (dget task ''owner'')"
    "dget task ''state'' = JStr s" "dget task ''attempt'' = JInt n" "attempt_inv s n" "lease_inv s task"
  have "s = ''claimed''" using transition_legal [OF assms(2)] task(4) by (auto simp: legal_iff)
  moreover have "dget r k = dget task k" if "k \<notin> {''state'', ''revision'', ''updated_at''}" for k
    using transition_other [OF assms(2)] that by simp
  ultimately show ?thesis
    using task transition_fields(1) [OF assms(2)]
    by (intro task_invI [where s = "''running''" and n = n]) (simp_all add: lease_inv_def attempt_inv_def)
qed

lemma task_inv_extended:
  assumes "task_inv t task" "extend_lease H i task = Inr r"
  shows "task_inv t r"
  using assms(1)
proof (rule task_invE)
  fix s n assume task: "TASK_ID_RE t" "dget task ''id'' = JStr t" "is_str (dget task ''owner'')"
    "dget task ''state'' = JStr s" "dget task ''attempt'' = JInt n" "open_state s" "attempt_inv s n" "lease_inv s task"
  obtain l ex where l: "dget task ''lease'' = JObj l"
    and r: "r = dput ''updated_at'' (JStr (clock i 2))
                 (dput ''lease'' (JObj (dput ''expires_at'' (JStr ex) l)) task)"
    using assms(2) by (cases "dget task ''lease''") (auto simp: extend_lease_def dget_or_def)
  have "lease_inv s r" using task(8) l by (auto simp: lease_inv_def r split: if_splits)
  then show ?thesis using task by (intro task_invI [where s = s and n = n]) (simp_all add: r)
qed

lemma new_task_inv:
  assumes "new_task now t title d owner creator pre roots p g k = Inr r"
  shows "task_inv t r"
  using assms
  by (intro task_invI [where s = "''pending''" and n = 0])
    (auto simp: new_task_def Let_def lease_inv_def attempt_inv_def)

text \<open>What a passed lease check establishes.\<close>

definition lease_held :: "('r) host_scheme \<Rightarrow> string \<Rightarrow> dict \<Rightarrow> string \<Rightarrow> string \<Rightarrow> bool" where
  "lease_held H now task actor tok \<longleftrightarrow>
     (\<exists>l. dget task ''lease'' = JObj l \<and> dget l ''holder'' = JStr actor
        \<and> dget l ''token_hash'' = JStr (sha256_hex H tok)) \<and> lease_expired H now task = Inr False"

lemma check_lease_lease:
  "check_lease H now task actor tok = Inr u \<Longrightarrow> \<exists>l. dget task ''lease'' = JObj l \<and> l \<noteq> []"
  by (cases "dget task ''lease''") (simp_all add: check_lease_def jitem_def split: if_splits)

lemma check_lease_held:
  assumes "check_lease H now task actor tok = Inr u"
  shows "lease_held H now task actor tok"
proof -
  obtain l where l: "dget task ''lease'' = JObj l" "l \<noteq> []" using check_lease_lease [OF assms] by auto
  have c: "rbind (rbind (ditem l ''holder'') (\<lambda>h. Inr (h = JStr actor))) (\<lambda>holds.
      rbind (ensure holds LeaseError ''Actor does not hold the lease for this task'') (\<lambda>_.
      rbind (ensure (is_ascii tok) UnicodeEncodeError ''ascii'') (\<lambda>_.
      rbind (ditem l ''token_hash'') (\<lambda>h.
      rbind (case h of JStr s \<Rightarrow> compare_digest s (sha256_hex H tok)
             | _ \<Rightarrow> raise TypeError ''unsupported operand types'') (\<lambda>same.
      rbind (ensure same LeaseError ''Invalid lease token'') (\<lambda>_.
      rbind (lease_expired H now task) (\<lambda>expired.
      ensure (\<not> expired) LeaseError ''Task lease has expired''))))))) = Inr u"
    using assms l by (simp add: check_lease_def jitem_def)
  then obtain h same where h: "map_of l ''holder'' = Some (JStr actor)" "ditem l ''token_hash'' = Inr h"
    "(case h of JStr s \<Rightarrow> compare_digest s (sha256_hex H tok)
             | _ \<Rightarrow> raise TypeError ''unsupported operand types'') = Inr True"
    "lease_expired H now task = Inr False"
    by auto
  moreover have "h = JStr (sha256_hex H tok)" using h(3) by (cases h) auto
  ultimately show ?thesis using l by (auto simp: lease_held_def dget_or_def)
qed

lemma claimable_eq_Inr:
  assumes "claimable w actor explicit cands = Inr (t, current)"
  shows "\<exists>task\<in>set cands. dget task ''owner'' = JStr actor \<and> dget task ''id'' = JStr t
    \<and> get_task w t = Inr current \<and> dget current ''state'' = JStr ''pending''
    \<and> unsatisfied_prerequisites w current = Inr []"
  using assms
proof (induction cands)
  case (Cons task rest)
  have item: "map_of d k = Some v \<Longrightarrow> dget d k = v" for d k v by (simp add: dget_or_def)
  have tid: "task_id_item task = Inr t \<Longrightarrow> dget task ''id'' = JStr t" for t
    by (cases "dget task ''id''") (auto simp: task_id_item_def dget_or_def)
  show ?case
  proof (cases "claimable w actor explicit rest = Inr (t, current)")
    case True
    with Cons.IH show ?thesis by auto
  next
    case False
    with Cons.prems show ?thesis by (auto split: if_splits dest!: item tid)
  qed
qed simp

lemma claim_target:
  assumes "ws_inv H w" "claimable w actor explicit cands = Inr (t, current)"
    and "set cands \<subseteq> {task. task \<in> set (list_tasks w) \<or> (\<exists>t. get_task w t = Inr task)}"
  shows "task_inv t current" "dget current ''owner'' = JStr actor"
proof -
  obtain task where task: "task \<in> set cands" "dget task ''owner'' = JStr actor" "dget task ''id'' = JStr t"
    and cur: "get_task w t = Inr current"
    using claimable_eq_Inr [OF assms(2)] by auto
  have "file_of (tasks w) t = Content (JObj task)"
  proof (cases "task \<in> set (list_tasks w)")
    case True
    then show ?thesis using inv_list_tasks [OF assms(1)] task(3) by fastforce
  next
    case False
    then obtain t' where t': "get_task w t' = Inr task" using assms(3) task(1) by auto
    then have "dget task ''id'' = JStr t'" using inv_get_task [OF assms(1)] by (auto simp: task_inv_def)
    then show ?thesis using t' task(3) by (simp add: get_task_file)
  qed
  then have "current = task" using cur by (simp add: get_task_file)
  then show "task_inv t current" "dget current ''owner'' = JStr actor"
    using inv_get_task [OF assms(1) cur] task(2) by auto
qed

lemma claim_candidates:
  "(if given t then rbind (get_task w (the t)) (\<lambda>t. Inr [t]) else Inr (list_tasks w)) = Inr cands
   \<Longrightarrow> set cands \<subseteq> {task. task \<in> set (list_tasks w) \<or> (\<exists>t. get_task w t = Inr task)}"
  by (auto split: if_splits)

lemma inv_claim_task:
  assumes "ws_inv H w" "task_inv t old" "dget old ''owner'' = JStr actor"
  shows "ws_inv H (snd (claim_task H i actor duration t old w))"
  unfolding claim_task_def
proof (intro keep_state [where P = "ws_inv H"] assms(1))
  fix lease a r
  assume "new_lease H i actor duration = Inr lease" "rbind (ditem old ''attempt'') plus_one = Inr a"
    "transition (clock i 1) old ''claimed'' [(''attempt'', a), (''lease'', JObj lease)] = Inr r"
  then have "task_inv t r" by (intro task_inv_claimed [OF assms(2,3)])
  then have "ws_inv H (snd (commit_task H w (clock i 2) actor ''task.claimed'' t [(''task'', JObj r)] r))"
    by (intro inv_commit_task assms(1)) simp_all
  then show "ws_inv H (snd (andthen (commit_task H w (clock i 2) actor ''task.claimed'' t [(''task'', JObj r)] r)
      (\<lambda>r w. (Inr (r, token16 i 0), w))))"
    by (intro andthen_state [where P = "ws_inv H"]) auto
qed

lemma inv_claim:
  assumes "ws_inv H w"
  shows "ws_inv H (snd (claim H i actor t secs w))"
  unfolding claim_def
proof (intro keep_state_pair [where P = "ws_inv H"] keep_state [where P = "ws_inv H"] assms)
  fix actor' ag duration cands tid current
  assume "(if given t then rbind (get_task w (the t)) (\<lambda>t. Inr [t]) else Inr (list_tasks w)) = Inr cands"
    and c: "claimable w actor' (given t) cands = Inr (tid, current)"
  note claim_target [OF assms c claim_candidates [OF this(1)]]
  then show "ws_inv H (snd (claim_task H i actor' duration tid current w))" by (rule inv_claim_task [OF assms])
qed

lemma inv_start: "ws_inv H w \<Longrightarrow> ws_inv H (snd (start H i actor t tok w))"
  unfolding start_def
  by (intro keep_state [where P = "ws_inv H"]) (auto intro!: inv_commit_task intro: task_inv_running inv_get_task)

lemma inv_heartbeat: "ws_inv H w \<Longrightarrow> ws_inv H (snd (heartbeat H i actor t tok w))"
  unfolding heartbeat_def
  by (intro keep_state [where P = "ws_inv H"]) (auto intro!: inv_commit_task intro: task_inv_extended inv_get_task)

lemma inv_block: "ws_inv H w \<Longrightarrow> ws_inv H (snd (block H i actor t tok reason w))"
  unfolding block_def
  by (intro keep_state [where P = "ws_inv H"])
    (auto intro!: inv_commit_task elim!: task_inv_release [rotated] intro: inv_get_task)

lemma inv_submit: "ws_inv H w \<Longrightarrow> ws_inv H (snd (submit H S i actor t tok w))"
  unfolding submit_def
  by (intro keep_state [where P = "ws_inv H"])
    (auto intro!: inv_commit_task elim!: task_inv_release [rotated] intro: inv_get_task dest: check_lease_lease)

lemma inv_add_agent:
  assumes "ws_inv H w"
  shows "ws_inv H (snd (add_agent H i actor secret a role mode cmd roots cp mf alias w))"
  unfolding add_agent_def
  by (intro state_rules [where P = "ws_inv H"] assms inv_authorize inv_commit_agent)

lemma inv_add_task:
  assumes "ws_inv H w"
  shows "ws_inv H (snd (add_task H i actor secret t title d owner pre roots perms gates key w))"
  unfolding add_task_def
  by (intro state_rules [where P = "ws_inv H"] assms inv_authorize inv_commit_task)
    (auto intro: new_task_inv)

lemma recovery_checks_eq_Inr:
  assumes "recovery_checks H i w t force = Inr (task, lease, source, expired)"
  shows "get_task w t = Inr task" "signed_event t (events w) = Inr (Some source)"
    "dget task ''lease'' = JObj lease" "force \<or> expired"
    "lease_expired H (clock i 0) task = Inr expired"
proof -
  have lease: "recoverable_lease task force = Inr l \<Longrightarrow> dget task ''lease'' = JObj l" for l
    by (cases "dget task ''lease''") (auto simp: recoverable_lease_def)
  have found: "(case f of None \<Rightarrow> raise c m | Some s \<Rightarrow> Inr s) = Inr v \<longleftrightarrow> f = Some v"
    for c m f and v :: dict by (cases f) auto
  have catch: "catch_any cs r (raise c m) = Inr v \<longleftrightarrow> r = Inr v" for cs c m v and r :: "bool res"
    by (cases r) (auto simp: catch_any_def)
  show "get_task w t = Inr task" "signed_event t (events w) = Inr (Some source)"
    "dget task ''lease'' = JObj lease" "force \<or> expired" "lease_expired H (clock i 0) task = Inr expired"
    using assms unfolding recovery_checks_def by (auto simp: found catch read_verified_def dest: lease)
qed

lemma requeued_inv:
  assumes "task_inv t task" "transition now task ''blocked'' [(''lease'', JNull), (''blocked_reason'', b)] = Inr r1"
    and "transition now' r1 ''pending'' [(''lease'', JNull), (''blocked_reason'', JNull)] = Inr r2"
  shows "task_inv t r2"
proof -
  have "task_inv t r1" using assms(2) by (rule task_inv_release [OF assms(1)]) auto
  then show ?thesis using assms(3) by (rule task_inv_release) auto
qed

lemma inv_recover_lease:
  assumes "ws_inv H w"
  shows "ws_inv H (snd (recover_lease H i actor t reason force secret w))"
proof (cases force)
  case True
  then obtain e where "recover_lease H i actor t reason force secret w = (Inl e, w)"
    using recover_forced_closed [of H i actor t reason secret w] by auto
  then show ?thesis using assms by simp
next
  case False
  then show ?thesis
    unfolding recover_lease_def forced_receipt_def
    by (intro keep_state [where P = "ws_inv H"] assms)
      (auto split: prod.splits intro!: keep_state [where P = "ws_inv H"] assms inv_commit_task
        simp: recovery_payload_def intro: requeued_inv inv_get_task [OF assms] dest: recovery_checks_eq_Inr(1))
qed

lemma inv_empty: "events w = [] \<Longrightarrow> tasks w = [] \<Longrightarrow> ws_inv H (w\<lparr>signing_key := Some k\<rparr>)"
  by (simp add: ws_inv_def appended.empty file_of_def projected_file_def)

lemma open_workspace_state: "\<exists>c. snd (open_workspace H f w) = w\<lparr>config := c\<rparr>"
proof -
  have same: "\<exists>c. w = w\<lparr>config := c\<rparr>" by (rule exI [of _ "config w"]) simp
  show ?thesis unfolding open_workspace_def
    by (intro keep_state [where P = "\<lambda>s. \<exists>c. s = w\<lparr>config := c\<rparr>"] same) auto
qed

lemma inv_preset_agents: "ws_inv H w \<Longrightarrow> ws_inv H (snd (preset_agents H i orc w))"
  unfolding preset_agents_def
  by (intro state_rules [where P = "ws_inv H"] inv_commit_agent) (auto intro: inv_commit_agent)

lemma inv_initial_agents: "ws_inv H w \<Longrightarrow> ws_inv H (snd (initial_agents H i orc cp mf preset w))"
  unfolding initial_agents_def
  by (intro state_rules [where P = "ws_inv H"] inv_commit_agent) (auto intro!: inv_preset_agents inv_commit_agent)

lemma inv_initialize:
  assumes "signing_key w = None" "events w = []" "tasks w = []"
    and "signing_key (snd (initialize H i present root rnd name orc cp mf preset w)) \<noteq> None"
  shows "ws_inv H (snd (initialize H i present root rnd name orc cp mf preset w))"
proof -
  let ?P = "\<lambda>s. signing_key s \<noteq> None \<longrightarrow> ws_inv H s"
  have w: "?P w" using assms(1) by simp
  have "?P (snd (initialize H i present root rnd name orc cp mf preset w))"
    unfolding initialize_def Let_def
  proof (intro keep_state [where P = ?P] w, rule andthen_state [where P = ?P])
    fix orc'
    let ?c = "initial_config (token16 i 0) (if strip name = [] then root else strip name) orc' (clock i 0)"
    let ?w = "snd (open_workspace H (Content (JObj ?c)) w)"
    obtain d where d: "?w = w\<lparr>config := d\<rparr>" using open_workspace_state by blast
    show "?P ?w" using assms(1) by (simp add: d)
    let ?v = "?w\<lparr>signing_key := Some (case signing_key ?w of None \<Rightarrow> rnd | Some k \<Rightarrow> k)\<rparr>"
    let ?a = "append_event H ?v (clock i 1) orc' ''workspace.initialized'' JNull [(''config'', JObj ?c)]"
    have "ws_inv H ?v" using assms by (intro inv_empty) (simp_all add: d)
    then have "ws_inv H (snd (andthen ?a (\<lambda>_ w. initial_agents H i orc' cp mf preset w)))"
      by (intro andthen_state [where P = "ws_inv H"] inv_agent_event inv_initial_agents)
    then show "?P (snd (andthen ?a (\<lambda>_ w. initial_agents H i orc' cp mf preset w)))" by simp
  qed
  with assms(4) show ?thesis by simp
qed

section \<open>Reachable workspaces\<close>

text \<open>
  A workspace is reached from an empty directory by \<^verbatim>\<open>initialize\<close> and then by any sequence of
  operations, with any arguments, clock readings, random values and outcomes of the services,
  whether they succeed or raise. The capability store is outside the workspace and may change in
  any way between operations.
\<close>

inductive ws_step :: "('r) host_scheme \<Rightarrow> services \<Rightarrow> workspace \<Rightarrow> workspace \<Rightarrow> bool" for H S where
  store: "ws_step H S w (w\<lparr>caps := c\<rparr>)"
| add_agent: "ws_step H S w (snd (add_agent H i actor secret a role mode cmd roots cp mf alias w))"
| add_task: "ws_step H S w (snd (add_task H i actor secret t title d owner pre roots perms gates key w))"
| claim: "ws_step H S w (snd (claim H i actor ot secs w))"
| start: "ws_step H S w (snd (start H i actor t tok w))"
| heartbeat: "ws_step H S w (snd (heartbeat H i actor t tok w))"
| block: "ws_step H S w (snd (block H i actor t tok reason w))"
| submit: "ws_step H S w (snd (submit H S i actor t tok w))"
| recover: "ws_step H S w (snd (recover_lease H i actor t reason force secret w))"
| verify: "ws_step H S w (snd (verify H S i actor secret t decision note given_evidence w))"
| reconcile: "ws_step H S w (snd (reconcile_verification H i actor secret t run w))"
| restate: "ws_step H S w (snd (restate_verification H i actor secret t status reason target w))"

inductive reachable :: "('r) host_scheme \<Rightarrow> services \<Rightarrow> workspace \<Rightarrow> bool" for H S where
  init: "signing_key w = None \<Longrightarrow> events w = [] \<Longrightarrow> tasks w = []
    \<Longrightarrow> signing_key (snd (initialize H i present root rnd name orc cp mf preset w)) \<noteq> None
    \<Longrightarrow> reachable H S (snd (initialize H i present root rnd name orc cp mf preset w))"
| step: "reachable H S w \<Longrightarrow> ws_step H S w w' \<Longrightarrow> reachable H S w'"

lemmas inv_rules =
  inv_add_agent inv_add_task inv_claim inv_start inv_heartbeat inv_block inv_submit inv_recover_lease

lemma ws_step_inv: "ws_step H S w w' \<Longrightarrow> ws_inv H w \<Longrightarrow> ws_inv H w'"
  by (induction rule: ws_step.induct) (simp_all add: inv_rules closed_states)

lemma reachable_inv: "reachable H S w \<Longrightarrow> ws_inv H w"
  by (induction rule: reachable.induct) (auto intro: inv_initialize ws_step_inv)

section \<open>Projections\<close>

lemma event_payload: "event_inv e \<Longrightarrow> \<exists>p. dget_or e ''payload'' (JObj []) = JObj p"
  by (auto simp: event_inv_def dget_or_def is_dict_iff split: option.splits)

definition task_keys :: "(json \<times> dict) list \<Rightarrow> bool" where
  "task_keys acc \<longleftrightarrow> distinct (map fst acc) \<and> fst ` set acc \<subseteq> JStr ` {t. TASK_ID_RE t}"

lemma task_keys_put: "task_keys acc \<Longrightarrow> TASK_ID_RE t \<Longrightarrow> task_keys (alist_put (JStr t) d acc)"
  by (simp add: task_keys_def)

lemma project_event_defined:
  assumes "event_inv e" "task_keys acc"
  shows "\<exists>acc'. project_event e acc = Inr acc' \<and> task_keys acc'"
proof -
  obtain p where p: "dget_or e ''payload'' (JObj []) = JObj p" using event_payload [OF assms(1)] by auto
  consider "dget e ''task_id'' = JNull" | t where "TASK_ID_RE t" "dget e ''task_id'' = JStr t" "t \<noteq> []"
    using assms(1) TASK_ID_RE_nonempty by (fastforce simp: event_inv_def)
  then show ?thesis
  proof cases
    case 1
    then show ?thesis using assms(2) by (cases "dget p ''task''") (simp_all add: project_event_def p jget_or_def)
  next
    case 2
    then show ?thesis using assms(2) task_keys_put
      by (cases "dget p ''task''") (simp_all add: project_event_def p jget_or_def hashable_def)
  qed
qed

lemma projected_tasks_defined:
  assumes "\<forall>e\<in>set es. event_inv e"
  shows "\<exists>p. projected_tasks es = Inr p \<and> task_keys p"
proof -
  have "task_keys acc \<Longrightarrow> \<exists>p. rfold project_event es acc = Inr p \<and> task_keys p" for acc
    using assms
  proof (induction es arbitrary: acc)
    case (Cons e es)
    then obtain acc' where "project_event e acc = Inr acc'" "task_keys acc'"
      using project_event_defined [of e acc] by auto
    then show ?case using Cons.IH [of acc'] Cons.prems(2) by simp
  qed simp
  from this [of "[]"] show ?thesis by (simp add: projected_tasks_def task_keys_def)
qed

text \<open>The dictionary of the task files by their ids.\<close>

definition index_task :: "dict \<Rightarrow> (json \<times> dict) list \<Rightarrow> (json \<times> dict) list res" where
  "index_task t acc = rbind (ditem t ''id'') (\<lambda>v.
     if hashable v then Inr (alist_put (py_norm v) t acc) else raise TypeError ''unhashable type'')"

lemma actual_tasks_fold: "actual_tasks w = rfold index_task (list_tasks w) []"
  unfolding actual_tasks_def index_task_def by simp

lemma index_task_id: "dget x ''id'' = JStr s \<Longrightarrow> index_task x acc = Inr (alist_put (JStr s) x acc)"
proof -
  assume "dget x ''id'' = JStr s"
  then have "ditem x ''id'' = Inr (JStr s)" by (auto simp: ditem_def dget_or_def split: option.splits)
  then show ?thesis by (simp add: index_task_def hashable_def)
qed

lemma actual_fold:
  assumes "\<forall>x\<in>set ts. \<exists>s. dget x ''id'' = JStr s" "\<forall>x\<in>set ts. dget x ''id'' = JStr t \<longrightarrow> x = r"
  shows "\<exists>a. rfold index_task ts acc = Inr a
     \<and> map_of a (JStr t) = (if r \<in> set ts \<and> dget r ''id'' = JStr t then Some r else map_of acc (JStr t))"
  using assms
proof (induction ts arbitrary: acc)
  case (Cons x ts)
  then obtain s where s: "dget x ''id'' = JStr s" by auto
  obtain a where "rfold index_task ts (alist_put (JStr s) x acc) = Inr a"
    "map_of a (JStr t) = (if r \<in> set ts \<and> dget r ''id'' = JStr t then Some r
       else map_of (alist_put (JStr s) x acc) (JStr t))"
    using Cons.IH [of "alist_put (JStr s) x acc"] Cons.prems by auto
  moreover have "x = r \<and> s = t \<or> s \<noteq> t" using Cons.prems(2) s by auto
  moreover have "r = x \<longrightarrow> dget r ''id'' = JStr s" using s by simp
  ultimately show ?case by (auto simp: index_task_id [OF s])
qed simp

lemma inv_actual_task:
  assumes "ws_inv H w" "file_of (tasks w) t = Content (JObj r)" "actual_tasks w = Inr actual"
  shows "map_of actual (JStr t) = Some r"
proof -
  have ids: "\<forall>x\<in>set (list_tasks w). \<exists>s. dget x ''id'' = JStr s"
    and same: "\<forall>x\<in>set (list_tasks w). dget x ''id'' = JStr t \<longrightarrow> x = r"
    using inv_list_tasks [OF assms(1)] assms(2) by fastforce+
  have "(t, Content (JObj r)) \<in> set (tasks w)"
    using assms(2) by (auto simp: file_of_def dest: map_of_SomeD split: option.splits)
  then have "r \<in> set (list_tasks w)" by (auto simp: list_tasks_def set_read_records)
  moreover have "dget r ''id'' = JStr t" using inv_file [OF assms(1,2)] by (simp add: task_inv_def)
  ultimately show ?thesis
    using actual_fold [OF ids same, of "[]"] assms(3) by (simp add: actual_tasks_fold)
qed

lemma inv_actual_tasks:
  assumes "ws_inv H w"
  shows "\<exists>a. actual_tasks w = Inr a"
proof -
  have "\<forall>x\<in>set (list_tasks w). \<exists>s. dget x ''id'' = JStr s \<and> s \<noteq> []"
    using inv_list_tasks [OF assms] inv_file [OF assms] by (fastforce simp: task_inv_def)
  then have "\<forall>x\<in>set (list_tasks w). \<exists>s. dget x ''id'' = JStr s"
    "\<forall>x\<in>set (list_tasks w). dget x ''id'' = JStr [] \<longrightarrow> x = []" by fastforce+
  from actual_fold [OF this] show ?thesis by (auto simp: actual_tasks_fold)
qed


section \<open>Leases\<close>

lemma append_event_eq_Inr:
  "append_event H w now actor action tid payload = (Inr e, w') \<longleftrightarrow>
     ledger_append H (signing_key w) (events w) now actor action tid payload = Inr e
     \<and> w' = w\<lparr>events := events w @ [e]\<rparr>"
  by (auto simp: append_event_def keep_eq_pair)

lemma commit_task_eq_Inr:
  "commit_task H w now actor action t payload task = (Inr r, w') \<longleftrightarrow>
     r = task \<and> (\<exists>e. ledger_append H (signing_key w) (events w) now actor action (JStr t) payload = Inr e
       \<and> w' = write_task t task (w\<lparr>events := events w @ [e]\<rparr>))"
  by (auto simp: commit_task_def andthen_eq_pair append_event_eq_Inr)

lemma get_task_written: "TASK_ID_RE t \<Longrightarrow> get_task (write_task t task w) t = Inr task"
  by (simp add: get_task_file write_task_def)

lemma get_task_other: "t' \<noteq> t \<Longrightarrow> get_task (write_task t task w) t' = get_task w t'"
  by (cases "TASK_ID_RE t'") (simp_all add: get_task_def write_task_def validate_task_id_def)

lemma get_task_events: "get_task (w\<lparr>events := es\<rparr>) t = get_task w t"
  by (cases "TASK_ID_RE t") (simp_all add: get_task_def validate_task_id_def)

text \<open>
  Property C20: in every reachable workspace a task is pending, claimed, running, blocked or
  submitted, never verified, rejected or archived. A claimed or running task has a lease whose
  holder is its owner, and was attempted at least once; every other task has no lease.
\<close>

theorem reachable_task_states:
  assumes "reachable H S w" "get_task w t = Inr r"
  shows "\<exists>s n. dget r ''state'' = JStr s \<and> dget r ''attempt'' = JInt n
    \<and> s \<in> {''pending'', ''claimed'', ''running'', ''blocked'', ''submitted''}
    \<and> (if s \<in> {''claimed'', ''running''}
       then 1 \<le> n \<and> (\<exists>l. dget r ''lease'' = JObj l \<and> dget l ''holder'' = dget r ''owner'')
       else dget r ''lease'' = JNull)"
  using inv_get_task [OF reachable_inv [OF assms(1)] assms(2)]
proof (rule task_invE)
  fix s n assume r: "dget r ''state'' = JStr s" "dget r ''attempt'' = JInt n" "open_state s" "attempt_inv s n" "lease_inv s r"
  have active: "s \<in> {''claimed'', ''running''} \<longleftrightarrow> active_state s" for s by (simp add: active_state_def)
  have s: "s \<in> {''pending'', ''claimed'', ''running'', ''blocked'', ''submitted''}" using r(3) by (simp add: open_state_def)
  have "if active_state s
       then 1 \<le> n \<and> (\<exists>l. dget r ''lease'' = JObj l \<and> dget l ''holder'' = dget r ''owner'')
       else dget r ''lease'' = JNull"
    using r(4,5) by (cases "active_state s") (auto simp: lease_inv_def attempt_inv_def intro: dget_or_Some)
  then show ?thesis unfolding active by (intro exI [of _ s] exI [of _ n] conjI r(1,2) s)
qed

lemma unsatisfied_open:
  assumes "ws_inv H w" "unsatisfied w p = Inr xs"
  shows "xs \<noteq> []"
proof (cases "get_task w (py_str p)")
  case (Inl e)
  then show ?thesis using assms(2) by (auto simp: unsatisfied_def split: if_splits)
next
  case (Inr task)
  then obtain s where "dget task ''state'' = JStr s" "open_state s"
    using inv_get_task [OF assms(1) Inr] by (auto simp: task_inv_def)
  then have "in_strs (dget task ''state'') [''verified'', ''archived''] = Inr False"
    by (auto simp: in_strs_def hashable_def open_state_def)
  then show ?thesis using assms(2) Inr by (auto simp: unsatisfied_def)
qed

lemma prerequisites_open:
  assumes "ws_inv H w" "unsatisfied_prerequisites w task = Inr []"
  shows "py_list (dget_or task ''prerequisites'' (JArr [])) = Inr []"
proof -
  obtain ps xs where ps: "py_list (dget_or task ''prerequisites'' (JArr [])) = Inr ps"
    "rmap (unsatisfied w) ps = Inr xs" "concat xs = []"
    using assms(2) by (auto simp: unsatisfied_prerequisites_def)
  moreover have "xs = []"
    using ps(2,3) unsatisfied_open [OF assms(1)] by (cases xs; cases ps) auto
  ultimately show ?thesis by (simp add: rmap_eq_Inr)
qed

lemma claim_eq_Inr:
  assumes "claim H i actor ot secs w = (Inr x, w')"
  shows "\<exists>cands t old duration.
    (if given ot then rbind (get_task w (the ot)) (\<lambda>t. Inr [t]) else Inr (list_tasks w)) = Inr cands
    \<and> claimable w actor (given ot) cands = Inr (t, old) \<and> claim_task H i actor duration t old w = (Inr x, w')"
proof -
  obtain duration cands p where
    "(if given ot then rbind (get_task w (the ot)) (\<lambda>t. Inr [t]) else Inr (list_tasks w)) = Inr cands"
    "claimable w actor (given ot) cands = Inr p" "claim_task H i actor duration (fst p) (snd p) w = (Inr x, w')"
    using assms unfolding claim_def by (auto simp only: keep_eq_pair case_prod_beta validate_agent_id_eq_Inr)
  then show ?thesis by (cases p) auto
qed

lemma claim_task_eq_Inr:
  assumes "claim_task H i actor duration t old w = (Inr (r, tok), w')"
  obtains a lease e where "new_lease H i actor duration = Inr lease" "rbind (ditem old ''attempt'') plus_one = Inr a"
    "transition (clock i 1) old ''claimed'' [(''attempt'', a), (''lease'', JObj lease)] = Inr r"
    "tok = token16 i 0" "w' = write_task t r (w\<lparr>events := events w @ [e]\<rparr>)"
  using assms unfolding claim_task_def
  by (auto simp: keep_eq_pair andthen_eq_pair commit_task_eq_Inr)


text \<open>
  Property C12: since no task is ever verified, a task with prerequisites can never be claimed: in
  every reachable workspace a claim only succeeds on a task whose list of prerequisites is empty.
\<close>

theorem prerequisites_never_claimable:
  assumes "reachable H S w" "claim H i actor ot secs w = (Inr (r, tok), w')"
  shows "dget r ''prerequisites'' = JArr []"
proof -
  have inv: "ws_inv H w" using assms(1) by (rule reachable_inv)
  obtain cands t old duration where c1: "claimable w actor (given ot) cands = Inr (t, old)"
    "claim_task H i actor duration t old w = (Inr (r, tok), w')"
    using claim_eq_Inr [OF assms(2)] by blast
  obtain a lease where "transition (clock i 1) old ''claimed'' [(''attempt'', a), (''lease'', JObj lease)] = Inr r"
    using c1(2) by (rule claim_task_eq_Inr)
  note c = c1(1) this
  have "unsatisfied_prerequisites w old = Inr []" using claimable_eq_Inr [OF c(1)] by auto
  then have "py_list (dget_or old ''prerequisites'' (JArr [])) = Inr []" by (rule prerequisites_open [OF inv])
  moreover have "dget_or r ''prerequisites'' v = dget_or old ''prerequisites'' v" for v
    using transition_other [OF c(2)] by simp
  ultimately have p: "py_list (dget_or r ''prerequisites'' (JArr [])) = Inr []" by simp
  have "is_list (dget r ''prerequisites'')" using transition_valid [OF c(2)] by (simp add: validate_task_eq_Inr)
  then show ?thesis using p by (auto simp: is_list_iff dget_or_def split: option.splits)
qed

text \<open>
  Property C21: only the holder of an unexpired lease moves a task. If \<^verbatim>\<open>start\<close>, \<^verbatim>\<open>heartbeat\<close>,
  \<^verbatim>\<open>block\<close> or \<^verbatim>\<open>submit\<close> succeeds, the stored record has a lease of the acting agent, the SHA-256 of
  the presented token is the one in the lease, and the lease has not expired.
\<close>

theorem lease_respected:
  assumes "fst (start H i actor t tok w) = Inr r \<or> fst (heartbeat H i actor t tok w) = Inr r
    \<or> fst (block H i actor t tok reason w) = Inr r \<or> fst (submit H S i actor t tok w) = Inr r"
  shows "\<exists>task l. get_task w t = Inr task \<and> dget task ''lease'' = JObj l \<and> dget l ''holder'' = JStr actor
    \<and> dget l ''token_hash'' = JStr (sha256_hex H tok) \<and> lease_expired H (clock i 0) task = Inr False"
proof -
  have "\<exists>task. get_task w t = Inr task \<and> check_lease H (clock i 0) task actor tok = Inr ()"
    using assms by (auto simp: start_def heartbeat_def block_def submit_def)
  then show ?thesis by (auto dest!: check_lease_held simp: lease_held_def)
qed

text \<open>
  Lease recovery. A recovery without force succeeds only for the orchestrator and
  only when the lease has expired; it returns the task to pending without a lease, keeps the
  attempt number and consumes no capability.
\<close>

theorem recovery_requires_expiry:
  assumes "recover_lease H i actor t reason False secret w = (Inr r, w')"
  shows "orchestrator w = Inr actor \<and> caps w' = caps w \<and> get_task w' t = Inr r
    \<and> dget r ''state'' = JStr ''pending'' \<and> dget r ''lease'' = JNull
    \<and> (\<exists>task. get_task w t = Inr task \<and> lease_expired H (clock i 0) task = Inr True
         \<and> dget r ''attempt'' = dget task ''attempt'')"
proof -
  obtain task lease source expired r1 e where c: "orchestrator w = Inr actor"
    "recovery_checks H i w t False = Inr (task, lease, source, expired)"
    "transition (clock i 1) task ''blocked'' [(''lease'', JNull), (''blocked_reason'', JStr (strip reason))] = Inr r1"
    "transition (clock i 2) r1 ''pending'' [(''lease'', JNull), (''blocked_reason'', JNull)] = Inr r"
    "w' = write_task t r (w\<lparr>events := events w @ [e]\<rparr>)"
    using assms unfolding recover_lease_def forced_receipt_def
    by (auto simp: keep_eq_pair commit_task_eq_Inr split: prod.splits)
  note rc = recovery_checks_eq_Inr [OF c(2)]
  have "TASK_ID_RE t" using rc(1) by (simp add: get_task_file)
  moreover have "dget r ''attempt'' = dget task ''attempt''"
    using transition_other [OF c(3), of "''attempt''" JNull] transition_other [OF c(4), of "''attempt''" JNull] by simp
  moreover have "dget r ''state'' = JStr ''pending''" "dget r ''lease'' = JNull"
    using c(4) by (auto simp: transition_eq_Inr)
  ultimately show ?thesis using c(1,5) rc by (auto simp: get_task_written write_task_def get_task_file)
qed

text \<open>
  Creating a task or registering an agent takes the orchestrator and a consumed
  capability. If \<^verbatim>\<open>add_task\<close> or \<^verbatim>\<open>add_agent\<close> succeeds, the actor is the orchestrator of the
  configuration and a proof for exactly this operation was minted with the credential and
  consumed in the capability store.
\<close>

theorem privileged_operations_authorized:
  assumes "add_task H i actor secret t title d owner pre roots perms gates key w = (Inr r, w') \<and> op = ''task.add''
    \<or> add_agent H i actor secret a role mode cmd roots' cp mf alias w = (Inr r, w') \<and> op = ''agent.add''"
  shows "orchestrator w = Inr actor \<and> (\<exists>s ws token receipt. secret = Some s
    \<and> rbind (ditem (config w) ''workspace_id'') (\<lambda>v. Inr (py_str v)) = Inr ws
    \<and> mint H ws (caps w) (epoch i 0) (token24 i) actor op s DEFAULT_TTL_SECONDS None None JNull = Inr token
    \<and> verify_and_consume H ws (epoch i 1) actor op token None None JNull (caps w) = (Inr receipt, caps w'))"
proof -
  have agent: "caps w'' = caps v" if "commit_agent H v now act action x = (Inr y, w'')" for v now act action x y w''
    using that by (auto simp: commit_agent_def andthen_eq_pair append_event_eq_Inr write_agent_def keep_eq_pair)
  have "orchestrator w = Inr actor \<and> (\<exists>receipt v. caps w' = caps v
      \<and> authorize_actor_capability H i actor op secret False None None JNull w = (Inr receipt, v))"
    using assms unfolding add_task_def add_agent_def
    by (elim disjE conjE) (auto simp: keep_eq_pair andthen_eq_pair commit_task_eq_Inr write_task_def dest!: agent)
  then obtain receipt v where orc: "orchestrator w = Inr actor" and "caps w' = caps v"
    and "authorize_actor_capability H i actor op secret False None None JNull w = (Inr receipt, v)" by auto
  then show ?thesis unfolding authorize_eq_Inr by (elim exE conjE) (simp, blast)
qed

end
