(* ===== verification/Workspace_Example.thy ===== *)
theory Workspace_Example
  imports Workspace_Safety
begin

text \<open>
  A concrete workspace: it is initialized, a task is created, claimed, started and recovered. The
  states are used to show that the hypotheses of the properties of \<open>Workspace_Safety\<close> can hold.
\<close>

section \<open>Appending never fails in a reachable workspace\<close>

lemma inv_append_defined:
  assumes "ws_inv H w" "hex_digests H"
  shows "\<exists>e. ledger_append H (signing_key w) (events w) now actor action tid payload = Inr e"
proof -
  obtain key where key: "signing_key w = Some key" "appended H key (events w)"
    using assms(1) by (auto simp: ws_inv_def)
  then have hashes: "string_hashes (events w)" and v: "\<exists>h. verify_from H key 1 GENESIS_HASH (events w) = Inr h"
    using appended_invariant [OF key(2) assms(2)] by auto
  have "\<exists>ph. (if events w = [] then Inr (JStr GENESIS_HASH) else ditem (last (events w)) ''event_hash'') = Inr ph"
  proof (cases "events w = []")
    case False
    then have "is_str (dget (last (events w)) ''event_hash'')" using hashes by (simp add: string_hashes_def)
    then show ?thesis using False by (auto simp: is_str_iff ditem_def dget_or_def split: option.splits)
  qed simp
  then show ?thesis using key(1) v by (auto simp: ledger_append_eq_Inr Let_def)
qed

lemma inv_commit_defined:
  assumes "ws_inv H w" "hex_digests H"
  shows "\<exists>e. commit_task H w now actor action t payload task
    = (Inr task, write_task t task (w\<lparr>events := events w @ [e]\<rparr>))
    \<and> ledger_append H (signing_key w) (events w) now actor action (JStr t) payload = Inr e"
  using inv_append_defined [OF assms, of now actor action "JStr t" payload] by (auto simp: commit_task_eq_Inr)

lemma test_host_hex: "hex_digests test_host"
proof -
  have "fullmatch_hex 64 (replicate 64 CHR ''b'')" by code_simp
  then show ?thesis using hex_text_hex by (simp add: hex_digests_def test_host_def)
qed

section \<open>Initialization\<close>

definition test_inputs :: inputs where
  "test_inputs = \<lparr>clock = (\<lambda>_. ''0Z''), epoch = (\<lambda>k. 100 + int k),
     token16 = (\<lambda>k. if k = 0 then ''ws'' else replicate 32 CHR ''a''), token24 = test_nonce\<rparr>"

definition no_services :: services where
  "no_services = \<lparr>validate_submission = (\<lambda>_ _ _. raise EvidenceError []), validate_manifest = (\<lambda>_ _ _. raise EvidenceError []),
     run_trusted_validations = (\<lambda>_ _ _ _ _. raise EvidenceError []),
     request_executor_attestation = (\<lambda>_ _. raise EvidenceError []),
     verify_executor_attestation = (\<lambda>_ _ _. raise EvidenceError []),
     archive_evidence_bundle = (\<lambda>_ _ _ _ _ _. raise EvidenceError [])\<rparr>"

definition empty_root :: "cap_store \<Rightarrow> workspace" where
  "empty_root c = \<lparr>config = [], agents = [], tasks = [], events = [], signing_key = None, caps = c\<rparr>"

definition test_config :: dict where
  "test_config = initial_config ''ws'' ''n'' ''codex'' ''0Z''"

lemma inv_commit_agent_defined:
  assumes "ws_inv H w" "hex_digests H" "map_of r ''id'' = Some (JStr a)" "AGENT_ID_RE a"
  shows "\<exists>e. commit_agent H w now actor action r
    = (Inr r, w\<lparr>events := events w @ [e], agents := alist_put a (Content (JObj r)) (agents w)\<rparr>)"
proof -
  obtain e where "ledger_append H (signing_key w) (events w) now actor action JNull [(''agent'', JObj r)] = Inr e"
    using inv_append_defined [OF assms(1,2)] by blast
  then have "append_event H w now actor action JNull [(''agent'', JObj r)] = (Inr e, w\<lparr>events := events w @ [e]\<rparr>)"
    by (simp add: append_event_eq_Inr)
  then show ?thesis
    using assms(3,4) by (auto simp: commit_agent_def write_agent_def ditem_def validate_agent_json_def validate_agent_id_def)
qed

lemma test_initialize:
  "\<exists>w. initialize test_host test_inputs False ''r'' ''k'' ''n'' ''codex'' None None None (empty_root c) = (Inr (), w)
     \<and> signing_key w = Some ''k'' \<and> tasks w = [] \<and> config w = test_config \<and> caps w = c
     \<and> (\<exists>r. get_agent w ''codex'' = Inr r)"
proof -
  define w1 where "w1 = (empty_root c)\<lparr>config := test_config, signing_key := Some ''k''\<rparr>"
  have codex: "AGENT_ID_RE ''codex''" by code_simp
  have "open_workspace test_host (Content (JObj test_config)) (empty_root c)
      = (Inr (), (empty_root c)\<lparr>config := test_config\<rparr>)"
    by (simp add: open_workspace_def read_json_def empty_root_def test_config_def initial_config_def)
  note opened = this
  have inv1: "ws_inv test_host w1"
    using inv_empty [of "(empty_root c)\<lparr>config := test_config\<rparr>" test_host "''k''"] by (simp add: w1_def empty_root_def)
  obtain e where "ledger_append test_host (signing_key w1) (events w1) ''0Z'' ''codex'' ''workspace.initialized'' JNull
      [(''config'', JObj test_config)] = Inr e"
    using inv_append_defined [OF inv1 test_host_hex] by blast
  then have e: "append_event test_host w1 ''0Z'' ''codex'' ''workspace.initialized'' JNull
      [(''config'', JObj test_config)] = (Inr e, w1\<lparr>events := events w1 @ [e]\<rparr>)"
    by (simp add: append_event_eq_Inr)
  define w2 where "w2 = w1\<lparr>events := events w1 @ [e]\<rparr>"
  have inv2: "ws_inv test_host w2"
    using inv_agent_event [OF inv1, of "''0Z''" "''codex''" "''workspace.initialized''" "[(''config'', JObj test_config)]"]
      e by (simp add: w2_def)
  let ?r = "agent_record ''codex'' ''orchestrator'' ''manual'' None ''0Z'' [''tasks'', ''shared'', ''archive''] JNull"
  have id: "map_of ?r ''id'' = Some (JStr ''codex'')" by (simp add: agent_record_def)
  obtain e' where "commit_agent test_host w2 ''0Z'' ''codex'' ''agent.added'' ?r
      = (Inr ?r, w2\<lparr>events := events w2 @ [e'], agents := alist_put ''codex'' (Content (JObj ?r)) (agents w2)\<rparr>)"
    using inv_commit_agent_defined [OF inv2 test_host_hex id codex] by blast
  note agent = this
  have strip: "strip ''n'' = ''n''" by code_simp
  have key: "signing_key (empty_root c) = None" by (simp add: empty_root_def)
  have "initialize test_host test_inputs False ''r'' ''k'' ''n'' ''codex'' None None None (empty_root c) = (Inr (),
      w2\<lparr>events := events w2 @ [e'], agents := alist_put ''codex'' (Content (JObj ?r)) (agents w2)\<rparr>)"
    using e codex
    by (simp add: initialize_def validate_agent_id_def test_inputs_def strip test_config_def [symmetric] opened key
        w1_def [symmetric] w2_def [symmetric] initial_agents_def declared_pair_def given_def agent Let_def)
  then show ?thesis
    using codex by (auto simp: get_agent_def validate_agent_id_def read_json_def file_of_def w2_def w1_def empty_root_def)
qed

section \<open>A task is created\<close>

text \<open>The records of the task, by state, revision, attempt, lease, time of the last change and reason.\<close>

definition task_in :: "string \<Rightarrow> int \<Rightarrow> int \<Rightarrow> json \<Rightarrow> string \<Rightarrow> json \<Rightarrow> dict" where
  "task_in state revision attempt lease now reason =
     [(''schema_version'', JInt 1), (''id'', JStr ''T''), (''title'', JStr ''t''), (''description'', JStr ''d''),
      (''owner'', JStr ''codex''), (''created_by'', JStr ''codex''), (''state'', JStr state), (''revision'', JInt revision),
      (''attempt'', JInt attempt), (''created_at'', JStr ''0Z''), (''updated_at'', JStr now), (''prerequisites'', JArr []),
      (''allowed_write_roots'', JArr []),
      (''permissions'', JObj [(''gpu'', JBool False), (''performance_metrics'', JBool False), (''network'', JBool False)]),
      (''gates'', JObj [(''require_validation'', JBool True), (''allow_skips'', JBool False),
         (''require_known_answer_check'', JBool True), (''require_independent_verification'', JBool True)]),
      (''idempotency_key'', JStr ''T''), (''lease'', lease), (''result'', JNull), (''verification'', JNull),
      (''blocked_reason'', reason)]"

definition test_lease :: dict where
  "test_lease = [(''holder'', JStr ''codex''), (''session_id'', JStr (replicate 32 CHR ''a'')), (''issued_at'', JStr ''0Z''),
     (''token_hash'', JStr (replicate 64 CHR ''a'')), (''expires_at'', JStr ''1800Z''), (''duration_seconds'', JInt 1800)]"

definition test_task :: dict where "test_task = task_in ''pending'' 1 0 JNull ''0Z'' JNull"
definition claimed_task :: dict where "claimed_task = task_in ''claimed'' 2 1 (JObj test_lease) ''0Z'' JNull"
definition started_task :: dict where "started_task = task_in ''running'' 3 1 (JObj test_lease) ''0Z'' JNull"
definition blocked_task :: dict where "blocked_task = task_in ''blocked'' 3 1 JNull ''2000Z'' (JStr ''stale'')"
definition requeued_task :: dict where "requeued_task = task_in ''pending'' 4 1 JNull ''2000Z'' JNull"

lemma test_task_new: "new_task ''0Z'' ''T'' ''t'' ''d'' ''codex'' ''codex'' (Some []) None None None None = Inr test_task"
  by code_simp

lemma test_authorize:
  assumes "config w = test_config" "caps w = provisioned"
  shows "\<exists>receipt c. authorize_actor_capability test_host test_inputs ''codex'' ''task.add'' (Some test_secret) False
      None None JNull w = (Inr receipt, w\<lparr>caps := c\<rparr>)"
proof -
  obtain receipt c where run: "verify_and_consume test_host ''ws'' 101 ''codex'' ''task.add'' test_token None None
      JNull provisioned = (Inr receipt, c)" using test_consume by blast
  obtain r where r: "cap_record ''ws'' provisioned ''codex'' = Inr r" using provisioned_record [of provisioned] by auto
  then obtain posture where posture: "cap_status ''ws'' provisioned ''codex'' = Inr posture"
    using cap_status_defined by blast
  have "dget posture ''state'' = JStr ''provisioned''" using cap_status_state [OF posture] r by blast
  moreover have "AGENT_ID_RE ''codex''" by code_simp
  moreover have "authority_init test_host ''ws'' = Inr ()" by (simp add: authority_init_def test_host_def)
  moreover have "map_of test_config ''workspace_id'' = Some (JStr ''ws'')" by code_simp
  ultimately show ?thesis
    using run posture test_mint
    unfolding authorize_eq_Inr assms
    by (intro exI [of _ receipt] exI [of _ c] exI [of _ test_secret] exI [of _ "''ws''"] exI [of _ posture]
        exI [of _ test_token]) (simp add: test_inputs_def DEFAULT_TTL_SECONDS_def)
qed

lemma test_add_task:
  assumes "ws_inv test_host w" "config w = test_config" "caps w = provisioned" "tasks w = []"
    and "get_agent w ''codex'' = Inr r"
  shows "\<exists>c e. add_task test_host test_inputs ''codex'' (Some test_secret) ''T'' ''t'' ''d'' ''codex'' None None None
      None None w = (Inr test_task, write_task ''T'' test_task (w\<lparr>caps := c, events := events w @ [e]\<rparr>))"
proof -
  obtain receipt c where auth: "authorize_actor_capability test_host test_inputs ''codex'' ''task.add''
      (Some test_secret) False None None JNull w = (Inr receipt, w\<lparr>caps := c\<rparr>)"
    using test_authorize [OF assms(2,3)] by blast
  have inv: "ws_inv test_host (w\<lparr>caps := c\<rparr>)" using assms(1) by simp
  obtain e where e: "commit_task test_host (w\<lparr>caps := c\<rparr>) ''0Z'' ''codex'' ''task.created'' ''T''
      [(''task'', JObj test_task)] test_task
      = (Inr test_task, write_task ''T'' test_task ((w\<lparr>caps := c\<rparr>)\<lparr>events := events (w\<lparr>caps := c\<rparr>) @ [e]\<rparr>))"
    using inv_commit_defined [OF inv test_host_hex] by blast
  have T: "TASK_ID_RE ''T''" by code_simp
  have agent: "get_agent (w\<lparr>caps := c\<rparr>) ''codex'' = Inr r"
    using assms(5) by (auto simp: get_agent_def split: if_splits)
  have clock: "clock test_inputs k = ''0Z''" for k by (simp add: test_inputs_def)
  have "orchestrator w = Inr ''codex''"
    unfolding orchestrator_def assms(2) by code_simp
  then show ?thesis
    using auth e agent T test_task_new assms(4)
    by (intro exI [of _ c] exI [of _ e]) (simp add: add_task_def validate_task_id_def file_of_def clock)
qed

section \<open>The task is claimed, started and recovered\<close>

lemma test_claim_steps:
  "new_lease test_host test_inputs ''codex'' (JInt 1800) = Inr test_lease"
  "rbind (ditem test_task ''attempt'') plus_one = Inr (JInt 1)"
  "transition ''0Z'' test_task ''claimed'' [(''attempt'', JInt 1), (''lease'', JObj test_lease)] = Inr claimed_task"
  "ditem test_task ''owner'' = Inr (JStr ''codex'')" "ditem test_task ''state'' = Inr (JStr ''pending'')"
  "task_id_item test_task = Inr ''T''" "dget_or test_task ''prerequisites'' (JArr []) = JArr []"
  by code_simp+

lemma test_claim:
  assumes "ws_inv test_host w" "config w = test_config" "get_agent w ''codex'' = Inr r" "get_task w ''T'' = Inr test_task"
  shows "\<exists>e. claim test_host test_inputs ''codex'' (Some ''T'') None w
      = (Inr (claimed_task, ''ws''), write_task ''T'' claimed_task (w\<lparr>events := events w @ [e]\<rparr>))
    \<and> ledger_append test_host (signing_key w) (events w) ''0Z'' ''codex'' ''task.claimed'' (JStr ''T'')
        [(''task'', JObj claimed_task)] = Inr e"
proof -
  obtain e where e: "commit_task test_host w ''0Z'' ''codex'' ''task.claimed'' ''T'' [(''task'', JObj claimed_task)]
      claimed_task = (Inr claimed_task, write_task ''T'' claimed_task (w\<lparr>events := events w @ [e]\<rparr>))"
    "ledger_append test_host (signing_key w) (events w) ''0Z'' ''codex'' ''task.claimed'' (JStr ''T'')
        [(''task'', JObj claimed_task)] = Inr e"
    using inv_commit_defined [OF assms(1) test_host_hex] by blast
  have clock: "clock test_inputs k = ''0Z''" "token16 test_inputs 0 = ''ws''" for k by (simp_all add: test_inputs_def)
  have codex: "AGENT_ID_RE ''codex''" by code_simp
  have duration: "rbind (ditem test_config ''defaults'') (\<lambda>d. jitem d ''lease_seconds'') = Inr (JInt 1800)" by code_simp
  have claimable: "claimable w ''codex'' True [test_task] = Inr (''T'', test_task)"
    by (simp add: test_claim_steps assms(4) unsatisfied_prerequisites_def)
  have commit: "claim_task test_host test_inputs ''codex'' (JInt 1800) ''T'' test_task w
      = (Inr (claimed_task, ''ws''), write_task ''T'' claimed_task (w\<lparr>events := events w @ [e]\<rparr>))"
    unfolding claim_task_def by (simp add: test_claim_steps clock e(1))
  have "claim test_host test_inputs ''codex'' (Some ''T'') None w
      = (Inr (claimed_task, ''ws''), write_task ''T'' claimed_task (w\<lparr>events := events w @ [e]\<rparr>))"
    using codex
    by (simp add: claim_def validate_agent_id_def assms(2,3,4) given_def duration claimable commit del: claimable.simps)
  then show ?thesis using e(2) by blast
qed

definition late_inputs :: inputs where
  "late_inputs = test_inputs\<lparr>clock := (\<lambda>_. ''2000Z'')\<rparr>"

lemma test_lease_steps:
  "check_lease test_host ''0Z'' claimed_task ''codex'' ''ws'' = Inr ()"
  "transition ''0Z'' claimed_task ''running'' [] = Inr started_task"
  "recoverable_lease claimed_task False = Inr test_lease"
  "lease_expired test_host ''2000Z'' claimed_task = Inr True"
  by code_simp+

lemma test_requeue_steps:
  "transition ''2000Z'' claimed_task ''blocked'' [(''lease'', JNull), (''blocked_reason'', JStr ''stale'')] = Inr blocked_task"
  "transition ''2000Z'' blocked_task ''pending'' [(''lease'', JNull), (''blocked_reason'', JNull)] = Inr requeued_task"
  by code_simp+

lemma test_task_fields:
  "dget test_lease ''holder'' = JStr ''codex''" "ditem claimed_task ''attempt'' = Inr (JInt 1)"
  "dget claimed_task ''attempt'' = JInt 1" "dget requeued_task ''attempt'' = JInt 1"
  "\<not> has_nan (JObj claimed_task)" "\<not> has_nan (JObj test_task)"
  by code_simp+

lemma reachable_root:
  "\<exists>w r. reachable test_host no_services w \<and> config w = test_config \<and> caps w = provisioned \<and> tasks w = []
     \<and> get_agent w ''codex'' = Inr r"
proof -
  obtain w r where w: "initialize test_host test_inputs False ''r'' ''k'' ''n'' ''codex'' None None None
      (empty_root provisioned) = (Inr (), w)"
    "signing_key w = Some ''k''" "tasks w = []" "config w = test_config" "caps w = provisioned" "get_agent w ''codex'' = Inr r"
    using test_initialize [of provisioned] by blast
  have "reachable test_host no_services
      (snd (initialize test_host test_inputs False ''r'' ''k'' ''n'' ''codex'' None None None (empty_root provisioned)))"
    by (rule reachable.init) (simp_all add: empty_root_def w(1) [unfolded empty_root_def] w(2))
  then show ?thesis using w by auto
qed

lemma get_agent_other:
  "get_agent (write_task t r (w\<lparr>caps := c, events := es\<rparr>)) a = get_agent w a"
  "get_agent (write_task t r (w\<lparr>events := es\<rparr>)) a = get_agent w a"
  by (cases "AGENT_ID_RE a"; simp add: get_agent_def write_task_def validate_agent_id_def)+

lemma reachable_created:
  "\<exists>w r. reachable test_host no_services w \<and> config w = test_config \<and> tasks w = [(''T'', Content (JObj test_task))]
     \<and> get_agent w ''codex'' = Inr r"
proof -
  obtain w r where w: "reachable test_host no_services w" "config w = test_config" "caps w = provisioned" "tasks w = []"
    "get_agent w ''codex'' = Inr r" using reachable_root by blast
  obtain c e where run: "add_task test_host test_inputs ''codex'' (Some test_secret) ''T'' ''t'' ''d'' ''codex'' None None
      None None None w = (Inr test_task, write_task ''T'' test_task (w\<lparr>caps := c, events := events w @ [e]\<rparr>))"
    using test_add_task [OF reachable_inv [OF w(1)] w(2-5)] by blast
  have "reachable test_host no_services (snd (add_task test_host test_inputs ''codex'' (Some test_secret) ''T'' ''t'' ''d''
      ''codex'' None None None None None w))"
    by (rule reachable.step [OF w(1) ws_step.add_task])
  then show ?thesis
    unfolding run using w(2,4,5) get_agent_other(1) [of "''T''" test_task "events w @ [e]" c w "''codex''"]
    by (intro exI [of _ "write_task ''T'' test_task (w\<lparr>caps := c, events := events w @ [e]\<rparr>)"] exI [of _ r])
      (simp add: write_task_def)
qed

lemma reachable_claimed:
  "\<exists>w es e. reachable test_host no_services w \<and> orchestrator w = Inr ''codex'' \<and> get_task w ''T'' = Inr claimed_task
     \<and> events w = es @ [e] \<and> dget e ''task_id'' = JStr ''T'' \<and> dget_or e ''payload'' (JObj []) = JObj [(''task'', JObj claimed_task)]
     \<and> dget e ''action'' = JStr ''task.claimed'' \<and> dget e ''actor'' = JStr ''codex''
     \<and> (\<exists>s h. ditem e ''sequence'' = Inr s \<and> ditem e ''event_hash'' = Inr h)"
proof -
  have T: "TASK_ID_RE ''T''" by code_simp
  obtain w r where w: "reachable test_host no_services w" "config w = test_config"
    "tasks w = [(''T'', Content (JObj test_task))]" "get_agent w ''codex'' = Inr r" using reachable_created by blast
  have task: "get_task w ''T'' = Inr test_task" using T by (simp add: get_task_file w(3) file_of_def)
  obtain e where run: "claim test_host test_inputs ''codex'' (Some ''T'') None w
      = (Inr (claimed_task, ''ws''), write_task ''T'' claimed_task (w\<lparr>events := events w @ [e]\<rparr>))"
    and e: "ledger_append test_host (signing_key w) (events w) ''0Z'' ''codex'' ''task.claimed'' (JStr ''T'')
        [(''task'', JObj claimed_task)] = Inr e"
    using test_claim [OF reachable_inv [OF w(1)] w(2,4) task] by blast
  let ?w = "write_task ''T'' claimed_task (w\<lparr>events := events w @ [e]\<rparr>)"
  have "reachable test_host no_services (snd (claim test_host test_inputs ''codex'' (Some ''T'') None w))"
    by (rule reachable.step [OF w(1) ws_step.claim])
  then have reach: "reachable test_host no_services ?w" by (simp add: run)
  moreover have "orchestrator ?w = orchestrator w" by (simp add: orchestrator_def write_task_def)
  moreover have "orchestrator w = Inr ''codex''" unfolding orchestrator_def w(2) by code_simp
  moreover have "\<exists>s h. ditem e ''sequence'' = Inr s \<and> ditem e ''event_hash'' = Inr h"
    using e by (auto simp: ledger_append_eq_Inr Let_def)
  moreover have "events ?w = events w @ [e]" by (simp add: write_task_def)
  moreover have "get_task ?w ''T'' = Inr claimed_task" using T by (rule get_task_written)
  ultimately show ?thesis using ledger_append_fields [OF e] by metis
qed

lemma test_start:
  assumes "ws_inv test_host w" "get_task w ''T'' = Inr claimed_task"
  shows "fst (start test_host test_inputs ''codex'' ''T'' ''ws'' w) = Inr started_task"
proof -
  obtain e where "commit_task test_host w ''0Z'' ''codex'' ''task.started'' ''T'' [(''task'', JObj started_task)]
      started_task = (Inr started_task, write_task ''T'' started_task (w\<lparr>events := events w @ [e]\<rparr>))"
    using inv_commit_defined [OF assms(1) test_host_hex] by blast
  then show ?thesis by (simp add: start_def assms(2) test_inputs_def test_lease_steps)
qed

lemma test_recover:
  assumes "ws_inv test_host w" "orchestrator w = Inr ''codex''" "get_task w ''T'' = Inr claimed_task"
    and "events w = es @ [e]" "dget e ''task_id'' = JStr ''T''"
    and "dget_or e ''payload'' (JObj []) = JObj [(''task'', JObj claimed_task)]"
    and "dget e ''action'' = JStr ''task.claimed''" "dget e ''actor'' = JStr ''codex''"
    and "ditem e ''sequence'' = Inr s" "ditem e ''event_hash'' = Inr h"
  shows "\<exists>w'. recover_lease test_host late_inputs ''codex'' ''T'' ''stale'' False None w = (Inr requeued_task, w')"
proof -
  have clock: "clock late_inputs k = ''2000Z''" for k by (simp add: late_inputs_def)
  obtain v where v: "verify_events test_host (signing_key w) (events w) = Inr v"
    using assms(1) appended_invariant [OF _ test_host_hex] by (force simp: ws_inv_def verify_events_eq_Inr)
  have found: "signed_event ''T'' (events w) = Inr (Some e)"
    using assms(4-6) by (simp add: jget_or_def)
  have "liveness_source e test_lease = Inr ()"
    by (simp add: liveness_source_def in_strs_def hashable_def assms(7,8) test_task_fields(1))
  then have "recovery_checks test_host late_inputs w ''T'' False = Inr (claimed_task, test_lease, e, True)"
    using v found assms(6) test_task_fields(5)
    by (simp add: recovery_checks_def assms(3) read_verified_def task_of_event_def py_eq_refl clock test_lease_steps
        catch_any_def test_task_fields)
  moreover have "AGENT_ID_RE ''codex''" "TASK_ID_RE ''T''" "strip ''stale'' = ''stale''" by code_simp+
  moreover obtain e' where "commit_task test_host w ''2000Z'' ''codex'' ''task.lease_recovered'' ''T''
      (recovery_payload late_inputs ''stale'' False claimed_task test_lease e True JNull requeued_task) requeued_task
      = (Inr requeued_task, write_task ''T'' requeued_task (w\<lparr>events := events w @ [e']\<rparr>))"
    using inv_commit_defined [OF assms(1) test_host_hex] by blast
  ultimately show ?thesis
    using assms(2,9,10)
    by (simp add: recover_lease_def forced_receipt_def validate_task_id_def validate_agent_id_def clock
        test_requeue_steps test_task_fields ditem_def)
qed

section \<open>Witnesses\<close>


theorem reachable_task_states_witness:
  "\<exists>s n. dget claimed_task ''state'' = JStr s \<and> dget claimed_task ''attempt'' = JInt n
    \<and> s \<in> {''pending'', ''claimed'', ''running'', ''blocked'', ''submitted''}
    \<and> (if s \<in> {''claimed'', ''running''}
       then 1 \<le> n \<and> (\<exists>l. dget claimed_task ''lease'' = JObj l \<and> dget l ''holder'' = dget claimed_task ''owner'')
       else dget claimed_task ''lease'' = JNull)"
proof -
  obtain w where "reachable test_host no_services w" "get_task w ''T'' = Inr claimed_task"
    using reachable_claimed by blast
  then show ?thesis by (rule reachable_task_states)
qed


theorem prerequisites_never_claimable_witness:
  "dget claimed_task ''prerequisites'' = JArr []"
proof -
  have T: "TASK_ID_RE ''T''" by code_simp
  obtain w r where w: "reachable test_host no_services w" "config w = test_config"
    "tasks w = [(''T'', Content (JObj test_task))]" "get_agent w ''codex'' = Inr r" using reachable_created by blast
  have task: "get_task w ''T'' = Inr test_task" using T by (simp add: get_task_file w(3) file_of_def)
  obtain w' where "claim test_host test_inputs ''codex'' (Some ''T'') None w = (Inr (claimed_task, ''ws''), w')"
    using test_claim [OF reachable_inv [OF w(1)] w(2,4) task] by blast
  then show ?thesis by (rule prerequisites_never_claimable [OF w(1)])
qed

theorem lease_respected_witness:
  "\<exists>w task l. reachable test_host no_services w \<and> get_task w ''T'' = Inr task \<and> dget task ''lease'' = JObj l
     \<and> dget l ''holder'' = JStr ''codex'' \<and> dget l ''token_hash'' = JStr (sha256_hex test_host ''ws'')
     \<and> lease_expired test_host (clock test_inputs 0) task = Inr False"
proof -
  obtain w where w: "reachable test_host no_services w" "get_task w ''T'' = Inr claimed_task"
    using reachable_claimed by blast
  then have "fst (start test_host test_inputs ''codex'' ''T'' ''ws'' w) = Inr started_task"
    by (intro test_start reachable_inv)
  with w(1) show ?thesis
    using lease_respected [of test_host test_inputs "''codex''" "''T''" "''ws''" w started_task "[]" no_services] by blast
qed

theorem recovery_requires_expiry_witness:
  "\<exists>w task. reachable test_host no_services w \<and> get_task w ''T'' = Inr task
     \<and> lease_expired test_host (clock late_inputs 0) task = Inr True \<and> dget requeued_task ''state'' = JStr ''pending''"
proof -
  obtain w where w: "reachable test_host no_services w"
    and "\<exists>w'. recover_lease test_host late_inputs ''codex'' ''T'' ''stale'' False None w = (Inr requeued_task, w')"
    using reachable_claimed test_recover reachable_inv by metis
  then obtain w' where run: "recover_lease test_host late_inputs ''codex'' ''T'' ''stale'' False None w
      = (Inr requeued_task, w')" by blast
  from recovery_requires_expiry [OF run] w show ?thesis by blast
qed

theorem privileged_operations_authorized_witness:
  "\<exists>(w :: workspace) (w' :: workspace) s ws token receipt.
     mint test_host ws (caps w) (epoch test_inputs 0) (token24 test_inputs) ''codex'' ''task.add'' s DEFAULT_TTL_SECONDS
       None None JNull = Inr token
     \<and> verify_and_consume test_host ws (epoch test_inputs 1) ''codex'' ''task.add'' token None None JNull (caps w)
       = (Inr receipt, caps w')"
proof -
  obtain w r where w: "reachable test_host no_services w" "config w = test_config" "caps w = provisioned" "tasks w = []"
    "get_agent w ''codex'' = Inr r" using reachable_root by blast
  obtain w' where run: "add_task test_host test_inputs ''codex'' (Some test_secret) ''T'' ''t'' ''d'' ''codex'' None None
      None None None w = (Inr test_task, w')"
    using test_add_task [OF reachable_inv [OF w(1)] w(2-5)] by blast
  from privileged_operations_authorized [OF disjI1 [OF conjI [OF run refl]]] show ?thesis
    by (elim conjE exE) (intro exI conjI)
qed

end
