(* ===== verification/Documents.thy ===== *)
theory Documents
  imports Ledger Base64 "HOL-Library.Multiset"
begin

text \<open>
  What the verifier modules share. Their documents are JSON objects that are only accepted in
  canonical form: \<^verbatim>\<open>json.dumps(value, ensure_ascii=False, allow_nan=False, sort_keys=True,
  separators=(",", ":")).encode("utf-8")\<close>. A Python string that has no UTF-8 form (it holds a lone
  surrogate) is a byte list that \<open>utf8_valid\<close> refuses.
\<close>

section \<open>Strict canonical encoding\<close>

text \<open>\<^verbatim>\<open>allow_nan=False\<close> refuses the floats that are not finite.\<close>

primrec json_finite :: "json \<Rightarrow> bool" where
  "json_finite JNull = True"
| "json_finite (JBool b) = True"
| "json_finite (JInt n) = True"
| "json_finite (JFloat s) = is_finite_float s"
| "json_finite (JStr s) = True"
| "json_finite (JArr xs) = list_all (\<lambda>b. b) (map json_finite xs)"
| "json_finite (JObj kvs) = list_all snd (map (map_prod (\<lambda>k. k) json_finite) kvs)"

definition encode_strict :: "json \<Rightarrow> string option" where
  "encode_strict v =
     (let e = canonical_json v in if json_finite v \<and> utf8_valid e then Some e else None)"

section \<open>UTF-8 of encoded documents\<close>

text \<open>
  A valid string is a sequence of encoded characters: one ASCII byte, or several bytes that are
  all above the ASCII range.
\<close>

definition utf8_char :: "string \<Rightarrow> bool" where
  "utf8_char c \<longleftrightarrow> (\<forall>s. utf8_valid (c @ s) = utf8_valid s)
     \<and> ((\<exists>a. c = [a] \<and> (of_char a :: nat) < 128) \<or> c \<noteq> [] \<and> (\<forall>x\<in>set c. 128 \<le> (of_char x :: nat)))"

declare utf8_valid.simps(2) [simp del]

lemmas utf8_valid_Cons = utf8_valid.simps(2) [unfolded Let_def]

lemma utf8_valid_ascii_Cons [simp]: "(of_char a :: nat) < 128 \<Longrightarrow> utf8_valid (a # s) = utf8_valid s"
  by (simp add: utf8_valid_Cons)

lemma cont_high: "cont lo hi c \<Longrightarrow> 128 \<le> lo \<Longrightarrow> 128 \<le> (of_char c :: nat)"
  by (simp add: cont_def)

lemma utf8_char_ascii: "(of_char a :: nat) < 128 \<Longrightarrow> utf8_char [a]"
  by (simp add: utf8_char_def)

lemma utf8_valid_first:
  assumes "utf8_valid (a # s)" "128 \<le> (of_char a :: nat)"
  shows "\<exists>c t. a # s = c @ t \<and> utf8_char c \<and> utf8_valid t"
proof -
  let ?n = "of_char a :: nat"
  obtain b t where s: "s = b # t" using assms by (cases s) (simp_all add: utf8_valid_Cons)
  show ?thesis
  proof (cases "194 \<le> ?n \<and> ?n \<le> 223")
    case True
    with assms s have b: "cont 128 191 b" "utf8_valid t" by (simp_all add: utf8_valid_Cons)
    with True have "utf8_char [a, b]" by (simp add: utf8_char_def utf8_valid_Cons cont_high)
    with b s show ?thesis by (intro exI [of _ "[a, b]"] exI [of _ t]) simp
  next
    case two: False
    with assms s obtain c u where t: "t = c # u" by (cases t) (auto simp: utf8_valid_Cons)
    show ?thesis
    proof (cases "224 \<le> ?n \<and> ?n \<le> 239")
      case True
      with assms s t two have b: "cont (if ?n = 224 then 160 else 128) (if ?n = 237 then 159 else 191) b"
        "cont 128 191 c" "utf8_valid u" by (simp_all add: utf8_valid_Cons)
      with True two have "utf8_char [a, b, c]"
        by (simp add: utf8_char_def utf8_valid_Cons cont_high cont_high [OF b(1)])
      with b s t show ?thesis by (intro exI [of _ "[a, b, c]"] exI [of _ u]) simp
    next
      case three: False
      with assms s t two obtain d v where u: "u = d # v" by (cases u) (auto simp: utf8_valid_Cons)
      with assms s t two three have b: "cont (if ?n = 240 then 144 else 128) (if ?n = 244 then 143 else 191) b"
        "cont 128 191 c" "cont 128 191 d" "utf8_valid v" "240 \<le> ?n" "?n \<le> 244" by (simp_all add: utf8_valid_Cons)
      with two three have "utf8_char [a, b, c, d]"
        by (simp add: utf8_char_def utf8_valid_Cons cont_high cont_high [OF b(1)])
      with b s t u show ?thesis by (intro exI [of _ "[a, b, c, d]"] exI [of _ v]) simp
    qed
  qed
qed

lemma utf8_induct [consumes 1, case_names Nil char]:
  assumes "utf8_valid s" "P []" "\<And>c t. utf8_char c \<Longrightarrow> utf8_valid t \<Longrightarrow> P t \<Longrightarrow> P (c @ t)"
  shows "P s"
  using assms(1)
proof (induction "length s" arbitrary: s rule: less_induct)
  case less
  show ?case
  proof (cases s)
    case (Cons a r)
    have "\<exists>c t. s = c @ t \<and> utf8_char c \<and> utf8_valid t"
    proof (cases "(of_char a :: nat) < 128")
      case True
      with less.prems Cons show ?thesis
        by (intro exI [of _ "[a]"] exI [of _ r]) (simp add: utf8_char_ascii)
    qed (use less.prems utf8_valid_first Cons in \<open>simp add: not_less\<close>)
    then obtain c t where c: "s = c @ t" "utf8_char c" "utf8_valid t" by blast
    moreover have "c \<noteq> []" using c(2) by (auto simp: utf8_char_def)
    ultimately show ?thesis using less.hyps [of t] assms(3) by simp
  qed (use assms(2) in simp)
qed

lemma utf8_valid_append: "utf8_valid s \<Longrightarrow> utf8_valid t \<Longrightarrow> utf8_valid (s @ t)"
  by (induction s rule: utf8_induct) (simp_all add: utf8_char_def)

lemma utf8_valid_concat: "\<forall>s\<in>set ss. utf8_valid s \<Longrightarrow> utf8_valid (concat ss)"
  by (induction ss) (auto intro: utf8_valid_append)

lemma utf8_valid_plain: "list_all plain_char s \<Longrightarrow> utf8_valid s"
  by (rule utf8_valid_ascii) (auto simp: list_all_iff plain_char_def)

text \<open>The escapes only touch ASCII characters and yield ASCII text.\<close>

lemma esc_char_high: "128 \<le> (of_char c :: nat) \<Longrightarrow> esc_char c = [c]"
  by (simp add: esc_char_def Let_def)

lemma esc_char_plain: "(of_char c :: nat) < 128 \<Longrightarrow> list_all plain_char (esc_char c)"
  using plain_hex_digit by (auto simp: esc_char_def Let_def plain_char_def)

lemma utf8_char_escaped: "utf8_char c \<Longrightarrow> utf8_valid (concat (map esc_char c))"
proof -
  assume c: "utf8_char c"
  show ?thesis
  proof (cases "\<exists>a. c = [a] \<and> (of_char a :: nat) < 128")
    case True
    then show ?thesis by (auto simp: utf8_valid_plain [OF esc_char_plain])
  next
    case False
    with c have "\<forall>x\<in>set c. esc_char x = [x]" by (auto simp: utf8_char_def esc_char_high)
    then have "concat (map esc_char c) = c" by (induction c) simp_all
    then show ?thesis using c utf8_valid.simps(1) by (metis append_Nil2 utf8_char_def)
  qed
qed

lemma utf8_valid_escaped: "utf8_valid s \<Longrightarrow> utf8_valid (concat (map esc_char s))"
  by (induction s rule: utf8_induct) (auto intro: utf8_valid_append utf8_char_escaped)

lemma utf8_valid_quote: "utf8_valid s \<Longrightarrow> utf8_valid (quote s)"
  using utf8_valid_append [OF utf8_valid_escaped [of s], of "[CHR 0x22]"] by (simp add: quote_def)

text \<open>A document whose strings are all valid encodes to valid UTF-8.\<close>

primrec json_utf8 :: "json \<Rightarrow> bool" where
  "json_utf8 JNull = True"
| "json_utf8 (JBool b) = True"
| "json_utf8 (JInt n) = True"
| "json_utf8 (JFloat s) = list_all plain_char s"
| "json_utf8 (JStr s) = utf8_valid s"
| "json_utf8 (JArr xs) = list_all (\<lambda>b. b) (map json_utf8 xs)"
| "json_utf8 (JObj kvs) = list_all (\<lambda>p. utf8_valid (fst p) \<and> snd p) (map (map_prod (\<lambda>k. k) json_utf8) kvs)"

lemma utf8_valid_join:
  "utf8_valid sep \<Longrightarrow> \<forall>x\<in>set xs. utf8_valid x \<Longrightarrow> utf8_valid (join sep xs)"
  by (induction xs rule: induct_list012) (auto intro!: utf8_valid_append)

lemma utf8_valid_dumps:
  assumes "utf8_valid isep" "utf8_valid ksep"
  shows "json_utf8 v \<Longrightarrow> utf8_valid (dumps isep ksep v)"
proof (induction v)
  case (JArr xs)
  then have "utf8_valid (join isep (map (dumps isep ksep) xs))"
    by (intro utf8_valid_join assms) (auto simp: list_all_iff)
  then show ?case using utf8_valid_append [of _ "'']''"] by simp
next
  case (JObj kvs)
  then have "utf8_valid (join isep (map (\<lambda>(k, t). quote k @ ksep @ t)
      (sort_key fst (map (map_prod (\<lambda>k. k) (dumps isep ksep)) kvs))))"
    by (intro utf8_valid_join assms)
      (fastforce simp: list_all_iff intro!: utf8_valid_append utf8_valid_quote assms(2))
  then show ?case using utf8_valid_append [of _ "''}''"] by simp
next
  case (JFloat s)
  then show ?case by (simp add: float_text_def utf8_valid_plain)
qed (simp_all add: utf8_valid_quote utf8_valid_plain plain_show_int)

lemma encode_strict_Some:
  "json_finite v \<Longrightarrow> json_utf8 v \<Longrightarrow> encode_strict v = Some (canonical_json v)"
  by (simp add: encode_strict_def canonical_json_def utf8_valid_dumps)

lemma encode_strict_eq_Some:
  "encode_strict v = Some e \<longleftrightarrow> json_finite v \<and> utf8_valid e \<and> e = canonical_json v"
  by (auto simp: encode_strict_def Let_def)

section \<open>Size of encoded documents\<close>

lemma length_show_nat: "0 < k \<Longrightarrow> n < 10 ^ k \<Longrightarrow> length (show_nat n) \<le> k"
proof (induction n arbitrary: k rule: show_nat.induct)
  case (1 n)
  show ?case
  proof (cases "n < 10")
    case False
    with 1(3) have "k \<noteq> 1" by auto
    with 1(2) obtain j where j: "k = Suc j" "0 < j" by (cases k) auto
    with 1(3) have "n div 10 < 10 ^ j" by (simp add: less_mult_imp_div_less mult.commute)
    with 1(1) False j show ?thesis by (subst show_nat.simps) simp
  qed (use 1 in \<open>subst show_nat.simps, simp\<close>)
qed

lemma length_join: "length (join sep xs) \<le> sum_list (map (\<lambda>x. length x + length sep) xs)"
  by (induction xs rule: induct_list012) auto

lemma length_esc: "\<forall>c\<in>set s. 32 \<le> (of_char c :: nat) \<Longrightarrow> length (concat (map esc_char s)) \<le> 2 * length s"
  by (induction s) (auto simp: esc_char_def Let_def)

text \<open>The length of an encoded object, whatever the order of its keys.\<close>

lemma length_dumps_object:
  "length (dumps '','' '':'' (JObj kvs))
     \<le> 2 + sum_list (map (\<lambda>(k, v). length (quote k) + length (dumps '','' '':'' v) + 2) kvs)"
proof -
  let ?ts = "map (map_prod (\<lambda>k. k) (dumps '','' '':'')) kvs"
  let ?f = "\<lambda>(k, t). quote k @ '':'' @ t"
  have "length (join '','' (map ?f (sort_key fst ?ts)))
      \<le> sum_list (map (\<lambda>x. length x + 1) (map ?f (sort_key fst ?ts)))"
    using length_join [of "'',''" "map ?f (sort_key fst ?ts)"] by simp
  also have "\<dots> = sum_list (map (\<lambda>x. length (?f x) + 1) (sort_key fst ?ts))" by (simp add: comp_def)
  also have "\<dots> = sum_mset (mset (map (\<lambda>x. length (?f x) + 1) (sort_key fst ?ts)))" by (rule sum_mset_sum_list [symmetric])
  also have "\<dots> = sum_mset (mset (map (\<lambda>x. length (?f x) + 1) ?ts))" by (simp only: mset_map mset_sort)
  also have "\<dots> = sum_list (map (\<lambda>x. length (?f x) + 1) ?ts)" by (rule sum_mset_sum_list)
  also have "\<dots> = sum_list (map (\<lambda>(k, v). length (quote k) + length (dumps '','' '':'' v) + 2) kvs)"
    by (induction kvs) auto
  finally show ?thesis by simp
qed

end
