(* ===== verification/Journal.thy ===== *)
theory Journal
  imports Documents
begin

text \<open>
  The crash-safe journal of the dedicated verifier (\<^verbatim>\<open>verifier_journal.py\<close>). The state is the
  journal directory as bytes: every load parses the file again and every update writes its
  canonical JSON. An operation returns its result or exception and the directory afterwards.
  The POSIX branch of the file access is modelled. What the operating system can add (a failing
  disk, a crash in the middle of a write) is the step relation of \<open>Journal_Safety\<close>.
\<close>

section \<open>Constants\<close>

definition JOURNAL_ID :: string where "JOURNAL_ID = ''cogni-os.verifier-journal.v1''"
definition JOURNAL_SCHEMA_VERSION :: int where "JOURNAL_SCHEMA_VERSION = 1"
definition MAX_JOURNAL_RECORD_BYTES :: nat where "MAX_JOURNAL_RECORD_BYTES = 4096"
definition MAX_JOURNAL_RECORDS :: nat where "MAX_JOURNAL_RECORDS = 4096"
definition MAX_DIRECTORY_ENTRIES_SCANNED :: nat where
  "MAX_DIRECTORY_ENTRIES_SCANNED = MAX_JOURNAL_RECORDS * 3 + 32"
definition MAX_TASK_ID_BYTES :: nat where "MAX_TASK_ID_BYTES = 80"
definition MAX_ACTOR_BYTES :: nat where "MAX_ACTOR_BYTES = 50"
definition MAX_FAILURE_CODE_BYTES :: nat where "MAX_FAILURE_CODE_BYTES = 64"
definition MAX_QUARANTINE_REASON_BYTES :: nat where "MAX_QUARANTINE_REASON_BYTES = 512"
definition MAX_ATTEMPT :: int where "MAX_ATTEMPT = 1000000"

definition id_char :: "char \<Rightarrow> bool" where
  "id_char c \<longleftrightarrow> is_alnum c \<or> c \<in> {CHR ''.'', CHR ''_'', CHR ''-''}"

definition lower_start :: "char \<Rightarrow> bool" where
  "lower_start c \<longleftrightarrow> is_lower c \<or> is_digit c"

definition lower_id_char :: "char \<Rightarrow> bool" where
  "lower_id_char c \<longleftrightarrow> lower_start c \<or> c \<in> {CHR ''.'', CHR ''_'', CHR ''-''}"

definition j_TASK_ID_RE :: "string \<Rightarrow> bool" where "j_TASK_ID_RE = fullmatch_head_rest is_alnum id_char 79"
definition ACTOR_RE :: "string \<Rightarrow> bool" where "ACTOR_RE = fullmatch_head_rest lower_start lower_id_char 49"
definition FAILURE_CODE_RE :: "string \<Rightarrow> bool" where
  "FAILURE_CODE_RE = fullmatch_head_rest lower_start lower_id_char 63"

text \<open>The states. \<^verbatim>\<open>REQUESTED\<close> and the others are the strings of their own names.\<close>

definition NORMAL_STATES :: "string list" where
  "NORMAL_STATES = [''REQUESTED'', ''CLAIMED'', ''SOURCE_VERIFIED'', ''SNAPSHOT_ACQUIRED'', ''EXECUTING'',
     ''EXECUTION_SEALED'', ''RELEASE_PENDING'', ''CLEANUP_ACKED'', ''RECEIPT_PERSISTED'', ''TERMINAL_APPENDED'', ''DONE'']"

definition FAILURE_STATES :: "string list" where
  "FAILURE_STATES = [''FAILED'', ''QUARANTINED'', ''CRASH_ABORTED'', ''FAILED_CLEANUP_REQUIRED'']"

definition ALL_STATES :: "string list" where "ALL_STATES = NORMAL_STATES @ FAILURE_STATES"

definition TERMINAL_STATES :: "string list" where
  "TERMINAL_STATES = [''DONE'', ''FAILED'', ''QUARANTINED'']"

definition FAILURE_CARRY_STATES :: "string list" where
  "FAILURE_CARRY_STATES =
     [''RELEASE_PENDING'', ''CLEANUP_ACKED'', ''RECEIPT_PERSISTED'', ''TERMINAL_APPENDED'', ''DONE'']"

definition ALLOWED_TRANSITIONS :: "(string \<times> string list) list" where
  "ALLOWED_TRANSITIONS =
    [(''REQUESTED'', [''CLAIMED'', ''FAILED'', ''QUARANTINED'']),
     (''CLAIMED'', [''SOURCE_VERIFIED'', ''FAILED'', ''QUARANTINED'']),
     (''SOURCE_VERIFIED'', [''SNAPSHOT_ACQUIRED'', ''FAILED'', ''QUARANTINED'']),
     (''SNAPSHOT_ACQUIRED'', [''EXECUTING'']),
     (''EXECUTING'', [''EXECUTION_SEALED'']),
     (''EXECUTION_SEALED'', [''RELEASE_PENDING'']),
     (''CRASH_ABORTED'', [''RELEASE_PENDING'']),
     (''FAILED_CLEANUP_REQUIRED'', [''RELEASE_PENDING'']),
     (''RELEASE_PENDING'', [''CLEANUP_ACKED'']),
     (''CLEANUP_ACKED'', [''RECEIPT_PERSISTED'', ''QUARANTINED'']),
     (''RECEIPT_PERSISTED'', [''TERMINAL_APPENDED'', ''QUARANTINED'']),
     (''TERMINAL_APPENDED'', [''DONE'', ''QUARANTINED'']),
     (''DONE'', []), (''FAILED'', []), (''QUARANTINED'', [])]"

definition j_RECORD_KEYS :: "string list" where
  "j_RECORD_KEYS = [''schema_version'', ''journal_id'', ''dispatch_event_hash'', ''task_id'', ''attempt'', ''actor'',
     ''run_id'', ''state'', ''previous_state'', ''revision'', ''created_at_ns'', ''updated_at_ns'', ''failure_code'',
     ''quarantine_reason'']"

definition j_CLAIM_KEYS :: "string list" where
  "j_CLAIM_KEYS = [''schema_version'', ''journal_id'', ''dispatch_event_hash'', ''task_id'', ''attempt'', ''actor'',
     ''run_id'', ''claimed_at_ns'']"

section \<open>Records\<close>

record VerifierJournalRecord =
  j_schema_version :: int
  j_journal_id :: string
  j_hash :: string
  j_task_id :: string
  j_attempt :: int
  j_actor :: string
  j_run_id :: string
  j_state :: string
  j_previous :: "string option"
  j_revision :: int
  j_created :: int
  j_updated :: int
  j_failure :: "string option"
  j_reason :: "string option"

definition as_dict_record :: "VerifierJournalRecord \<Rightarrow> dict" where
  "as_dict_record r =
     [(''schema_version'', JInt (j_schema_version r)), (''journal_id'', JStr (j_journal_id r)),
      (''dispatch_event_hash'', JStr (j_hash r)), (''task_id'', JStr (j_task_id r)), (''attempt'', JInt (j_attempt r)),
      (''actor'', JStr (j_actor r)), (''run_id'', JStr (j_run_id r)), (''state'', JStr (j_state r)),
      (''previous_state'', opt_str (j_previous r)), (''revision'', JInt (j_revision r)),
      (''created_at_ns'', JInt (j_created r)), (''updated_at_ns'', JInt (j_updated r)),
      (''failure_code'', opt_str (j_failure r)), (''quarantine_reason'', opt_str (j_reason r))]"

definition terminal :: "VerifierJournalRecord \<Rightarrow> bool" where
  "terminal r \<longleftrightarrow> j_state r \<in> set TERMINAL_STATES"

definition release_retry_required :: "VerifierJournalRecord \<Rightarrow> bool" where
  "release_retry_required r \<longleftrightarrow> j_state r \<in> {''CRASH_ABORTED'', ''FAILED_CLEANUP_REQUIRED'', ''RELEASE_PENDING''}"

record VerifierJournalClaim =
  claim_record :: VerifierJournalRecord
  new_dispatch :: bool
  claim_acquired :: bool

definition journal_json_bytes :: "json \<Rightarrow> string res" where
  "journal_json_bytes v =
     (case encode_strict v of
        None \<Rightarrow> raise VerifierJournalError ''Journal value is not canonical JSON''
      | Some e \<Rightarrow>
          let encoded = e @ [CHR 0x0A] in
          if MAX_JOURNAL_RECORD_BYTES < length encoded
          then raise VerifierJournalError ''Journal record exceeds the fixed size limit'' else Inr encoded)"

section \<open>Validation\<close>

definition validate_utf8_identifier :: "nat \<Rightarrow> (string \<Rightarrow> bool) \<Rightarrow> json \<Rightarrow> string res" where
  "validate_utf8_identifier maximum_bytes pattern v =
     (case v of
        JStr s \<Rightarrow>
          if \<not> pattern s then raise VerifierJournalError ''Invalid ''
          else if maximum_bytes < length s then raise VerifierJournalError '''' else Inr s
      | _ \<Rightarrow> raise VerifierJournalError ''Invalid '')"

definition validate_optional_text :: "nat \<Rightarrow> json \<Rightarrow> string option res" where
  "validate_optional_text maximum_bytes v =
     (case v of
        JNull \<Rightarrow> Inr None
      | JStr s \<Rightarrow>
          if s = [] then raise VerifierJournalError ''Invalid ''
          else if \<not> utf8_valid s then raise UnicodeEncodeError ''utf-8''
          else if maximum_bytes < length s then raise VerifierJournalError ''''
          else if \<exists>c\<in>set s. (of_char c :: nat) < 32 then raise VerifierJournalError ''''
          else Inr (Some s)
      | _ \<Rightarrow> raise VerifierJournalError ''Invalid '')"

definition validate_dispatch_hash :: "json \<Rightarrow> string res" where
  "validate_dispatch_hash v =
     (case v of
        JStr s \<Rightarrow> if fullmatch_hex 64 s then Inr s
          else raise VerifierJournalError ''dispatch_event_hash must be 64 lowercase hexadecimal characters''
      | _ \<Rightarrow> raise VerifierJournalError ''dispatch_event_hash must be 64 lowercase hexadecimal characters'')"

definition validate_attempt :: "json \<Rightarrow> int res" where
  "validate_attempt v =
     (case strict_int v of
        None \<Rightarrow> raise VerifierJournalError ''attempt must be an integer''
      | Some n \<Rightarrow> if n < 1 \<or> MAX_ATTEMPT < n then raise VerifierJournalError ''attempt is outside the fixed range''
                  else Inr n)"

definition validate_state :: "json \<Rightarrow> string res" where
  "validate_state v =
     (case v of JStr s \<Rightarrow> if s \<in> set ALL_STATES then Inr s else raise VerifierJournalError ''Unknown verifier journal state''
      | _ \<Rightarrow> raise VerifierJournalError ''Unknown verifier journal state'')"

definition validate_previous :: "json \<Rightarrow> string option res" where
  "validate_previous v =
     (case v of JNull \<Rightarrow> Inr None
      | JStr s \<Rightarrow> if s \<in> set ALL_STATES then Inr (Some s)
                  else raise VerifierJournalError ''Unknown previous verifier journal state''
      | _ \<Rightarrow> raise VerifierJournalError ''Unknown previous verifier journal state'')"

definition bounded_number :: "json \<Rightarrow> int res" where
  "bounded_number v =
     (case strict_int v of
        None \<Rightarrow> raise VerifierJournalError ''''
      | Some n \<Rightarrow> if n < 0 \<or> 2 ^ 63 - 1 < n then raise VerifierJournalError '''' else Inr n)"

definition check_times :: "int \<Rightarrow> string option \<Rightarrow> int \<Rightarrow> int \<Rightarrow> unit res" where
  "check_times revision previous created updated =
     rbind (ensure (created \<le> updated) VerifierJournalError ''Journal timestamps are not monotonic'') (\<lambda>_.
     rbind (ensure (\<not> (revision = 0 \<and> previous \<noteq> None)) VerifierJournalError
              ''Initial journal record has a previous state'') (\<lambda>_.
     ensure (\<not> (0 < revision \<and> previous = None)) VerifierJournalError
       ''Updated journal record lacks a previous state''))"

definition check_failure :: "string \<Rightarrow> string option \<Rightarrow> string option \<Rightarrow> unit res" where
  "check_failure st failure_code reason =
     rbind (ensure (\<not> (st \<in> {''FAILED'', ''CRASH_ABORTED'', ''FAILED_CLEANUP_REQUIRED''} \<and> failure_code = None))
              VerifierJournalError ''Failure state requires failure_code'') (\<lambda>_.
     rbind (ensure (\<not> (st = ''QUARANTINED'' \<and> (failure_code = None \<or> reason = None)))
              VerifierJournalError ''QUARANTINED requires failure_code and quarantine_reason'') (\<lambda>_.
     rbind (ensure (\<not> (st \<notin> set FAILURE_STATES \<union> set FAILURE_CARRY_STATES \<and> failure_code \<noteq> None))
              VerifierJournalError ''State cannot carry failure metadata'') (\<lambda>_.
     ensure (\<not> (st \<noteq> ''QUARANTINED'' \<and> reason \<noteq> None))
       VerifierJournalError ''Non-quarantine failure carries a reason'')))"

type_synonym identity = "string \<times> string \<times> int \<times> string \<times> string"

definition record_identity :: "dict \<Rightarrow> identity res" where
  "record_identity d =
     rbind (validate_dispatch_hash (dget d ''dispatch_event_hash'')) (\<lambda>dispatch_hash.
     rbind (validate_utf8_identifier MAX_TASK_ID_BYTES j_TASK_ID_RE (dget d ''task_id'')) (\<lambda>task.
     rbind (validate_utf8_identifier MAX_ACTOR_BYTES ACTOR_RE (dget d ''actor'')) (\<lambda>act.
     rbind (validate_utf8_identifier 32 (fullmatch_hex 32) (dget d ''run_id'')) (\<lambda>run.
     rbind (validate_attempt (dget d ''attempt'')) (\<lambda>attempt.
     Inr (dispatch_hash, task, attempt, act, run))))))"

definition record_progress :: "dict \<Rightarrow> (string \<times> string option \<times> int \<times> int \<times> int) res" where
  "record_progress d =
     rbind (validate_state (dget d ''state'')) (\<lambda>st.
     rbind (validate_previous (dget d ''previous_state'')) (\<lambda>previous.
     rbind (bounded_number (dget d ''revision'')) (\<lambda>revision.
     rbind (bounded_number (dget d ''created_at_ns'')) (\<lambda>created.
     rbind (bounded_number (dget d ''updated_at_ns'')) (\<lambda>updated.
     rbind (check_times revision previous created updated) (\<lambda>_.
     Inr (st, previous, revision, created, updated)))))))"

definition record_failure :: "dict \<Rightarrow> string \<Rightarrow> (string option \<times> string option) res" where
  "record_failure d st =
     rbind (validate_optional_text MAX_FAILURE_CODE_BYTES (dget d ''failure_code'')) (\<lambda>failure_code.
     rbind (ensure (case failure_code of None \<Rightarrow> True | Some c \<Rightarrow> FAILURE_CODE_RE c) VerifierJournalError
              ''Invalid failure_code'') (\<lambda>_.
     rbind (validate_optional_text MAX_QUARANTINE_REASON_BYTES (dget d ''quarantine_reason'')) (\<lambda>reason.
     rbind (check_failure st failure_code reason) (\<lambda>_.
     Inr (failure_code, reason)))))"

definition record_fields :: "dict \<Rightarrow> VerifierJournalRecord res" where
  "record_fields d =
     rbind (ensure (py_eq (dget d ''schema_version'') (JInt JOURNAL_SCHEMA_VERSION)) VerifierJournalError
              ''Unsupported verifier journal schema version'') (\<lambda>_.
     rbind (ensure (py_eq (dget d ''journal_id'') (JStr JOURNAL_ID)) VerifierJournalError
              ''Unexpected verifier journal identifier'') (\<lambda>_.
     rbind (record_identity d) (\<lambda>(dispatch_hash, task, attempt, act, run).
     rbind (record_progress d) (\<lambda>(st, previous, revision, created, updated).
     rbind (record_failure d st) (\<lambda>(failure_code, reason).
     Inr \<lparr>j_schema_version = JOURNAL_SCHEMA_VERSION, j_journal_id = JOURNAL_ID, j_hash = dispatch_hash,
          j_task_id = task, j_attempt = attempt, j_actor = act, j_run_id = run, j_state = st, j_previous = previous,
          j_revision = revision, j_created = created, j_updated = updated, j_failure = failure_code,
          j_reason = reason\<rparr>)))))"

definition validate_record :: "json \<Rightarrow> VerifierJournalRecord res" where
  "validate_record v =
     (case v of
        JObj d \<Rightarrow> if exact_keys d j_RECORD_KEYS then record_fields d
                  else raise VerifierJournalError ''Verifier journal record schema is not exact''
      | _ \<Rightarrow> raise VerifierJournalError ''Verifier journal record schema is not exact'')"

section \<open>The directory\<close>

text \<open>
  \<open>ancestry\<close> is what \<^verbatim>\<open>os.lstat\<close> reports of the ancestors of the journal root, outermost first, and
  of the root itself; \<open>entries\<close> are the entries of the root.
\<close>

datatype node = NodeMissing | NodeLink | NodeDirectory | NodeOther

datatype entry = Regular string | Symlink | Special

record journal =
  ancestry :: "node list"
  entries :: "(string \<times> entry) list"

fun assert_safe_ancestry :: "bool \<Rightarrow> node list \<Rightarrow> unit res" where
  "assert_safe_ancestry require_final_directory [] = Inr ()"
| "assert_safe_ancestry require_final_directory (n # ns) =
     (if n = NodeMissing then raise VerifierJournalError ''Journal ancestry does not exist: ''
      else if n = NodeLink then raise VerifierJournalError ''Journal ancestry contains a symlink/reparse point: ''
      else if ns = [] \<and> require_final_directory \<and> n \<noteq> NodeDirectory
      then raise VerifierJournalError ''Journal path is not a directory: ''
      else assert_safe_ancestry require_final_directory ns)"

abbreviation safe_root :: "journal \<Rightarrow> unit res" where
  "safe_root j \<equiv> assert_safe_ancestry True (ancestry j)"

definition prepare_root :: "journal \<Rightarrow> unit res \<times> journal" where
  "prepare_root j =
     keep j (assert_safe_ancestry True (butlast (ancestry j))) (\<lambda>_.
     let made = (if ancestry j \<noteq> [] \<and> last (ancestry j) = NodeMissing
                 then j\<lparr>ancestry := butlast (ancestry j) @ [NodeDirectory], entries := []\<rparr> else j)
     in (safe_root made, made))"

definition read_bounded :: "journal \<Rightarrow> string \<Rightarrow> string res" where
  "read_bounded j name =
     rbind (safe_root j) (\<lambda>_.
     case map_of (entries j) name of
       None \<Rightarrow> raise FileNotFoundError []
     | Some Symlink \<Rightarrow> raise OSError []
     | Some Special \<Rightarrow> raise VerifierJournalError ''Journal entry is not a regular file''
     | Some (Regular raw) \<Rightarrow>
         if MAX_JOURNAL_RECORD_BYTES < length raw
         then raise VerifierJournalError ''Journal entry exceeds the size limit'' else Inr raw)"

definition write_exclusive :: "string \<Rightarrow> string \<Rightarrow> journal \<Rightarrow> unit res \<times> journal" where
  "write_exclusive name payload j =
     keep j (safe_root j) (\<lambda>_.
     keep j (ensure (map_of (entries j) name = None) FileExistsError []) (\<lambda>_.
     (Inr (), j\<lparr>entries := alist_put name (Regular payload) (entries j)\<rparr>)))"

definition replace_entry :: "string \<Rightarrow> string \<Rightarrow> journal \<Rightarrow> unit res \<times> journal" where
  "replace_entry name payload j =
     keep j (safe_root j) (\<lambda>_.
     (Inr (), j\<lparr>entries := alist_put name (Regular payload) (entries j)\<rparr>))"

definition bounded_directory_names :: "journal \<Rightarrow> string list res" where
  "bounded_directory_names j =
     rbind (safe_root j) (\<lambda>_.
     let names = map fst (entries j) in
     rbind (ensure (length names \<le> MAX_DIRECTORY_ENTRIES_SCANNED) VerifierJournalError
              ''Journal directory scan exceeds its fixed limit'') (\<lambda>_. Inr names))"

definition record_name :: "string \<Rightarrow> string" where "record_name h = h @ ''.json''"
definition claim_name :: "string \<Rightarrow> string" where "claim_name h = h @ ''.claim''"

definition is_record_name :: "string \<Rightarrow> bool" where
  "is_record_name name \<longleftrightarrow> endswith name ''.json'' \<and> fullmatch_hex 64 (take (length name - 5) name)"

definition ensure_capacity_for_new_record :: "journal \<Rightarrow> unit res" where
  "ensure_capacity_for_new_record j =
     rbind (bounded_directory_names j) (\<lambda>names.
     ensure (length (filter is_record_name names) < MAX_JOURNAL_RECORDS) VerifierJournalError
       ''Journal record count reached its limit'')"

definition now_ns :: "int \<Rightarrow> int res" where
  "now_ns clock =
     rbind (ensure (\<not> (clock < 0 \<or> 2 ^ 63 - 1 < clock)) VerifierJournalError
              ''Journal clock is outside its fixed range'') (\<lambda>_. Inr clock)"

definition read_json_exact :: "journal \<Rightarrow> string \<Rightarrow> string list \<Rightarrow> dict res" where
  "read_json_exact j name expected_keys =
     rbind (read_bounded j name) (\<lambda>raw.
     rbind (ensure (endswith raw [CHR 0x0A]) VerifierJournalError ''Journal JSON lacks its canonical newline'') (\<lambda>_.
     rbind (case (if utf8_valid raw then loads raw else None) of
              None \<Rightarrow> raise VerifierJournalError ''Journal file is not valid UTF-8 JSON''
            | Some v \<Rightarrow> Inr v) (\<lambda>v.
     case v of
       JObj d \<Rightarrow>
         rbind (ensure (exact_keys d expected_keys) VerifierJournalError ''Journal file schema is not exact'') (\<lambda>_.
         rbind (journal_json_bytes (JObj d)) (\<lambda>encoded.
         rbind (ensure (encoded = raw) VerifierJournalError ''Journal file is not canonical JSON'') (\<lambda>_.
         Inr d)))
     | _ \<Rightarrow> raise VerifierJournalError ''Journal file schema is not exact'')))"

section \<open>Operations\<close>

definition load :: "journal \<Rightarrow> string \<Rightarrow> VerifierJournalRecord res" where
  "load j h =
     rbind (validate_dispatch_hash (JStr h)) (\<lambda>h.
     rbind (read_json_exact j (record_name h) j_RECORD_KEYS) (\<lambda>d.
     rbind (validate_record (JObj d)) (\<lambda>r.
     rbind (ensure (j_hash r = h) VerifierJournalError ''Journal filename and dispatch hash disagree'') (\<lambda>_.
     Inr r))))"

definition list_records :: "journal \<Rightarrow> VerifierJournalRecord list res" where
  "list_records j =
     rbind (bounded_directory_names j) (\<lambda>names.
     let record_names = sort (filter is_record_name names) in
     rbind (ensure (length record_names \<le> MAX_JOURNAL_RECORDS) VerifierJournalError
              ''Journal record count exceeds its limit'') (\<lambda>_.
     rmap (\<lambda>name. load j (take (length name - 5) name)) record_names))"

definition next_record ::
  "int \<Rightarrow> VerifierJournalRecord \<Rightarrow> string \<Rightarrow> string option \<Rightarrow> string option \<Rightarrow> VerifierJournalRecord res" where
  "next_record clock current new_state failure_code reason =
     rbind (now_ns clock) (\<lambda>now.
     validate_record (JObj (as_dict_record
       \<lparr>j_schema_version = JOURNAL_SCHEMA_VERSION, j_journal_id = JOURNAL_ID, j_hash = j_hash current,
        j_task_id = j_task_id current, j_attempt = j_attempt current, j_actor = j_actor current,
        j_run_id = j_run_id current, j_state = new_state, j_previous = Some (j_state current),
        j_revision = j_revision current + 1, j_created = j_created current,
        j_updated = max (j_updated current) now,
        j_failure = (case failure_code of None \<Rightarrow> j_failure current | Some c \<Rightarrow> Some c), j_reason = reason\<rparr>)))"

definition replace_record :: "VerifierJournalRecord \<Rightarrow> journal \<Rightarrow> unit res \<times> journal" where
  "replace_record r j =
     keep j (journal_json_bytes (JObj (as_dict_record r))) (\<lambda>payload.
     replace_entry (record_name (j_hash r)) payload j)"

definition journal_transition ::
  "int \<Rightarrow> string \<Rightarrow> string \<Rightarrow> int option \<Rightarrow> string option \<Rightarrow> string option \<Rightarrow> journal
    \<Rightarrow> VerifierJournalRecord res \<times> journal" where
  "journal_transition clock h new_state expected_revision failure_code reason j =
     keep j (validate_dispatch_hash (JStr h)) (\<lambda>h.
     keep j (ensure (new_state \<notin> {''CRASH_ABORTED'', ''FAILED_CLEANUP_REQUIRED''}) VerifierJournalError '''') (\<lambda>_.
     keep j (load j h) (\<lambda>current.
     keep j (ensure (case expected_revision of None \<Rightarrow> True | Some n \<Rightarrow> j_revision current = n) VerifierJournalError
               ''Journal revision changed concurrently'') (\<lambda>_.
     keep j (case map_of ALLOWED_TRANSITIONS (j_state current) of
               None \<Rightarrow> raise KeyError (j_state current)
             | Some targets \<Rightarrow> ensure (new_state \<in> set targets) VerifierJournalError
                                 ''Illegal verifier journal transition: '') (\<lambda>_.
     keep j (next_record clock current new_state failure_code reason) (\<lambda>updated.
     andthen (replace_record updated j) (\<lambda>_ j. (Inr updated, j))))))))"

definition mark_failed :: "int \<Rightarrow> string \<Rightarrow> string \<Rightarrow> journal \<Rightarrow> VerifierJournalRecord res \<times> journal" where
  "mark_failed clock h failure_code = journal_transition clock h ''FAILED'' None (Some failure_code) None"

definition quarantine :: "int \<Rightarrow> string \<Rightarrow> string \<Rightarrow> string \<Rightarrow> journal \<Rightarrow> VerifierJournalRecord res \<times> journal" where
  "quarantine clock h failure_code reason =
     journal_transition clock h ''QUARANTINED'' None (Some failure_code) (Some reason)"

definition recovery_target :: "string \<Rightarrow> string \<times> string" where
  "recovery_target st =
     (if st = ''EXECUTING'' then (''CRASH_ABORTED'', ''verifier_crash_during_execution'')
      else (''FAILED_CLEANUP_REQUIRED'', ''verifier_restart_after_snapshot''))"

definition recover :: "int \<Rightarrow> string \<Rightarrow> journal \<Rightarrow> VerifierJournalRecord res \<times> journal" where
  "recover clock h j =
     keep j (validate_dispatch_hash (JStr h)) (\<lambda>h.
     keep j (load j h) (\<lambda>current.
     if j_state current \<notin> {''EXECUTING'', ''SNAPSHOT_ACQUIRED''} then (Inr current, j)
     else
       keep j (next_record clock current (fst (recovery_target (j_state current)))
                 (Some (snd (recovery_target (j_state current)))) None) (\<lambda>aborted.
       andthen (replace_record aborted j) (\<lambda>_ j. (Inr aborted, j)))))"

text \<open>\<open>clocks k\<close> is the reading of the clock while the \<open>k\<close>-th record is recovered.\<close>

fun recover_each ::
  "(nat \<Rightarrow> int) \<Rightarrow> nat \<Rightarrow> VerifierJournalRecord list \<Rightarrow> journal \<Rightarrow> VerifierJournalRecord list res \<times> journal" where
  "recover_each clocks k [] j = (Inr [], j)"
| "recover_each clocks k (r # rs) j =
     andthen (recover (clocks k) (j_hash r) j) (\<lambda>a j.
     andthen (recover_each clocks (Suc k) rs j) (\<lambda>as j. (Inr (a # as), j)))"

definition recover_all :: "(nat \<Rightarrow> int) \<Rightarrow> journal \<Rightarrow> VerifierJournalRecord list res \<times> journal" where
  "recover_all clocks j = keep j (list_records j) (\<lambda>rs. recover_each clocks 0 rs j)"

section \<open>Claiming a dispatch\<close>

definition identity_of_record :: "VerifierJournalRecord \<Rightarrow> identity" where
  "identity_of_record r = (j_hash r, j_task_id r, j_attempt r, j_actor r, j_run_id r)"

definition requested_record :: "int \<Rightarrow> identity \<Rightarrow> VerifierJournalRecord" where
  "requested_record now ident =
     (case ident of (h, task, attempt, act, run) \<Rightarrow>
       \<lparr>j_schema_version = JOURNAL_SCHEMA_VERSION, j_journal_id = JOURNAL_ID, j_hash = h, j_task_id = task,
        j_attempt = attempt, j_actor = act, j_run_id = run, j_state = ''REQUESTED'', j_previous = None,
        j_revision = 0, j_created = now, j_updated = now, j_failure = None, j_reason = None\<rparr>)"

definition validated_identity :: "identity \<Rightarrow> identity res" where
  "validated_identity ident =
     rbind (validate_record (JObj (as_dict_record (requested_record 0 ident)))) (\<lambda>r. Inr (identity_of_record r))"

definition require_same_identity :: "VerifierJournalRecord \<Rightarrow> identity \<Rightarrow> unit res" where
  "require_same_identity r ident =
     ensure (identity_of_record r = ident) VerifierJournalError
       ''Duplicate dispatch hash has different bounded identifiers''"

definition claim_marker :: "int \<Rightarrow> identity \<Rightarrow> dict" where
  "claim_marker now ident =
     (case ident of (h, task, attempt, act, run) \<Rightarrow>
       [(''schema_version'', JInt JOURNAL_SCHEMA_VERSION), (''journal_id'', JStr JOURNAL_ID),
        (''dispatch_event_hash'', JStr h), (''task_id'', JStr task), (''attempt'', JInt attempt), (''actor'', JStr act),
        (''run_id'', JStr run), (''claimed_at_ns'', JInt now)])"

definition validate_claim_marker :: "dict \<Rightarrow> identity \<Rightarrow> unit res" where
  "validate_claim_marker marker ident =
     rbind (ensure (py_eq (dget marker ''schema_version'') (JInt JOURNAL_SCHEMA_VERSION)) VerifierJournalError
              ''Unsupported claim marker schema version'') (\<lambda>_.
     rbind (ensure (py_eq (dget marker ''journal_id'') (JStr JOURNAL_ID)) VerifierJournalError
              ''Unexpected claim marker identifier'') (\<lambda>_.
     rbind (ensure (case strict_int (dget marker ''claimed_at_ns'') of None \<Rightarrow> False
                    | Some n \<Rightarrow> 0 \<le> n \<and> n \<le> 2 ^ 63 - 1) VerifierJournalError ''Invalid claim marker timestamp'') (\<lambda>_.
     rbind (validate_dispatch_hash (dget marker ''dispatch_event_hash'')) (\<lambda>h.
     rbind (validate_utf8_identifier MAX_TASK_ID_BYTES j_TASK_ID_RE (dget marker ''task_id'')) (\<lambda>task.
     rbind (validate_utf8_identifier MAX_ACTOR_BYTES ACTOR_RE (dget marker ''actor'')) (\<lambda>act.
     rbind (validate_utf8_identifier 32 (fullmatch_hex 32) (dget marker ''run_id'')) (\<lambda>run.
     rbind (case strict_int (dget marker ''attempt'') of
              None \<Rightarrow> raise VerifierJournalError ''Invalid claim marker attempt''
            | Some n \<Rightarrow> if n < 1 \<or> MAX_ATTEMPT < n then raise VerifierJournalError ''Invalid claim marker attempt''
                        else Inr n) (\<lambda>attempt.
     ensure ((h, task, attempt, act, run) = ident) VerifierJournalError
       ''Claim marker identity does not match dispatch''))))))))"

definition request_dispatch :: "int \<Rightarrow> identity \<Rightarrow> journal \<Rightarrow> (VerifierJournalRecord \<times> bool) res \<times> journal" where
  "request_dispatch clock ident j =
     (case load j (fst ident) of
        Inr r \<Rightarrow> (Inr (r, False), j)
      | Inl e \<Rightarrow>
          if \<not> exn_isinstance (exn_class_of e) FileNotFoundError then (Inl e, j)
          else
            keep j (ensure_capacity_for_new_record j) (\<lambda>_.
            keep j (now_ns clock) (\<lambda>now.
            keep j (journal_json_bytes (JObj (as_dict_record (requested_record now ident)))) (\<lambda>payload.
            case write_exclusive (record_name (fst ident)) payload j of
              (Inr _, j') \<Rightarrow> (Inr (requested_record now ident, True), j')
            | (Inl e, j') \<Rightarrow>
                if exn_isinstance (exn_class_of e) FileExistsError
                then keep j' (load j' (fst ident)) (\<lambda>r. (Inr (r, False), j')) else (Inl e, j')))))"

definition acquire_claim :: "int \<Rightarrow> identity \<Rightarrow> journal \<Rightarrow> bool res \<times> journal" where
  "acquire_claim clock ident j =
     keep j (now_ns clock) (\<lambda>now.
     keep j (journal_json_bytes (JObj (claim_marker now ident))) (\<lambda>payload.
     case write_exclusive (claim_name (fst ident)) payload j of
       (Inr _, j') \<Rightarrow> (Inr True, j')
     | (Inl e, j') \<Rightarrow>
         if exn_isinstance (exn_class_of e) FileExistsError
         then keep j' (read_json_exact j' (claim_name (fst ident)) j_CLAIM_KEYS) (\<lambda>marker.
              keep j' (validate_claim_marker marker ident) (\<lambda>_. (Inr False, j')))
         else (Inl e, j')))"

definition finish_claim :: "int \<Rightarrow> identity \<Rightarrow> bool \<Rightarrow> bool \<Rightarrow> journal \<Rightarrow> VerifierJournalClaim res \<times> journal" where
  "finish_claim clock ident is_new acquired j =
     keep j (load j (fst ident)) (\<lambda>r.
     andthen (if j_state r = ''REQUESTED''
              then journal_transition clock (fst ident) ''CLAIMED'' (Some (j_revision r)) None None j
              else (Inr r, j)) (\<lambda>r j.
     (Inr \<lparr>claim_record = r, new_dispatch = is_new, claim_acquired = acquired\<rparr>, j)))"

text \<open>\<open>clocks\<close> are the readings for the record, for the claim marker and for the transition.\<close>

definition claim_dispatch ::
  "(nat \<Rightarrow> int) \<Rightarrow> identity \<Rightarrow> journal \<Rightarrow> VerifierJournalClaim res \<times> journal" where
  "claim_dispatch clocks ident j =
     keep j (validated_identity ident) (\<lambda>ident.
     andthen (request_dispatch (clocks 0) ident j) (\<lambda>(r, is_new) j.
     keep j (require_same_identity r ident) (\<lambda>_.
     andthen (acquire_claim (clocks 1) ident j) (\<lambda>acquired j.
     finish_claim (clocks 2) ident is_new acquired j))))"

end
