(* ===== verification/Machines.thy ===== *)
theory Machines
  imports Main
begin

text \<open>
  Two contracts that several components satisfy: a register whose entries are taken at most once,
  and a state machine whose steps climb a rank. The lemmas are proved here from the laws alone.
\<close>

text \<open>A history: a list of states in which each one follows from the one before by a step.\<close>

definition history :: "('s \<Rightarrow> 's \<Rightarrow> bool) \<Rightarrow> 's list \<Rightarrow> bool" where
  "history step ss \<longleftrightarrow> (\<forall>i. Suc i < length ss \<longrightarrow> step (ss ! i) (ss ! Suc i))"

lemma history_step: "history step ss \<Longrightarrow> Suc i < length ss \<Longrightarrow> step (ss ! i) (ss ! Suc i)"
  by (simp add: history_def)

lemma history_invariant:
  assumes "history step ss" "\<And>s t. step s t \<Longrightarrow> P s \<Longrightarrow> P t" "i \<le> k" "k < length ss" "P (ss ! i)"
  shows "P (ss ! k)"
  using assms(3,4)
proof (induction k rule: dec_induct)
  case base
  then show ?case using assms(5) by simp
next
  case (step n)
  then show ?case using assms(2) [OF history_step [OF assms(1), of n]] by simp
qed

section \<open>Registers that are taken at most once\<close>

locale exclusive_register =
  fixes step :: "'s \<Rightarrow> 's \<Rightarrow> bool"
    and taken :: "'k \<Rightarrow> 's \<Rightarrow> bool"
    and acquire :: "'k \<Rightarrow> 's \<Rightarrow> 's \<Rightarrow> bool"
  assumes taken_kept: "step s t \<Longrightarrow> taken k s \<Longrightarrow> taken k t"
    and acquire_fresh: "acquire k s t \<Longrightarrow> \<not> taken k s"
    and acquire_takes: "acquire k s t \<Longrightarrow> taken k t"
begin

lemma never_again:
  assumes "history step ss" "i < n" "Suc n < length ss" "acquire k (ss ! i) (ss ! Suc i)"
  shows "\<not> acquire k (ss ! n) (ss ! Suc n)"
proof -
  have "taken k (ss ! Suc i)" using assms(4) by (rule acquire_takes)
  have "taken k (ss ! n)"
  proof (rule history_invariant [where P = "taken k" and i = "Suc i"])
    show "taken k t" if "step s t" "taken k s" for s t using that by (rule taken_kept)
  qed (use assms \<open>taken k (ss ! Suc i)\<close> in simp_all)
  then show ?thesis using acquire_fresh by blast
qed

lemma acquired_once:
  assumes "history step ss" "Suc i < length ss" "Suc n < length ss"
    and "acquire k (ss ! i) (ss ! Suc i)" "acquire k (ss ! n) (ss ! Suc n)"
  shows "i = n"
  using never_again [OF assms(1), of i n k] never_again [OF assms(1), of n i k] assms(2-5) by (meson linorder_neqE_nat)

end

section \<open>Machines that climb a rank\<close>

locale ranked_machine =
  fixes edge :: "'s \<Rightarrow> 's \<Rightarrow> bool"
    and rank :: "'s \<Rightarrow> nat"
  assumes climbs: "edge s t \<Longrightarrow> rank s < rank t"
begin

lemma acyclic: "\<not> edge\<^sup>+\<^sup>+ s s"
proof
  have "edge\<^sup>+\<^sup>+ s t \<Longrightarrow> rank s < rank t" for t
    by (induction rule: tranclp_induct) (auto dest: climbs)
  then show "edge\<^sup>+\<^sup>+ s s \<Longrightarrow> False" by blast
qed

lemma path_bound: "(edge ^^ n) s t \<Longrightarrow> rank s + n \<le> rank t"
  by (induction n arbitrary: t) (fastforce dest: climbs)+

end

end
