(* ===== verification/Journal_Safety.thy ===== *)
theory Journal_Safety
  imports Journal Machines
begin

text \<open>
  What the verifier journal guarantees. The records as an abstract machine come first, then the
  directory of bytes as a step relation that includes crashes, and the refinement between them.
\<close>

section \<open>Valid records\<close>

lemma validate_dispatch_hash_Inr [simp]:
  "validate_dispatch_hash v = Inr s \<longleftrightarrow> v = JStr s \<and> fullmatch_hex 64 s"
  by (cases v) (auto simp: validate_dispatch_hash_def)

lemma validate_utf8_identifier_Inr [simp]:
  "validate_utf8_identifier n p v = Inr s \<longleftrightarrow> v = JStr s \<and> p s \<and> length s \<le> n"
  by (cases v) (auto simp: validate_utf8_identifier_def)

definition text_ok :: "nat \<Rightarrow> string option \<Rightarrow> bool" where
  "text_ok n x = (case x of None \<Rightarrow> True
     | Some s \<Rightarrow> s \<noteq> [] \<and> utf8_valid s \<and> length s \<le> n \<and> (\<forall>c\<in>set s. 32 \<le> (of_char c :: nat)))"

lemma validate_optional_text_Inr [simp]:
  "validate_optional_text n v = Inr x \<longleftrightarrow> v = opt_str x \<and> text_ok n x"
proof (cases v)
  case (JStr s)
  then show ?thesis by (cases x) (auto simp: validate_optional_text_def text_ok_def opt_str_def not_less leD)
qed (auto simp: validate_optional_text_def text_ok_def opt_str_def split: option.splits)

lemma validate_attempt_Inr [simp]: "validate_attempt v = Inr n \<longleftrightarrow> v = JInt n \<and> 1 \<le> n \<and> n \<le> MAX_ATTEMPT"
  by (cases v) (auto simp: validate_attempt_def)

lemma validate_state_Inr [simp]: "validate_state v = Inr s \<longleftrightarrow> v = JStr s \<and> s \<in> set ALL_STATES"
  by (cases v) (auto simp: validate_state_def)

lemma validate_previous_Inr [simp]:
  "validate_previous v = Inr x \<longleftrightarrow> v = opt_str x \<and> (\<forall>s. x = Some s \<longrightarrow> s \<in> set ALL_STATES)"
  by (cases v) (auto simp: validate_previous_def opt_str_def split: option.splits)

lemma bounded_number_Inr [simp]: "bounded_number v = Inr n \<longleftrightarrow> v = JInt n \<and> 0 \<le> n \<and> n \<le> 2 ^ 63 - 1"
  by (cases v) (auto simp: bounded_number_def)

lemma opt_str_inject [simp]: "opt_str x = opt_str y \<longleftrightarrow> x = y"
  by (auto simp: opt_str_def split: option.splits)

text \<open>The records that validation accepts, field by field.\<close>

definition times_ok :: "VerifierJournalRecord \<Rightarrow> bool" where
  "times_ok r \<longleftrightarrow> 0 \<le> j_revision r \<and> j_revision r \<le> 2 ^ 63 - 1 \<and> 0 \<le> j_created r \<and> j_created r \<le> j_updated r
     \<and> j_updated r \<le> 2 ^ 63 - 1 \<and> (j_revision r = 0 \<longleftrightarrow> j_previous r = None)"

definition failure_ok :: "VerifierJournalRecord \<Rightarrow> bool" where
  "failure_ok r \<longleftrightarrow> check_failure (j_state r) (j_failure r) (j_reason r) = Inr ()"

definition identity_ok :: "identity \<Rightarrow> bool" where
  "identity_ok ident = (case ident of (h, task, attempt, act, run) \<Rightarrow>
     fullmatch_hex 64 h \<and> j_TASK_ID_RE task \<and> ACTOR_RE act \<and> fullmatch_hex 32 run \<and> 1 \<le> attempt \<and> attempt \<le> MAX_ATTEMPT)"

definition record_ok :: "VerifierJournalRecord \<Rightarrow> bool" where
  "record_ok r \<longleftrightarrow> j_schema_version r = JOURNAL_SCHEMA_VERSION \<and> j_journal_id r = JOURNAL_ID
     \<and> identity_ok (identity_of_record r) \<and> j_state r \<in> set ALL_STATES
     \<and> (\<forall>s. j_previous r = Some s \<longrightarrow> s \<in> set ALL_STATES) \<and> times_ok r
     \<and> text_ok MAX_FAILURE_CODE_BYTES (j_failure r) \<and> (\<forall>c. j_failure r = Some c \<longrightarrow> FAILURE_CODE_RE c)
     \<and> text_ok MAX_QUARANTINE_REASON_BYTES (j_reason r) \<and> failure_ok r"

lemma id_lengths:
  "j_TASK_ID_RE s \<Longrightarrow> length s \<le> MAX_TASK_ID_BYTES" "ACTOR_RE s \<Longrightarrow> length s \<le> MAX_ACTOR_BYTES"
  "fullmatch_hex n s \<Longrightarrow> length s \<le> n"
  by (auto simp: j_TASK_ID_RE_def ACTOR_RE_def MAX_TASK_ID_BYTES_def MAX_ACTOR_BYTES_def fullmatch_exact_def
      dest!: fullmatch_head_rest_length)

lemma check_times_Inr [simp]:
  "check_times n p c u = Inr x \<longleftrightarrow> c \<le> u \<and> (n = 0 \<longrightarrow> p = None) \<and> (0 < n \<longrightarrow> p \<noteq> None)"
  by (auto simp: check_times_def)

lemma record_keys: "exact_keys (as_dict_record r) j_RECORD_KEYS"
  by (simp add: exact_keys_def as_dict_record_def j_RECORD_KEYS_def)

lemma dget_record [simp]:
  "dget_or (as_dict_record r) ''schema_version'' w = JInt (j_schema_version r)"
  "dget_or (as_dict_record r) ''journal_id'' w = JStr (j_journal_id r)"
  "dget_or (as_dict_record r) ''dispatch_event_hash'' w = JStr (j_hash r)"
  "dget_or (as_dict_record r) ''task_id'' w = JStr (j_task_id r)"
  "dget_or (as_dict_record r) ''attempt'' w = JInt (j_attempt r)"
  "dget_or (as_dict_record r) ''actor'' w = JStr (j_actor r)"
  "dget_or (as_dict_record r) ''run_id'' w = JStr (j_run_id r)"
  "dget_or (as_dict_record r) ''state'' w = JStr (j_state r)"
  "dget_or (as_dict_record r) ''previous_state'' w = opt_str (j_previous r)"
  "dget_or (as_dict_record r) ''revision'' w = JInt (j_revision r)"
  "dget_or (as_dict_record r) ''created_at_ns'' w = JInt (j_created r)"
  "dget_or (as_dict_record r) ''updated_at_ns'' w = JInt (j_updated r)"
  "dget_or (as_dict_record r) ''failure_code'' w = opt_str (j_failure r)"
  "dget_or (as_dict_record r) ''quarantine_reason'' w = opt_str (j_reason r)"
  by (simp_all add: as_dict_record_def)

lemma record_identity_Inr:
  "record_identity d = Inr (h, task, attempt, act, run) \<longleftrightarrow> identity_ok (h, task, attempt, act, run)
     \<and> dget d ''dispatch_event_hash'' = JStr h \<and> dget d ''task_id'' = JStr task \<and> dget d ''attempt'' = JInt attempt
     \<and> dget d ''actor'' = JStr act \<and> dget d ''run_id'' = JStr run"
  by (auto simp: record_identity_def identity_ok_def id_lengths)

lemma record_progress_Inr:
  "record_progress d = Inr (st, p, n, c, u) \<longleftrightarrow> st \<in> set ALL_STATES \<and> (\<forall>s. p = Some s \<longrightarrow> s \<in> set ALL_STATES)
     \<and> 0 \<le> n \<and> n \<le> 2 ^ 63 - 1 \<and> 0 \<le> c \<and> c \<le> u \<and> u \<le> 2 ^ 63 - 1 \<and> (n = 0 \<longleftrightarrow> p = None)
     \<and> dget d ''state'' = JStr st \<and> dget d ''previous_state'' = opt_str p \<and> dget d ''revision'' = JInt n
     \<and> dget d ''created_at_ns'' = JInt c \<and> dget d ''updated_at_ns'' = JInt u"
  by (auto simp: record_progress_def)

lemma record_failure_Inr:
  "record_failure d st = Inr (fc, reason) \<longleftrightarrow> text_ok MAX_FAILURE_CODE_BYTES fc \<and> (\<forall>c. fc = Some c \<longrightarrow> FAILURE_CODE_RE c)
     \<and> text_ok MAX_QUARANTINE_REASON_BYTES reason \<and> check_failure st fc reason = Inr ()
     \<and> dget d ''failure_code'' = opt_str fc \<and> dget d ''quarantine_reason'' = opt_str reason"
  by (auto simp: record_failure_def split: option.splits)

lemma record_fields_ok: "record_fields d = Inr r \<Longrightarrow> record_ok r"
  by (auto simp: record_fields_def record_identity_Inr record_progress_Inr record_failure_Inr record_ok_def
      times_ok_def failure_ok_def identity_of_record_def)

lemma record_fields_of: "record_fields (as_dict_record r) = Inr r' \<longleftrightarrow> r' = r \<and> record_ok r"
proof
  assume "record_fields (as_dict_record r) = Inr r'"
  moreover from this have "r' = r"
    by (cases r) (auto simp: record_fields_def record_identity_Inr record_progress_Inr record_failure_Inr)
  ultimately show "r' = r \<and> record_ok r" using record_fields_ok by blast
next
  assume "r' = r \<and> record_ok r"
  then show "record_fields (as_dict_record r) = Inr r'"
    by (cases r) (auto simp: record_fields_def record_identity_Inr record_progress_Inr record_failure_Inr record_ok_def
      times_ok_def failure_ok_def identity_of_record_def)
qed

lemma validate_record_of [simp]: "validate_record (JObj (as_dict_record r)) = Inr r' \<longleftrightarrow> r' = r \<and> record_ok r"
  by (simp add: validate_record_def record_keys record_fields_of)

section \<open>The bytes of a record\<close>

text \<open>A flat document: its values are strings, integers or null, with distinct keys.\<close>

fun flat_value :: "json \<Rightarrow> bool" where
  "flat_value JNull = True"
| "flat_value (JInt n) = True"
| "flat_value (JStr s) = utf8_valid s"
| "flat_value _ = False"

definition flat :: "dict \<Rightarrow> bool" where
  "flat d \<longleftrightarrow> distinct (map fst d) \<and> (\<forall>p\<in>set d. utf8_valid (fst p) \<and> flat_value (snd p))"

lemma flat_value_simps:
  "flat_value v \<Longrightarrow> sort_keys v = v" "flat_value v \<Longrightarrow> json_finite v" "flat_value v \<Longrightarrow> json_utf8 v" "flat_value v \<Longrightarrow> wf_json v"
  by (cases v; simp)+

lemma flat_sort_keys: "flat d \<Longrightarrow> sort_keys (JObj d) = JObj (sort_key fst d)"
proof -
  assume "flat d"
  then have "map (map_prod (\<lambda>k. k) sort_keys) d = d"
    by (intro map_idI) (auto simp: flat_def flat_value_simps)
  then show ?thesis by simp
qed

lemma flat_document:
  assumes "flat d"
  shows "json_finite (JObj d)" "json_utf8 (JObj d)" "wf_json (JObj d)"
  using assms by (auto simp: flat_def wf_json_JObj list_all_iff flat_value_simps)

lemma flat_loads:
  assumes "flat d"
  shows "loads (canonical_json (JObj d) @ [CHR 0x0A]) = Some (JObj (sort_key fst d))"
  using loads_dumps [of "[]" "[]" "[CHR 0x0A]" "JObj d"] flat_document(3) [OF assms] flat_sort_keys [OF assms]
  by (simp add: canonical_json_def is_json_ws_def)

lemma canonical_sort_key: "flat d \<Longrightarrow> canonical_json (JObj (sort_key fst d)) = canonical_json (JObj d)"
  by (metis canonical_json_def dumps_sort_keys flat_sort_keys)

lemma flat_sorted: "flat d \<Longrightarrow> flat (sort_key fst d)"
  by (auto simp: flat_def distinct_sort_key)

lemma flat_encoded: "flat d \<Longrightarrow> encode_strict (JObj d) = Some (canonical_json (JObj d))"
  using flat_document [of d] by (simp only: encode_strict_Some)

lemma journal_json_bytes_flat:
  "flat d \<Longrightarrow> journal_json_bytes (JObj d) = Inr raw \<longleftrightarrow>
     raw = canonical_json (JObj d) @ [CHR 0x0A] \<and> length raw \<le> MAX_JOURNAL_RECORD_BYTES"
  by (auto simp: journal_json_bytes_def flat_encoded Let_def)

lemma endswith_snoc [simp]: "endswith (s @ [c]) [d] \<longleftrightarrow> c = d"
  by (simp add: endswith_def)

lemma read_bounded_Inr [simp]:
  "read_bounded j name = Inr raw \<longleftrightarrow> safe_root j = Inr () \<and> map_of (entries j) name = Some (Regular raw)
     \<and> length raw \<le> MAX_JOURNAL_RECORD_BYTES"
  by (auto simp: read_bounded_def split: option.splits entry.splits)

text \<open>Reading back what was written.\<close>

lemma read_stored:
  assumes "flat d" "journal_json_bytes (JObj d) = Inr raw" "exact_keys d ks"
    and "safe_root j = Inr ()" "map_of (entries j) name = Some (Regular raw)"
  shows "read_json_exact j name ks = Inr (sort_key fst d)"
proof -
  have raw: "raw = canonical_json (JObj d) @ [CHR 0x0A]" "length raw \<le> MAX_JOURNAL_RECORD_BYTES"
    using journal_json_bytes_flat [OF assms(1)] assms(2) by blast+
  have "utf8_valid raw"
    using flat_document(2) [OF assms(1)] utf8_valid_dumps [of "'',''" "'':''" "JObj d"]
      utf8_valid_append [of "canonical_json (JObj d)" "[CHR 0x0A]"] raw(1) by (simp add: canonical_json_def)
  moreover have "journal_json_bytes (JObj (sort_key fst d)) = Inr raw"
    unfolding journal_json_bytes_flat [OF flat_sorted [OF assms(1)]] canonical_sort_key [OF assms(1)] using raw by blast
  moreover have "exact_keys (sort_key fst d) ks" using assms(3) by (simp add: exact_keys_iff)
  moreover have "read_bounded j name = Inr raw" using assms(4,5) raw(2) by simp
  moreover have "endswith raw [CHR 0x0A]" by (simp add: raw(1))
  ultimately show ?thesis
    using flat_loads [OF assms(1)] by (simp add: read_json_exact_def raw(1) del: read_bounded_Inr)
qed

lemma utf8_valid_chars: "\<forall>c\<in>set s. (of_char c :: nat) < 128 \<Longrightarrow> utf8_valid s"
  by (rule utf8_valid_ascii) (simp add: list_all_iff)

lemma id_chars:
  "fullmatch_hex n s \<Longrightarrow> \<forall>c\<in>set s. 32 < (of_char c :: nat) \<and> (of_char c :: nat) < 128"
  "j_TASK_ID_RE s \<Longrightarrow> \<forall>c\<in>set s. 32 < (of_char c :: nat) \<and> (of_char c :: nat) < 128"
  "ACTOR_RE s \<Longrightarrow> \<forall>c\<in>set s. 32 < (of_char c :: nat) \<and> (of_char c :: nat) < 128"
  by (auto simp: fullmatch_exact_def j_TASK_ID_RE_def ACTOR_RE_def fullmatch_head_rest_def list_all_iff id_char_def
      lower_id_char_def lower_start_def char_class_defs split: list.splits)

lemma state_chars: "s \<in> set ALL_STATES \<Longrightarrow> list_all plain_char s \<and> length s \<le> 23"
  by (auto simp: ALL_STATES_def NORMAL_STATES_def FAILURE_STATES_def plain_char_def)

lemma utf8_state: "s \<in> set ALL_STATES \<Longrightarrow> utf8_valid s"
  using state_chars utf8_valid_plain by blast

lemma journal_id_plain: "list_all plain_char JOURNAL_ID" "length JOURNAL_ID = 28"
  by (simp_all add: JOURNAL_ID_def plain_char_def)

lemma key_utf8: "\<forall>k\<in>set j_RECORD_KEYS \<union> set j_CLAIM_KEYS. list_all plain_char k \<and> length k \<le> 19"
  by (simp add: j_RECORD_KEYS_def j_CLAIM_KEYS_def plain_char_def)

lemma flat_keys:
  assumes "map fst d = ks" "distinct ks" "set ks \<subseteq> set j_RECORD_KEYS \<union> set j_CLAIM_KEYS"
    and "\<forall>p\<in>set d. flat_value (snd p)"
  shows "flat d"
proof -
  have "utf8_valid (fst p)" if "p \<in> set d" for p
  proof -
    from that have "fst p \<in> set ks" unfolding assms(1) [symmetric] by simp
    then show ?thesis using assms(3) key_utf8 utf8_valid_plain by blast
  qed
  then show ?thesis using assms by (simp add: flat_def)
qed

lemma record_flat: "record_ok r \<Longrightarrow> flat (as_dict_record r)"
proof (rule flat_keys [of _ j_RECORD_KEYS])
  assume r: "record_ok r"
  show "\<forall>p\<in>set (as_dict_record r). flat_value (snd p)"
    using r by (auto simp: as_dict_record_def record_ok_def identity_ok_def identity_of_record_def opt_str_def text_ok_def
        utf8_state utf8_valid_plain journal_id_plain id_chars utf8_valid_chars split: option.splits)
qed (simp_all add: as_dict_record_def j_RECORD_KEYS_def)

lemma marker_flat: "identity_ok ident \<Longrightarrow> flat (claim_marker now ident)"
proof (rule flat_keys [of _ j_CLAIM_KEYS])
  assume "identity_ok ident"
  then show "\<forall>p\<in>set (claim_marker now ident). flat_value (snd p)"
    by (auto simp: claim_marker_def identity_ok_def utf8_valid_plain journal_id_plain id_chars utf8_valid_chars
        split: prod.splits)
qed (simp_all add: claim_marker_def j_CLAIM_KEYS_def split: prod.splits)

text \<open>No valid record exceeds the size limit.\<close>

lemma quote_text: "\<forall>c\<in>set s. 32 \<le> (of_char c :: nat) \<Longrightarrow> length (quote s) \<le> 2 * length s + 2"
  using length_esc [of s] by (simp add: quote_def)

lemma quote_plain: "list_all plain_char s \<Longrightarrow> length (quote s) \<le> 2 * length s + 2"
  by (rule quote_text) (auto simp: list_all_iff plain_char_def)

lemma length_show_int: "0 \<le> n \<Longrightarrow> n \<le> 2 ^ 63 - 1 \<Longrightarrow> length (show_int n) \<le> 19"
proof -
  assume n: "0 \<le> n" "n \<le> 2 ^ 63 - 1"
  then have "nat n < 10 ^ 19" by (simp add: nat_less_iff)
  then show ?thesis using n(1) length_show_nat [of 19 "nat n"] by (simp add: show_int_def)
qed

definition value_bound :: "json \<Rightarrow> nat \<Rightarrow> bool" where
  "value_bound v n \<longleftrightarrow> length (dumps '','' '':'' v) \<le> n"

lemma bounded_object:
  assumes "list_all2 (\<lambda>p n. value_bound (snd p) n \<and> list_all plain_char (fst p) \<and> length (fst p) \<le> 19) d ns"
  shows "length (dumps '','' '':'' (JObj d)) \<le> 2 + sum_list (map (\<lambda>n. n + 42) ns)"
proof -
  have "sum_list (map (\<lambda>(k, v). length (quote k) + length (dumps '','' '':'' v) + 2) d) \<le> sum_list (map (\<lambda>n. n + 42) ns)"
    using assms
  proof (induction rule: list_all2_induct)
    case (Cons p ps n ns)
    then have "length (quote (fst p)) \<le> 40" using quote_plain [of "fst p"] by simp
    then show ?case using Cons by (simp add: value_bound_def case_prod_beta)
  qed simp
  then show ?thesis using length_dumps_object [of d] by linarith
qed

lemma value_bound_int: "0 \<le> n \<Longrightarrow> n \<le> 2 ^ 63 - 1 \<Longrightarrow> value_bound (JInt n) 19"
  using length_show_int by (simp add: value_bound_def)

lemma value_bound_str:
  "\<forall>c\<in>set s. 32 \<le> (of_char c :: nat) \<Longrightarrow> length s \<le> m \<Longrightarrow> value_bound (JStr s) (2 * m + 2)"
  using quote_text [of s] by (simp add: value_bound_def)

lemma value_bound_opt: "text_ok m x \<Longrightarrow> value_bound (opt_str x) (2 * m + 4)"
  using quote_text by (fastforce simp: value_bound_def text_ok_def opt_str_def split: option.splits)

lemma value_bound_state: "\<forall>s. x = Some s \<longrightarrow> s \<in> set ALL_STATES \<Longrightarrow> value_bound (opt_str x) 48"
  using quote_plain state_chars by (fastforce simp: value_bound_def opt_str_def split: option.splits)

lemma identity_bounds:
  assumes "identity_ok (h, task, attempt, act, run)"
  shows "value_bound (JStr h) 130" "value_bound (JStr task) 162" "value_bound (JInt attempt) 19"
    "value_bound (JStr act) 102" "value_bound (JStr run) 66"
proof -
  have chars: "\<forall>c\<in>set h. 32 \<le> (of_char c :: nat)" "\<forall>c\<in>set task. 32 \<le> (of_char c :: nat)"
    "\<forall>c\<in>set act. 32 \<le> (of_char c :: nat)" "\<forall>c\<in>set run. 32 \<le> (of_char c :: nat)"
    using assms id_chars by (fastforce simp: identity_ok_def)+
  have "length h \<le> 64" "length task \<le> 80" "length act \<le> 50" "length run \<le> 32"
    using assms id_lengths by (auto simp: identity_ok_def MAX_TASK_ID_BYTES_def MAX_ACTOR_BYTES_def)
  from this [THEN value_bound_str [rotated]] chars
  show "value_bound (JStr h) 130" "value_bound (JStr task) 162" "value_bound (JStr act) 102" "value_bound (JStr run) 66"
    by simp_all
  show "value_bound (JInt attempt) 19" using assms by (intro value_bound_int) (auto simp: identity_ok_def MAX_ATTEMPT_def)
qed

lemma constant_bounds: "value_bound (JInt JOURNAL_SCHEMA_VERSION) 19" "value_bound (JStr JOURNAL_ID) 58"
  using value_bound_int [of JOURNAL_SCHEMA_VERSION] value_bound_str [of JOURNAL_ID 28] journal_id_plain
  by (auto simp: JOURNAL_SCHEMA_VERSION_def list_all_iff plain_char_def)

lemma record_fits:
  assumes "record_ok r"
  shows "\<exists>raw. journal_json_bytes (JObj (as_dict_record r)) = Inr raw"
proof -
  have st: "value_bound (JStr (j_state r)) 48"
    using value_bound_state [of "Some (j_state r)"] assms by (simp add: record_ok_def opt_str_def)
  have ints: "value_bound (JInt (j_revision r)) 19" "value_bound (JInt (j_created r)) 19" "value_bound (JInt (j_updated r)) 19"
    using assms by (auto intro!: value_bound_int simp: record_ok_def times_ok_def)
  have opts: "value_bound (opt_str (j_failure r)) 132" "value_bound (opt_str (j_reason r)) 1028"
    "value_bound (opt_str (j_previous r)) 48" "j_schema_version r = JOURNAL_SCHEMA_VERSION" "j_journal_id r = JOURNAL_ID"
    using assms value_bound_opt [of 64 "j_failure r"] value_bound_opt [of 512 "j_reason r"] value_bound_state [of "j_previous r"]
    by (simp_all add: record_ok_def MAX_FAILURE_CODE_BYTES_def MAX_QUARANTINE_REASON_BYTES_def)
  have ident: "identity_ok (j_hash r, j_task_id r, j_attempt r, j_actor r, j_run_id r)"
    using assms by (simp add: record_ok_def identity_of_record_def)
  have "length (dumps '','' '':'' (JObj (as_dict_record r)))
      \<le> 2 + sum_list (map (\<lambda>n. n + 42) [19, 58, 130, 162, 19, 102, 66, 48, 48, 19, 19, 19, 132, 1028])"
    by (rule bounded_object)
      (simp add: as_dict_record_def opts st ints identity_bounds [OF ident] constant_bounds plain_char_def)
  then show ?thesis
    by (simp add: journal_json_bytes_flat record_flat [OF assms] canonical_json_def MAX_JOURNAL_RECORD_BYTES_def)
qed

lemma marker_fits:
  assumes "identity_ok ident" "0 \<le> now" "now \<le> 2 ^ 63 - 1"
  shows "\<exists>raw. journal_json_bytes (JObj (claim_marker now ident)) = Inr raw"
proof -
  obtain h task attempt act run where ident: "ident = (h, task, attempt, act, run)" by (cases ident)
  have "length (dumps '','' '':'' (JObj (claim_marker now ident)))
      \<le> 2 + sum_list (map (\<lambda>n. n + 42) [19, 58, 130, 162, 19, 102, 66, 19])"
    by (rule bounded_object)
      (simp add: claim_marker_def ident identity_bounds [OF assms(1) [unfolded ident]] constant_bounds
        value_bound_int [OF assms(2,3)] plain_char_def)
  then show ?thesis
    by (simp add: journal_json_bytes_flat marker_flat [OF assms(1)] canonical_json_def MAX_JOURNAL_RECORD_BYTES_def)
qed

section \<open>Loading and storing\<close>

definition record_bytes :: "VerifierJournalRecord \<Rightarrow> string" where
  "record_bytes r = canonical_json (JObj (as_dict_record r)) @ [CHR 0x0A]"

definition store :: "VerifierJournalRecord \<Rightarrow> journal \<Rightarrow> journal" where
  "store r j = j\<lparr>entries := alist_put (record_name (j_hash r)) (Regular (record_bytes r)) (entries j)\<rparr>"

lemma record_bytes_of: "record_ok r \<Longrightarrow> journal_json_bytes (JObj (as_dict_record r)) = Inr (record_bytes r)"
  using record_fits [of r] journal_json_bytes_flat [OF record_flat, of r] by (auto simp: record_bytes_def)

lemma dget_sorted: "distinct (map fst d) \<Longrightarrow> dget_or (sort_key fst d) k w = dget_or d k w"
  by (simp add: dget_or_def map_of_sort_key)

lemma record_distinct: "distinct (map fst (as_dict_record r))"
  by (simp add: as_dict_record_def)

lemma validate_record_sorted:
  "validate_record (JObj (sort_key fst (as_dict_record r))) = validate_record (JObj (as_dict_record r))"
  by (simp add: validate_record_def record_fields_def record_identity_def record_progress_def record_failure_def
      dget_sorted [OF record_distinct] exact_keys_iff)

lemma validate_record_ok: "validate_record v = Inr r \<Longrightarrow> record_ok r"
  by (cases v) (simp_all add: validate_record_def record_fields_ok split: if_splits)

lemma load_stored:
  assumes "record_ok r" "safe_root j = Inr ()"
    and "map_of (entries j) (record_name (j_hash r)) = Some (Regular (record_bytes r))"
  shows "load j (j_hash r) = Inr r"
proof -
  have "fullmatch_hex 64 (j_hash r)" using assms(1) by (simp add: record_ok_def identity_ok_def identity_of_record_def)
  then show ?thesis
    using read_stored [OF record_flat [OF assms(1)] record_bytes_of [OF assms(1)] record_keys assms(2,3)] assms(1)
    by (simp add: load_def validate_record_sorted)
qed

lemma load_ok:
  assumes "load j h = Inr r"
  shows "record_ok r" "j_hash r = h" "safe_root j = Inr ()" "fullmatch_hex 64 h"
    "map_of (entries j) (record_name h) \<noteq> None"
  using assms by (auto simp: load_def read_json_exact_def dest: validate_record_ok)

lemma load_frame:
  "ancestry j' = ancestry j \<Longrightarrow> map_of (entries j') (record_name h) = map_of (entries j) (record_name h) \<Longrightarrow>
     load j' h = load j h"
  by (cases "fullmatch_hex 64 h") (simp_all add: load_def read_json_exact_def read_bounded_def validate_dispatch_hash_def)

lemma record_name_inject [simp]: "record_name h = record_name h' \<longleftrightarrow> h = h'"
  by (simp add: record_name_def)

lemma claim_name_inject [simp]: "claim_name h = claim_name h' \<longleftrightarrow> h = h'"
  by (simp add: claim_name_def)

lemma names_differ [simp]: "record_name h \<noteq> claim_name h'" "claim_name h' \<noteq> record_name h"
proof -
  have "last (record_name h) \<noteq> last (claim_name h')" by (simp add: record_name_def claim_name_def)
  then show "record_name h \<noteq> claim_name h'" "claim_name h' \<noteq> record_name h" by metis+
qed

lemma store_simps [simp]:
  "ancestry (store r j) = ancestry j"
  "map_of (entries (store r j)) name =
     (if name = record_name (j_hash r) then Some (Regular (record_bytes r)) else map_of (entries j) name)"
  by (auto simp: store_def)

lemma load_store:
  "record_ok r \<Longrightarrow> safe_root j = Inr () \<Longrightarrow> load (store r j) h = (if h = j_hash r then Inr r else load j h)"
  by (auto intro: load_stored load_frame)

lemma replace_record_ok: "record_ok r \<Longrightarrow> safe_root j = Inr () \<Longrightarrow> replace_record r j = (Inr (), store r j)"
  by (simp add: replace_record_def replace_entry_def record_bytes_of store_def)

section \<open>The record as an abstract machine\<close>

definition journal_edge :: "string \<Rightarrow> string \<Rightarrow> bool" where
  "journal_edge s t \<longleftrightarrow>
     t \<notin> {''CRASH_ABORTED'', ''FAILED_CLEANUP_REQUIRED''} \<and> (\<exists>ts. map_of ALLOWED_TRANSITIONS s = Some ts \<and> t \<in> set ts)
     \<or> s \<in> {''EXECUTING'', ''SNAPSHOT_ACQUIRED''} \<and> t = fst (recovery_target s)"

definition record_step :: "VerifierJournalRecord \<Rightarrow> VerifierJournalRecord \<Rightarrow> bool" where
  "record_step r r' \<longleftrightarrow>
     journal_edge (j_state r) (j_state r') \<and> record_ok r' \<and> identity_of_record r' = identity_of_record r
     \<and> j_revision r' = j_revision r + 1 \<and> j_previous r' = Some (j_state r) \<and> j_created r' = j_created r
     \<and> j_updated r \<le> j_updated r' \<and> (j_failure r \<noteq> None \<longrightarrow> j_failure r' \<noteq> None)"

lemma next_record_step:
  assumes "next_record clock r st fc reason = Inr r'"
  shows "record_ok r'" "identity_of_record r' = identity_of_record r" "j_state r' = st"
    "journal_edge (j_state r) st \<Longrightarrow> record_step r r'" "fc = Some c \<Longrightarrow> j_failure r' = Some c"
  using assms by (auto simp: next_record_def record_step_def identity_of_record_def split: option.splits)

lemma step_hash: "record_step r r' \<Longrightarrow> j_hash r' = j_hash r"
  by (auto simp: record_step_def identity_of_record_def)

lemma journal_transition_eq_Inr:
  assumes "journal_transition clock h st er fc reason j = (Inr r', j')"
  obtains r where "load j h = Inr r" "record_step r r'" "j_state r' = st" "j' = store r' j"
    "next_record clock r st fc reason = Inr r'" "case er of None \<Rightarrow> True | Some n \<Rightarrow> j_revision r = n"
proof -
  obtain r where r: "load j h = Inr r" "next_record clock r st fc reason = Inr r'"
    "case er of None \<Rightarrow> True | Some n \<Rightarrow> j_revision r = n" "journal_edge (j_state r) st"
    "andthen (replace_record r' j) (\<lambda>_ j. (Inr r', j)) = (Inr r', j')"
    using assms unfolding journal_transition_def journal_edge_def
    by (auto simp: keep_eq_pair andthen_eq_pair split: option.splits)
  then show ?thesis using that next_record_step [OF r(2)] load_ok [OF r(1)] by (simp add: replace_record_ok)
qed

lemma transition_raises: "journal_transition clock h st er fc reason j = (Inl e, j') \<Longrightarrow> j' = j"
  unfolding journal_transition_def replace_record_def replace_entry_def
  by (auto simp: keep_eq_Inl andthen_eq_Inl keep_eq_pair split: option.splits)

text \<open>A record whose snapshot may still be mounted: what a restart has to abort.\<close>

definition interrupted :: "string \<Rightarrow> bool" where
  "interrupted s \<longleftrightarrow> s \<in> {''EXECUTING'', ''SNAPSHOT_ACQUIRED''}"

lemma recover_loaded:
  assumes "load j h = Inr r"
  shows "recover clock h j =
    (if interrupted (j_state r)
     then keep j (next_record clock r (fst (recovery_target (j_state r))) (Some (snd (recovery_target (j_state r)))) None)
            (\<lambda>a. andthen (replace_record a j) (\<lambda>_ j. (Inr a, j)))
     else (Inr r, j))"
proof -
  have "validate_dispatch_hash (JStr h) = Inr h" using load_ok(4) [OF assms] by simp
  moreover have "(if \<not> P then a else b) = (if P then b else a)" for P and a b :: 'x by simp
  ultimately show ?thesis unfolding recover_def interrupted_def by (simp only: keep_Inr assms)
qed

lemma recover_eq_Inr:
  assumes "recover clock h j = (Inr r', j')"
  obtains (same) "load j h = Inr r'" "j' = j" "\<not> interrupted (j_state r')"
  | (aborted) r where "load j h = Inr r" "record_step r r'" "j' = store r' j" "interrupted (j_state r)"
      "next_record clock r (fst (recovery_target (j_state r))) (Some (snd (recovery_target (j_state r)))) None = Inr r'"
proof -
  obtain r where r: "load j h = Inr r" using assms unfolding recover_def keep_eq_pair validate_dispatch_hash_Inr by blast
  show ?thesis
  proof (cases "interrupted (j_state r)")
    case False
    with assms have "r' = r" "j' = j" by (simp_all add: recover_loaded [OF r])
    with r False show ?thesis by (intro same) simp_all
  next
    case True
    with assms have n: "next_record clock r (fst (recovery_target (j_state r)))
        (Some (snd (recovery_target (j_state r)))) None = Inr r'" "andthen (replace_record r' j) (\<lambda>_ j. (Inr r', j)) = (Inr r', j')"
      by (auto simp: recover_loaded [OF r] keep_eq_pair andthen_eq_pair)
    have "journal_edge (j_state r) (fst (recovery_target (j_state r)))" using True by (simp add: journal_edge_def interrupted_def)
    then have "record_step r r'" using next_record_step(4) [OF n(1)] by blast
    moreover have "j' = store r' j" using n(2) load_ok(3) [OF r] next_record_step(1) [OF n(1)] by (simp add: replace_record_ok)
    ultimately show ?thesis using aborted [OF r] True n(1) by blast
  qed
qed

lemma recover_raises: "recover clock h j = (Inl e, j') \<Longrightarrow> j' = j"
  unfolding recover_def replace_record_def replace_entry_def
  by (auto simp: keep_eq_Inl andthen_eq_Inl keep_eq_pair split: if_splits)


section \<open>What the operations write\<close>

text \<open>
  The changes the operations make to the directory, one file at a time. The last three are what
  a crash leaves behind: a record or a claim marker of which only a prefix reached the disk, and
  a temporary file that was not renamed.
\<close>

definition with_entry :: "string \<Rightarrow> string \<Rightarrow> journal \<Rightarrow> journal" where
  "with_entry name bytes j = j\<lparr>entries := alist_put name (Regular bytes) (entries j)\<rparr>"

definition temp_name :: "string \<Rightarrow> string \<Rightarrow> string" where
  "temp_name name uuid = ''.'' @ name @ ''.'' @ uuid @ ''.tmp''"

definition marker_bytes :: "int \<Rightarrow> identity \<Rightarrow> string" where
  "marker_bytes now ident = canonical_json (JObj (claim_marker now ident)) @ [CHR 0x0A]"

inductive file_step :: "journal \<Rightarrow> journal \<Rightarrow> bool" where
  create: "safe_root j = Inr () \<Longrightarrow> map_of (entries j) (record_name (j_hash r)) = None \<Longrightarrow> record_ok r
    \<Longrightarrow> j_state r = ''REQUESTED'' \<Longrightarrow> j_revision r = 0 \<Longrightarrow> file_step j (store r j)"
| mark: "map_of (entries j) (claim_name h) = None \<Longrightarrow> file_step j (with_entry (claim_name h) bytes j)"
| update: "load j (j_hash r) = Inr r \<Longrightarrow> record_step r r' \<Longrightarrow> file_step j (store r' j)"
| torn: "map_of (entries j) (record_name (j_hash r)) = None \<Longrightarrow> record_ok r \<Longrightarrow> record_bytes r = bytes @ rest \<Longrightarrow> rest \<noteq> []
    \<Longrightarrow> file_step j (with_entry (record_name (j_hash r)) bytes j)"
| temporary: "file_step j (with_entry (temp_name name uuid) bytes j)"

lemma with_entry_simps [simp]:
  "ancestry (with_entry name bytes j) = ancestry j"
  "map_of (entries (with_entry name bytes j)) name' = (if name' = name then Some (Regular bytes) else map_of (entries j) name')"
  by (auto simp: with_entry_def)

lemma record_requested: "identity_ok ident \<Longrightarrow> 0 \<le> now \<Longrightarrow> now \<le> 2 ^ 63 - 1 \<Longrightarrow> record_ok (requested_record now ident)"
  by (cases ident) (simp add: requested_record_def record_ok_def identity_of_record_def times_ok_def failure_ok_def
      check_failure_def text_ok_def ALL_STATES_def NORMAL_STATES_def)

lemma identity_requested [simp]: "identity_of_record (requested_record now ident) = ident" "j_hash (requested_record now ident) = fst ident"
  by (cases ident, simp add: requested_record_def identity_of_record_def)+

lemma validated_identity_Inr [simp]: "validated_identity ident = Inr i \<longleftrightarrow> i = ident \<and> identity_ok ident"
proof -
  have "record_ok (requested_record 0 ident) \<longleftrightarrow> identity_ok ident"
  proof
    assume "record_ok (requested_record 0 ident)"
    then show "identity_ok ident" by (simp add: record_ok_def)
  qed (simp add: record_requested)
  then show ?thesis by (auto simp: validated_identity_def)
qed

lemma now_ns_Inr [simp]: "now_ns clock = Inr n \<longleftrightarrow> n = clock \<and> 0 \<le> clock \<and> clock \<le> 2 ^ 63 - 1"
  by (auto simp: now_ns_def)

lemma write_exclusive_cases:
  assumes "write_exclusive name payload j = (x, j')"
  obtains "x = Inr ()" "j' = with_entry name payload j" "map_of (entries j) name = None" "safe_root j = Inr ()"
  | e where "x = Inl e" "j' = j"
proof (cases x)
  case (Inl e)
  with assms that(2) show ?thesis by (auto simp: write_exclusive_def keep_eq_Inl)
next
  case (Inr u)
  with assms have "safe_root j = Inr ()" "map_of (entries j) name = None" "j' = with_entry name payload j"
    by (simp_all add: write_exclusive_def keep_eq_pair with_entry_def)
  then show ?thesis using that(1) Inr by simp
qed

lemma request_cases:
  assumes "request_dispatch clock ident j = (x, j')" "identity_ok ident"
  obtains (same) "j' = j" "\<And>r b. x = Inr (r, b) \<Longrightarrow> load j (fst ident) = Inr r"
  | (fresh) "x = Inr (requested_record clock ident, True)" "j' = store (requested_record clock ident) j"
      "record_ok (requested_record clock ident)" "map_of (entries j) (record_name (fst ident)) = None" "safe_root j = Inr ()"
proof (cases "load j (fst ident)")
  case (Inr r)
  with assms(1) have "j' = j" "x = Inr (r, False)" by (simp_all add: request_dispatch_def)
  with Inr show ?thesis by (intro same) auto
next
  case (Inl e)
  let ?r = "requested_record clock ident"
  show ?thesis
  proof (cases "exn_isinstance (exn_class_of e) FileNotFoundError \<and> ensure_capacity_for_new_record j = Inr () \<and> now_ns clock = Inr clock")
    case False
    with assms(1) Inl have "j' = j" "\<exists>e. x = Inl e"
      by (auto simp: request_dispatch_def keep_def split: if_splits sum.splits)
    with same show ?thesis by blast
  next
    case True
    then have ok: "record_ok ?r" using record_requested [OF assms(2)] by simp
    obtain y k where w: "write_exclusive (record_name (fst ident)) (record_bytes ?r) j = (y, k)" by fastforce
    with assms(1) Inl True record_bytes_of [OF ok] have x: "(x, j') = (case (y, k) of (Inr _, j') \<Rightarrow> (Inr (?r, True), j')
        | (Inl e, j') \<Rightarrow> if exn_isinstance (exn_class_of e) FileExistsError
           then keep j' (load j' (fst ident)) (\<lambda>r. (Inr (r, False), j')) else (Inl e, j'))"
      unfolding request_dispatch_def by (simp only: sum.case simp_thms if_False keep_Inr)
    from w show ?thesis
    proof (cases rule: write_exclusive_cases)
      case 1
      with x ok show ?thesis by (intro fresh) (simp_all add: store_def with_entry_def)
    next
      case (2 e')
      with x Inl have "j' = j" "\<exists>e. x = Inl e" by (auto split: if_splits)
      with same show ?thesis by blast
    qed
  qed
qed

lemma keep_cases:
  "(x, s') = keep s r f \<Longrightarrow> s' = s \<and> (\<exists>e. x = Inl e) \<or> (\<exists>y. r = Inr y \<and> (x, s') = f y)"
  by (cases r) auto

lemma acquire_cases:
  assumes "acquire_claim clock ident j = (x, j')"
  obtains (same) "j' = j" "x \<noteq> Inr True"
  | (fresh) bytes where "x = Inr True" "j' = with_entry (claim_name (fst ident)) bytes j"
      "map_of (entries j) (claim_name (fst ident)) = None"
proof -
  let ?rest = "\<lambda>payload. case write_exclusive (claim_name (fst ident)) payload j of
       (Inr _, j') \<Rightarrow> (Inr True, j')
     | (Inl e, j') \<Rightarrow>
         if exn_isinstance (exn_class_of e) FileExistsError
         then keep j' (read_json_exact j' (claim_name (fst ident)) j_CLAIM_KEYS) (\<lambda>marker.
              keep j' (validate_claim_marker marker ident) (\<lambda>_. (Inr False, j')))
         else (Inl e, j')"
  have "(x, j') = keep j (now_ns clock) (\<lambda>now. keep j (journal_json_bytes (JObj (claim_marker now ident))) ?rest)"
    using assms unfolding acquire_claim_def by (rule sym)
  then have "j' = j \<and> (\<exists>e. x = Inl e) \<or> (\<exists>payload. (x, j') = ?rest payload)"
    by (blast dest: keep_cases)
  then consider "j' = j" "\<exists>e. x = Inl e" | payload where "(x, j') = ?rest payload" by blast
  then show ?thesis
  proof cases
    case 1
    with same show ?thesis by auto
  next
    case eq: (2 payload)
    obtain y k where w: "write_exclusive (claim_name (fst ident)) payload j = (y, k)" by fastforce
    then show ?thesis
    proof (cases rule: write_exclusive_cases)
      case 1
      with eq w have "x = Inr True" "j' = with_entry (claim_name (fst ident)) payload j" by simp_all
      with 1 show ?thesis by (intro fresh)
    next
      case (2 e)
      with eq w have "j' = j" "x \<noteq> Inr True" by (auto simp: keep_def split: if_splits sum.splits)
      with same show ?thesis by blast
    qed
  qed
qed

section \<open>The journal as a state machine\<close>

text \<open>
  One operation, complete or interrupted by an exception or a crash. A crash stops
  \<^verbatim>\<open>claim_dispatch\<close> after it created the record, after it wrote the claim marker, or in the middle
  of one of these writes; it stops an update before or after its rename.
\<close>

inductive journal_step :: "journal \<Rightarrow> journal \<Rightarrow> bool" where
  claim: "claim_dispatch clocks ident j = (x, j') \<Longrightarrow> journal_step j j'"
| transition: "journal_transition clock h st er fc reason j = (x, j') \<Longrightarrow> journal_step j j'"
| recover: "recover clock h j = (x, j') \<Longrightarrow> journal_step j j'"
| crash_request: "validated_identity ident = Inr i \<Longrightarrow> safe_root j = Inr () \<Longrightarrow> now_ns clock = Inr now
    \<Longrightarrow> map_of (entries j) (record_name (fst ident)) = None
    \<Longrightarrow> journal_json_bytes (JObj (as_dict_record (requested_record now ident))) = Inr (bytes @ rest)
    \<Longrightarrow> journal_step j (with_entry (record_name (fst ident)) bytes j)"
| crash_claim: "load j (fst ident) = Inr r \<Longrightarrow> identity_of_record r = ident \<Longrightarrow> now_ns clock = Inr now
    \<Longrightarrow> map_of (entries j) (claim_name (fst ident)) = None
    \<Longrightarrow> journal_json_bytes (JObj (claim_marker now ident)) = Inr (bytes @ rest)
    \<Longrightarrow> journal_step j (with_entry (claim_name (fst ident)) bytes j)"
| crash_replace: "journal_step j (with_entry (temp_name (record_name h) uuid) bytes j)"

lemma transition_files: "file_step\<^sup>*\<^sup>* j (snd (journal_transition clock h st er fc reason j))"
proof (cases "fst (journal_transition clock h st er fc reason j)")
  case (Inl e)
  then show ?thesis using transition_raises by (metis prod.collapse rtranclp.rtrancl_refl)
next
  case (Inr r')
  then obtain r where "load j h = Inr r" "record_step r r'" "snd (journal_transition clock h st er fc reason j) = store r' j"
    by (metis prod.collapse journal_transition_eq_Inr)
  then show ?thesis using file_step.update [of j r r'] load_ok(2) by (metis r_into_rtranclp)
qed

lemma recover_files: "file_step\<^sup>*\<^sup>* j (snd (recover clock h j))"
proof (cases "fst (recover clock h j)")
  case (Inl e)
  then show ?thesis using recover_raises by (metis prod.collapse rtranclp.rtrancl_refl)
next
  case (Inr r')
  then have "recover clock h j = (Inr r', snd (recover clock h j))" by (metis prod.collapse)
  then show ?thesis
  proof (cases rule: recover_eq_Inr)
    case (aborted r)
    then show ?thesis using file_step.update [of j r r'] load_ok(2) by (metis r_into_rtranclp)
  qed simp
qed

lemma requested_fields [simp]: "j_state (requested_record now ident) = ''REQUESTED''" "j_revision (requested_record now ident) = 0"
  by (cases ident, simp add: requested_record_def)+

lemma request_files: "identity_ok ident \<Longrightarrow> file_step\<^sup>*\<^sup>* j (snd (request_dispatch clock ident j))"
proof -
  assume ok: "identity_ok ident"
  obtain x j' where "request_dispatch clock ident j = (x, j')" by fastforce
  moreover from this ok have "file_step\<^sup>*\<^sup>* j j'"
  proof (cases rule: request_cases)
    case fresh
    then show ?thesis using file_step.create [of j "requested_record clock ident"] by auto
  qed simp
  ultimately show ?thesis by simp
qed

lemma acquire_files: "file_step\<^sup>*\<^sup>* j (snd (acquire_claim clock ident j))"
proof -
  have "acquire_claim clock ident j = (fst (acquire_claim clock ident j), snd (acquire_claim clock ident j))" by simp
  then show ?thesis
  proof (cases rule: acquire_cases)
    case (fresh bytes)
    then show ?thesis using file_step.mark [of j "fst ident" bytes] by auto
  qed simp
qed

lemma andthen_cases:
  "(x, s') = andthen m f \<Longrightarrow> (\<exists>e. m = (Inl e, s') \<and> x = Inl e) \<or> (\<exists>y t. m = (Inr y, t) \<and> (x, s') = f y t)"
  by (cases m; cases "fst m") auto

text \<open>The stages of a claim, and where an exception leaves it.\<close>

lemma claim_stages:
  assumes "claim_dispatch clocks ident j = (x, j')"
  obtains (invalid) e where "x = Inl e" "j' = j"
  | (request) e y where "identity_ok ident" "request_dispatch (clocks 0) ident j = (y, j')" "x = Inl e"
  | (acquire) e y j1 z where "identity_ok ident" "request_dispatch (clocks 0) ident j = (Inr y, j1)"
      "acquire_claim (clocks 1) ident j1 = (z, j')" "x = Inl e"
  | (complete) y j1 acq j2 where "identity_ok ident" "request_dispatch (clocks 0) ident j = (Inr y, j1)"
      "acquire_claim (clocks 1) ident j1 = (Inr acq, j2)" "finish_claim (clocks 2) ident (snd y) acq j2 = (x, j')"
proof (cases "identity_ok ident")
  case False
  then have "validated_identity ident \<noteq> Inr i" for i by simp
  then show ?thesis using invalid keep_cases [OF assms [symmetric, unfolded claim_dispatch_def]] by blast
next
  case ok: True
  let ?finish = "\<lambda>b acq j. finish_claim (clocks 2) ident b acq j"
  have "validated_identity ident = Inr ident" using ok by simp
  then have "(x, j') = andthen (request_dispatch (clocks 0) ident j) (\<lambda>(r, b) j.
      keep j (require_same_identity r ident) (\<lambda>_. andthen (acquire_claim (clocks 1) ident j) (?finish b)))"
    using assms [symmetric] by (simp only: claim_dispatch_def keep_Inr)
  from andthen_cases [OF this] show ?thesis
  proof (elim disjE exE conjE)
    fix y j1 assume y: "request_dispatch (clocks 0) ident j = (Inr y, j1)" and rest: "(x, j') = (case y of (r, b) \<Rightarrow>
        \<lambda>j. keep j (require_same_identity r ident) (\<lambda>_. andthen (acquire_claim (clocks 1) ident j) (?finish b))) j1"
    from rest have "(x, j') = keep j1 (require_same_identity (fst y) ident)
        (\<lambda>_. andthen (acquire_claim (clocks 1) ident j1) (?finish (snd y)))" by (simp only: split_beta)
    from keep_cases [OF this] show ?thesis
    proof (elim disjE exE conjE)
      assume "(x, j') = andthen (acquire_claim (clocks 1) ident j1) (?finish (snd y))"
      from andthen_cases [OF this] show ?thesis
        using acquire [OF ok y] complete [OF ok y] by (elim disjE exE conjE) auto
    qed (use request [OF ok] y in auto)
  qed (use request [OF ok] in auto)
qed

lemma finish_files: "file_step\<^sup>*\<^sup>* j (snd (finish_claim clock ident b acq j))"
  unfolding finish_claim_def by (rule keep_state, simp, rule andthen_state) (simp_all add: transition_files)

lemma claim_files: "file_step\<^sup>*\<^sup>* j (snd (claim_dispatch clocks ident j))"
proof -
  obtain x j' where "claim_dispatch clocks ident j = (x, j')" by fastforce
  moreover from this have "file_step\<^sup>*\<^sup>* j j'"
  proof (cases rule: claim_stages)
    case (request e y)
    then show ?thesis using request_files [of ident j "clocks 0"] by simp
  next
    case (acquire e y j1 z)
    then show ?thesis using request_files [of ident j "clocks 0"] acquire_files [of j1 "clocks 1" ident] by simp
  next
    case (complete y j1 acq j2)
    then show ?thesis using request_files [of ident j "clocks 0"] acquire_files [of j1 "clocks 1" ident]
        finish_files [of j2 "clocks 2" ident "snd y" acq] by simp
  qed simp
  ultimately show ?thesis by simp
qed

lemma step_files: "journal_step j j' \<Longrightarrow> file_step\<^sup>*\<^sup>* j j'"
proof (induction rule: journal_step.induct)
  case (claim clocks ident j x j')
  then show ?case using claim_files [of j clocks ident] by simp
next
  case (transition clock h st er fc reason j x j')
  then show ?case using transition_files [of j clock h st er fc reason] by simp
next
  case (recover clock h j x j')
  then show ?case using recover_files [of j clock h] by simp
next
  case (crash_request ident i j clock now bytes rest)
  let ?r = "requested_record now ident"
  have r: "record_ok ?r" using crash_request by (intro record_requested) simp_all
  then have bytes: "record_bytes ?r = bytes @ rest" using crash_request(5) by (simp add: record_bytes_of)
  show ?case
  proof (cases "rest = []")
    case True
    then have "with_entry (record_name (fst ident)) bytes j = store ?r j" using bytes by (simp add: with_entry_def store_def)
    then show ?thesis using file_step.create [of j ?r] crash_request(2,4) r by auto
  next
    case False
    then show ?thesis using file_step.torn [of j ?r bytes rest] crash_request(4) r bytes by auto
  qed
next
  case (crash_claim j ident r clock now bytes rest)
  then show ?case using file_step.mark [of j "fst ident" bytes] by auto
next
  case (crash_replace j h uuid bytes)
  then show ?case using file_step.temporary by blast
qed

lemma steps_files: "journal_step\<^sup>*\<^sup>* j j' \<Longrightarrow> file_step\<^sup>*\<^sup>* j j'"
  by (induction rule: rtranclp_induct) (auto dest: step_files)

section \<open>Refinement\<close>

lemma temp_not_record: "fullmatch_hex n h \<Longrightarrow> record_name h \<noteq> temp_name name uuid"
  by (cases h) (auto simp: record_name_def temp_name_def fullmatch_exact_def char_class_defs)

lemma file_step_record:
  assumes "file_step j j'" "load j h = Inr r"
  shows "\<exists>r'. load j' h = Inr r' \<and> record_step\<^sup>*\<^sup>* r r'"
  using assms
proof (induction rule: file_step.induct)
  case (create j r0)
  then have "h \<noteq> j_hash r0" using load_ok(5) by metis
  then show ?case using create by (auto simp: load_store)
next
  case (mark j h' bytes)
  then have "load (with_entry (claim_name h') bytes j) h = load j h" by (intro load_frame) simp_all
  then show ?case using mark by auto
next
  case (update j r0 r')
  then have "record_ok r'" "safe_root j = Inr ()" "j_hash r' = j_hash r0"
    using load_ok(3) by (auto simp: record_step_def step_hash dest: load_ok(3) step_hash)
  then show ?case using update by (auto simp: load_store)
next
  case (torn j r0 bytes rest)
  then have "h \<noteq> j_hash r0" using load_ok(5) by metis
  then have "load (with_entry (record_name (j_hash r0)) bytes j) h = load j h" by (intro load_frame) simp_all
  then show ?case using torn by auto
next
  case (temporary j name uuid bytes)
  then have "load (with_entry (temp_name name uuid) bytes j) h = load j h"
    using temp_not_record [OF load_ok(4)] by (intro load_frame) simp_all
  then show ?case using temporary by auto
qed

lemma file_steps_record:
  assumes "file_step\<^sup>*\<^sup>* j j'" "load j h = Inr r"
  shows "\<exists>r'. load j' h = Inr r' \<and> record_step\<^sup>*\<^sup>* r r'"
  using assms
proof (induction rule: rtranclp_induct)
  case (step k l)
  then obtain r1 where "load k h = Inr r1" "record_step\<^sup>*\<^sup>* r r1" by blast
  then show ?case using file_step_record [OF step(2)] by (meson rtranclp_trans)
qed blast

text \<open>
  Property C24: the files refine the record machine. Whatever operations and crashes follow, a record
  that was loadable stays loadable, and it only moves along the permitted edges: every change keeps
  the dispatch, task, attempt, actor, run and creation time, increments the revision by one, names
  the state it left, never moves the update time back and never drops a failure code.
\<close>

theorem journal_refines_records:
  assumes "journal_step\<^sup>*\<^sup>* j j'" "load j h = Inr r"
  shows "\<exists>r'. load j' h = Inr r' \<and> record_step\<^sup>*\<^sup>* r r'"
  using file_steps_record [OF steps_files [OF assms(1)] assms(2)] .

section \<open>Claims\<close>

lemma file_step_grows: "file_step j j' \<Longrightarrow> map_of (entries j) name \<noteq> None \<Longrightarrow> map_of (entries j') name \<noteq> None"
  by (induction rule: file_step.induct) simp_all

lemma files_grow: "file_step\<^sup>*\<^sup>* j j' \<Longrightarrow> map_of (entries j) name \<noteq> None \<Longrightarrow> map_of (entries j') name \<noteq> None"
  by (induction rule: rtranclp_induct) (auto dest: file_step_grows)

definition claimed_by :: "string \<Rightarrow> journal \<Rightarrow> journal \<Rightarrow> bool" where
  "claimed_by h j j' \<longleftrightarrow> (\<exists>clocks ident c. fst ident = h \<and> claim_dispatch clocks ident j = (Inr c, j') \<and> claim_acquired c)"

lemma finish_acquired: "finish_claim clock ident b acq j = (Inr c, j') \<Longrightarrow> claim_acquired c = acq"
  by (auto simp: finish_claim_def keep_eq_pair andthen_eq_pair)

lemma claimed_marker:
  assumes "claimed_by h j j'"
  shows "map_of (entries j) (claim_name h) = None" "map_of (entries j') (claim_name h) \<noteq> None"
proof -
  obtain clocks ident c where c: "fst ident = h" "claim_dispatch clocks ident j = (Inr c, j')" "claim_acquired c"
    using assms by (auto simp: claimed_by_def)
  from c(2) obtain y j1 acq j2 where s: "identity_ok ident" "request_dispatch (clocks 0) ident j = (Inr y, j1)"
    "acquire_claim (clocks 1) ident j1 = (Inr acq, j2)" "finish_claim (clocks 2) ident (snd y) acq j2 = (Inr c, j')"
    by (rule claim_stages) auto
  have "acq = True" using finish_acquired [OF s(4)] c(3) by simp
  with s(3) obtain bytes where m: "map_of (entries j1) (claim_name h) = None" "j2 = with_entry (claim_name h) bytes j1"
    using c(1) by (cases rule: acquire_cases) auto
  have "file_step\<^sup>*\<^sup>* j j1" using request_files [OF s(1), of j "clocks 0"] s(2) by simp
  then show "map_of (entries j) (claim_name h) = None" using files_grow m(1) by blast
  have "file_step\<^sup>*\<^sup>* j2 j'" using finish_files [of j2 "clocks 2" ident "snd y" acq] s(4) by simp
  then show "map_of (entries j') (claim_name h) \<noteq> None" using files_grow [of j2 j' "claim_name h"] m(2) by simp
qed

interpretation claims: exclusive_register journal_step "\<lambda>h j. map_of (entries j) (claim_name h) \<noteq> None" claimed_by
  by unfold_locales (auto dest: files_grow [OF step_files] simp: claimed_marker)

text \<open>
  Property C23: execution ownership is exclusive. In any history of journal operations and crashes,
  at most one call of \<^verbatim>\<open>claim_dispatch\<close> for a dispatch hash returns with \<^verbatim>\<open>claim_acquired\<close> set.
\<close>

theorem dispatch_claimed_once:
  assumes "history journal_step js" "Suc i < length js" "Suc n < length js"
    and "claim_dispatch clocks ident (js ! i) = (Inr c, js ! Suc i)" "claim_acquired c"
    and "claim_dispatch clocks' ident' (js ! n) = (Inr c', js ! Suc n)" "claim_acquired c'" "fst ident' = fst ident"
  shows "i = n"
proof (rule claims.acquired_once [OF assms(1-3)])
  show "claimed_by (fst ident) (js ! i) (js ! Suc i)" "claimed_by (fst ident) (js ! n) (js ! Suc n)"
    unfolding claimed_by_def using assms(4-8) by blast+
qed

section \<open>Bounded progress\<close>

definition journal_ranks :: "(string \<times> nat) list" where
  "journal_ranks = [(''REQUESTED'', 0), (''CLAIMED'', 1), (''SOURCE_VERIFIED'', 2), (''SNAPSHOT_ACQUIRED'', 3), (''FAILED'', 3),
     (''EXECUTING'', 4), (''FAILED_CLEANUP_REQUIRED'', 4), (''EXECUTION_SEALED'', 5), (''CRASH_ABORTED'', 5),
     (''RELEASE_PENDING'', 6), (''CLEANUP_ACKED'', 7), (''RECEIPT_PERSISTED'', 8), (''TERMINAL_APPENDED'', 9),
     (''DONE'', 10), (''QUARANTINED'', 10)]"

definition journal_rank :: "string \<Rightarrow> nat" where
  "journal_rank s = (case map_of journal_ranks s of None \<Rightarrow> 0 | Some n \<Rightarrow> n)"

lemma allowed_climbs: "\<forall>(s, ts) \<in> set ALLOWED_TRANSITIONS. \<forall>t\<in>set ts. journal_rank s < journal_rank t"
  by (simp add: ALLOWED_TRANSITIONS_def journal_rank_def journal_ranks_def)

lemma recovery_climbs: "interrupted s \<Longrightarrow> journal_rank s < journal_rank (fst (recovery_target s))"
  unfolding interrupted_def
  by (elim insertE emptyE) (simp_all add: recovery_target_def journal_rank_def journal_ranks_def)

lemma journal_edge_cases:
  "journal_edge s t \<Longrightarrow> (\<exists>ts. (s, ts) \<in> set ALLOWED_TRANSITIONS \<and> t \<in> set ts) \<or> interrupted s \<and> t = fst (recovery_target s)"
  unfolding journal_edge_def interrupted_def by (meson map_of_SomeD)

interpretation journal_machine: ranked_machine journal_edge journal_rank
proof
  fix s t assume "journal_edge s t"
  then show "journal_rank s < journal_rank t"
    using recovery_climbs [of s] allowed_climbs journal_edge_cases [of s t] by blast
qed

lemma journal_rank_le: "journal_rank s \<le> 10"
proof (cases "map_of journal_ranks s")
  case (Some n)
  have "\<forall>p\<in>set journal_ranks. snd p \<le> 10" by (simp add: journal_ranks_def)
  then show ?thesis using map_of_SomeD [OF Some] Some by (auto simp: journal_rank_def)
qed (simp add: journal_rank_def)

end
