(* ===== verification/Journal_Recovery.thy ===== *)
theory Journal_Recovery
  imports Journal_Safety
begin

text \<open>
  Crashes and restarts of the verifier journal: a half-written record fails closed, a mounted
  snapshot is always released before a run ends, the number of updates of a record is bounded,
  and \<^verbatim>\<open>recover_all\<close> aborts exactly the interrupted runs.
\<close>

lemma accepted [simp]:
  "fullmatch_hex 64 h \<Longrightarrow> validate_dispatch_hash (JStr h) = Inr h"
  "identity_ok ident \<Longrightarrow> validated_identity ident = Inr ident"
  "0 \<le> clock \<Longrightarrow> clock \<le> 2 ^ 63 - 1 \<Longrightarrow> now_ns clock = Inr clock"
  by simp_all

section \<open>Torn records\<close>

lemma quote_chars: "c \<in> set (quote s) \<Longrightarrow> 32 \<le> (of_char c :: nat)"
proof -
  have "32 \<le> (of_char d :: nat)" if "d \<in> set (esc_char b)" for b d
    using that plain_hex_digit by (auto simp: esc_char_def Let_def plain_char_def split: if_splits)
  then show "c \<in> set (quote s) \<Longrightarrow> ?thesis" by (auto simp: quote_def)
qed

lemma show_int_chars: "c \<in> set (show_int n) \<Longrightarrow> 32 \<le> (of_char c :: nat)"
  using plain_show_int [of n] by (auto simp: list_all_iff plain_char_def)

lemma flat_value_chars: "flat_value v \<Longrightarrow> c \<in> set (dumps '','' '':'' v) \<Longrightarrow> 32 \<le> (of_char c :: nat)"
  by (cases v) (auto simp: quote_chars show_int_chars)

lemma join_chars:
  "(\<And>x d. x \<in> set xs \<Longrightarrow> d \<in> set x \<Longrightarrow> P d) \<Longrightarrow> (\<And>d. d \<in> set sep \<Longrightarrow> P d) \<Longrightarrow> d \<in> set (join sep xs) \<Longrightarrow> P d"
  by (induction xs rule: induct_list012) auto

lemma flat_chars:
  assumes "flat d" "c \<in> set (canonical_json (JObj d))"
  shows "32 \<le> (of_char c :: nat)"
proof -
  have item: "32 \<le> (of_char b :: nat)"
    if "x \<in> set (map (\<lambda>(k, t). quote k @ '':'' @ t) (sort_key fst (map (map_prod (\<lambda>k. k) (dumps '','' '':'')) d)))" "b \<in> set x"
    for x b
    using that assms(1) by (force simp: flat_def quote_chars intro: flat_value_chars)
  have "c = CHR ''{'' \<or> c = CHR ''}'' \<or> c \<in> set (join '','' (map (\<lambda>(k, t). quote k @ '':'' @ t)
      (sort_key fst (map (map_prod (\<lambda>k. k) (dumps '','' '':'')) d))))"
    using assms(2) by (auto simp: canonical_json_def)
  then show ?thesis
  proof (elim disjE)
    assume "c \<in> set (join '','' (map (\<lambda>(k, t). quote k @ '':'' @ t)
        (sort_key fst (map (map_prod (\<lambda>k. k) (dumps '','' '':'')) d))))"
    then show ?thesis by (rule join_chars [rotated 2]) (use item in auto)
  qed simp_all
qed

lemma torn_no_newline:
  assumes "record_ok r" "record_bytes r = bytes @ rest" "rest \<noteq> []"
  shows "\<not> endswith bytes [CHR 0x0A]"
proof
  assume "endswith bytes [CHR 0x0A]"
  then have last: "bytes \<noteq> []" "last bytes = CHR 0x0A"
    by (cases bytes rule: rev_cases; simp add: endswith_def)+
  have "canonical_json (JObj (as_dict_record r)) = butlast (bytes @ rest)"
    unfolding assms(2) [symmetric] by (simp add: record_bytes_def)
  then have "last bytes \<in> set (canonical_json (JObj (as_dict_record r)))" using assms(3) last(1) by (simp add: butlast_append)
  then show False using flat_chars [OF record_flat [OF assms(1)]] last(2) by fastforce
qed

lemma safe_root_cases: "safe_root j = Inr () \<or> (\<exists>m. safe_root j = Inl (Exn VerifierJournalError m))"
proof -
  have "assert_safe_ancestry b ns = Inr () \<or> (\<exists>m. assert_safe_ancestry b ns = Inl (Exn VerifierJournalError m))" for b ns
    by (induction b ns rule: assert_safe_ancestry.induct) (auto simp: raise_def)
  then show ?thesis .
qed

lemma torn_load:
  assumes "record_ok r" "record_bytes r = bytes @ rest" "rest \<noteq> []"
    and "map_of (entries j) (record_name (j_hash r)) = Some (Regular bytes)"
  shows "\<exists>m. load j (j_hash r) = Inl (Exn VerifierJournalError m)"
proof -
  have "fullmatch_hex 64 (j_hash r)" using assms(1) by (simp add: record_ok_def identity_ok_def identity_of_record_def)
  note hash = accepted(1) [OF this]
  from safe_root_cases [of j] show ?thesis
  proof
    assume "safe_root j = Inr ()"
    then have "read_bounded j (record_name (j_hash r)) = Inr bytes \<or>
        (\<exists>m. read_bounded j (record_name (j_hash r)) = Inl (Exn VerifierJournalError m))"
      using assms(4) by (auto simp: read_bounded_def)
    then show ?thesis
      using torn_no_newline [OF assms(1-3)] hash by (auto simp: load_def read_json_exact_def rbind_eq_Inl simp del: read_bounded_Inr)
  next
    assume "\<exists>m. safe_root j = Inl (Exn VerifierJournalError m)"
    then show ?thesis using hash by (auto simp: load_def read_json_exact_def read_bounded_def simp del: read_bounded_Inr)
  qed
qed


section \<open>Snapshots are released\<close>

text \<open>The states in which a snapshot may be mounted.\<close>

definition snapshot_held :: "string \<Rightarrow> bool" where
  "snapshot_held s \<longleftrightarrow> s \<in> {''SNAPSHOT_ACQUIRED'', ''EXECUTING'', ''EXECUTION_SEALED'', ''CRASH_ABORTED'',
     ''FAILED_CLEANUP_REQUIRED'', ''RELEASE_PENDING''}"

lemma allowed_held:
  "\<forall>(s, ts) \<in> set ALLOWED_TRANSITIONS. snapshot_held s \<longrightarrow> (\<forall>t\<in>set ts. snapshot_held t \<or> t = ''CLEANUP_ACKED'')"
  by (simp add: ALLOWED_TRANSITIONS_def snapshot_held_def)

lemma recovery_held: "snapshot_held (fst (recovery_target s))"
  by (simp add: recovery_target_def snapshot_held_def)

lemma held_step: "record_step r r' \<Longrightarrow> snapshot_held (j_state r) \<Longrightarrow> snapshot_held (j_state r') \<or> j_state r' = ''CLEANUP_ACKED''"
  using journal_edge_cases [of "j_state r" "j_state r'"] allowed_held recovery_held
  by (auto simp: record_step_def)

lemma held_not_terminal: "terminal r \<Longrightarrow> \<not> snapshot_held (j_state r)"
  unfolding terminal_def TERMINAL_STATES_def by (auto simp: snapshot_held_def)

lemma held_path:
  assumes "record_step\<^sup>*\<^sup>* r r'" "snapshot_held (j_state r)"
  shows "snapshot_held (j_state r') \<or> (\<exists>m. record_step\<^sup>*\<^sup>* r m \<and> record_step\<^sup>*\<^sup>* m r' \<and> j_state m = ''CLEANUP_ACKED'')"
  using assms
proof (induction rule: rtranclp_induct)
  case (step x y)
  from step.IH [OF step.prems] show ?case
  proof
    assume "snapshot_held (j_state x)"
    moreover have "record_step\<^sup>*\<^sup>* r y" using step.hyps by (rule rtranclp.rtrancl_into_rtrancl)
    ultimately show ?thesis using held_step [OF step.hyps(2)] by blast
  next
    assume "\<exists>m. record_step\<^sup>*\<^sup>* r m \<and> record_step\<^sup>*\<^sup>* m x \<and> j_state m = ''CLEANUP_ACKED''"
    then show ?thesis using step.hyps(2) by (blast intro: rtranclp.rtrancl_into_rtrancl)
  qed
qed simp

lemma failure_kept: "record_step\<^sup>*\<^sup>* r r' \<Longrightarrow> j_failure r \<noteq> None \<Longrightarrow> j_failure r' \<noteq> None"
  by (induction rule: rtranclp_induct) (auto simp: record_step_def)


section \<open>Reachable journals\<close>

definition empty_journal :: "node list \<Rightarrow> journal" where
  "empty_journal ns = \<lparr>ancestry = ns, entries = []\<rparr>"

definition ranked :: "VerifierJournalRecord \<Rightarrow> bool" where
  "ranked r \<longleftrightarrow> 0 \<le> j_revision r \<and> j_revision r \<le> int (journal_rank (j_state r))"

lemma ranked_step: "record_step r r' \<Longrightarrow> ranked r \<Longrightarrow> ranked r'"
  using journal_machine.climbs [of "j_state r" "j_state r'"] by (auto simp: record_step_def ranked_def)

definition journal_inv :: "journal \<Rightarrow> bool" where
  "journal_inv j \<longleftrightarrow> distinct (map fst (entries j)) \<and> (\<forall>h r. load j h = Inr r \<longrightarrow> ranked r)"

lemma distinct_store: "distinct (map fst (entries j)) \<Longrightarrow> distinct (map fst (entries (store r j)))"
  by (simp add: store_def)

lemma inv_file_step: "file_step j j' \<Longrightarrow> journal_inv j \<Longrightarrow> journal_inv j'"
proof (induction rule: file_step.induct)
  case (create j r)
  then have "ranked r" by (simp add: ranked_def)
  with create show ?case by (auto simp: journal_inv_def load_store distinct_store split: if_splits)
next
  case (mark j h bytes)
  then have "load (with_entry (claim_name h) bytes j) h' = load j h'" for h' by (intro load_frame) simp_all
  with mark show ?case by (simp add: journal_inv_def with_entry_def)
next
  case (update j r r')
  then have "record_ok r'" "safe_root j = Inr ()" "ranked r'"
    using load_ok(3) [OF update(1)] ranked_step [OF update(2)] by (auto simp: record_step_def journal_inv_def)
  with update show ?case by (auto simp: journal_inv_def load_store distinct_store split: if_splits)
next
  case (torn j r bytes rest)
  let ?j = "with_entry (record_name (j_hash r)) bytes j"
  have "load ?j (j_hash r) \<noteq> Inr r'" for r' using torn_load [OF torn(2-4), of ?j] by auto
  moreover have "load ?j h = load j h" if "h \<noteq> j_hash r" for h using that by (intro load_frame) simp_all
  ultimately have "load ?j h = Inr r' \<Longrightarrow> load j h = Inr r'" for h r' by (cases "h = j_hash r") auto
  with torn show ?case by (auto simp: journal_inv_def with_entry_def)
next
  case (temporary j name uuid bytes)
  have "load (with_entry (temp_name name uuid) bytes j) h = load j h" if "fullmatch_hex 64 h" for h
    using temp_not_record [OF that] by (intro load_frame) simp_all
  then have "load (with_entry (temp_name name uuid) bytes j) h = Inr r \<Longrightarrow> load j h = Inr r" for h r
    using load_ok(4) by metis
  with temporary show ?case by (auto simp: journal_inv_def with_entry_def)
qed

lemma inv_empty_journal: "journal_inv (empty_journal ns)"
  by (auto simp: journal_inv_def empty_journal_def dest: load_ok(5))

lemma inv_reachable:
  assumes "journal_step\<^sup>*\<^sup>* (empty_journal ns) j"
  shows "journal_inv j"
proof -
  have "file_step\<^sup>*\<^sup>* (empty_journal ns) j" using assms by (rule steps_files)
  then show ?thesis by (induction rule: rtranclp_induct) (auto intro: inv_empty_journal inv_file_step)
qed

text \<open>
  Property C28: a dispatch makes at most ten updates. In every journal that operations and crashes
  reach from an empty directory, a record's revision is at most ten, so the guard against revisions
  beyond 63 bits never fires and the record machine terminates.
\<close>

theorem revisions_bounded:
  assumes "journal_step\<^sup>*\<^sup>* (empty_journal ns) j" "load j h = Inr r"
  shows "0 \<le> j_revision r \<and> j_revision r \<le> 10"
proof -
  have "ranked r" using inv_reachable [OF assms(1)] assms(2) by (auto simp: journal_inv_def)
  then show ?thesis using journal_rank_le [of "j_state r"] by (auto simp: ranked_def)
qed

section \<open>Recovery after a restart\<close>

text \<open>What one restart makes of a record.\<close>

definition recovered :: "VerifierJournalRecord \<Rightarrow> VerifierJournalRecord \<Rightarrow> bool" where
  "recovered r r' \<longleftrightarrow>
     (if interrupted (j_state r)
      then record_step r r' \<and> j_state r' = fst (recovery_target (j_state r))
        \<and> j_failure r' = Some (snd (recovery_target (j_state r)))
      else r' = r)"

lemma recovery_codes:
  "text_ok MAX_FAILURE_CODE_BYTES (Some ''verifier_crash_during_execution'')" "FAILURE_CODE_RE ''verifier_crash_during_execution''"
  "text_ok MAX_FAILURE_CODE_BYTES (Some ''verifier_restart_after_snapshot'')" "FAILURE_CODE_RE ''verifier_restart_after_snapshot''"
  by code_simp+

lemma recovery_target_ok:
  "fst (recovery_target s) \<in> set ALL_STATES" "text_ok MAX_FAILURE_CODE_BYTES (Some (snd (recovery_target s)))"
  "FAILURE_CODE_RE (snd (recovery_target s))" "check_failure (fst (recovery_target s)) (Some c) None = Inr ()"
  by (simp_all add: recovery_target_def recovery_codes ALL_STATES_def NORMAL_STATES_def FAILURE_STATES_def check_failure_def)

lemma recovery_next:
  assumes "record_ok r" "j_revision r \<le> 10" "0 \<le> clock" "clock \<le> 2 ^ 63 - 1"
  shows "\<exists>r'. next_record clock r (fst (recovery_target (j_state r))) (Some (snd (recovery_target (j_state r)))) None = Inr r'"
proof -
  have none: "text_ok n None" for n by (simp add: text_ok_def)
  have "times_ok r" "j_state r \<in> set ALL_STATES" "identity_ok (identity_of_record r)" using assms(1) by (simp_all add: record_ok_def)
  with assms(2-4) show ?thesis
    unfolding next_record_def accepted(3) [OF assms(3,4)] rbind.simps validate_record_of
    by (simp add: record_ok_def identity_of_record_def times_ok_def failure_ok_def recovery_target_ok none le_max_iff_disj)
qed

lemma recover_one:
  assumes "load j h = Inr r" "j_revision r \<le> 10" "0 \<le> clock" "clock \<le> 2 ^ 63 - 1"
  obtains r' where "recover clock h j = (Inr r', if interrupted (j_state r) then store r' j else j)" "recovered r r'" "record_ok r'"
    "j_hash r' = h"
proof (cases "interrupted (j_state r)")
  case True
  obtain r' where r': "next_record clock r (fst (recovery_target (j_state r))) (Some (snd (recovery_target (j_state r)))) None = Inr r'"
    using recovery_next [OF load_ok(1) [OF assms(1)] assms(2-4)] by blast
  have "journal_edge (j_state r) (fst (recovery_target (j_state r)))" using True by (simp add: journal_edge_def interrupted_def)
  then have step: "record_step r r'" using next_record_step(4) [OF r'] by blast
  have "recover clock h j = (Inr r', store r' j)"
    using True r' next_record_step(1) [OF r'] load_ok(3) [OF assms(1)]
    by (simp add: recover_loaded [OF assms(1)] replace_record_ok)
  moreover have "recovered r r'" using True step next_record_step(3,5) [OF r'] by (simp add: recovered_def)
  ultimately show ?thesis
    using that True next_record_step(1) [OF r'] step_hash [OF step] load_ok(2) [OF assms(1)] by simp
next
  case False
  with that [of r] assms(1) load_ok [OF assms(1)] show ?thesis by (simp add: recover_loaded recovered_def)
qed

lemma load_recovered:
  assumes "load j h = Inr r" "record_ok r'" "j_hash r' = h"
  shows "load (if b then store r' j else j) g = (if g = h \<and> b then Inr r' else load j g)"
  using assms load_ok(3) [OF assms(1)] by (auto simp: load_store)

lemma store_names: "load j (j_hash r) = Inr r0 \<Longrightarrow> map fst (entries (store r j)) = map fst (entries j)"
proof -
  have "k \<in> fst ` set xs \<Longrightarrow> map fst (alist_put k v xs) = map fst xs" for k and v :: entry and xs :: "(string \<times> entry) list"
    by (induction k v xs rule: alist_put.induct) auto
  then show "load j (j_hash r) = Inr r0 \<Longrightarrow> ?thesis"
    using load_ok(5) [of j "j_hash r" r0] by (simp add: store_def map_of_eq_None_iff)
qed

lemma recover_each_ok:
  assumes "list_all2 (\<lambda>h r. load j h = Inr r \<and> j_revision r \<le> 10) hs rs0" "distinct hs"
    and "\<forall>k. 0 \<le> clocks k \<and> clocks k \<le> 2 ^ 63 - 1"
  shows "\<exists>rs' j'. recover_each clocks k rs0 j = (Inr rs', j') \<and> list_all2 recovered rs0 rs'
    \<and> ancestry j' = ancestry j \<and> map fst (entries j') = map fst (entries j)
    \<and> list_all2 (\<lambda>h r. load j' h = Inr r) hs rs' \<and> (\<forall>g. g \<notin> set hs \<longrightarrow> load j' g = load j g)"
  using assms(1,2)
proof (induction hs arbitrary: rs0 k j)
  case (Cons h hs)
  then obtain r rs where rs0: "rs0 = r # rs" and h: "load j h = Inr r" "j_revision r \<le> 10"
    and all: "list_all2 (\<lambda>h r. load j h = Inr r \<and> j_revision r \<le> 10) hs rs"
    by (auto simp: list_all2_Cons1)
  have hash: "j_hash r = h" using h(1) by (rule load_ok(2))
  obtain r' where r': "recover (clocks k) h j = (Inr r', if interrupted (j_state r) then store r' j else j)" "recovered r r'"
    "record_ok r'" "j_hash r' = h" using recover_one [OF h(1,2), of "clocks k"] assms(3) by blast
  let ?j = "if interrupted (j_state r) then store r' j else j"
  note loads = load_recovered [OF h(1) r'(3,4), of "interrupted (j_state r)"]
  have same: "recovered r r' \<Longrightarrow> \<not> interrupted (j_state r) \<Longrightarrow> r' = r" by (simp add: recovered_def)
  have "list_all2 (\<lambda>h r. load ?j h = Inr r \<and> j_revision r \<le> 10) hs rs"
    using all Cons.prems(2) by (auto simp: list_all2_conv_all_nth loads)
  moreover have "distinct hs" using Cons.prems(2) by simp
  ultimately obtain rs' j' where rest: "recover_each clocks (Suc k) rs ?j = (Inr rs', j')"
    "list_all2 recovered rs rs'" "ancestry j' = ancestry ?j" "map fst (entries j') = map fst (entries ?j)"
    "list_all2 (\<lambda>h r. load j' h = Inr r) hs rs'" "\<forall>g. g \<notin> set hs \<longrightarrow> load j' g = load ?j g"
    using Cons.IH [of ?j rs "Suc k"] by blast
  have "load j' h = Inr r'" using rest(6) Cons.prems(2) loads [of h] same [OF r'(2)] h(1) by auto
  moreover have "map fst (entries ?j) = map fst (entries j)" using store_names [of j r' r] h(1) r'(4) by simp
  ultimately show ?case
    using rest r' hash loads by (intro exI [of _ "r' # rs'"] exI [of _ j']) (auto simp: rs0)
qed simp

lemma record_name_hash: "is_record_name name \<Longrightarrow> record_name (take (length name - 5) name) = name"
  using append_take_drop_id [of "length name - 5" name] by (simp add: is_record_name_def record_name_def endswith_def eval_nat_numeral)

lemma list_records_Inr:
  "list_records j = Inr rs \<longleftrightarrow> safe_root j = Inr () \<and> length (entries j) \<le> MAX_DIRECTORY_ENTRIES_SCANNED
     \<and> length (filter is_record_name (map fst (entries j))) \<le> MAX_JOURNAL_RECORDS
     \<and> list_all2 (\<lambda>h r. load j h = Inr r)
         (map (\<lambda>name. take (length name - 5) name) (sort (filter is_record_name (map fst (entries j))))) rs"
  by (auto simp: list_records_def bounded_directory_names_def Let_def rmap_eq_Inr list.rel_map)

lemma distinct_hashes:
  assumes "distinct (map fst (entries j))"
  shows "distinct (map (\<lambda>name. take (length name - 5) name) (sort (filter is_record_name (map fst (entries j)))))"
proof -
  have "inj_on (\<lambda>name. take (length name - 5) name) {name. is_record_name name}"
    by (rule inj_onI) (metis mem_Collect_eq record_name_hash)
  then show ?thesis using assms by (auto simp: distinct_map intro: inj_on_subset)
qed

text \<open>
  Property C26: a restart aborts exactly the interrupted runs. In every reachable journal whose
  records all load, \<^verbatim>\<open>recover_all\<close> succeeds; a record that was executing becomes crash-aborted, one
  that only held a snapshot becomes cleanup-required, both with their failure code and one
  revision later; every other record is unchanged, and the journal lists the returned records.
\<close>

theorem recover_all_spec:
  assumes "journal_step\<^sup>*\<^sup>* (empty_journal ns) j" "list_records j = Inr rs"
    and "\<forall>k. 0 \<le> clocks k \<and> clocks k \<le> 2 ^ 63 - 1"
  shows "\<exists>rs' j'. recover_all clocks j = (Inr rs', j') \<and> list_all2 recovered rs rs' \<and> list_records j' = Inr rs'"
proof -
  let ?hs = "map (\<lambda>name. take (length name - 5) name) (sort (filter is_record_name (map fst (entries j))))"
  have inv: "journal_inv j" using assms(1) by (rule inv_reachable)
  have l: "list_all2 (\<lambda>h r. load j h = Inr r) ?hs rs" using assms(2) by (simp add: list_records_Inr)
  have "j_revision r \<le> 10" if "load j h = Inr r" for h r
  proof -
    have "ranked r" using inv that by (auto simp: journal_inv_def)
    then show ?thesis using journal_rank_le [of "j_state r"] by (simp add: ranked_def)
  qed
  with l have l': "list_all2 (\<lambda>h r. load j h = Inr r \<and> j_revision r \<le> 10) ?hs rs" by (elim list_all2_mono) simp
  have "distinct ?hs" using inv by (intro distinct_hashes) (simp add: journal_inv_def)
  from recover_each_ok [OF l' this assms(3), of 0] obtain rs' j' where r: "recover_each clocks 0 rs j = (Inr rs', j')"
    "list_all2 recovered rs rs'" "ancestry j' = ancestry j" "map fst (entries j') = map fst (entries j)"
    "list_all2 (\<lambda>h r. load j' h = Inr r) ?hs rs'" by blast
  have "length (entries j') = length (entries j)" using r(4) by (metis length_map)
  then have "list_records j' = Inr rs'" using assms(2) r(3,5) unfolding list_records_Inr r(4) by simp
  then show ?thesis using r(1,2) assms(2) by (simp add: recover_all_def)
qed

section \<open>Progress\<close>

lemma transition_ok:
  assumes "load j h = Inr r" "map_of ALLOWED_TRANSITIONS (j_state r) = Some ts" "st \<in> set ts"
    and "st \<notin> {''CRASH_ABORTED'', ''FAILED_CLEANUP_REQUIRED''}" "next_record clock r st fc reason = Inr r'"
    and "case er of None \<Rightarrow> True | Some n \<Rightarrow> j_revision r = n"
  shows "journal_transition clock h st er fc reason j = (Inr r', store r' j)"
proof -
  have "replace_record r' j = (Inr (), store r' j)"
    using next_record_step(1) [OF assms(5)] load_ok(3) [OF assms(1)] by (rule replace_record_ok)
  then show ?thesis unfolding journal_transition_def accepted(1) [OF load_ok(4) [OF assms(1)]]
    using assms by (simp only: keep_Inr option.case ensure_True andthen_Inr if_True simp_thms)
qed

text \<open>A successor without failure is valid when its state carries none.\<close>

lemma next_normal:
  assumes "record_ok r" "j_revision r < 2 ^ 63 - 1" "0 \<le> clock" "clock \<le> 2 ^ 63 - 1" "st \<in> set NORMAL_STATES" "j_failure r = None"
  obtains r' where "next_record clock r st None None = Inr r'" "record_ok r'" "j_state r' = st" "j_failure r' = None"
    "j_revision r' = j_revision r + 1" "j_hash r' = j_hash r"
proof -
  have st: "st \<in> set ALL_STATES" "check_failure st None None = Inr ()"
    using assms(5) by (auto simp: ALL_STATES_def NORMAL_STATES_def check_failure_def)
  have none: "text_ok n None" for n by (simp add: text_ok_def)
  have "times_ok r" "j_state r \<in> set ALL_STATES" "identity_ok (identity_of_record r)" using assms(1) by (simp_all add: record_ok_def)
  with assms(2-4,6) st have "\<exists>r'. next_record clock r st None None = Inr r' \<and> j_failure r' = None \<and> j_revision r' = j_revision r + 1"
    unfolding next_record_def accepted(3) [OF assms(3,4)] rbind.simps validate_record_of
    by (simp add: record_ok_def identity_of_record_def times_ok_def failure_ok_def none le_max_iff_disj)
  then show ?thesis using that next_record_step by (metis fst_conv identity_of_record_def)
qed

lemma next_claimed:
  assumes "identity_ok ident" "0 \<le> now" "now \<le> 2 ^ 63 - 1" "0 \<le> clock" "clock \<le> 2 ^ 63 - 1"
  obtains r' where "next_record clock (requested_record now ident) ''CLAIMED'' None None = Inr r'" "record_ok r'"
    "j_state r' = ''CLAIMED''" "j_failure r' = None" "j_revision r' = 1" "j_hash r' = fst ident"
proof -
  have "j_failure (requested_record now ident) = None" by (cases ident) (simp add: requested_record_def)
  moreover have "''CLAIMED'' \<in> set NORMAL_STATES" by (simp add: NORMAL_STATES_def)
  ultimately show ?thesis
    using next_normal [OF record_requested [OF assms(1-3)] _ assms(4,5)] that by auto
qed

lemma request_fresh:
  assumes "identity_ok ident" "0 \<le> clock" "clock \<le> 2 ^ 63 - 1" "safe_root j = Inr ()" "ensure_capacity_for_new_record j = Inr ()"
    and "map_of (entries j) (record_name (fst ident)) = None"
  shows "request_dispatch clock ident j = (Inr (requested_record clock ident, True), store (requested_record clock ident) j)"
proof -
  have "fullmatch_hex 64 (fst ident)" using assms(1) by (cases ident) (simp add: identity_ok_def)
  then have "load j (fst ident) = Inl (Exn FileNotFoundError [])"
    using assms(4,6) by (simp add: load_def read_json_exact_def read_bounded_def raise_def del: read_bounded_Inr)
  moreover have "write_exclusive (record_name (fst ident)) (record_bytes (requested_record clock ident)) j
      = (Inr (), store (requested_record clock ident) j)"
    using assms(4,6) by (simp add: write_exclusive_def store_def)
  ultimately show ?thesis
    using assms(5) record_bytes_of [OF record_requested [OF assms(1-3)]] accepted(3) [OF assms(2,3)]
    by (simp add: request_dispatch_def exn_isinstance_def exn_bases_def del: now_ns_Inr)
qed

lemma claim_fresh:
  assumes "identity_ok ident" "\<forall>k. 0 \<le> clocks k \<and> clocks k \<le> 2 ^ 63 - 1" "safe_root j = Inr ()"
    and "ensure_capacity_for_new_record j = Inr ()"
    and "map_of (entries j) (record_name (fst ident)) = None" "map_of (entries j) (claim_name (fst ident)) = None"
  shows "\<exists>c j'. claim_dispatch clocks ident j = (Inr c, j') \<and> new_dispatch c \<and> claim_acquired c
    \<and> j_state (claim_record c) = ''CLAIMED'' \<and> j_revision (claim_record c) = 1 \<and> j_failure (claim_record c) = None
    \<and> load j' (fst ident) = Inr (claim_record c) \<and> ancestry j' = ancestry j
    \<and> map fst (entries j') = map fst (entries j) @ [record_name (fst ident), claim_name (fst ident)]"
proof -
  have cl: "0 \<le> clocks k" "clocks k \<le> 2 ^ 63 - 1" for k using assms(2) by blast+
  let ?r = "requested_record (clocks 0) ident" and ?j1 = "store (requested_record (clocks 0) ident) j"
  have r: "record_ok ?r" using record_requested [OF assms(1) cl] .
  have names: "k \<notin> fst ` set xs \<Longrightarrow> map fst (alist_put k v xs) = map fst xs @ [k]" for k and v :: entry and xs
    by (induction k v xs rule: alist_put.induct) auto
  obtain raw where raw: "journal_json_bytes (JObj (claim_marker (clocks 1) ident)) = Inr raw" using marker_fits [OF assms(1) cl] by blast
  let ?j2 = "with_entry (claim_name (fst ident)) raw ?j1"
  have "write_exclusive (claim_name (fst ident)) raw ?j1 = (Inr (), ?j2)"
    using assms(3,6) by (simp add: write_exclusive_def with_entry_def)
  then have acq: "acquire_claim (clocks 1) ident ?j1 = (Inr True, ?j2)"
    unfolding acquire_claim_def accepted(3) [OF cl] keep_Inr raw by simp
  have l2: "load ?j2 (fst ident) = Inr ?r" using load_stored [OF r, of ?j2] assms(3) by simp
  obtain r' where r': "next_record (clocks 2) ?r ''CLAIMED'' None None = Inr r'" "record_ok r'"
    "j_state r' = ''CLAIMED''" "j_failure r' = None" "j_revision r' = 1" "j_hash r' = fst ident"
    using next_claimed [OF assms(1) cl cl] .
  have "map_of ALLOWED_TRANSITIONS (j_state ?r) = Some [''CLAIMED'', ''FAILED'', ''QUARANTINED'']"
    by (simp add: ALLOWED_TRANSITIONS_def)
  from transition_ok [OF l2 this _ _ r'(1), of "Some (j_revision ?r)"]
  have "finish_claim (clocks 2) ident True True ?j2
      = (Inr \<lparr>claim_record = r', new_dispatch = True, claim_acquired = True\<rparr>, store r' ?j2)"
    unfolding finish_claim_def l2 keep_Inr by simp
  then have "claim_dispatch clocks ident j = (Inr \<lparr>claim_record = r', new_dispatch = True, claim_acquired = True\<rparr>, store r' ?j2)"
    unfolding claim_dispatch_def accepted(2) [OF assms(1)] keep_Inr request_fresh [OF assms(1) cl assms(3-5)] andthen_Inr prod.case
    by (simp add: require_same_identity_def acq del: One_nat_def)
  moreover have "load (store r' ?j2) (fst ident) = Inr r'" using r'(2,6) assms(3) by (simp add: load_store)
  moreover have "map fst (entries (store r' ?j2)) = map fst (entries j) @ [record_name (fst ident), claim_name (fst ident)]"
  proof -
    have "map fst (entries (store r' ?j2)) = map fst (entries ?j2)" using l2 r'(6) by (intro store_names) simp
    also have "\<dots> = map fst (entries j) @ [record_name (fst ident), claim_name (fst ident)]"
      using assms(5,6) by (simp add: with_entry_def store_def names map_of_eq_None_iff)
    finally show ?thesis .
  qed
  ultimately show ?thesis using r' by auto
qed

text \<open>
  A fresh dispatch can be claimed. If a safe journal has room and holds neither a record
  nor a claim marker of the dispatch, \<^verbatim>\<open>claim_dispatch\<close> with valid identifiers succeeds: it is a new
  dispatch, the caller owns the execution, the stored record is claimed at revision one, and the
  only new files are the record and the marker.
\<close>

theorem fresh_dispatch_claimed:
  assumes "identity_ok ident" "\<forall>k. 0 \<le> clocks k \<and> clocks k \<le> 2 ^ 63 - 1" "safe_root j = Inr ()"
    and "ensure_capacity_for_new_record j = Inr ()"
    and "map_of (entries j) (record_name (fst ident)) = None" "map_of (entries j) (claim_name (fst ident)) = None"
  shows "\<exists>c j'. claim_dispatch clocks ident j = (Inr c, j') \<and> new_dispatch c \<and> claim_acquired c
    \<and> j_state (claim_record c) = ''CLAIMED'' \<and> j_revision (claim_record c) = 1 \<and> j_failure (claim_record c) = None
    \<and> load j' (fst ident) = Inr (claim_record c) \<and> ancestry j' = ancestry j
    \<and> map fst (entries j') = map fst (entries j) @ [record_name (fst ident), claim_name (fst ident)]"
  using claim_fresh [OF assms] .

end
