(* ===== verification/Journal_Example.thy ===== *)
theory Journal_Example
  imports Journal_Recovery
begin

text \<open>
  A run of the verifier journal on a concrete dispatch: it is claimed in an empty directory and goes
  through all states to the end. The theorems of the journal applied to this run.
\<close>

definition test_hash :: string where "test_hash = replicate 64 (CHR ''a'')"

definition test_ident :: identity where
  "test_ident = (test_hash, ''T-1'', 1, ''verifier'', replicate 32 (CHR ''0''))"

abbreviation test_root :: journal where "test_root \<equiv> empty_journal [NodeDirectory]"

lemma test_ident_ok: "identity_ok test_ident" "fst test_ident = test_hash"
  by (code_simp, simp add: test_ident_def)

lemma test_clocks: "\<forall>k :: nat. 0 \<le> (1000 :: int) \<and> (1000 :: int) \<le> 2 ^ 63 - 1"
  by simp

lemma test_root_simps: "safe_root test_root = Inr ()" "ensure_capacity_for_new_record test_root = Inr ()" "entries test_root = []"
  by (simp_all add: empty_journal_def ensure_capacity_for_new_record_def bounded_directory_names_def MAX_JOURNAL_RECORDS_def)

text \<open>The states of a run that succeeds.\<close>

definition test_path :: "string list" where
  "test_path = [''SOURCE_VERIFIED'', ''SNAPSHOT_ACQUIRED'', ''EXECUTING'', ''EXECUTION_SEALED'', ''RELEASE_PENDING'',
     ''CLEANUP_ACKED'', ''RECEIPT_PERSISTED'', ''TERMINAL_APPENDED'', ''DONE'']"

fun allowed_path :: "string \<Rightarrow> string list \<Rightarrow> bool" where
  "allowed_path s [] = True"
| "allowed_path s (t # ts) \<longleftrightarrow>
     (case map_of ALLOWED_TRANSITIONS s of None \<Rightarrow> False | Some us \<Rightarrow> t \<in> set us) \<and> t \<in> set NORMAL_STATES \<and> allowed_path t ts"

lemma normal_not_crash: "st \<in> set NORMAL_STATES \<Longrightarrow> st \<notin> {''CRASH_ABORTED'', ''FAILED_CLEANUP_REQUIRED''}"
  by (auto simp: NORMAL_STATES_def)

lemma run_path:
  assumes "allowed_path (j_state r) path" "load j h = Inr r" "j_failure r = None" "j_revision r + int (length path) < 100"
  shows "\<exists>j' r'. journal_step\<^sup>*\<^sup>* j j' \<and> load j' h = Inr r' \<and> j_failure r' = None \<and> j_state r' = last (j_state r # path)
    \<and> j_revision r' = j_revision r + int (length path) \<and> map fst (entries j') = map fst (entries j) \<and> ancestry j' = ancestry j"
  using assms
proof (induction path arbitrary: r j)
  case (Cons st path)
  obtain ts where st: "map_of ALLOWED_TRANSITIONS (j_state r) = Some ts" "st \<in> set ts" "st \<in> set NORMAL_STATES" "allowed_path st path"
    using Cons.prems(1) by (auto split: option.splits)
  have "j_revision r < 2 ^ 63 - 1" using Cons.prems(4) by simp
  then obtain r' where r': "next_record 1000 r st None None = Inr r'" "record_ok r'" "j_state r' = st" "j_failure r' = None"
    "j_revision r' = j_revision r + 1" "j_hash r' = h"
    using next_normal [OF load_ok(1) [OF Cons.prems(2)] _ _ _ st(3) Cons.prems(3), of 1000] load_ok(2) [OF Cons.prems(2)] by auto
  have "journal_transition 1000 h st None None None j = (Inr r', store r' j)"
    by (rule transition_ok [OF Cons.prems(2) st(1,2) normal_not_crash [OF st(3)] r'(1)]) simp
  then have step: "journal_step j (store r' j)" by (rule journal_step.transition)
  have l: "load (store r' j) h = Inr r'" using r' load_ok(3) [OF Cons.prems(2)] by (simp add: load_store)
  have names: "map fst (entries (store r' j)) = map fst (entries j)"
    using store_names [of j r' r] Cons.prems(2) r'(6) by simp
  from Cons.IH [of r' "store r' j"] st(4) r' l Cons.prems(4)
  obtain j'' r'' where "journal_step\<^sup>*\<^sup>* (store r' j) j''" "load j'' h = Inr r''" "j_failure r'' = None" "j_state r'' = last (st # path)"
    "j_revision r'' = j_revision r' + int (length path)" "map fst (entries j'') = map fst (entries (store r' j))"
    "ancestry j'' = ancestry (store r' j)" by auto
  then show ?case
    using step r'(5) names by (intro exI [of _ j''] exI [of _ r'']) (simp add: converse_rtranclp_into_rtranclp [where b = "store r' j"])
qed auto

lemma test_claimed:
  obtains c j where "claim_dispatch (\<lambda>k. 1000) test_ident test_root = (Inr c, j)" "claim_acquired c"
    "load j test_hash = Inr (claim_record c)" "j_state (claim_record c) = ''CLAIMED''" "j_revision (claim_record c) = 1"
    "j_failure (claim_record c) = None" "map fst (entries j) = [record_name test_hash, claim_name test_hash]" "safe_root j = Inr ()"
proof -
  have "map_of (entries test_root) name = None" for name by (simp add: test_root_simps)
  from claim_fresh [OF test_ident_ok(1) test_clocks test_root_simps(1,2) this this] obtain c j where
    c: "claim_dispatch (\<lambda>k. 1000) test_ident test_root = (Inr c, j)" "claim_acquired c"
      "load j test_hash = Inr (claim_record c)" "j_state (claim_record c) = ''CLAIMED''" "j_revision (claim_record c) = 1"
      "j_failure (claim_record c) = None" "map fst (entries j) = [record_name test_hash, claim_name test_hash]"
    by (auto simp: test_ident_ok test_root_simps)
  show ?thesis by (rule that [OF c load_ok(3) [OF c(3)]])
qed

lemma test_run:
  assumes "allowed_path ''CLAIMED'' path" "length path < 90"
  obtains j r where "journal_step\<^sup>*\<^sup>* test_root j" "load j test_hash = Inr r" "j_state r = last (''CLAIMED'' # path)"
    "j_failure r = None" "map fst (entries j) = [record_name test_hash, claim_name test_hash]"
proof -
  obtain c j where c: "claim_dispatch (\<lambda>k. 1000) test_ident test_root = (Inr c, j)" "claim_acquired c"
      "load j test_hash = Inr (claim_record c)" "j_state (claim_record c) = ''CLAIMED''" "j_revision (claim_record c) = 1"
      "j_failure (claim_record c) = None" "map fst (entries j) = [record_name test_hash, claim_name test_hash]" "safe_root j = Inr ()"
    by (rule test_claimed)
  have "journal_step\<^sup>*\<^sup>* test_root j" using journal_step.claim [OF c(1)] by blast
  moreover obtain j' r' where "journal_step\<^sup>*\<^sup>* j j'" "load j' test_hash = Inr r'" "j_failure r' = None"
    "j_state r' = last (''CLAIMED'' # path)" "map fst (entries j') = map fst (entries j)"
    using run_path [of "claim_record c" path j test_hash] assms c(3-6) by auto
  ultimately show ?thesis using that [of j' r'] c(7) rtranclp_trans [of journal_step test_root j j'] by simp
qed

section \<open>Witnesses\<close>

theorem fresh_dispatch_claimed_witness:
  "\<exists>c j'. claim_dispatch (\<lambda>k. 1000) test_ident test_root = (Inr c, j') \<and> new_dispatch c \<and> claim_acquired c
    \<and> j_state (claim_record c) = ''CLAIMED'' \<and> load j' test_hash = Inr (claim_record c)"
proof -
  have none: "map_of (entries test_root) name = None" for name by (simp add: test_root_simps)
  show ?thesis
    using fresh_dispatch_claimed [OF test_ident_ok(1) test_clocks test_root_simps(1,2) none none]
    by (auto simp: test_ident_ok)
qed

theorem journal_refines_records_witness:
  "\<exists>j j' r r'. load j test_hash = Inr r \<and> j_state r = ''CLAIMED'' \<and> load j' test_hash = Inr r' \<and> record_step\<^sup>*\<^sup>* r r' \<and> j_state r' = ''DONE''"
proof -
  obtain c j where c: "claim_dispatch (\<lambda>k. 1000) test_ident test_root = (Inr c, j)" "claim_acquired c"
      "load j test_hash = Inr (claim_record c)" "j_state (claim_record c) = ''CLAIMED''" "j_revision (claim_record c) = 1"
      "j_failure (claim_record c) = None" "map fst (entries j) = [record_name test_hash, claim_name test_hash]" "safe_root j = Inr ()"
    by (rule test_claimed)
  have "allowed_path ''CLAIMED'' test_path" by code_simp
  then obtain j' r' where s: "journal_step\<^sup>*\<^sup>* j j'" "load j' test_hash = Inr r'" "j_state r' = last (''CLAIMED'' # test_path)"
    using run_path [of "claim_record c" test_path j test_hash] c(3-6) by (auto simp: test_path_def)
  from journal_refines_records [OF s(1) c(3)] s(2) have "record_step\<^sup>*\<^sup>* (claim_record c) r'" by auto
  with c(3,4) s show ?thesis by (auto simp: test_path_def)
qed

theorem dispatch_claimed_once_witness:
  "\<exists>c j. claim_dispatch (\<lambda>k. 1000) test_ident test_root = (Inr c, j) \<and> claim_acquired c
    \<and> (\<nexists>c'. claim_dispatch (\<lambda>k. 1000) test_ident j = (Inr c', j) \<and> claim_acquired c')"
proof -
  obtain c j where c: "claim_dispatch (\<lambda>k. 1000) test_ident test_root = (Inr c, j)" "claim_acquired c"
      "load j test_hash = Inr (claim_record c)" "j_state (claim_record c) = ''CLAIMED''" "j_revision (claim_record c) = 1"
      "j_failure (claim_record c) = None" "map fst (entries j) = [record_name test_hash, claim_name test_hash]" "safe_root j = Inr ()"
    by (rule test_claimed)
  have False if "claim_dispatch (\<lambda>k. 1000) test_ident j = (Inr c', j)" "claim_acquired c'" for c'
  proof -
    have "history journal_step [test_root, j, j]"
      using journal_step.claim [OF c(1)] journal_step.claim [OF that(1)] by (auto simp: history_def less_Suc_eq)
    from dispatch_claimed_once [OF this, of 0 1 "\<lambda>k. 1000" test_ident c "\<lambda>k. 1000" test_ident c'] c(1,2) that show False by simp
  qed
  with c(1,2) show ?thesis by blast
qed

theorem revisions_bounded_witness:
  "\<exists>j r. load j test_hash = Inr r \<and> j_state r = ''DONE'' \<and> 0 \<le> j_revision r \<and> j_revision r \<le> 10"
proof -
  have "allowed_path ''CLAIMED'' test_path" "length test_path < 90" by code_simp+
  then obtain j r where r: "journal_step\<^sup>*\<^sup>* test_root j" "load j test_hash = Inr r" "j_state r = last (''CLAIMED'' # test_path)"
    "j_failure r = None" "map fst (entries j) = [record_name test_hash, claim_name test_hash]"
    by (rule test_run)
  with revisions_bounded [OF r(1,2)] show ?thesis by (auto simp: test_path_def)
qed



theorem recover_all_spec_witness:
  "\<exists>j r r' j'. load j test_hash = Inr r \<and> j_state r = ''EXECUTING'' \<and> recover_all (\<lambda>k. 1000) j = (Inr [r'], j')
    \<and> j_state r' = ''CRASH_ABORTED''"
proof -
  let ?before = "[''SOURCE_VERIFIED'', ''SNAPSHOT_ACQUIRED'', ''EXECUTING'']"
  have "allowed_path ''CLAIMED'' ?before" "length ?before < 90" by code_simp+
  then obtain j r where r: "journal_step\<^sup>*\<^sup>* test_root j" "load j test_hash = Inr r" "j_state r = last (''CLAIMED'' # ?before)"
    "j_failure r = None" "map fst (entries j) = [record_name test_hash, claim_name test_hash]"
    by (rule test_run)
  have "is_record_name (record_name test_hash)" "\<not> is_record_name (claim_name test_hash)"
    "take (length (record_name test_hash) - 5) (record_name test_hash) = test_hash" by code_simp+
  moreover have "length (entries j) = 2" using arg_cong [OF r(5), of length] by simp
  ultimately have "list_records j = Inr [r]"
    unfolding list_records_Inr r(5) using r(2) load_ok(3) [OF r(2)]
    by (simp add: MAX_DIRECTORY_ENTRIES_SCANNED_def MAX_JOURNAL_RECORDS_def)
  from recover_all_spec [OF r(1) this test_clocks] obtain rs' j' where
    "recover_all (\<lambda>k. 1000) j = (Inr rs', j')" "list_all2 recovered [r] rs'" by blast
  moreover from this(2) obtain r' where "rs' = [r']" "recovered r r'" by (auto simp: list_all2_Cons1)
  ultimately show ?thesis using r(2,3) by (auto simp: recovered_def interrupted_def recovery_target_def)
qed

end
