(* ===== verification/Trust_Material.thy ===== *)
theory Trust_Material
  imports Documents Task_Model "HOL-Library.Word"
begin

unbundle bit_operations_syntax

text \<open>
  What the three Ed25519 trust domains of the program share (the snapshot broker, the dedicated
  verifier and the ledger authority): POSIX paths, the metadata of files, the host they run on,
  strict base64 and bounded canonical JSON.
\<close>

section \<open>Paths\<close>

text \<open>
  A \<^verbatim>\<open>pathlib.PurePosixPath\<close>: its root (empty, one slash, or the two slashes that POSIX keeps
  apart) and its components, without empty ones and single dots.
\<close>

datatype path = Path (path_root: string) (path_parts: "string list")

fun split_slash :: "string \<Rightarrow> string list" where
  "split_slash [] = [[]]"
| "split_slash (c # s) =
     (if c = CHR ''/'' then [] # split_slash s
      else case split_slash s of [] \<Rightarrow> [[c]] | p # ps \<Rightarrow> (c # p) # ps)"

definition parse_path :: "string \<Rightarrow> path" where
  "parse_path s =
     Path (if startswith s ''//'' \<and> \<not> startswith s ''///'' then ''//''
           else if startswith s ''/'' then ''/'' else [])
       (filter (\<lambda>p. p \<noteq> [] \<and> p \<noteq> ''.'') (split_slash s))"

definition path_str :: "path \<Rightarrow> string" where
  "path_str p =
     (if path_root p = [] \<and> path_parts p = [] then ''.'' else path_root p @ join ''/'' (path_parts p))"

definition is_absolute :: "path \<Rightarrow> bool" where
  "is_absolute p \<longleftrightarrow> path_root p \<noteq> []"

definition path_parents :: "path \<Rightarrow> path list" where
  "path_parents p = map (\<lambda>n. Path (path_root p) (take n (path_parts p))) (rev [0..<length (path_parts p)])"

definition path_name :: "path \<Rightarrow> string" where
  "path_name p = (if path_parts p = [] then [] else last (path_parts p))"

definition child :: "path \<Rightarrow> string \<Rightarrow> path" where
  "child p name = Path (path_root p) (path_parts p @ [name])"

text \<open>\<^verbatim>\<open>path.relative_to(root)\<close>, \<open>None\<close> where it raises.\<close>

definition relative_to :: "path \<Rightarrow> path \<Rightarrow> path option" where
  "relative_to p r =
     (if path_root p = path_root r \<and> take (length (path_parts r)) (path_parts p) = path_parts r
      then Some (Path [] (drop (length (path_parts r)) (path_parts p))) else None)"

lemma path_parents_parts: "q \<in> set (path_parents p) \<Longrightarrow> length (path_parts q) < length (path_parts p)"
  by (auto simp: path_parents_def)

lemma relative_to_child:
  assumes "relative_to p r = Some q"
  shows "relative_to (child p name) r = Some (child q name)"
proof -
  from assms have r: "path_root p = path_root r" "take (length (path_parts r)) (path_parts p) = path_parts r"
    and q: "q = Path [] (drop (length (path_parts r)) (path_parts p))"
    by (simp_all add: relative_to_def split: if_splits)
  from r(2) have "length (path_parts r) \<le> length (path_parts p)" by (metis length_take min.cobounded1)
  with r q show ?thesis by (simp add: relative_to_def child_def)
qed

section \<open>File metadata\<close>

text \<open>The result of \<^verbatim>\<open>os.stat\<close>; the mode word holds the file type above the permission bits.\<close>

type_synonym mode = "16 word"

record metadata =
  st_mode :: mode
  st_uid :: int
  st_gid :: int
  st_dev :: int
  st_ino :: int
  st_nlink :: int
  st_size :: int

definition S_IFMT :: "mode \<Rightarrow> mode" where "S_IFMT m = m AND 0xF000"
definition S_ISLNK :: "mode \<Rightarrow> bool" where "S_ISLNK m \<longleftrightarrow> S_IFMT m = 0xA000"
definition S_ISDIR :: "mode \<Rightarrow> bool" where "S_ISDIR m \<longleftrightarrow> S_IFMT m = 0x4000"
definition S_ISREG :: "mode \<Rightarrow> bool" where "S_ISREG m \<longleftrightarrow> S_IFMT m = 0x8000"
definition S_IMODE :: "mode \<Rightarrow> mode" where "S_IMODE m = m AND 0x0FFF"
definition S_IRGRP :: mode where "S_IRGRP = 0x20"
definition S_IWGRP :: mode where "S_IWGRP = 0x10"
definition S_IROTH :: mode where "S_IROTH = 0x04"
definition S_IWOTH :: mode where "S_IWOTH = 0x02"

lemmas stat_defs = S_IFMT_def S_ISLNK_def S_ISDIR_def S_ISREG_def S_IMODE_def S_IRGRP_def S_IWGRP_def
  S_IROTH_def S_IWOTH_def

text \<open>\<^verbatim>\<open>mode & (S_IWGRP | S_IWOTH)\<close> is not zero.\<close>

definition actor_writable :: "metadata \<Rightarrow> bool" where
  "actor_writable m \<longleftrightarrow> st_mode m AND (S_IWGRP OR S_IWOTH) \<noteq> 0"

lemma file_type_exclusive:
  "S_ISREG m \<Longrightarrow> \<not> S_ISLNK m" "S_ISDIR m \<Longrightarrow> \<not> S_ISLNK m" "S_ISREG m \<Longrightarrow> \<not> S_ISDIR m"
  by (auto simp: stat_defs)

section \<open>The host\<close>

text \<open>
  What the operating system and the OpenSSL executable report, during one operation: the metadata
  of a path without following a final link, the contents of a readable file, the names in a
  directory, the permission to execute, and the outcomes of \<^verbatim>\<open>openssl pkeyutl\<close> (exit code and
  signature file) and \<^verbatim>\<open>openssl pkey\<close> (exit code and standard output) for the executable and key at
  two paths; then the running interpreter and \<^verbatim>\<open>Path.resolve\<close>. \<open>None\<close> stands for \<^verbatim>\<open>OSError\<close> or \<^verbatim>\<open>SubprocessError\<close>.
\<close>

record trust_host = runtime +
  os_posix :: bool
  lstat :: "path \<Rightarrow> metadata option"
  read_file :: "path \<Rightarrow> string option"
  scandir :: "path \<Rightarrow> string list option"
  executable_by :: "path \<Rightarrow> bool"
  pkeyutl_sign :: "path \<Rightarrow> path \<Rightarrow> string \<Rightarrow> (int \<times> string option) option"
  pkeyutl_verify :: "path \<Rightarrow> path \<Rightarrow> string \<Rightarrow> string \<Rightarrow> int option"
  pkey_der :: "path \<Rightarrow> path \<Rightarrow> (int \<times> string) option"
  sys_executable :: path
  resolved :: "path \<Rightarrow> path"

definition sha256_file :: "('r) trust_host_scheme \<Rightarrow> path \<Rightarrow> string res" where
  "sha256_file H p = (case read_file H p of None \<Rightarrow> raise OSError [] | Some raw \<Rightarrow> Inr (sha256_hex H raw))"

text \<open>
  \<^verbatim>\<open>path.read_text(encoding="ascii")\<close>, \<open>None\<close> where it raises \<^verbatim>\<open>OSError\<close> or \<^verbatim>\<open>UnicodeError\<close>. The callers strip
  the text and demand hexadecimal digits, so the translation of line ends does not matter.
\<close>

definition read_ascii :: "('r) trust_host_scheme \<Rightarrow> path \<Rightarrow> string option" where
  "read_ascii H p =
     (case read_file H p of None \<Rightarrow> None | Some raw \<Rightarrow> if is_ascii raw then Some raw else None)"

text \<open>Metadata of a path and of all its parents, \<open>None\<close> if one of them cannot be read.\<close>

definition lstat_all :: "('r) trust_host_scheme \<Rightarrow> path list \<Rightarrow> metadata list option" where
  "lstat_all H ps = those (map (lstat H) ps)"

lemma those_eq_Some: "those xs = Some ys \<longleftrightarrow> xs = map Some ys"
proof (induction xs arbitrary: ys)
  case (Cons x xs)
  show ?case by (cases x; cases ys) (auto simp: Cons)
qed auto

lemma lstat_all_eq_Some: "lstat_all H ps = Some ms \<longleftrightarrow> map (lstat H) ps = map Some ms"
  by (simp add: lstat_all_def those_eq_Some)

text \<open>
  \<open>lstat_resolves\<close> is the law of path resolution: what lies below a path exists only if that path
  is a directory, or a link to one.
\<close>

definition lstat_resolves :: "('r) trust_host_scheme \<Rightarrow> bool" where
  "lstat_resolves H \<longleftrightarrow>
     (\<forall>p m q. lstat H p = Some m \<longrightarrow> q \<in> set (path_parents p) \<longrightarrow>
        (\<exists>n. lstat H q = Some n \<and> (S_ISDIR (st_mode n) \<or> S_ISLNK (st_mode n))))"

text \<open>A pair of key files for which OpenSSL verifies what it signed.\<close>

definition ed25519_pair :: "('r) trust_host_scheme \<Rightarrow> path \<Rightarrow> path \<Rightarrow> path \<Rightarrow> bool" where
  "ed25519_pair H openssl private public \<longleftrightarrow>
     (\<forall>m s. pkeyutl_sign H openssl private m = Some (0, Some s) \<longrightarrow> pkeyutl_verify H openssl public m s = Some 0)"

text \<open>
  What the checks of the three domains establish of a trust file: it is a regular file, and it and all
  directories above it belong to root and can be written by root only.
\<close>

definition root_only :: "metadata \<Rightarrow> bool" where
  "root_only m \<longleftrightarrow> \<not> S_ISLNK (st_mode m) \<and> st_uid m = 0 \<and> \<not> actor_writable m"

definition root_protected :: "('r) trust_host_scheme \<Rightarrow> path \<Rightarrow> bool" where
  "root_protected H p \<longleftrightarrow>
     os_posix H \<and> is_absolute p \<and> (\<exists>m. lstat H p = Some m \<and> S_ISREG (st_mode m) \<and> root_only m)
     \<and> (\<forall>q\<in>set (path_parents p). \<exists>m. lstat H q = Some m \<and> S_ISDIR (st_mode m) \<and> root_only m)"

lemma lstat_all_ball:
  "lstat_all H ps = Some ms \<Longrightarrow> (\<forall>m\<in>set ms. P m) \<longleftrightarrow> (\<forall>q\<in>set ps. \<exists>m. lstat H q = Some m \<and> P m)"
proof (unfold lstat_all_eq_Some, induction ps arbitrary: ms)
  case (Cons q ps)
  then obtain m ms' where "ms = m # ms'" "lstat H q = Some m" "map (lstat H) ps = map Some ms'" by (cases ms) auto
  with Cons.IH [of ms'] show ?case by auto
qed simp

lemma lstat_all_None: "lstat_all H ps = None \<longleftrightarrow> (\<exists>q\<in>set ps. lstat H q = None)"
  unfolding lstat_all_def by (induction ps) (auto split: option.splits)

lemma lstat_all_cases:
  "(case lstat_all H ps of None \<Rightarrow> False | Some ms \<Rightarrow> \<forall>m\<in>set ms. P m)
     \<longleftrightarrow> (\<forall>q\<in>set ps. \<exists>m. lstat H q = Some m \<and> P m)"
proof (cases "lstat_all H ps")
  case None
  then obtain q where "q \<in> set ps" "lstat H q = None" using lstat_all_None [of H ps] by blast
  with None show ?thesis by force
next
  case (Some ms)
  then show ?thesis using lstat_all_ball [OF Some, of P] by simp
qed

section \<open>Strict base64\<close>

text \<open>
  \<^verbatim>\<open>base64.b64encode\<close> uses the standard alphabet and pads; \<^verbatim>\<open>base64.b64decode(s, validate=True)\<close> refuses every
  character outside the alphabet, padding that is not at the end and anything after it. Bits left over
  in the last character are dropped.
\<close>

definition std_letter :: "char \<Rightarrow> char" where
  "std_letter c = (if c = CHR ''-'' then CHR ''+'' else if c = CHR ''_'' then CHR ''/'' else c)"

definition std_b64encode :: "string \<Rightarrow> string" where
  "std_b64encode s = map std_letter (pad4 (b64encode s))"

definition std_value :: "char \<Rightarrow> nat option" where
  "std_value c = (if c = CHR ''-'' \<or> c = CHR ''_'' then None else b64_value c)"

fun a2b_strict :: "nat \<Rightarrow> nat \<Rightarrow> nat \<Rightarrow> string \<Rightarrow> string \<Rightarrow> string option" where
  "a2b_strict quad_pos leftchar pads out [] = (if quad_pos = 0 then Some (rev out) else None)"
| "a2b_strict quad_pos leftchar pads out (c # s) =
     (if c = CHR ''='' then
        (if quad_pos = 0 then None
         else if 2 \<le> quad_pos \<and> 4 \<le> quad_pos + (pads + 1) then (if s = [] then Some (rev out) else None)
         else a2b_strict quad_pos leftchar (pads + 1) out s)
      else if 0 < pads then None
      else case std_value c of
          None \<Rightarrow> None
        | Some v \<Rightarrow>
            if quad_pos = 0 then a2b_strict 1 v 0 out s
            else if quad_pos = 1 then a2b_strict 2 (v mod 16) 0 (char_of (leftchar * 4 + v div 16) # out) s
            else if quad_pos = 2 then a2b_strict 3 (v mod 4) 0 (char_of (leftchar * 16 + v div 4) # out) s
            else a2b_strict 0 0 0 (char_of (leftchar * 64 + v) # out) s)"

definition std_b64decode :: "string \<Rightarrow> string option" where
  "std_b64decode s = (if is_ascii s then a2b_strict 0 0 0 [] s else None)"

lemma std_value_std_letter: "std_value (std_letter c) = b64_value c"
proof -
  consider "c = CHR ''-''" | "c = CHR ''_''" | "c \<noteq> CHR ''-''" "c \<noteq> CHR ''_''" by blast
  then show ?thesis
    by cases (simp_all add: std_value_def std_letter_def b64_value_def char_class_defs Let_def)
qed

lemma std_value_letter [simp]: "n < 64 \<Longrightarrow> std_value (std_letter (b64_char n)) = Some n"
  by (simp add: std_value_std_letter)

lemma std_letter_ascii: "(of_char c :: nat) < 128 \<Longrightarrow> (of_char (std_letter c) :: nat) < 128"
  by (simp add: std_letter_def)

lemma std_letter_pad [simp]: "std_letter c = CHR ''='' \<longleftrightarrow> c = CHR ''=''"
  by (auto simp: std_letter_def)

lemma std_letter_eq [simp]: "std_letter CHR ''='' = CHR ''=''"
  by (simp add: std_letter_def)

lemma strict_encode3:
  "a2b_strict 0 0 0 out (map std_letter (b64encode [a, b, c]) @ s) = a2b_strict 0 0 0 (c # b # a # out) s"
proof -
  note bounds = of_char_bound [of a] of_char_bound [of b] of_char_bound [of c]
  show ?thesis
    using sextets [OF bounds(1,2)] sextets [OF bounds(3,2)] joins [OF bounds] by (simp add: Let_def)
qed

lemma strict_encode2:
  "a2b_strict 0 0 0 out (map std_letter (b64encode [a, b]) @ ''='') = Some (rev (b # a # out))"
proof -
  note bounds = of_char_bound [of a] of_char_bound [of b]
  show ?thesis
    using sextets [OF bounds] joins [OF bounds bounds(2)] by (simp add: Let_def)
qed

lemma strict_encode1:
  "a2b_strict 0 0 0 out (map std_letter (b64encode [a]) @ ''=='') = Some (rev (a # out))"
proof -
  note bounds = of_char_bound [of a] of_char_bound [of a]
  show ?thesis
    using sextets [OF bounds] joins [OF bounds bounds(2)] by (simp add: Let_def)
qed

lemma strict_encode: "a2b_strict 0 0 0 out (std_b64encode s) = Some (rev out @ s)"
proof (induction s arbitrary: out rule: b64encode.induct)
  case 1
  then show ?case by (simp add: std_b64encode_def pad4_def)
next
  case (2 a)
  have "std_b64encode [a] = map std_letter (b64encode [a]) @ ''==''"
    by (simp add: std_b64encode_def pad4_def Let_def numeral_2_eq_2)
  then show ?case by (simp only: strict_encode1) simp
next
  case (3 a b)
  have "std_b64encode [a, b] = map std_letter (b64encode [a, b]) @ ''=''"
    by (simp add: std_b64encode_def pad4_def Let_def)
  then show ?case by (simp only: strict_encode2) simp
next
  case (4 a b c s)
  have "length (b64encode [a, b, c]) = 4" by (simp add: Let_def)
  then have "pad4 (b64encode (a # b # c # s)) = b64encode [a, b, c] @ pad4 (b64encode s)"
    by (subst b64encode_cons3) (rule pad4_cons4)
  then have "std_b64encode (a # b # c # s) = map std_letter (b64encode [a, b, c]) @ std_b64encode s"
    by (simp add: std_b64encode_def)
  with 4 [OF refl refl refl, of "c # b # a # out"] show ?case by (simp only: strict_encode3) simp
qed

lemma is_ascii_std_b64encode: "is_ascii (std_b64encode s)"
proof -
  have "(of_char c :: nat) < 128" if c: "c \<in> set (pad4 (b64encode s))" for c
  proof (cases "c = CHR ''=''")
    case False
    with c have "c \<in> set (b64encode s)" by (simp only: pad4_def set_append Un_iff in_set_replicate) simp
    then show ?thesis using b64encode_chars [of s] by (simp add: list_all_iff)
  qed simp
  then show ?thesis
    unfolding is_ascii_def std_b64encode_def list_all_iff set_map by (blast intro: std_letter_ascii)
qed

lemma std_b64decode_encode [simp]: "std_b64decode (std_b64encode s) = Some s"
  by (simp add: std_b64decode_def is_ascii_std_b64encode strict_encode)

lemma length_std_b64encode: "length (std_b64encode s) \<le> 2 * length s + 3"
  using length_b64encode [of s] by (simp add: std_b64encode_def pad4_def)

text \<open>
  The check of a detached signature that every domain makes: at most 1024 characters of strict
  base64 that decode to 64 bytes.
\<close>

definition signature_bytes :: "json \<Rightarrow> string option" where
  "signature_bytes v =
     (case v of JStr s \<Rightarrow> if 1024 < py_len s then None else std_b64decode s | _ \<Rightarrow> None)"

lemma signature_bytes_encode [simp]: "length s = 64 \<Longrightarrow> signature_bytes (JStr (std_b64encode s)) = Some s"
  using length_std_b64encode [of s] py_len_le_length [of "std_b64encode s"] by (simp add: signature_bytes_def)

section \<open>Bounded canonical JSON\<close>

definition bounded_json :: "exn_class \<Rightarrow> string \<Rightarrow> string \<Rightarrow> int \<Rightarrow> json \<Rightarrow> string res" where
  "bounded_json c not_canonical too_long limit v =
     (case encode_strict v of
        None \<Rightarrow> raise c not_canonical
      | Some e \<Rightarrow> if limit < int (length e) then raise c too_long else Inr e)"

lemma bounded_json_eq_Inr:
  "bounded_json c m m' n v = Inr e
     \<longleftrightarrow> json_finite v \<and> utf8_valid e \<and> e = canonical_json v \<and> int (length e) \<le> n"
  by (auto simp: bounded_json_def encode_strict_eq_Some split: option.splits)
    (auto simp: encode_strict_def Let_def split: if_splits)

text \<open>Canonical bytes read back as the document with its keys in order, which has the same bytes.\<close>

definition sorted_dict :: "dict \<Rightarrow> dict" where
  "sorted_dict d = sort_key fst (map (map_prod (\<lambda>k. k) sort_keys) d)"

lemma sort_keys_JObj: "sort_keys (JObj d) = JObj (sorted_dict d)"
  by (simp add: sorted_dict_def)

lemma dget_sorted_dict: "distinct (map fst d) \<Longrightarrow> dget (sorted_dict d) k = sort_keys (dget d k)"
  by (simp add: sorted_dict_def dget_or_def map_of_sort_key map_of_map_values comp_def split: option.split)

lemma json_finite_sort_keys: "json_finite (sort_keys v) = json_finite v"
proof (induction v)
  case (JObj kvs)
  then show ?case by (force simp: list_all_iff)
qed (auto simp: list_all_iff)

lemma canonical_json_sort_keys: "canonical_json (sort_keys v) = canonical_json v"
  by (simp add: canonical_json_def dumps_sort_keys)

lemma loads_canonical: "wf_json v \<Longrightarrow> loads (canonical_json v) = Some (sort_keys v)"
  using loads_dumps [of "[]" "[]" "[]" v] by (simp add: canonical_json_def)

lemma bounded_json_sort_keys: "bounded_json c m m' n (sort_keys v) = bounded_json c m m' n v"
  by (simp add: bounded_json_def encode_strict_def canonical_json_sort_keys json_finite_sort_keys)

lemma canonical_json_object: "\<exists>u. canonical_json (JObj d) = CHR ''{'' # u @ ''}''"
  by (simp add: canonical_json_def)

section \<open>A bound on the size of a document\<close>

text \<open>
  No byte takes more than six characters in a JSON string, and the separators of a document are as
  many as its items: the size of the encoding is bounded without encoding or sorting anything.
\<close>

primrec json_bound :: "json \<Rightarrow> int" where
  "json_bound JNull = 4"
| "json_bound (JBool b) = 5"
| "json_bound (JInt n) = int (length (show_int n))"
| "json_bound (JFloat s) = int (length s) + 9"
| "json_bound (JStr s) = 6 * int (length s) + 2"
| "json_bound (JArr xs) = 2 + sum_list (map (\<lambda>n. n + 1) (map json_bound xs))"
| "json_bound (JObj kvs) =
     2 + sum_list (map (\<lambda>p. 6 * int (length (fst p)) + snd p + 4) (map (map_prod (\<lambda>k. k) json_bound) kvs))"

lemma length_esc_char: "length (esc_char c) \<le> 6"
  by (simp add: esc_char_def Let_def)

lemma length_quote: "length (quote s) \<le> 6 * length s + 2"
proof -
  have "length (concat (map esc_char s)) \<le> 6 * length s"
  proof (induction s)
    case (Cons c s)
    then show ?case using length_esc_char [of c] by simp
  qed simp
  then show ?thesis by (simp add: quote_def)
qed

lemma sum_list_mono_int: "\<forall>x\<in>set xs. int (f x) \<le> g x \<Longrightarrow> int (sum_list (map f xs)) \<le> sum_list (map g xs)"
  by (induction xs) auto

lemma json_bound_encodes: "int (length (dumps '','' '':'' v)) \<le> json_bound v"
proof (induction v)
  case (JFloat s)
  then show ?case by (simp add: float_text_def)
next
  case (JStr s)
  then show ?case using length_quote [of s] by simp
next
  case (JArr xs)
  have "length (join '','' (map (dumps '','' '':'') xs)) \<le> sum_list (map (\<lambda>x. length (dumps '','' '':'' x) + 1) xs)"
    using length_join [of "'',''" "map (dumps '','' '':'') xs"] by (simp add: comp_def)
  moreover have "int (sum_list (map (\<lambda>x. length (dumps '','' '':'' x) + 1) xs)) \<le> sum_list (map (\<lambda>x. json_bound x + 1) xs)"
    using JArr by (intro sum_list_mono_int) simp
  ultimately show ?case by (simp add: comp_def)
next
  case (JObj kvs)
  have "int (sum_list (map (\<lambda>(k, v). length (quote k) + length (dumps '','' '':'' v) + 2) kvs))
      \<le> sum_list (map (\<lambda>(k, v). 6 * int (length k) + json_bound v + 4) kvs)"
  proof (rule sum_list_mono_int, rule ballI, clarify)
    fix k v assume "(k, v) \<in> set kvs"
    then have "int (length (dumps '','' '':'' v)) \<le> json_bound v" using JObj by fastforce
    then show "int (length (quote k) + length (dumps '','' '':'' v) + 2) \<le> 6 * int (length k) + json_bound v + 4"
      using length_quote [of k] by simp
  qed
  moreover have "json_bound (JObj kvs) = 2 + sum_list (map (\<lambda>(k, v). 6 * int (length k) + json_bound v + 4) kvs)"
    by (simp add: comp_def map_prod_def case_prod_unfold)
  ultimately show ?case using length_dumps_object [of kvs] by linarith
qed simp_all

lemma bounded_json_accepts:
  "json_finite v \<Longrightarrow> json_utf8 v \<Longrightarrow> json_bound v \<le> n \<Longrightarrow> bounded_json c m m' n v = Inr (canonical_json v)"
  using json_bound_encodes [of v] by (simp add: bounded_json_def encode_strict_Some canonical_json_def)

end
