(* ===== verification/Broker_Protocol.thy ===== *)
theory Broker_Protocol
  imports Trust_Material
begin

text \<open>
  The protocol of the snapshot broker (\<^verbatim>\<open>snapshot_broker_protocol.py\<close>): length-prefixed frames of
  canonical JSON, the schema of requests and signed attestations, the checks of the trust files and of
  the installed package, and signing and verifying with OpenSSL.
\<close>

section \<open>Constants\<close>

definition BROKER_PROTOCOL_ID :: string where "BROKER_PROTOCOL_ID = ''cogni-os-snapshot-fd-lease-v1''"
definition BROKER_SCHEMA_VERSION :: int where "BROKER_SCHEMA_VERSION = 1"
definition BROKER_PRIVATE_KEY_PATH :: path where
  "BROKER_PRIVATE_KEY_PATH = parse_path ''/etc/cogni-os/snapshot-broker/ed25519-private.pem''"
definition BROKER_PUBLIC_KEY_PATH :: path where
  "BROKER_PUBLIC_KEY_PATH = parse_path ''/etc/cogni-os/snapshot-broker/ed25519-public.pem''"
definition BROKER_OPENSSL_PATH :: path where "BROKER_OPENSSL_PATH = parse_path ''/usr/bin/openssl''"
definition BROKER_OPENSSL_SHA256_PATH :: path where
  "BROKER_OPENSSL_SHA256_PATH = parse_path ''/etc/cogni-os/snapshot-broker/openssl.sha256''"
definition BROKER_RUNTIME_ROOT :: path where
  "BROKER_RUNTIME_ROOT = parse_path ''/usr/local/lib/cogni-os/snapshot-broker-v1''"
definition BROKER_PYTHON_PATH :: path where
  "BROKER_PYTHON_PATH = child (child (child BROKER_RUNTIME_ROOT ''venv'') ''bin'') ''python''"
definition BROKER_RUNTIME_MANIFEST_PATH :: path where
  "BROKER_RUNTIME_MANIFEST_PATH = parse_path ''/etc/cogni-os/snapshot-broker/runtime.json''"

definition BROKER_SIGNATURE_ALGORITHM :: string where
  "BROKER_SIGNATURE_ALGORITHM = ''ed25519-openssl-pkeyutl-raw-v1''"
definition BROKER_DESCRIPTOR_TYPE :: string where "BROKER_DESCRIPTOR_TYPE = ''O_PATH-directory''"
definition BROKER_SOURCE_DESCRIPTOR_TYPE :: string where
  "BROKER_SOURCE_DESCRIPTOR_TYPE = ''sealed-O_RDONLY-directory''"
definition SNAPSHOT_MATERIALIZATION_POLICY_ID :: string where
  "SNAPSHOT_MATERIALIZATION_POLICY_ID = ''git-object-dirfd-nofollow-stream-v2''"
definition MAX_BROKER_FRAME_BYTES :: int where "MAX_BROKER_FRAME_BYTES = 16 * 1024 * 1024"
definition MAX_BROKER_TTL_SECONDS :: int where "MAX_BROKER_TTL_SECONDS = 120"
definition MAX_BROKER_CLOCK_SKEW_SECONDS :: int where "MAX_BROKER_CLOCK_SKEW_SECONDS = 5"
definition MAX_BROKER_NONCE_BYTES :: nat where "MAX_BROKER_NONCE_BYTES = 128"
definition MAX_BROKER_PACKAGE_FILES :: int where "MAX_BROKER_PACKAGE_FILES = 10000"
definition MAX_BROKER_PACKAGE_BYTES :: int where "MAX_BROKER_PACKAGE_BYTES = 128 * 1024 * 1024"

definition BROKER_RUNTIME_MANIFEST_KEYS :: "string list" where
  "BROKER_RUNTIME_MANIFEST_KEYS = [''schema_version'', ''runtime_id'', ''python_path'', ''python_sha256'',
     ''package_root'', ''package_tree_sha256'', ''wheel_sha256'', ''entry_module'']"

definition ACQUIRE_REQUEST_KEYS :: "string list" where
  "ACQUIRE_REQUEST_KEYS = [''schema_version'', ''protocol_id'', ''operation'', ''request_id'', ''nonce'', ''issued_at'',
     ''expires_at'', ''source_descriptor_type'', ''source_commit'', ''tree_oid'', ''materialization_policy'', ''task_id'',
     ''attempt'', ''actor'', ''run_id'', ''validation_contract_sha256'', ''expected_snapshot_sha256'']"

definition RELEASE_REQUEST_KEYS :: "string list" where
  "RELEASE_REQUEST_KEYS = [''schema_version'', ''protocol_id'', ''operation'', ''request_id'', ''nonce'', ''issued_at'',
     ''expires_at'', ''lease_id'', ''acquire_attestation_sha256'', ''task_id'', ''attempt'', ''actor'', ''run_id'',
     ''validation_contract_sha256'', ''receipt_preimage_sha256'']"

definition ACQUIRE_ATTESTATION_KEYS :: "string list" where
  "ACQUIRE_ATTESTATION_KEYS = [''schema_version'', ''protocol_id'', ''kind'', ''request_sha256'', ''request_id'',
     ''request_nonce'', ''caller_pid'', ''caller_uid'', ''caller_gid'', ''lease_id'', ''source_commit'', ''tree_oid'',
     ''snapshot_sha256'', ''snapshot_device'', ''snapshot_inode'', ''snapshot_owner_uid'', ''descriptor_type'', ''issued_at'',
     ''expires_at'', ''broker_nonce'', ''materialization_policy'', ''task_id'', ''attempt'', ''actor'', ''run_id'',
     ''validation_contract_sha256'', ''broker_runtime_manifest_sha256'']"

definition CLEANUP_ATTESTATION_KEYS :: "string list" where
  "CLEANUP_ATTESTATION_KEYS = [''schema_version'', ''protocol_id'', ''kind'', ''request_sha256'', ''request_id'',
     ''request_nonce'', ''caller_pid'', ''caller_uid'', ''caller_gid'', ''lease_id'', ''acquire_attestation_sha256'',
     ''snapshot_sha256'', ''snapshot_device'', ''snapshot_inode'', ''issued_at'', ''broker_nonce'', ''task_id'', ''attempt'',
     ''actor'', ''run_id'', ''validation_contract_sha256'', ''receipt_preimage_sha256'', ''broker_runtime_manifest_sha256'',
     ''namespace_removed'']"

definition SIGNED_ENVELOPE_KEYS :: "string list" where
  "SIGNED_ENVELOPE_KEYS = [''schema_version'', ''algorithm'', ''public_key_sha256'', ''payload'', ''signature_b64'']"

section \<open>Canonical documents and frames\<close>

definition broker_json_bytes :: "json \<Rightarrow> string res" where
  "broker_json_bytes =
     bounded_json SnapshotBrokerError ''Snapshot broker document is not canonical JSON''
       ''Snapshot broker document exceeds its byte limit'' MAX_BROKER_FRAME_BYTES"

definition broker_json_sha256 :: "('r) crypto_scheme \<Rightarrow> json \<Rightarrow> string res" where
  "broker_json_sha256 H v = rbind (broker_json_bytes v) (\<lambda>e. Inr (sha256_hex H e))"

text \<open>\<^verbatim>\<open>struct.pack("!I", n)\<close> and its inverse.\<close>

definition pack_length :: "nat \<Rightarrow> string" where
  "pack_length n = map char_of [n div 256 div 256 div 256, n div 256 div 256 mod 256, n div 256 mod 256, n mod 256]"

definition unpack_length :: "string \<Rightarrow> nat" where
  "unpack_length s = foldl (\<lambda>n c. 256 * n + of_char c) 0 s"

definition encode_frame :: "json \<Rightarrow> string res" where
  "encode_frame v = rbind (broker_json_bytes v) (\<lambda>payload. Inr (pack_length (length payload) @ payload))"

text \<open>
  A binary stream is the list of the pieces in which its bytes arrive: \<^verbatim>\<open>stream.read(n)\<close> returns at
  most \<open>n\<close> bytes of the first piece, and nothing at the end of the stream.
\<close>

type_synonym stream = "string list"

definition stream_read :: "nat \<Rightarrow> stream \<Rightarrow> string \<times> stream" where
  "stream_read n st =
     (case st of [] \<Rightarrow> ([], []) | c # cs \<Rightarrow> if length c \<le> n then (c, cs) else (take n c, drop n c # cs))"

function read_exact :: "nat \<Rightarrow> string \<Rightarrow> stream \<Rightarrow> (string \<times> stream) res" where
  "read_exact wanted result st =
     (if length result < wanted then
        (let chunk = fst (stream_read (wanted - length result) st); st' = snd (stream_read (wanted - length result) st) in
         if chunk = [] then raise SnapshotBrokerError ''Snapshot broker frame was truncated''
         else read_exact wanted (result @ chunk) st')
      else Inr (result, st))"
  by pat_completeness auto
termination
  by (relation "measure (\<lambda>(wanted, result, st). wanted - length result)") (auto simp: Let_def simp flip: length_greater_0_conv)

declare read_exact.simps [simp del]

definition parse_frame_payload :: "string \<Rightarrow> dict res" where
  "parse_frame_payload payload =
     (case (if utf8_valid payload then loads payload else None) of
        None \<Rightarrow> raise SnapshotBrokerError ''Snapshot broker frame is not valid JSON''
      | Some (JObj d) \<Rightarrow>
          rbind (broker_json_bytes (JObj d)) (\<lambda>encoded.
          rbind (ensure (encoded = payload) SnapshotBrokerError ''Snapshot broker frame is not canonical JSON'') (\<lambda>_.
          Inr d))
      | Some _ \<Rightarrow> raise SnapshotBrokerError ''Snapshot broker frame is not canonical JSON'')"

definition decode_frame_from_stream :: "stream \<Rightarrow> (dict \<times> stream) res" where
  "decode_frame_from_stream st =
     rbind (read_exact 4 [] st) (\<lambda>(header, st).
     let length = unpack_length header in
     rbind (ensure (\<not> (length < 2 \<or> MAX_BROKER_FRAME_BYTES < int length)) SnapshotBrokerError
              ''Snapshot broker frame length is invalid'') (\<lambda>_.
     rbind (read_exact length [] st) (\<lambda>(payload, st).
     rbind (parse_frame_payload payload) (\<lambda>d. Inr (d, st)))))"

section \<open>Schemas\<close>

definition is_hex :: "json \<Rightarrow> nat \<Rightarrow> bool" where
  "is_hex v n = (case v of JStr s \<Rightarrow> fullmatch_hex n s | _ \<Rightarrow> False)"

definition valid_identifier :: "nat \<Rightarrow> json \<Rightarrow> bool" where
  "valid_identifier maximum v =
     (case v of
        JStr s \<Rightarrow> s \<noteq> [] \<and> is_ascii s \<and> length s \<le> maximum
          \<and> list_all (\<lambda>c. is_alnum c \<or> c = CHR ''-'' \<or> c = CHR ''_'' \<or> c = CHR ''.'') s
      | _ \<Rightarrow> False)"

definition lifetime_ok :: "json \<Rightarrow> json \<Rightarrow> bool" where
  "lifetime_ok issued_at expires_at =
     (case (strict_int issued_at, strict_int expires_at) of
        (Some i, Some e) \<Rightarrow> \<not> (e \<le> i \<or> MAX_BROKER_TTL_SECONDS < e - i)
      | _ \<Rightarrow> False)"

definition int_value :: "json \<Rightarrow> int" where
  "int_value v = (case strict_int v of Some n \<Rightarrow> n | None \<Rightarrow> 0)"

lemma int_value_JInt [simp]: "int_value (JInt n) = n"
  by (simp add: int_value_def)

definition validate_window :: "dict \<Rightarrow> int \<Rightarrow> unit res" where
  "validate_window d now =
     rbind (ensure (lifetime_ok (dget d ''issued_at'') (dget d ''expires_at'')) SnapshotBrokerError
              ''Snapshot broker request lifetime is invalid'') (\<lambda>_.
     ensure (\<not> (now + MAX_BROKER_CLOCK_SKEW_SECONDS < int_value (dget d ''issued_at'')
                \<or> int_value (dget d ''expires_at'') < now)) SnapshotBrokerError
       ''Snapshot broker request is expired or not yet valid'')"

definition at_least :: "int \<Rightarrow> json \<Rightarrow> bool" where
  "at_least m v = (case strict_int v of None \<Rightarrow> False | Some n \<Rightarrow> m \<le> n)"

definition validate_execution_binding :: "dict \<Rightarrow> unit res" where
  "validate_execution_binding d =
     ensure (valid_identifier 256 (dget d ''task_id'') \<and> at_least 1 (dget d ''attempt'')
             \<and> valid_identifier 256 (dget d ''actor'') \<and> is_hex (dget d ''run_id'') 32
             \<and> is_hex (dget d ''validation_contract_sha256'') 64)
       SnapshotBrokerError ''Snapshot broker execution binding is invalid''"

abbreviation identifier128 :: "json \<Rightarrow> bool" where
  "identifier128 \<equiv> valid_identifier MAX_BROKER_NONCE_BYTES"

definition validate_request :: "json \<Rightarrow> int \<Rightarrow> string res" where
  "validate_request document now =
     (case document of
        JObj d \<Rightarrow>
          let operation = dget d ''operation'' in
          rbind (ensure (operation = JStr ''acquire'' \<and> exact_keys d ACQUIRE_REQUEST_KEYS
                         \<or> operation = JStr ''release'' \<and> exact_keys d RELEASE_REQUEST_KEYS)
                   SnapshotBrokerError ''Snapshot broker request schema is not exact'') (\<lambda>_.
          rbind (ensure (py_eq (dget d ''schema_version'') (JInt BROKER_SCHEMA_VERSION)
                         \<and> py_eq (dget d ''protocol_id'') (JStr BROKER_PROTOCOL_ID)
                         \<and> identifier128 (dget d ''request_id'') \<and> identifier128 (dget d ''nonce''))
                   SnapshotBrokerError ''Snapshot broker request identity is invalid'') (\<lambda>_.
          rbind (validate_window d now) (\<lambda>_.
          rbind (validate_execution_binding d) (\<lambda>_.
          if operation = JStr ''acquire'' then
            rbind (ensure (py_eq (dget d ''source_descriptor_type'') (JStr BROKER_SOURCE_DESCRIPTOR_TYPE)
                           \<and> is_hex (dget d ''source_commit'') 40 \<and> is_hex (dget d ''tree_oid'') 40
                           \<and> py_eq (dget d ''materialization_policy'') (JStr SNAPSHOT_MATERIALIZATION_POLICY_ID)
                           \<and> is_hex (dget d ''expected_snapshot_sha256'') 64)
                     SnapshotBrokerError ''Snapshot broker acquire binding is invalid'') (\<lambda>_. Inr ''acquire'')
          else
            rbind (ensure (identifier128 (dget d ''lease_id'') \<and> is_hex (dget d ''acquire_attestation_sha256'') 64
                           \<and> is_hex (dget d ''receipt_preimage_sha256'') 64)
                     SnapshotBrokerError ''Snapshot broker release binding is invalid'') (\<lambda>_. Inr ''release'')))))
      | _ \<Rightarrow> raise SnapshotBrokerError ''Snapshot broker request must be an object'')"

text \<open>The checks of a signed payload that depend on its kind, and those that do not.\<close>

definition attestation_keys :: "string \<Rightarrow> string list option" where
  "attestation_keys kind =
     (if kind = ''snapshot-acquired'' then Some ACQUIRE_ATTESTATION_KEYS
      else if kind = ''snapshot-cleaned'' then Some CLEANUP_ATTESTATION_KEYS else None)"

definition attestation_common :: "string \<Rightarrow> dict \<Rightarrow> unit res" where
  "attestation_common kind p =
     rbind (ensure (py_eq (dget p ''schema_version'') (JInt BROKER_SCHEMA_VERSION)
                    \<and> py_eq (dget p ''protocol_id'') (JStr BROKER_PROTOCOL_ID) \<and> py_eq (dget p ''kind'') (JStr kind)
                    \<and> is_hex (dget p ''request_sha256'') 64 \<and> identifier128 (dget p ''request_id'')
                    \<and> identifier128 (dget p ''request_nonce'') \<and> identifier128 (dget p ''lease_id'')
                    \<and> identifier128 (dget p ''broker_nonce''))
              SnapshotBrokerError ''Snapshot broker signed payload identity is invalid'') (\<lambda>_.
     rbind (validate_execution_binding p) (\<lambda>_.
     rbind (ensure (is_hex (dget p ''broker_runtime_manifest_sha256'') 64)
              SnapshotBrokerError ''Snapshot broker runtime provenance is invalid'') (\<lambda>_.
     rbind (reach (\<lambda>field. ensure (at_least 0 (dget p field)) SnapshotBrokerError
                      ''Snapshot broker signed numeric binding is invalid'')
              [''caller_pid'', ''caller_uid'', ''caller_gid'', ''snapshot_device'', ''snapshot_inode'']) (\<lambda>_.
     ensure (strict_int (dget p ''issued_at'') \<noteq> None) SnapshotBrokerError
       ''Snapshot broker signed time binding is invalid''))))"

definition acquisition_ok :: "dict \<Rightarrow> bool" where
  "acquisition_ok p \<longleftrightarrow>
     is_hex (dget p ''source_commit'') 40 \<and> is_hex (dget p ''tree_oid'') 40 \<and> is_hex (dget p ''snapshot_sha256'') 64
     \<and> py_eq (dget p ''snapshot_owner_uid'') (JInt 0) \<and> py_eq (dget p ''descriptor_type'') (JStr BROKER_DESCRIPTOR_TYPE)
     \<and> at_least (int_value (dget p ''issued_at'') + 1) (dget p ''expires_at'')
     \<and> valid_identifier 128 (dget p ''materialization_policy'')"

definition cleanup_ok :: "dict \<Rightarrow> bool" where
  "cleanup_ok p \<longleftrightarrow>
     is_hex (dget p ''acquire_attestation_sha256'') 64 \<and> is_hex (dget p ''snapshot_sha256'') 64
     \<and> is_hex (dget p ''receipt_preimage_sha256'') 64 \<and> is_true (dget p ''namespace_removed'')"

definition validate_attestation :: "string \<Rightarrow> dict \<Rightarrow> unit res" where
  "validate_attestation kind p =
     rbind (attestation_common kind p) (\<lambda>_.
     if kind = ''snapshot-acquired''
     then ensure (acquisition_ok p) SnapshotBrokerError ''Snapshot broker acquisition binding is invalid''
     else ensure (cleanup_ok p) SnapshotBrokerError ''Snapshot broker cleanup binding is invalid'')"

definition validate_broker_signature :: "json \<Rightarrow> unit res" where
  "validate_broker_signature v =
     (case signature_bytes v of
        None \<Rightarrow> raise SnapshotBrokerError ''Snapshot broker signature encoding is invalid''
      | Some decoded \<Rightarrow> ensure (length decoded = 64) SnapshotBrokerError
                         ''Snapshot broker Ed25519 signature length is invalid'')"

definition validate_signed_envelope :: "json \<Rightarrow> string \<Rightarrow> dict res" where
  "validate_signed_envelope envelope kind =
     (case envelope of
        JObj d \<Rightarrow>
          rbind (ensure (exact_keys d SIGNED_ENVELOPE_KEYS) SnapshotBrokerError
                   ''Snapshot broker signed envelope schema is not exact'') (\<lambda>_.
          rbind (ensure (py_eq (dget d ''schema_version'') (JInt BROKER_SCHEMA_VERSION)
                         \<and> py_eq (dget d ''algorithm'') (JStr BROKER_SIGNATURE_ALGORITHM)
                         \<and> is_hex (dget d ''public_key_sha256'') 64)
                   SnapshotBrokerError ''Snapshot broker signed envelope metadata is invalid'') (\<lambda>_.
          case (attestation_keys kind, dget d ''payload'') of
            (Some keys, JObj payload) \<Rightarrow>
              rbind (ensure (exact_keys payload keys) SnapshotBrokerError
                       ''Snapshot broker signed payload schema is not exact'') (\<lambda>_.
              rbind (validate_attestation kind payload) (\<lambda>_.
              rbind (validate_broker_signature (dget d ''signature_b64'')) (\<lambda>_.
              Inr payload)))
          | _ \<Rightarrow> raise SnapshotBrokerError ''Snapshot broker signed payload schema is not exact''))
      | _ \<Rightarrow> raise SnapshotBrokerError ''Snapshot broker signed envelope schema is not exact'')"

section \<open>Frames on a stream and on flat bytes\<close>

text \<open>The decoder on bytes that are all there, as the reference for the one on a stream.\<close>

definition take_exact :: "nat \<Rightarrow> string \<Rightarrow> (string \<times> string) res" where
  "take_exact n s =
     (if n \<le> length s then Inr (take n s, drop n s)
      else raise SnapshotBrokerError ''Snapshot broker frame was truncated'')"

definition decode_frame_bytes :: "string \<Rightarrow> (dict \<times> string) res" where
  "decode_frame_bytes s =
     rbind (take_exact 4 s) (\<lambda>(header, s).
     rbind (ensure (2 \<le> unpack_length header \<and> int (unpack_length header) \<le> MAX_BROKER_FRAME_BYTES) SnapshotBrokerError
              ''Snapshot broker frame length is invalid'') (\<lambda>_.
     rbind (take_exact (unpack_length header) s) (\<lambda>(payload, s).
     rbind (parse_frame_payload payload) (\<lambda>d. Inr (d, s)))))"

text \<open>A stream whose every piece has a byte: it is at its end only when nothing is left.\<close>

definition live_stream :: "stream \<Rightarrow> bool" where
  "live_stream st \<longleftrightarrow> list_all (\<lambda>c. c \<noteq> []) st"

lemma stream_read_live:
  assumes "live_stream st" "0 < n"
  shows "fst (stream_read n st) @ concat (snd (stream_read n st)) = concat st"
    and "live_stream (snd (stream_read n st))" "length (fst (stream_read n st)) \<le> n"
    and "fst (stream_read n st) = [] \<longleftrightarrow> concat st = []"
  using assms by (auto simp: stream_read_def live_stream_def split: list.splits)

lemma read_exact_flat:
  assumes "live_stream st" "length result \<le> n"
  shows "if n - length result \<le> length (concat st)
    then \<exists>st'. read_exact n result st = Inr (result @ take (n - length result) (concat st), st')
           \<and> concat st' = drop (n - length result) (concat st) \<and> live_stream st'
    else read_exact n result st = raise SnapshotBrokerError ''Snapshot broker frame was truncated''"
  using assms
proof (induction n result st rule: read_exact.induct)
  case (1 n result st)
  show ?case
  proof (cases "length result < n")
    case False
    with 1(2,3) show ?thesis by (simp add: read_exact.simps [of n result st])
  next
    case True
    let ?k = "n - length result"
    define c st' where c: "c = fst (stream_read ?k st)" and st': "st' = snd (stream_read ?k st)"
    have split: "concat st = c @ concat st'" "live_stream st'" "length c \<le> ?k" "c = [] \<longleftrightarrow> concat st = []"
      using stream_read_live [OF 1(2), of ?k] True by (simp_all add: c st')
    show ?thesis
    proof (cases "c = []")
      case True
      with split(4) have e: "length (concat st) = 0" by simp
      show ?thesis
        unfolding e using True \<open>length result < n\<close> by (simp add: read_exact.simps [of n result st] Let_def c)
    next
      case False
      have step: "read_exact n result st = read_exact n (result @ c) st'"
        using True False by (simp add: read_exact.simps [of n result st] Let_def c st')
      have len: "length (result @ c) \<le> n" "n - length (result @ c) = ?k - length c" using split(3) True by auto
      show ?thesis
        using 1(1) [OF True c st' False split(2) len(1)] split(1,3) unfolding step len(2) by (simp split: if_splits)
    qed
  qed
qed

lemma read_exact_take:
  assumes "live_stream st"
  shows "map_sum id (map_prod id concat) (read_exact n [] st) = take_exact n (concat st)"
    and "read_exact n [] st = Inr (r, st') \<Longrightarrow> live_stream st'"
  using read_exact_flat [OF assms, of "[]" n] by (auto simp: take_exact_def raise_def split: if_splits)

lemma decode_frame_flat:
  assumes "live_stream st"
  shows "map_sum id (map_prod id concat) (decode_frame_from_stream st) = decode_frame_bytes (concat st)"
proof (cases "read_exact 4 [] st")
  case (Inl e)
  then show ?thesis
    using read_exact_take(1) [OF assms, of 4] by (simp add: decode_frame_from_stream_def decode_frame_bytes_def)
      (metis rbind.simps(1))
next
  case (Inr p)
  obtain header st1 where p: "p = (header, st1)" by force
  let ?n = "unpack_length header"
  have head: "take_exact 4 (concat st) = Inr (header, concat st1)" and live: "live_stream st1"
    using read_exact_take [OF assms, of 4] Inr p by auto
  show ?thesis
  proof (cases "read_exact ?n [] st1")
    case (Inl e)
    then have "take_exact ?n (concat st1) = Inl e" using read_exact_take(1) [OF live, of ?n] by simp
    with Inl Inr p head show ?thesis
      by (simp add: decode_frame_from_stream_def decode_frame_bytes_def Let_def ensure_def raise_def not_less)
  next
    case r: (Inr q)
    obtain payload st2 where q: "q = (payload, st2)" by force
    have "take_exact ?n (concat st1) = Inr (payload, concat st2)" using read_exact_take(1) [OF live, of ?n] r q by simp
    with r q Inr p head show ?thesis
      by (cases "parse_frame_payload payload")
        (simp_all add: decode_frame_from_stream_def decode_frame_bytes_def Let_def ensure_def raise_def not_less)
  qed
qed

text \<open>
  Property C15: the frame decoder does not depend on how the bytes arrive. On every stream whose
  pieces are not empty, \<^verbatim>\<open>decode_frame_from_stream\<close> gives the result of the reference decoder on all the
  bytes, and what it leaves on the stream are the bytes that follow the frame.
\<close>

theorem frame_chunking_irrelevant:
  assumes "live_stream st"
  shows "map_sum id (map_prod id concat) (decode_frame_from_stream st) = decode_frame_bytes (concat st)"
  using assms by (rule decode_frame_flat)

section \<open>Round trip\<close>

lemma unpack_pack_length: "n < 2 ^ 32 \<Longrightarrow> unpack_length (pack_length n) = n"
proof -
  assume n: "n < 2 ^ 32"
  define a b where "a = n div 256" and "b = a div 256"
  have "n div 256 div 256 div 256 = b div 256" "n div 256 div 256 mod 256 = b mod 256" "n div 256 mod 256 = a mod 256"
    by (simp_all add: a_def b_def)
  moreover have "b div 256 < 256" using n by (simp add: a_def b_def div_mult2_eq [symmetric] less_mult_imp_div_less)
  moreover have "256 * (b div 256) + b mod 256 = b" "256 * b + a mod 256 = a" "256 * a + n mod 256 = n"
    by (simp_all add: a_def b_def)
  ultimately show ?thesis by (simp add: unpack_length_def pack_length_def)
qed

lemma length_pack_length [simp]: "length (pack_length n) = 4"
  by (simp add: pack_length_def)

lemma parse_frame_canonical:
  assumes "broker_json_bytes (JObj d) = Inr e" "wf_json (JObj d)"
  shows "parse_frame_payload e = Inr (sorted_dict d)"
proof -
  have e: "utf8_valid e" "e = canonical_json (JObj d)"
    using assms(1) by (auto simp: broker_json_bytes_def bounded_json_eq_Inr)
  have "broker_json_bytes (JObj (sorted_dict d)) = Inr e"
    using assms(1) bounded_json_sort_keys [of _ _ _ _ "JObj d"] by (simp only: broker_json_bytes_def sort_keys_JObj)
  moreover have "loads e = Some (JObj (sorted_dict d))"
    using loads_canonical [OF assms(2)] e(2) by (simp only: sort_keys_JObj)
  ultimately show ?thesis using e(1) by (simp add: parse_frame_payload_def)
qed

lemma encoded_length:
  "broker_json_bytes (JObj d) = Inr e \<Longrightarrow> 2 \<le> length e \<and> int (length e) \<le> MAX_BROKER_FRAME_BYTES"
  using canonical_json_object [of d] by (auto simp: broker_json_bytes_def bounded_json_eq_Inr)

lemma decode_encoded_frame:
  assumes "encode_frame (JObj d) = Inr f" "wf_json (JObj d)"
  shows "decode_frame_bytes (f @ rest) = Inr (sorted_dict d, rest)"
    and "n < length f \<Longrightarrow> decode_frame_bytes (take n f) = raise SnapshotBrokerError ''Snapshot broker frame was truncated''"
proof -
  obtain e where e: "broker_json_bytes (JObj d) = Inr e" "f = pack_length (length e) @ e"
    using assms(1) by (auto simp: encode_frame_def)
  have len: "unpack_length (pack_length (length e)) = length e" "2 \<le> length e" "int (length e) \<le> MAX_BROKER_FRAME_BYTES"
    using unpack_pack_length [of "length e"] encoded_length [OF e(1)] by (auto simp: MAX_BROKER_FRAME_BYTES_def)
  show "decode_frame_bytes (f @ rest) = Inr (sorted_dict d, rest)"
    using len parse_frame_canonical [OF e(1) assms(2)] by (simp add: decode_frame_bytes_def take_exact_def e(2))
  show "decode_frame_bytes (take n f) = raise SnapshotBrokerError ''Snapshot broker frame was truncated''" if "n < length f"
    using that len by (cases "n < 4") (auto simp: decode_frame_bytes_def take_exact_def e(2))
qed

text \<open>
  A document that the sender encodes is what the receiver decodes, and a frame that is
  cut short is refused. If \<^verbatim>\<open>encode_frame\<close> returns \<open>f\<close> for a document, then from every stream that
  delivers \<open>f\<close>, in any pieces and followed by anything, \<^verbatim>\<open>decode_frame_from_stream\<close> returns the
  document with its keys in order and leaves what follows; from a stream that ends inside \<open>f\<close> it
  raises.
\<close>

theorem frame_roundtrip:
  assumes "encode_frame (JObj d) = Inr f" "wf_json (JObj d)" "live_stream st"
  shows "(\<forall>rest. concat st = f @ rest
      \<longrightarrow> (\<exists>st'. decode_frame_from_stream st = Inr (sorted_dict d, st') \<and> concat st' = rest))
    \<and> (\<forall>n < length f. concat st = take n f
      \<longrightarrow> decode_frame_from_stream st = raise SnapshotBrokerError ''Snapshot broker frame was truncated'')"
proof (intro conjI allI impI)
  note flat = decode_frame_flat [OF assms(3)]
  fix rest assume "concat st = f @ rest"
  then have "map_sum id (map_prod id concat) (decode_frame_from_stream st) = Inr (sorted_dict d, rest)"
    using flat decode_encoded_frame(1) [OF assms(1,2)] by simp
  then show "\<exists>st'. decode_frame_from_stream st = Inr (sorted_dict d, st') \<and> concat st' = rest"
    by (cases "decode_frame_from_stream st") auto
next
  fix n assume "n < length f" "concat st = take n f"
  then show "decode_frame_from_stream st = raise SnapshotBrokerError ''Snapshot broker frame was truncated''"
    using decode_frame_flat [OF assms(3)] decode_encoded_frame(2) [OF assms(1,2), of n]
    by (cases "decode_frame_from_stream st") (auto simp: raise_def)
qed

definition ping :: dict where "ping = [(''operation'', JStr ''release''), (''attempt'', JInt 3)]"

definition ping_stream :: stream where
  "ping_stream = [[CHR 0x00, CHR 0x00], [CHR 0x00, CHR 0x23, CHR ''{'', CHR 0x22],
     ''attempt'' @ [CHR 0x22] @ '':3,'' @ [CHR 0x22] @ ''operation'' @ [CHR 0x22] @ '':'' @ [CHR 0x22] @ ''release'' @ [CHR 0x22] @ ''}'' @ ''next'']"

lemma ping_facts:
  "encode_frame (JObj ping) = Inr (take 39 (concat ping_stream))" "wf_json (JObj ping)" "live_stream ping_stream"
  "concat ping_stream = take 39 (concat ping_stream) @ ''next''"
  by code_simp+

theorem frame_roundtrip_witness:
  "\<exists>st'. decode_frame_from_stream ping_stream = Inr (sorted_dict ping, st') \<and> concat st' = ''next''"
  using frame_roundtrip [OF ping_facts(1-3)] ping_facts(4) by blast

theorem frame_chunking_irrelevant_witness:
  "live_stream ping_stream \<and> map_sum id (map_prod id concat) (decode_frame_from_stream ping_stream)
     = decode_frame_bytes (concat ping_stream)"
  using frame_chunking_irrelevant [OF ping_facts(3)] ping_facts(3) by blast

end
