(* ===== verification/Broker_Trust.thy ===== *)
theory Broker_Trust
  imports Broker_Protocol
begin

text \<open>
  The trust files of the snapshot broker (the second half of \<^verbatim>\<open>snapshot_broker_protocol.py\<close>): who may
  write them, the digest of the installed package, and signing and verifying of attestations.
\<close>

section \<open>Root-owned files\<close>

definition require_posix_root_owned :: "('r) trust_host_scheme \<Rightarrow> path \<Rightarrow> bool \<Rightarrow> path res" where
  "require_posix_root_owned H p private =
     (if \<not> os_posix H \<or> \<not> is_absolute p then raise SnapshotBrokerError ''Snapshot broker trust material requires POSIX''
      else case (lstat H p, lstat_all H (path_parents p)) of
          (Some target, Some ancestors) \<Rightarrow>
            rbind (ensure (\<not> (S_ISLNK (st_mode target) \<or> list_ex (\<lambda>m. S_ISLNK (st_mode m)) ancestors))
                     SnapshotBrokerError ''Snapshot broker trust path contains a link'') (\<lambda>_.
            rbind (ensure (\<not> (st_uid target \<noteq> 0 \<or> list_ex (\<lambda>m. st_uid m \<noteq> 0) ancestors))
                     SnapshotBrokerError ''Snapshot broker trust path is not root-owned'') (\<lambda>_.
            rbind (ensure (\<not> (actor_writable target \<or> list_ex actor_writable ancestors))
                     SnapshotBrokerError ''Snapshot broker trust path is actor-writable'') (\<lambda>_.
            rbind (ensure (S_ISREG (st_mode target)) SnapshotBrokerError
                     ''Snapshot broker trust material is not a file'') (\<lambda>_.
            rbind (ensure (\<not> (private \<and> st_mode target AND (S_IRGRP OR S_IROTH) \<noteq> 0))
                     SnapshotBrokerError ''Snapshot broker private key is not private'') (\<lambda>_.
            Inr p)))))
        | _ \<Rightarrow> raise SnapshotBrokerError ''Snapshot broker trust material is unavailable'')"

definition trusted_openssl_binding :: "('r) trust_host_scheme \<Rightarrow> path \<Rightarrow> path \<Rightarrow> (path \<times> string) res" where
  "trusted_openssl_binding H openssl_path digest_path =
     rbind (require_posix_root_owned H openssl_path False) (\<lambda>openssl.
     rbind (require_posix_root_owned H digest_path False) (\<lambda>digest_file.
     rbind (case read_ascii H digest_file of
              None \<Rightarrow> raise SnapshotBrokerError ''Cannot read the OpenSSL trust digest''
            | Some t \<Rightarrow> Inr (lower (strip t))) (\<lambda>expected.
     rbind (ensure (is_hex (JStr expected) 64) SnapshotBrokerError ''OpenSSL trust digest is invalid'') (\<lambda>_.
     rbind (sha256_file H openssl) (\<lambda>actual.
     rbind (ensure (actual = expected) SnapshotBrokerError
              ''OpenSSL binary does not match the administrator digest'') (\<lambda>_.
     rbind (ensure (executable_by H openssl) SnapshotBrokerError ''Fixed OpenSSL binary is not executable'') (\<lambda>_.
     Inr (openssl, actual))))))))"

definition trusted_public_key_binding :: "('r) trust_host_scheme \<Rightarrow> path \<Rightarrow> (path \<times> string) res" where
  "trusted_public_key_binding H public_key_path =
     rbind (require_posix_root_owned H public_key_path False) (\<lambda>key.
     rbind (sha256_file H key) (\<lambda>digest. Inr (key, digest)))"

section \<open>The installed package\<close>

record tree_state =
  pending :: "path list"
  listed :: "json list"
  file_count :: int
  size_bytes :: int

definition unsafe_entry :: "metadata \<Rightarrow> bool" where
  "unsafe_entry m \<longleftrightarrow> S_ISLNK (st_mode m) \<or> st_uid m \<noteq> 0 \<or> actor_writable m"

definition tree_record :: "string \<Rightarrow> metadata \<Rightarrow> int \<Rightarrow> json \<Rightarrow> json" where
  "tree_record name m n digest =
     JObj [(''path'', JStr name), (''mode'', JInt (uint (S_IMODE (st_mode m)))), (''size'', JInt n), (''sha256'', digest)]"

definition relative_name :: "path \<Rightarrow> path \<Rightarrow> string" where
  "relative_name root p = (case relative_to p root of Some r \<Rightarrow> path_str r | None \<Rightarrow> path_str p)"

definition tree_entry ::
  "('r) trust_host_scheme \<Rightarrow> path \<Rightarrow> path \<Rightarrow> string \<Rightarrow> tree_state \<Rightarrow> tree_state res" where
  "tree_entry H root dir name st =
     rbind (ensure (file_count st + 1 \<le> MAX_BROKER_PACKAGE_FILES) SnapshotBrokerError
              ''Broker package tree exceeds its file limit'') (\<lambda>_.
     let p = child dir name; st = st\<lparr>file_count := file_count st + 1\<rparr> in
     case lstat H p of
       None \<Rightarrow> raise SnapshotBrokerError ''Cannot inspect broker package entry''
     | Some m \<Rightarrow>
         rbind (ensure (\<not> unsafe_entry m) SnapshotBrokerError ''Broker package tree contains an unsafe entry'') (\<lambda>_.
         if S_ISDIR (st_mode m) then
           Inr (st\<lparr>listed := listed st @ [tree_record (relative_name root p @ ''/'') m 0 JNull],
                   pending := p # pending st\<rparr>)
         else if S_ISREG (st_mode m) then
           rbind (ensure (size_bytes st + st_size m \<le> MAX_BROKER_PACKAGE_BYTES) SnapshotBrokerError
                    ''Broker package tree exceeds its byte limit'') (\<lambda>_.
           rbind (sha256_file H p) (\<lambda>digest.
           Inr (st\<lparr>size_bytes := size_bytes st + st_size m,
                   listed := listed st @ [tree_record (relative_name root p) m (st_size m) (JStr digest)]\<rparr>)))
         else raise SnapshotBrokerError ''Broker package tree contains a special file''))"

text \<open>
  The loop pops a directory and takes its entries in the order of their names. Every directory it
  pushes has been counted against the limit of files, so it ends.
\<close>

definition tree_work :: "tree_state \<Rightarrow> nat" where
  "tree_work st = nat (2 * (MAX_BROKER_PACKAGE_FILES - file_count st)) + length (pending st)"

lemma tree_entry_work: "tree_entry H root dir name st = Inr st' \<Longrightarrow> tree_work st' \<le> tree_work st"
  by (auto simp: tree_entry_def tree_work_def Let_def split: option.splits if_splits)

lemma tree_entries_work: "rfold (tree_entry H root dir) names st = Inr st' \<Longrightarrow> tree_work st' \<le> tree_work st"
  by (rule rfold_invariant [where P = "\<lambda>t. tree_work t \<le> tree_work st"]) (auto dest: tree_entry_work)

function tree_scan :: "('r) trust_host_scheme \<Rightarrow> path \<Rightarrow> tree_state \<Rightarrow> tree_state res" where
  "tree_scan H root st =
     (case pending st of
        [] \<Rightarrow> Inr st
      | dir # rest \<Rightarrow>
          (case scandir H dir of
             None \<Rightarrow> raise SnapshotBrokerError ''Cannot enumerate broker package tree''
           | Some names \<Rightarrow>
               (case rfold (tree_entry H root dir) (sort names) (st\<lparr>pending := rest\<rparr>) of
                  Inl e \<Rightarrow> Inl e
                | Inr st' \<Rightarrow> tree_scan H root st')))"
  by pat_completeness auto
termination
proof (relation "measure (\<lambda>(H, root, st). tree_work st)", goal_cases)
  case (2 H root st dir rest names st')
  from tree_entries_work [OF 2(3)] 2(1) show ?case by (simp add: tree_work_def)
qed simp

declare tree_scan.simps [simp del]

definition tree_document :: "tree_state \<Rightarrow> json" where
  "tree_document st =
     JObj [(''schema_version'', JInt 1), (''file_count'', JInt (file_count st)), (''size_bytes'', JInt (size_bytes st)),
       (''records'', JArr (sort_key (\<lambda>v. py_str (vget v ''path'')) (listed st)))]"

definition package_tree_sha256 :: "('r) trust_host_scheme \<Rightarrow> path \<Rightarrow> string res" where
  "package_tree_sha256 H package_root =
     (if \<not> os_posix H \<or> \<not> is_absolute package_root
      then raise SnapshotBrokerError ''Broker package tree requires an absolute POSIX path''
      else case lstat_all H (package_root # path_parents package_root) of
          None \<Rightarrow> raise SnapshotBrokerError ''Broker package tree is unavailable''
        | Some protected_chain \<Rightarrow>
            rbind (reach (\<lambda>m. ensure (\<not> (S_ISLNK (st_mode m) \<or> \<not> S_ISDIR (st_mode m) \<or> st_uid m \<noteq> 0 \<or> actor_writable m))
                            SnapshotBrokerError
                            ''Broker package root ancestry is not root-protected: component='') protected_chain) (\<lambda>_.
            rbind (tree_scan H package_root
                     \<lparr>pending = [package_root], listed = [], file_count = 0, size_bytes = 0\<rparr>) (\<lambda>st.
            broker_json_sha256 H (tree_document st))))"

definition manifest_ok :: "dict \<Rightarrow> bool" where
  "manifest_ok d \<longleftrightarrow>
     py_eq (dget d ''schema_version'') (JInt 1)
     \<and> py_eq (dget d ''runtime_id'') (JStr ''cogni-os-snapshot-broker-runtime-v1'')
     \<and> py_eq (dget d ''python_path'') (JStr (path_str BROKER_PYTHON_PATH))
     \<and> py_eq (dget d ''entry_module'') (JStr ''cogni_os.snapshot_broker'')
     \<and> is_hex (dget d ''python_sha256'') 64 \<and> is_hex (dget d ''package_tree_sha256'') 64
     \<and> is_hex (dget d ''wheel_sha256'') 64"

definition read_manifest :: "string \<Rightarrow> dict res" where
  "read_manifest raw =
     (case (if utf8_valid raw then loads raw else None) of
        None \<Rightarrow> raise SnapshotBrokerError ''Broker runtime manifest is unreadable''
      | Some (JObj d) \<Rightarrow>
          rbind (ensure (exact_keys d BROKER_RUNTIME_MANIFEST_KEYS) SnapshotBrokerError
                   ''Broker runtime manifest schema is invalid'') (\<lambda>_.
          rbind (broker_json_bytes (JObj d)) (\<lambda>encoded.
          rbind (ensure (encoded = raw \<and> manifest_ok d) SnapshotBrokerError
                   ''Broker runtime manifest schema is invalid'') (\<lambda>_. Inr d)))
      | Some _ \<Rightarrow> raise SnapshotBrokerError ''Broker runtime manifest schema is invalid'')"

definition trusted_broker_runtime_binding ::
  "('r) trust_host_scheme \<Rightarrow> path \<Rightarrow> bool \<Rightarrow> (string \<times> json) list res" where
  "trusted_broker_runtime_binding H manifest_path require_current_interpreter =
     rbind (require_posix_root_owned H manifest_path False) (\<lambda>manifest_file.
     rbind (case read_file H manifest_file of
              None \<Rightarrow> raise SnapshotBrokerError ''Broker runtime manifest is unreadable''
            | Some raw \<Rightarrow> Inr raw) (\<lambda>raw.
     rbind (read_manifest raw) (\<lambda>manifest.
     rbind (require_posix_root_owned H BROKER_PYTHON_PATH False) (\<lambda>python.
     rbind (ensure (\<not> (require_current_interpreter \<and> resolved H (sys_executable H) \<noteq> resolved H BROKER_PYTHON_PATH))
              SnapshotBrokerError ''Broker is not running under the fixed interpreter'') (\<lambda>_.
     rbind (sha256_file H python) (\<lambda>python_sha256.
     rbind (ensure (dget manifest ''python_sha256'' = JStr python_sha256) SnapshotBrokerError
              ''Broker interpreter does not match its manifest'') (\<lambda>_.
     let package_root = parse_path (py_str (dget manifest ''package_root'')) in
     rbind (ensure (relative_to package_root BROKER_RUNTIME_ROOT \<noteq> None) SnapshotBrokerError
              ''Broker package root escapes the immutable runtime'') (\<lambda>_.
     rbind (ensure (path_name package_root = ''cogni_os'') SnapshotBrokerError
              ''Broker package root is not the Cogni-OS package'') (\<lambda>_.
     rbind (package_tree_sha256 H package_root) (\<lambda>tree.
     rbind (ensure (dget manifest ''package_tree_sha256'' = JStr tree) SnapshotBrokerError
              ''Broker package tree does not match its manifest'') (\<lambda>_.
     Inr [(''manifest_path'', JStr (path_str manifest_file)), (''manifest_sha256'', JStr (sha256_hex H raw)),
          (''python_path'', JStr (path_str python)), (''python_sha256'', dget manifest ''python_sha256''),
          (''package_tree_sha256'', dget manifest ''package_tree_sha256''),
          (''wheel_sha256'', dget manifest ''wheel_sha256'')])))))))))))"

section \<open>Signing and verifying\<close>

definition broker_sign :: "('r) trust_host_scheme \<Rightarrow> path \<Rightarrow> path \<Rightarrow> dict \<Rightarrow> string res" where
  "broker_sign H openssl key payload =
     rbind (broker_json_bytes (JObj payload)) (\<lambda>payload_bytes.
     case pkeyutl_sign H openssl key payload_bytes of
       None \<Rightarrow> raise SnapshotBrokerError ''OpenSSL broker signature operation failed''
     | Some (returncode, signature_file) \<Rightarrow>
         rbind (ensure (returncode = 0) SnapshotBrokerError ''OpenSSL refused the broker signature'') (\<lambda>_.
         case signature_file of
           None \<Rightarrow> raise SnapshotBrokerError ''OpenSSL broker signature operation failed''
         | Some result \<Rightarrow>
             rbind (ensure (length result = 64) SnapshotBrokerError
                      ''OpenSSL returned an invalid Ed25519 signature'') (\<lambda>_. Inr result)))"

definition broker_verify :: "('r) trust_host_scheme \<Rightarrow> path \<Rightarrow> path \<Rightarrow> dict \<Rightarrow> string \<Rightarrow> bool res" where
  "broker_verify H openssl key payload signature =
     rbind (broker_json_bytes (JObj payload)) (\<lambda>payload_bytes.
     case pkeyutl_verify H openssl key payload_bytes signature of
       None \<Rightarrow> raise SnapshotBrokerError ''OpenSSL broker signature operation failed''
     | Some returncode \<Rightarrow> Inr (returncode = 0))"

definition broker_envelope :: "string \<Rightarrow> dict \<Rightarrow> string \<Rightarrow> dict" where
  "broker_envelope key_sha256 payload signature =
     [(''schema_version'', JInt BROKER_SCHEMA_VERSION), (''algorithm'', JStr BROKER_SIGNATURE_ALGORITHM),
      (''public_key_sha256'', JStr key_sha256), (''payload'', JObj payload),
      (''signature_b64'', JStr (std_b64encode signature))]"

definition sign_payload :: "('r) trust_host_scheme \<Rightarrow> path \<Rightarrow> path \<Rightarrow> path \<Rightarrow> path \<Rightarrow> dict \<Rightarrow> dict res" where
  "sign_payload H private_key_path public_key_path openssl_path openssl_sha256_path payload =
     rbind (validate_signed_envelope
              (JObj (broker_envelope (replicate 64 CHR ''0'') payload (replicate 64 CHR ''0'')))
              (py_str (dget payload ''kind''))) (\<lambda>_.
     rbind (require_posix_root_owned H private_key_path True) (\<lambda>_.
     rbind (trusted_public_key_binding H public_key_path) (\<lambda>public.
     rbind (trusted_openssl_binding H openssl_path openssl_sha256_path) (\<lambda>openssl.
     rbind (broker_sign H (fst openssl) private_key_path payload) (\<lambda>signature.
     Inr (broker_envelope (snd public) payload signature))))))"

definition verify_signed_envelope ::
  "('r) trust_host_scheme \<Rightarrow> path \<Rightarrow> path \<Rightarrow> path \<Rightarrow> json \<Rightarrow> string \<Rightarrow> dict res" where
  "verify_signed_envelope H public_key_path openssl_path openssl_sha256_path envelope kind =
     rbind (validate_signed_envelope envelope kind) (\<lambda>payload.
     rbind (trusted_public_key_binding H public_key_path) (\<lambda>public.
     rbind (ensure (py_eq (vget envelope ''public_key_sha256'') (JStr (snd public))) SnapshotBrokerError
              ''Broker envelope names a different public key'') (\<lambda>_.
     rbind (trusted_openssl_binding H openssl_path openssl_sha256_path) (\<lambda>openssl.
     rbind (case signature_bytes (vget envelope ''signature_b64'') of
              None \<Rightarrow> raise ValueError [] | Some s \<Rightarrow> Inr s) (\<lambda>signature.
     rbind (broker_verify H (fst openssl) public_key_path payload signature) (\<lambda>verified.
     rbind (ensure verified SnapshotBrokerError ''Broker detached signature is invalid'') (\<lambda>_.
     Inr payload)))))))"

section \<open>What the digest of the package covers\<close>

definition is_directory :: "('r) trust_host_scheme \<Rightarrow> path \<Rightarrow> bool" where
  "is_directory H p = (case lstat H p of None \<Rightarrow> False | Some m \<Rightarrow> S_ISDIR (st_mode m))"

text \<open>Everything below a directory, as the file system reports it.\<close>

inductive in_tree :: "('r) trust_host_scheme \<Rightarrow> path \<Rightarrow> path \<Rightarrow> bool" for H root where
  top: "in_tree H root root"
| entry: "in_tree H root d \<Longrightarrow> is_directory H d \<Longrightarrow> scandir H d = Some names \<Longrightarrow> n \<in> set names \<Longrightarrow>
    in_tree H root (child d n)"

text \<open>An entry nobody but root can change, with the record that describes it.\<close>

definition recorded :: "('r) trust_host_scheme \<Rightarrow> path \<Rightarrow> json list \<Rightarrow> path \<Rightarrow> bool" where
  "recorded H root rs p \<longleftrightarrow>
     (\<exists>m. lstat H p = Some m \<and> root_only m
        \<and> (S_ISDIR (st_mode m) \<and> tree_record (relative_name root p @ ''/'') m 0 JNull \<in> set rs
           \<or> S_ISREG (st_mode m) \<and> (\<exists>raw. read_file H p = Some raw
               \<and> tree_record (relative_name root p) m (st_size m) (JStr (sha256_hex H raw)) \<in> set rs)))"

lemma recorded_mono: "recorded H root rs p \<Longrightarrow> set rs \<subseteq> set rs' \<Longrightarrow> recorded H root rs' p"
  by (force simp: recorded_def)

text \<open>
  The invariant of the loop: \<open>V\<close> are the entries seen, \<open>D\<close> the directories whose entries have been
  taken.
\<close>

definition tree_inv :: "('r) trust_host_scheme \<Rightarrow> path \<Rightarrow> path set \<Rightarrow> path set \<Rightarrow> tree_state \<Rightarrow> bool" where
  "tree_inv H root D V st \<longleftrightarrow>
     (\<forall>p\<in>V. recorded H root (listed st) p)
     \<and> (\<forall>p\<in>insert root V. is_directory H p \<longrightarrow> p \<in> D \<or> p \<in> set (pending st))
     \<and> file_count st = int (length (listed st)) \<and> file_count st \<le> MAX_BROKER_PACKAGE_FILES
     \<and> size_bytes st \<le> MAX_BROKER_PACKAGE_BYTES"

definition entries_seen :: "('r) trust_host_scheme \<Rightarrow> path set \<Rightarrow> path set \<Rightarrow> bool" where
  "entries_seen H D V \<longleftrightarrow> (\<forall>d\<in>D. \<forall>names. scandir H d = Some names \<longrightarrow> child d ` set names \<subseteq> V)"

lemma tree_entry_inv:
  assumes "tree_entry H root d n st = Inr st'" "tree_inv H root D V st"
  shows "tree_inv H root D (insert (child d n) V) st'"
proof -
  obtain m where m: "lstat H (child d n) = Some m" "\<not> unsafe_entry m" "file_count st + 1 \<le> MAX_BROKER_PACKAGE_FILES"
    using assms(1) by (auto simp: tree_entry_def Let_def split: option.splits)
  then have safe: "root_only m" by (simp add: unsafe_entry_def root_only_def)
  note old = assms(2) [unfolded tree_inv_def]
  have seen: "recorded H root (listed st') p" if "p \<in> V" "set (listed st) \<subseteq> set (listed st')" for p
    using old that by (auto intro: recorded_mono)
  show ?thesis
  proof (cases "S_ISDIR (st_mode m)")
    case True
    have st': "st' = st\<lparr>file_count := file_count st + 1,
         listed := listed st @ [tree_record (relative_name root (child d n) @ ''/'') m 0 JNull],
         pending := child d n # pending st\<rparr>"
      using assms(1) m True by (simp add: tree_entry_def Let_def)
    have "recorded H root (listed st') (child d n)" using st' m safe True by (auto simp: recorded_def)
    with seen show ?thesis using old st' m(3) by (auto simp: tree_inv_def)
  next
    case False
    with assms(1) m obtain raw where raw: "S_ISREG (st_mode m)" "read_file H (child d n) = Some raw"
      "size_bytes st + st_size m \<le> MAX_BROKER_PACKAGE_BYTES"
      by (auto simp: tree_entry_def Let_def sha256_file_def split: option.splits if_splits)
    have st': "st' = st\<lparr>file_count := file_count st + 1, size_bytes := size_bytes st + st_size m,
         listed := listed st @ [tree_record (relative_name root (child d n)) m (st_size m) (JStr (sha256_hex H raw))]\<rparr>"
      using assms(1) m False raw by (simp add: tree_entry_def Let_def sha256_file_def)
    have "recorded H root (listed st') (child d n)" using raw(1,2) st' m safe by (auto simp: recorded_def)
    moreover have "\<not> is_directory H (child d n)" using False m(1) by (simp add: is_directory_def)
    ultimately show ?thesis using seen old raw(3) st' m(3) by (auto simp: tree_inv_def)
  qed
qed

lemma tree_entries_inv:
  "rfold (tree_entry H root d) names st = Inr st' \<Longrightarrow> tree_inv H root D V st
    \<Longrightarrow> tree_inv H root D (V \<union> child d ` set names) st'"
proof (induction names arbitrary: st V)
  case (Cons n names)
  then obtain st1 where st1: "tree_entry H root d n st = Inr st1" "rfold (tree_entry H root d) names st1 = Inr st'" by auto
  from Cons.IH [OF st1(2) tree_entry_inv [OF st1(1) Cons.prems(2)]] show ?case by simp
qed simp

lemma tree_scan_inv:
  "tree_scan H root st = Inr st' \<Longrightarrow> tree_inv H root D V st \<Longrightarrow> entries_seen H D V
    \<Longrightarrow> \<exists>D' V'. tree_inv H root D' V' st' \<and> entries_seen H D' V' \<and> pending st' = []"
proof (induction H root st arbitrary: D V rule: tree_scan.induct)
  case (1 H root st)
  show ?case
  proof (cases "pending st")
    case Nil
    with "1.prems" show ?thesis by (auto simp: tree_scan.simps [of H root st])
  next
    case (Cons d rest)
    with "1.prems"(1) obtain names where names: "scandir H d = Some names"
      by (cases "scandir H d") (auto simp: tree_scan.simps [of H root st])
    with "1.prems"(1) Cons obtain st1
      where fold: "rfold (tree_entry H root d) (sort names) (st\<lparr>pending := rest\<rparr>) = Inr st1"
        and scan: "tree_scan H root st1 = Inr st'"
      by (auto simp: tree_scan.simps [of H root st] split: sum.splits)
    have popped: "tree_inv H root (insert d D) V (st\<lparr>pending := rest\<rparr>)"
      using "1.prems"(2) Cons by (auto simp: tree_inv_def)
    have inv: "tree_inv H root (insert d D) (V \<union> child d ` set names) st1"
      using tree_entries_inv [OF fold popped] by simp
    have "entries_seen H (insert d D) (V \<union> child d ` set names)"
      using "1.prems"(3) names by (auto simp: entries_seen_def)
    from "1.IH" [OF Cons names fold scan inv this] show ?thesis .
  qed
qed

text \<open>
  Property C14: the digest that vouches for the installed broker package covers the whole package.
  If \<^verbatim>\<open>package_tree_sha256\<close> returns, then the package root and every directory above it are
  directories that only root can write, every entry below the root belongs to root and cannot be
  written by anybody else, and the digest is taken over a listing that has the path, mode, size and
  content digest of each of them; there are at most 10000 entries with at most 128 MiB.
\<close>

theorem package_tree_covers:
  assumes "package_tree_sha256 H root = Inr digest"
  shows "\<exists>st. digest = sha256_hex H (canonical_json (tree_document st))
    \<and> (\<forall>q\<in>set (root # path_parents root). \<exists>m. lstat H q = Some m \<and> S_ISDIR (st_mode m) \<and> root_only m)
    \<and> (\<forall>p. in_tree H root p \<longrightarrow> p \<noteq> root \<longrightarrow> recorded H root (listed st) p)
    \<and> length (listed st) \<le> 10000 \<and> size_bytes st \<le> 128 * 1024 * 1024"
proof -
  let ?init = "\<lparr>pending = [root], listed = [], file_count = 0, size_bytes = 0\<rparr>"
  obtain ms st where ms: "lstat_all H (root # path_parents root) = Some ms"
      "\<forall>m\<in>set ms. S_ISDIR (st_mode m) \<and> root_only m"
    and st: "tree_scan H root ?init = Inr st" and digest: "broker_json_sha256 H (tree_document st) = Inr digest"
    using assms by (auto simp: package_tree_sha256_def root_only_def split: if_splits option.splits)
  have "tree_inv H root {} {} ?init" "entries_seen H {} {}"
    by (simp_all add: tree_inv_def entries_seen_def MAX_BROKER_PACKAGE_FILES_def MAX_BROKER_PACKAGE_BYTES_def)
  from tree_scan_inv [OF st this] obtain D V
    where inv: "tree_inv H root D V st" and seen: "entries_seen H D V" and finished: "pending st = []" by blast
  have "p \<in> insert root V" if "in_tree H root p" for p
    using that
  proof induction
    case (entry d names n)
    then have "d \<in> D" using inv finished by (auto simp: tree_inv_def)
    then show ?case using entry seen by (auto simp: entries_seen_def)
  qed simp
  then have "\<forall>p. in_tree H root p \<longrightarrow> p \<noteq> root \<longrightarrow> recorded H root (listed st) p"
    using inv by (auto simp: tree_inv_def)
  moreover have "digest = sha256_hex H (canonical_json (tree_document st))"
    using digest by (auto simp: broker_json_sha256_def broker_json_bytes_def bounded_json_eq_Inr)
  moreover have "\<forall>q\<in>set (root # path_parents root). \<exists>m. lstat H q = Some m \<and> S_ISDIR (st_mode m) \<and> root_only m"
    using ms(2) lstat_all_ball [OF ms(1), of "\<lambda>m. S_ISDIR (st_mode m) \<and> root_only m"] by blast
  moreover have "length (listed st) \<le> 10000" "size_bytes st \<le> 128 * 1024 * 1024"
    using inv by (simp_all add: tree_inv_def MAX_BROKER_PACKAGE_FILES_def MAX_BROKER_PACKAGE_BYTES_def)
  ultimately show ?thesis by blast
qed

section \<open>Trust files and attestations\<close>

lemma require_posix_root_owned_sound:
  assumes "require_posix_root_owned H p private = Inr q"
  shows "q = p" "\<exists>m. lstat H p = Some m \<and> S_ISREG (st_mode m) \<and> root_only m"
    "\<forall>a\<in>set (path_parents p). \<exists>m. lstat H a = Some m \<and> root_only m"
    "os_posix H" "is_absolute p"
proof -
  obtain m ms where m: "lstat H p = Some m" "lstat_all H (path_parents p) = Some ms" "S_ISREG (st_mode m)" "root_only m"
      "\<forall>m\<in>set ms. root_only m"
    using assms by (auto simp: require_posix_root_owned_def root_only_def list_ex_iff split: if_splits option.splits)
  then show "\<exists>m. lstat H p = Some m \<and> S_ISREG (st_mode m) \<and> root_only m" by blast
  show "\<forall>a\<in>set (path_parents p). \<exists>m. lstat H a = Some m \<and> root_only m"
    using m(5) lstat_all_ball [OF m(2), of root_only] by blast
  show "q = p" "os_posix H" "is_absolute p"
    using assms by (auto simp: require_posix_root_owned_def split: if_splits option.splits)
qed

lemma require_posix_root_owned_complete:
  assumes "root_protected H p"
  shows "require_posix_root_owned H p False = Inr p"
proof -
  obtain m where m: "lstat H p = Some m" "S_ISREG (st_mode m)" "root_only m" using assms by (auto simp: root_protected_def)
  have "case lstat_all H (path_parents p) of None \<Rightarrow> False | Some ms \<Rightarrow> \<forall>m\<in>set ms. root_only m"
    unfolding lstat_all_cases using assms by (auto simp: root_protected_def)
  then obtain ms where "lstat_all H (path_parents p) = Some ms" "\<forall>m\<in>set ms. root_only m"
    by (auto split: option.splits)
  with m assms show ?thesis
    by (auto simp: require_posix_root_owned_def root_only_def root_protected_def list_ex_iff)
qed

lemma root_owned_iff_protected:
  assumes "lstat_resolves H"
  shows "require_posix_root_owned H p False = Inr p \<longleftrightarrow> root_protected H p"
proof
  assume acc: "require_posix_root_owned H p False = Inr p"
  note s = require_posix_root_owned_sound [OF acc]
  have "\<exists>m. lstat H q = Some m \<and> S_ISDIR (st_mode m) \<and> root_only m" if q: "q \<in> set (path_parents p)" for q
  proof -
    obtain m where m: "lstat H q = Some m" "root_only m" using s(3) q by blast
    obtain t where "lstat H p = Some t" using s(2) by blast
    with assms q m(1) have "S_ISDIR (st_mode m) \<or> S_ISLNK (st_mode m)" by (fastforce simp: lstat_resolves_def)
    with m show ?thesis by (auto simp: root_only_def)
  qed
  with s show "root_protected H p" by (auto simp: root_protected_def)
qed (rule require_posix_root_owned_complete)

text \<open>The schema of an envelope does not depend on the digest and the signature it carries.\<close>

lemma validate_broker_envelope:
  assumes "fullmatch_hex 64 k" "length s = 64"
  shows "validate_signed_envelope (JObj (broker_envelope k p s)) kind =
    (case attestation_keys kind of
       None \<Rightarrow> raise SnapshotBrokerError ''Snapshot broker signed payload schema is not exact''
     | Some keys \<Rightarrow>
         rbind (ensure (exact_keys p keys) SnapshotBrokerError ''Snapshot broker signed payload schema is not exact'') (\<lambda>_.
         rbind (validate_attestation kind p) (\<lambda>_. Inr p)))"
  using assms
  by (simp add: validate_signed_envelope_def broker_envelope_def exact_keys_def SIGNED_ENVELOPE_KEYS_def is_hex_def
      validate_broker_signature_def split: option.split)

lemma zeros_hex: "fullmatch_hex 64 (replicate 64 CHR ''0'')"
  by (simp add: fullmatch_exact_def list_all_length is_lower_hex_def is_digit_def)

lemma broker_sign_eq_Inr:
  "broker_sign H openssl key p = Inr s \<longleftrightarrow>
     (\<exists>e. broker_json_bytes (JObj p) = Inr e \<and> pkeyutl_sign H openssl key e = Some (0, Some s)) \<and> length s = 64"
proof (cases "broker_json_bytes (JObj p)")
  case (Inr e)
  then show ?thesis
    by (cases "pkeyutl_sign H openssl key e"; cases "snd (the (pkeyutl_sign H openssl key e))")
      (auto simp: broker_sign_def)
qed (simp add: broker_sign_def)

lemma trusted_public_key_Inr:
  assumes "trusted_public_key_binding H p = Inr r"
  shows "fst r = p" "\<exists>raw. read_file H p = Some raw \<and> snd r = sha256_hex H raw"
  using assms
  by (auto simp: trusted_public_key_binding_def sha256_file_def dest!: require_posix_root_owned_sound(1) split: option.splits)

lemma trusted_openssl_Inr:
  assumes "trusted_openssl_binding H p d = Inr r"
  shows "fst r = p" "require_posix_root_owned H p False = Inr p"
    "\<exists>raw t. read_file H p = Some raw \<and> read_ascii H d = Some t \<and> sha256_hex H raw = lower (strip t)"
proof -
  obtain q where q: "require_posix_root_owned H p False = Inr q"
    using assms by (auto simp: trusted_openssl_binding_def)
  moreover obtain q' where q': "require_posix_root_owned H d False = Inr q'"
    using assms by (auto simp: trusted_openssl_binding_def)
  moreover note require_posix_root_owned_sound(1) [OF q] require_posix_root_owned_sound(1) [OF q']
  ultimately show "fst r = p" "require_posix_root_owned H p False = Inr p"
    "\<exists>raw t. read_file H p = Some raw \<and> read_ascii H d = Some t \<and> sha256_hex H raw = lower (strip t)"
    using assms by (auto simp: trusted_openssl_binding_def sha256_file_def split: option.splits)
qed

lemma signed_envelope_verifies:
  assumes "sign_payload H private public openssl digest payload = Inr envelope"
    and "ed25519_pair H openssl private public" "hex_digests H"
  shows "verify_signed_envelope H public openssl digest (JObj envelope) (py_str (dget payload ''kind'')) = Inr payload"
proof -
  let ?kind = "py_str (dget payload ''kind'')"
  obtain pub ssl s where
      placeholder: "\<exists>x. validate_signed_envelope
        (JObj (broker_envelope (replicate 64 CHR ''0'') payload (replicate 64 CHR ''0''))) ?kind = Inr x"
    and pub: "trusted_public_key_binding H public = Inr pub" and ssl: "trusted_openssl_binding H openssl digest = Inr ssl"
    and s: "broker_sign H (fst ssl) private payload = Inr s" and env: "envelope = broker_envelope (snd pub) payload s"
    using assms(1) by (auto simp: sign_payload_def)
  have key: "fullmatch_hex 64 (snd pub)"
    using trusted_public_key_Inr(2) [OF pub] assms(3) by (auto simp: hex_digests_def)
  obtain e where e: "broker_json_bytes (JObj payload) = Inr e" "pkeyutl_sign H openssl private e = Some (0, Some s)"
      "length s = 64"
    using s trusted_openssl_Inr(1) [OF ssl] by (auto simp: broker_sign_eq_Inr)
  have "validate_signed_envelope (JObj envelope) ?kind = Inr payload"
    using placeholder unfolding env validate_broker_envelope [OF zeros_hex length_replicate] validate_broker_envelope [OF key e(3)]
    by (auto split: option.splits)
  moreover have "pkeyutl_verify H openssl public e s = Some 0" using assms(2) e(2) by (auto simp: ed25519_pair_def)
  ultimately show ?thesis
    using pub ssl e trusted_openssl_Inr(1) [OF ssl]
    by (simp add: verify_signed_envelope_def broker_verify_def env broker_envelope_def)
qed

text \<open>
  Property C17: an attestation that the broker signs is accepted by everybody who trusts its public
  key. If \<^verbatim>\<open>sign_payload\<close> returns an envelope and the key files belong together, then
  \<^verbatim>\<open>verify_signed_envelope\<close> with the public key accepts it for the kind of the payload and returns the
  payload that was signed.
\<close>

theorem broker_sign_verify:
  assumes "sign_payload H private public openssl digest payload = Inr envelope"
    and "ed25519_pair H openssl private public" "hex_digests H"
  shows "verify_signed_envelope H public openssl digest (JObj envelope) (py_str (dget payload ''kind'')) = Inr payload"
  using assms by (rule signed_envelope_verifies)

text \<open>What acceptance of an envelope means.\<close>

lemma verify_signed_envelope_sound:
  assumes "verify_signed_envelope H public openssl digest envelope kind = Inr payload"
  shows "validate_signed_envelope envelope kind = Inr payload"
    "\<exists>s. signature_bytes (vget envelope ''signature_b64'') = Some s
       \<and> pkeyutl_verify H openssl public (canonical_json (JObj payload)) s = Some 0"
    "\<exists>raw. read_file H public = Some raw \<and> vget envelope ''public_key_sha256'' = JStr (sha256_hex H raw)"
proof -
  obtain pub ssl s where v: "validate_signed_envelope envelope kind = Inr payload"
      "trusted_public_key_binding H public = Inr pub" "trusted_openssl_binding H openssl digest = Inr ssl"
      "vget envelope ''public_key_sha256'' = JStr (snd pub)" "signature_bytes (vget envelope ''signature_b64'') = Some s"
      "broker_verify H (fst ssl) public payload s = Inr True"
    using assms by (auto simp: verify_signed_envelope_def split: option.splits)
  show "validate_signed_envelope envelope kind = Inr payload" by (rule v(1))
  show "\<exists>raw. read_file H public = Some raw \<and> vget envelope ''public_key_sha256'' = JStr (sha256_hex H raw)"
    using trusted_public_key_Inr(2) [OF v(2)] v(4) by auto
  show "\<exists>s. signature_bytes (vget envelope ''signature_b64'') = Some s
       \<and> pkeyutl_verify H openssl public (canonical_json (JObj payload)) s = Some 0"
    using v(5,6) trusted_openssl_Inr(1) [OF v(3)]
    by (auto simp: broker_verify_def broker_json_bytes_def bounded_json_eq_Inr split: option.splits)
qed

end
