(* ===== verification/Verifier_Protocol.thy ===== *)
theory Verifier_Protocol
  imports Broker_Trust
begin

text \<open>
  The documents of the dedicated verifier (\<^verbatim>\<open>verifier_protocol.py\<close>): dispatches, wakeups, execution
  preimages and receipt envelopes. A validator returns the document or raises.
\<close>

section \<open>Constants\<close>

definition VERIFIER_SCHEMA_VERSION :: int where "VERIFIER_SCHEMA_VERSION = 1"
definition VERIFIER_PROTOCOL_ID :: string where "VERIFIER_PROTOCOL_ID = ''cogni-os.verifier-service.v1''"
definition VERIFIER_LEDGER_DOMAIN :: string where "VERIFIER_LEDGER_DOMAIN = ''cogni-os.ledger-event.v2''"
definition VERIFIER_RECEIPT_DOMAIN :: string where "VERIFIER_RECEIPT_DOMAIN = ''cogni-os.verification-receipt.v1''"
definition VERIFIER_SIGNATURE_ALGORITHM :: string where
  "VERIFIER_SIGNATURE_ALGORITHM = ''ed25519-openssl-pkeyutl-raw-v1''"

definition MAX_VERIFIER_DOCUMENT_BYTES :: int where "MAX_VERIFIER_DOCUMENT_BYTES = 4 * 1024 * 1024"
definition MAX_DISPATCH_TTL_SECONDS :: int where "MAX_DISPATCH_TTL_SECONDS = 600"
definition MAX_CLOCK_SKEW_SECONDS :: int where "MAX_CLOCK_SKEW_SECONDS = 60"
definition MAX_COMMANDS :: int where "MAX_COMMANDS = 128"
definition MAX_ARGV_ITEMS :: int where "MAX_ARGV_ITEMS = 256"
definition MAX_ARG_BYTES :: int where "MAX_ARG_BYTES = 16 * 1024"
definition MAX_OUTPUT_BYTES :: int where "MAX_OUTPUT_BYTES = 64 * 1024 * 1024"

definition SOURCE_KEYS :: "string list" where
  "SOURCE_KEYS = [''artifact_id'', ''bundle_sha256'', ''size_bytes'', ''commit_oid'', ''tree_oid'']"

definition DISPATCH_KEYS :: "string list" where
  "DISPATCH_KEYS = [''schema_version'', ''protocol_id'', ''kind'', ''ledger_domain'', ''dispatch_event_hash'',
     ''ledger_head_hash'', ''workspace_id'', ''task_id'', ''attempt'', ''actor'', ''run_id'', ''source'',
     ''verifier_manifest_sha256'', ''validation_contract_sha256'', ''capability_receipt_sha256'', ''network_allowed'',
     ''gpu_allowed'', ''nonce'', ''issued_at'', ''expires_at'']"

definition WAKEUP_KEYS :: "string list" where
  "WAKEUP_KEYS = [''schema_version'', ''protocol_id'', ''kind'', ''dispatch_event_hash'', ''task_id'', ''run_id'', ''nonce'']"

definition RUNTIME_KEYS :: "string list" where
  "RUNTIME_KEYS = [''runtime_manifest_sha256'', ''entrypoint_sha256'', ''interpreter_sha256'', ''package_tree_sha256'',
     ''service_unit_sha256'', ''policy_sha256'']"

definition COMMAND_KEYS :: "string list" where
  "COMMAND_KEYS = [''index'', ''executable_path'', ''executable_sha256'', ''argv'', ''cwd'', ''environment_sha256'',
     ''exit_code'', ''timed_out'', ''output_truncated'', ''stdout_sha256'', ''stdout_size_bytes'', ''stderr_sha256'',
     ''stderr_size_bytes'', ''started_monotonic_ns'', ''completed_monotonic_ns'']"

definition ISOLATION_KEYS :: "string list" where
  "ISOLATION_KEYS = [''network_disabled'', ''gpu_disabled'', ''namespace_sha256'', ''cgroup_sha256'']"

definition POSTCHECK_KEYS :: "string list" where
  "POSTCHECK_KEYS = [''passed'', ''observed_sha256'']"

definition EXECUTION_PREIMAGE_KEYS :: "string list" where
  "EXECUTION_PREIMAGE_KEYS = [''schema_version'', ''protocol_id'', ''kind'', ''domain'', ''dispatch_event_hash'',
     ''request_event_hash'', ''start_event_hash'', ''ledger_head_hash'', ''workspace_id'', ''task_id'', ''attempt'', ''actor'',
     ''run_id'', ''source'', ''verifier_manifest_sha256'', ''validation_contract_sha256'', ''snapshot_manifest_sha256'',
     ''acquire_proof_sha256'', ''runtime'', ''commands'', ''isolation'', ''source_postcheck'', ''snapshot_postcheck'',
     ''started_at'', ''completed_at'', ''started_monotonic_ns'', ''completed_monotonic_ns'', ''result'', ''failure_code'']"

definition RECEIPT_KEYS :: "string list" where
  "RECEIPT_KEYS = [''schema_version'', ''protocol_id'', ''kind'', ''domain'', ''algorithm'', ''public_key_sha256'',
     ''execution_preimage'', ''execution_preimage_sha256'', ''execution_signature_b64'', ''cleanup_proof'',
     ''cleanup_proof_sha256'', ''sealed_at'', ''final_signature_b64'']"

section \<open>Field checks\<close>

definition verifier_json_bytes :: "json \<Rightarrow> string res" where
  "verifier_json_bytes =
     bounded_json VerifierProtocolError ''Verifier document is not canonical JSON''
       ''Verifier document exceeds its byte limit'' MAX_VERIFIER_DOCUMENT_BYTES"

definition verifier_json_sha256 :: "('r) crypto_scheme \<Rightarrow> json \<Rightarrow> string res" where
  "verifier_json_sha256 H v = rbind (verifier_json_bytes v) (\<lambda>e. Inr (sha256_hex H e))"

definition exact_object :: "json \<Rightarrow> string list \<Rightarrow> dict res" where
  "exact_object v keys =
     (case v of
        JObj d \<Rightarrow>
          rbind (ensure (exact_keys d keys) VerifierProtocolError '''') (\<lambda>_.
          rbind (verifier_json_bytes v) (\<lambda>_. Inr d))
      | _ \<Rightarrow> raise VerifierProtocolError '''')"

definition require_sha256 :: "json \<Rightarrow> unit res" where
  "require_sha256 v = ensure (is_hex v 64) VerifierProtocolError ''''"

definition is_identifier :: "json \<Rightarrow> bool" where
  "is_identifier v =
     (case v of
        JStr s \<Rightarrow> fullmatch_head_rest is_alnum (\<lambda>c. is_alnum c \<or> c = CHR ''.'' \<or> c = CHR ''_'' \<or> c = CHR ''-'') 255 s
      | _ \<Rightarrow> False)"

definition require_identifier :: "json \<Rightarrow> unit res" where
  "require_identifier v = ensure (is_identifier v) VerifierProtocolError ''''"

definition positive_int :: "bool \<Rightarrow> json \<Rightarrow> int res" where
  "positive_int allow_zero v =
     (case strict_int v of
        None \<Rightarrow> raise VerifierProtocolError ''''
      | Some n \<Rightarrow> if n < (if allow_zero then 0 else 1) then raise VerifierProtocolError '''' else Inr n)"

text \<open>
  \<^verbatim>\<open>datetime.timestamp()\<close> of an aware instant: the quotient of its microseconds by a million, rounded
  to the nearest float, ties to even. The result is in units of \<open>2 ^ - 72\<close>, of which every such float is
  a multiple.
\<close>

definition epoch_float :: "int \<Rightarrow> int" where
  "epoch_float m =
     (let n = \<bar>m\<bar> * 2 ^ 72; u = 2 ^ (bit_length (n div 1000000) - 53); d = 1000000 * u; q = n div d; r = n mod d in
      sgn m * (if 2 * r < d \<or> 2 * r = d \<and> even q then q else q + 1) * u)"

definition timestamp_epoch :: "('r) runtime_scheme \<Rightarrow> json \<Rightarrow> int res" where
  "timestamp_epoch R v =
     (case v of
        JStr s \<Rightarrow>
          if s = [] \<or> 64 < py_len s then raise VerifierProtocolError ''''
          else (case fromisoformat R (if endswith s ''Z'' then butlast s @ ''+00:00'' else s) of
                  Some (Aware m _) \<Rightarrow> Inr (epoch_float m)
                | _ \<Rightarrow> raise VerifierProtocolError '''')
      | _ \<Rightarrow> raise VerifierProtocolError '''')"

definition require_signature :: "json \<Rightarrow> string res" where
  "require_signature v =
     (case signature_bytes v of
        None \<Rightarrow> raise VerifierProtocolError ''''
      | Some decoded \<Rightarrow> rbind (ensure (length decoded = 64) VerifierProtocolError '''') (\<lambda>_. Inr decoded))"

definition is_oid :: "json \<Rightarrow> bool" where
  "is_oid v \<longleftrightarrow> is_hex v 40 \<or> is_hex v 64"

definition validate_source :: "json \<Rightarrow> dict res" where
  "validate_source v =
     rbind (exact_object v SOURCE_KEYS) (\<lambda>source.
     rbind (require_identifier (dget source ''artifact_id'')) (\<lambda>_.
     rbind (require_sha256 (dget source ''bundle_sha256'')) (\<lambda>_.
     rbind (positive_int False (dget source ''size_bytes'')) (\<lambda>_.
     rbind (ensure (is_oid (dget source ''commit_oid'') \<and> is_oid (dget source ''tree_oid'')
                    \<and> length (py_str (dget source ''commit_oid'')) = length (py_str (dget source ''tree_oid'')))
              VerifierProtocolError ''Verifier source Git OIDs are invalid'') (\<lambda>_.
     Inr source)))))"

section \<open>Dispatches and wakeups\<close>

definition validate_dispatch :: "json \<Rightarrow> int \<Rightarrow> dict res" where
  "validate_dispatch document now =
     rbind (exact_object document DISPATCH_KEYS) (\<lambda>dispatch.
     rbind (ensure (py_eq (dget dispatch ''schema_version'') (JInt VERIFIER_SCHEMA_VERSION)
                    \<and> py_eq (dget dispatch ''protocol_id'') (JStr VERIFIER_PROTOCOL_ID)
                    \<and> py_eq (dget dispatch ''kind'') (JStr ''verification-dispatch'')
                    \<and> py_eq (dget dispatch ''ledger_domain'') (JStr VERIFIER_LEDGER_DOMAIN))
              VerifierProtocolError ''Verifier dispatch identity is invalid'') (\<lambda>_.
     rbind (reach (\<lambda>key. require_sha256 (dget dispatch key)) [''dispatch_event_hash'', ''ledger_head_hash'']) (\<lambda>_.
     rbind (reach (\<lambda>key. require_identifier (dget dispatch key)) [''workspace_id'', ''task_id'', ''actor'', ''nonce'']) (\<lambda>_.
     rbind (ensure (is_hex (dget dispatch ''run_id'') 32) VerifierProtocolError
              ''run_id must be 32 lowercase hex characters'') (\<lambda>_.
     rbind (positive_int False (dget dispatch ''attempt'')) (\<lambda>_.
     rbind (validate_source (dget dispatch ''source'')) (\<lambda>_.
     rbind (reach (\<lambda>key. require_sha256 (dget dispatch key))
              [''verifier_manifest_sha256'', ''validation_contract_sha256'', ''capability_receipt_sha256'']) (\<lambda>_.
     rbind (ensure (is_false (dget dispatch ''network_allowed'') \<and> is_false (dget dispatch ''gpu_allowed''))
              VerifierProtocolError ''Verifier dispatch must deny network and GPU'') (\<lambda>_.
     rbind (positive_int False (dget dispatch ''issued_at'')) (\<lambda>issued_at.
     rbind (positive_int False (dget dispatch ''expires_at'')) (\<lambda>expires_at.
     rbind (ensure (\<not> (expires_at \<le> issued_at \<or> MAX_DISPATCH_TTL_SECONDS < expires_at - issued_at))
              VerifierProtocolError ''Verifier dispatch lifetime is invalid'') (\<lambda>_.
     rbind (ensure (\<not> (now + MAX_CLOCK_SKEW_SECONDS < issued_at \<or> expires_at < now))
              VerifierProtocolError ''Verifier dispatch is expired or not yet valid'') (\<lambda>_.
     Inr dispatch)))))))))))))"

text \<open>
  \<^verbatim>\<open>validate_dispatch(dispatch, now=dispatch["issued_at"])\<close>: a value that is not an integer is refused before
  it is compared with the clock.
\<close>

definition validate_own_dispatch :: "dict \<Rightarrow> dict res" where
  "validate_own_dispatch dispatch =
     rbind (ditem dispatch ''issued_at'') (\<lambda>now. validate_dispatch (JObj dispatch) (int_value now))"

definition validate_wakeup :: "json \<Rightarrow> dict res" where
  "validate_wakeup document =
     rbind (exact_object document WAKEUP_KEYS) (\<lambda>wakeup.
     rbind (ensure (py_eq (dget wakeup ''schema_version'') (JInt VERIFIER_SCHEMA_VERSION)
                    \<and> py_eq (dget wakeup ''protocol_id'') (JStr VERIFIER_PROTOCOL_ID)
                    \<and> py_eq (dget wakeup ''kind'') (JStr ''verification-wakeup''))
              VerifierProtocolError ''Verifier wakeup identity is invalid'') (\<lambda>_.
     rbind (require_sha256 (dget wakeup ''dispatch_event_hash'')) (\<lambda>_.
     rbind (require_identifier (dget wakeup ''task_id'')) (\<lambda>_.
     rbind (require_identifier (dget wakeup ''nonce'')) (\<lambda>_.
     rbind (ensure (is_hex (dget wakeup ''run_id'') 32) VerifierProtocolError
              ''Verifier wakeup run_id is invalid'') (\<lambda>_.
     rbind (verifier_json_bytes (JObj wakeup)) (\<lambda>encoded.
     rbind (ensure (int (length encoded) \<le> 4096) VerifierProtocolError ''Verifier wakeup exceeds 4 KiB'') (\<lambda>_.
     Inr wakeup))))))))"

section \<open>Execution preimages\<close>

definition validate_runtime :: "json \<Rightarrow> dict res" where
  "validate_runtime v =
     rbind (exact_object v RUNTIME_KEYS) (\<lambda>runtime.
     rbind (reach (\<lambda>key. require_sha256 (dget runtime key)) RUNTIME_KEYS) (\<lambda>_. Inr runtime))"

definition canonical_posix_absolute_path :: "bool \<Rightarrow> json \<Rightarrow> string res" where
  "canonical_posix_absolute_path allow_root v =
     (case v of
        JStr s \<Rightarrow>
          if \<not> startswith s ''/'' \<or> CHR 0x00 \<in> set s \<or> CHR 0x5C \<in> set s \<or> 4096 < int (length s)
          then raise VerifierProtocolError ''''
          else if s = ''/'' then (if allow_root then Inr s else raise VerifierProtocolError '''')
          else if endswith s ''/'' then raise VerifierProtocolError ''''
          else if list_ex (\<lambda>p. p = [] \<or> p = ''.'' \<or> p = ''..'') (split_slash (tl s)) then raise VerifierProtocolError ''''
          else Inr s
      | _ \<Rightarrow> raise VerifierProtocolError '''')"

definition argv_ok :: "json \<Rightarrow> string \<Rightarrow> bool" where
  "argv_ok v executable =
     (case v of
        JArr argv \<Rightarrow>
          argv \<noteq> [] \<and> int (length argv) \<le> MAX_ARGV_ITEMS
          \<and> list_all (\<lambda>a. case a of JStr s \<Rightarrow> s \<noteq> [] \<and> int (length s) \<le> MAX_ARG_BYTES | _ \<Rightarrow> False) argv
          \<and> py_eq (hd argv) (JStr executable)
      | _ \<Rightarrow> False)"

definition validate_command :: "int \<Rightarrow> json \<Rightarrow> dict res" where
  "validate_command expected_index v =
     rbind (exact_object v COMMAND_KEYS) (\<lambda>command.
     rbind (ensure (py_eq (dget command ''index'') (JInt expected_index)) VerifierProtocolError
              ''Verifier command indexes are not contiguous'') (\<lambda>_.
     rbind (canonical_posix_absolute_path False (dget command ''executable_path'')) (\<lambda>executable.
     rbind (canonical_posix_absolute_path True (dget command ''cwd'')) (\<lambda>cwd.
     rbind (ensure (argv_ok (dget command ''argv'') executable) VerifierProtocolError
              ''Verifier command argv is invalid'') (\<lambda>_.
     rbind (reach (\<lambda>key. require_sha256 (dget command key))
              [''executable_sha256'', ''environment_sha256'', ''stdout_sha256'', ''stderr_sha256'']) (\<lambda>_.
     rbind (ensure (strict_int (dget command ''exit_code'') \<noteq> None) VerifierProtocolError
              ''Verifier command exit_code is invalid'') (\<lambda>_.
     rbind (reach (\<lambda>key. ensure (is_bool (dget command key)) VerifierProtocolError ''Verifier command '')
              [''timed_out'', ''output_truncated'']) (\<lambda>_.
     rbind (reach (\<lambda>key. rbind (positive_int True (dget command key)) (\<lambda>n.
                      ensure (n \<le> MAX_OUTPUT_BYTES) VerifierProtocolError ''Verifier command output exceeds its limit''))
              [''stdout_size_bytes'', ''stderr_size_bytes'']) (\<lambda>_.
     rbind (positive_int False (dget command ''started_monotonic_ns'')) (\<lambda>started.
     rbind (positive_int False (dget command ''completed_monotonic_ns'')) (\<lambda>completed.
     rbind (ensure (started \<le> completed) VerifierProtocolError ''Verifier command monotonic interval is invalid'') (\<lambda>_.
     Inr command))))))))))))"

fun validate_commands :: "int \<Rightarrow> json list \<Rightarrow> unit res" where
  "validate_commands index [] = Inr ()"
| "validate_commands index (c # cs) = rbind (validate_command index c) (\<lambda>_. validate_commands (index + 1) cs)"

definition validate_postcheck :: "json \<Rightarrow> dict res" where
  "validate_postcheck v =
     rbind (exact_object v POSTCHECK_KEYS) (\<lambda>postcheck.
     rbind (ensure (is_bool (dget postcheck ''passed'')) VerifierProtocolError '''') (\<lambda>_.
     rbind (require_sha256 (dget postcheck ''observed_sha256'')) (\<lambda>_. Inr postcheck)))"

definition preimage_identity :: "dict \<Rightarrow> unit res" where
  "preimage_identity p =
     rbind (ensure (py_eq (dget p ''schema_version'') (JInt VERIFIER_SCHEMA_VERSION)
                    \<and> py_eq (dget p ''protocol_id'') (JStr VERIFIER_PROTOCOL_ID)
                    \<and> py_eq (dget p ''kind'') (JStr ''verification-execution-preimage'')
                    \<and> py_eq (dget p ''domain'') (JStr VERIFIER_RECEIPT_DOMAIN))
              VerifierProtocolError ''Verifier execution preimage identity is invalid'') (\<lambda>_.
     rbind (reach (\<lambda>key. require_sha256 (dget p key))
              [''dispatch_event_hash'', ''request_event_hash'', ''start_event_hash'', ''ledger_head_hash'',
               ''verifier_manifest_sha256'', ''validation_contract_sha256'', ''snapshot_manifest_sha256'',
               ''acquire_proof_sha256'']) (\<lambda>_.
     rbind (reach (\<lambda>key. require_identifier (dget p key)) [''workspace_id'', ''task_id'', ''actor'']) (\<lambda>_.
     rbind (positive_int False (dget p ''attempt'')) (\<lambda>_.
     ensure (is_hex (dget p ''run_id'') 32) VerifierProtocolError ''Verifier execution run_id is invalid''))))"

definition preimage_commands :: "dict \<Rightarrow> json list res" where
  "preimage_commands p =
     (case dget p ''commands'' of
        JArr commands \<Rightarrow>
          rbind (ensure (commands \<noteq> [] \<and> int (length commands) \<le> MAX_COMMANDS) VerifierProtocolError
                   ''Verifier commands must be a bounded non-empty list'') (\<lambda>_.
          rbind (validate_commands 0 commands) (\<lambda>_. Inr commands))
      | _ \<Rightarrow> raise VerifierProtocolError ''Verifier commands must be a bounded non-empty list'')"

definition preimage_isolation :: "dict \<Rightarrow> unit res" where
  "preimage_isolation p =
     rbind (exact_object (dget p ''isolation'') ISOLATION_KEYS) (\<lambda>isolation.
     rbind (ensure (is_true (dget isolation ''network_disabled'') \<and> is_true (dget isolation ''gpu_disabled''))
              VerifierProtocolError ''Verifier isolation must disable network and GPU'') (\<lambda>_.
     rbind (require_sha256 (dget isolation ''namespace_sha256'')) (\<lambda>_.
     require_sha256 (dget isolation ''cgroup_sha256''))))"

definition preimage_times :: "('r) runtime_scheme \<Rightarrow> dict \<Rightarrow> unit res" where
  "preimage_times R p =
     rbind (timestamp_epoch R (dget p ''started_at'')) (\<lambda>started_at.
     rbind (timestamp_epoch R (dget p ''completed_at'')) (\<lambda>completed_at.
     rbind (ensure (started_at \<le> completed_at) VerifierProtocolError ''Verifier wall-clock interval is invalid'') (\<lambda>_.
     rbind (positive_int False (dget p ''started_monotonic_ns'')) (\<lambda>monotonic_started.
     rbind (positive_int False (dget p ''completed_monotonic_ns'')) (\<lambda>monotonic_completed.
     ensure (monotonic_started \<le> monotonic_completed) VerifierProtocolError
       ''Verifier monotonic interval is invalid'')))))"

definition clean_command :: "json \<Rightarrow> bool" where
  "clean_command c \<longleftrightarrow>
     py_eq (vget c ''exit_code'') (JInt 0) \<and> \<not> truthy (vget c ''timed_out'') \<and> \<not> truthy (vget c ''output_truncated'')"

definition preimage_result :: "dict \<Rightarrow> json list \<Rightarrow> dict \<Rightarrow> dict \<Rightarrow> unit res" where
  "preimage_result p commands source_postcheck snapshot_postcheck =
     (let result = dget p ''result''; failure_code = dget p ''failure_code'' in
      rbind (in_strs result [''passed'', ''failed'']) (\<lambda>known.
      rbind (ensure known VerifierProtocolError ''Verifier result is invalid'') (\<lambda>_.
      rbind (if failure_code = JNull then Inr () else require_identifier failure_code) (\<lambda>_.
      if result = JStr ''passed''
      then ensure (failure_code = JNull \<and> truthy (dget source_postcheck ''passed'')
                   \<and> truthy (dget snapshot_postcheck ''passed'') \<and> list_all clean_command commands)
             VerifierProtocolError ''Passed verifier result contradicts its evidence''
      else ensure (failure_code \<noteq> JNull) VerifierProtocolError ''Failed verifier result requires a failure_code''))))"

definition BOUND_FIELDS :: "string list" where
  "BOUND_FIELDS = [''dispatch_event_hash'', ''ledger_head_hash'', ''workspace_id'', ''task_id'', ''attempt'', ''actor'', ''run_id'',
     ''source'', ''verifier_manifest_sha256'', ''validation_contract_sha256'']"

definition preimage_dispatch :: "dict \<Rightarrow> dict option \<Rightarrow> unit res" where
  "preimage_dispatch p dispatch =
     (case dispatch of
        None \<Rightarrow> Inr ()
      | Some d \<Rightarrow>
          rbind (validate_own_dispatch d) (\<lambda>validated.
          reach (\<lambda>key. ensure (py_eq (dget p key) (dget validated key)) VerifierProtocolError
                   ''Verifier execution preimage does not match dispatch field '') BOUND_FIELDS))"

definition validate_execution_preimage :: "('r) runtime_scheme \<Rightarrow> json \<Rightarrow> dict option \<Rightarrow> dict res" where
  "validate_execution_preimage R document dispatch =
     rbind (exact_object document EXECUTION_PREIMAGE_KEYS) (\<lambda>p.
     rbind (preimage_identity p) (\<lambda>_.
     rbind (validate_source (dget p ''source'')) (\<lambda>_.
     rbind (validate_runtime (dget p ''runtime'')) (\<lambda>_.
     rbind (preimage_commands p) (\<lambda>commands.
     rbind (preimage_isolation p) (\<lambda>_.
     rbind (validate_postcheck (dget p ''source_postcheck'')) (\<lambda>source_postcheck.
     rbind (validate_postcheck (dget p ''snapshot_postcheck'')) (\<lambda>snapshot_postcheck.
     rbind (preimage_times R p) (\<lambda>_.
     rbind (preimage_result p commands source_postcheck snapshot_postcheck) (\<lambda>_.
     rbind (preimage_dispatch p dispatch) (\<lambda>_.
     Inr p)))))))))))"

section \<open>Receipts\<close>

definition unsigned_receipt_payload :: "dict \<Rightarrow> dict res" where
  "unsigned_receipt_payload receipt =
     rbind (exact_object (JObj receipt) RECEIPT_KEYS) (\<lambda>_.
     Inr (map (\<lambda>key. (key, dget receipt key)) (filter (\<lambda>key. key \<noteq> ''final_signature_b64'') RECEIPT_KEYS)))"

definition receipt_cleanup :: "('r) crypto_scheme \<Rightarrow> dict \<Rightarrow> dict \<Rightarrow> string \<Rightarrow> unit res" where
  "receipt_cleanup H receipt preimage preimage_sha256 =
     rbind (catch_exn SnapshotBrokerError (validate_signed_envelope (dget receipt ''cleanup_proof'') ''snapshot-cleaned'')
              (\<lambda>_. raise VerifierProtocolError ''Verifier cleanup proof is malformed'')) (\<lambda>cleanup_payload.
     rbind (verifier_json_sha256 H (dget receipt ''cleanup_proof'')) (\<lambda>proof_sha256.
     rbind (ensure (py_eq (dget receipt ''cleanup_proof_sha256'') (JStr proof_sha256)) VerifierProtocolError
              ''Verifier cleanup proof hash is invalid'') (\<lambda>_.
     rbind (reach (\<lambda>key. ensure (py_eq (dget cleanup_payload key) (dget preimage key)) VerifierProtocolError
                      ''Verifier cleanup proof does not match execution field '')
              [''task_id'', ''attempt'', ''actor'', ''run_id'']) (\<lambda>_.
     ensure (py_eq (dget cleanup_payload ''receipt_preimage_sha256'') (JStr preimage_sha256)) VerifierProtocolError
       ''Verifier cleanup proof does not bind the execution preimage''))))"

definition validate_receipt_envelope :: "('r) runtime_scheme \<Rightarrow> json \<Rightarrow> dict option \<Rightarrow> dict res" where
  "validate_receipt_envelope R document dispatch =
     rbind (exact_object document RECEIPT_KEYS) (\<lambda>receipt.
     rbind (ensure (py_eq (dget receipt ''schema_version'') (JInt VERIFIER_SCHEMA_VERSION)
                    \<and> py_eq (dget receipt ''protocol_id'') (JStr VERIFIER_PROTOCOL_ID)
                    \<and> py_eq (dget receipt ''kind'') (JStr ''verification-receipt'')
                    \<and> py_eq (dget receipt ''domain'') (JStr VERIFIER_RECEIPT_DOMAIN)
                    \<and> py_eq (dget receipt ''algorithm'') (JStr VERIFIER_SIGNATURE_ALGORITHM))
              VerifierProtocolError ''Verifier receipt identity is invalid'') (\<lambda>_.
     rbind (require_sha256 (dget receipt ''public_key_sha256'')) (\<lambda>_.
     rbind (validate_execution_preimage R (dget receipt ''execution_preimage'') dispatch) (\<lambda>preimage.
     rbind (verifier_json_sha256 R (JObj preimage)) (\<lambda>preimage_sha256.
     rbind (ensure (py_eq (dget receipt ''execution_preimage_sha256'') (JStr preimage_sha256)) VerifierProtocolError
              ''Verifier execution preimage hash is invalid'') (\<lambda>_.
     rbind (require_signature (dget receipt ''execution_signature_b64'')) (\<lambda>_.
     rbind (receipt_cleanup R receipt preimage preimage_sha256) (\<lambda>_.
     rbind (timestamp_epoch R (dget receipt ''sealed_at'')) (\<lambda>sealed_at.
     rbind (timestamp_epoch R (dget preimage ''completed_at'')) (\<lambda>completed_at.
     rbind (ensure (completed_at \<le> sealed_at) VerifierProtocolError
              ''Verifier receipt was sealed before execution ended'') (\<lambda>_.
     rbind (require_signature (dget receipt ''final_signature_b64'')) (\<lambda>_.
     Inr receipt))))))))))))"

section \<open>Accepted dispatches and wakeups\<close>

lemma exact_object_Inr: "exact_object v ks = Inr d \<longleftrightarrow> v = JObj d \<and> exact_keys d ks \<and> (\<exists>e. verifier_json_bytes v = Inr e)"
  by (cases v) (auto simp: exact_object_def)

lemma positive_int_Inr: "positive_int z v = Inr n \<longleftrightarrow> v = JInt n \<and> (if z then 0 else 1) \<le> n"
  by (cases v) (auto simp: positive_int_def)

lemma validate_dispatch_Inr:
  assumes "validate_dispatch v now = Inr d"
  shows "v = JObj d" "dget d ''network_allowed'' = JBool False" "dget d ''gpu_allowed'' = JBool False"
    "is_hex (dget d ''dispatch_event_hash'') 64" "is_identifier (dget d ''task_id'')" "is_identifier (dget d ''actor'')"
    "is_hex (dget d ''run_id'') 32" "\<exists>n\<ge>1. dget d ''attempt'' = JInt n"
    "\<exists>i e. dget d ''issued_at'' = JInt i \<and> dget d ''expires_at'' = JInt e \<and> i < e \<and> e - i \<le> 600 \<and> i \<le> now + 60 \<and> now \<le> e"
proof -
  obtain i e n where d: "exact_object v DISPATCH_KEYS = Inr d"
    and net: "is_false (dget d ''network_allowed'')" "is_false (dget d ''gpu_allowed'')"
    and hashes: "reach (\<lambda>key. require_sha256 (dget d key)) [''dispatch_event_hash'', ''ledger_head_hash''] = Inr ()"
    and names: "reach (\<lambda>key. require_identifier (dget d key)) [''workspace_id'', ''task_id'', ''actor'', ''nonce''] = Inr ()"
    and run: "is_hex (dget d ''run_id'') 32" and n: "positive_int False (dget d ''attempt'') = Inr n"
    and i: "positive_int False (dget d ''issued_at'') = Inr i" "positive_int False (dget d ''expires_at'') = Inr e"
      "\<not> (e \<le> i \<or> MAX_DISPATCH_TTL_SECONDS < e - i)" "\<not> (now + MAX_CLOCK_SKEW_SECONDS < i \<or> e < now)"
    using assms unfolding validate_dispatch_def rbind_eq_Inr ensure_eq_Inr by (elim exE conjE) simp
  show "v = JObj d" using d by (simp add: exact_object_Inr)
  show "dget d ''network_allowed'' = JBool False" "dget d ''gpu_allowed'' = JBool False" using net by (simp_all add: is_false_def)
  show "is_hex (dget d ''dispatch_event_hash'') 64" using hashes by (simp add: require_sha256_def)
  show "is_identifier (dget d ''task_id'')" "is_identifier (dget d ''actor'')" using names by (simp_all add: require_identifier_def)
  show "is_hex (dget d ''run_id'') 32" by (rule run)
  show "\<exists>n\<ge>1. dget d ''attempt'' = JInt n" using n by (auto simp: positive_int_Inr)
  show "\<exists>i e. dget d ''issued_at'' = JInt i \<and> dget d ''expires_at'' = JInt e \<and> i < e \<and> e - i \<le> 600 \<and> i \<le> now + 60 \<and> now \<le> e"
    using i by (auto simp: positive_int_Inr MAX_DISPATCH_TTL_SECONDS_def MAX_CLOCK_SKEW_SECONDS_def)
qed

end
