(* ===== verification/Receipt.thy ===== *)
theory Receipt
  imports Verifier_Protocol
begin

text \<open>
  Sealing and verifying of verification receipts (\<^verbatim>\<open>verifier_receipt.py\<close>). The private and public key of
  the verifier, the public key of the broker and OpenSSL are files of the host at fixed paths.
\<close>

section \<open>Trust files of the verifier\<close>

definition VERIFIER_PRIVATE_KEY_PATH :: path where
  "VERIFIER_PRIVATE_KEY_PATH = parse_path ''/etc/cogni-os/verifier/ed25519-private.pem''"
definition VERIFIER_PUBLIC_KEY_PATH :: path where
  "VERIFIER_PUBLIC_KEY_PATH = parse_path ''/etc/cogni-os/verifier/ed25519-public.pem''"
definition VERIFIER_OPENSSL_SHA256_PATH :: path where
  "VERIFIER_OPENSSL_SHA256_PATH = parse_path ''/etc/cogni-os/verifier/openssl.sha256''"

definition receipt_root_owned_file :: "('r) trust_host_scheme \<Rightarrow> path \<Rightarrow> bool \<Rightarrow> bool \<Rightarrow> path res" where
  "receipt_root_owned_file H p private executable =
     (if \<not> os_posix H \<or> \<not> is_absolute p then raise VerifierReceiptError ''Verifier trust material requires POSIX''
      else case (lstat H p, lstat_all H (path_parents p)) of
          (Some m, Some ancestors) \<Rightarrow>
            rbind (ensure (\<not> (S_ISLNK (st_mode m) \<or> \<not> S_ISREG (st_mode m) \<or> st_uid m \<noteq> 0 \<or> actor_writable m
                              \<or> list_ex (\<lambda>a. S_ISLNK (st_mode a) \<or> \<not> S_ISDIR (st_mode a) \<or> st_uid a \<noteq> 0 \<or> actor_writable a)
                                  ancestors))
                     VerifierReceiptError ''Verifier trust path is not root-protected'') (\<lambda>_.
            rbind (ensure (\<not> (private \<and> st_mode m AND S_IROTH \<noteq> 0)) VerifierReceiptError
                     ''Verifier private key is world-readable'') (\<lambda>_.
            rbind (ensure (\<not> (executable \<and> \<not> executable_by H p)) VerifierReceiptError
                     ''Verifier OpenSSL binary is not executable'') (\<lambda>_.
            Inr p)))
        | _ \<Rightarrow> raise VerifierReceiptError ''Verifier trust material is unavailable'')"

definition receipt_openssl_binding :: "('r) trust_host_scheme \<Rightarrow> path \<Rightarrow> path \<Rightarrow> (path \<times> string) res" where
  "receipt_openssl_binding H openssl_path digest_path =
     rbind (receipt_root_owned_file H openssl_path False True) (\<lambda>openssl.
     rbind (receipt_root_owned_file H digest_path False False) (\<lambda>digest.
     rbind (case read_ascii H digest of
              None \<Rightarrow> raise VerifierReceiptError ''Verifier OpenSSL digest is unreadable''
            | Some t \<Rightarrow> Inr (lower (strip t))) (\<lambda>expected.
     rbind (ensure (fullmatch_hex 64 expected) VerifierReceiptError ''Verifier OpenSSL digest is invalid'') (\<lambda>_.
     rbind (sha256_file H openssl) (\<lambda>observed.
     rbind (ensure (observed = expected) VerifierReceiptError ''Verifier OpenSSL binary digest mismatch'') (\<lambda>_.
     Inr (openssl, observed)))))))"

definition public_key_spki_sha256 :: "('r) trust_host_scheme \<Rightarrow> path \<Rightarrow> path \<Rightarrow> string res" where
  "public_key_spki_sha256 H public_key_path openssl_path =
     (case pkey_der H openssl_path public_key_path of
        None \<Rightarrow> raise VerifierReceiptError ''Verifier public-key SPKI conversion failed''
      | Some (returncode, der) \<Rightarrow>
          rbind (ensure (\<not> (returncode \<noteq> 0 \<or> der = [] \<or> 4096 < int (length der))) VerifierReceiptError
                   ''Verifier public-key SPKI is invalid'') (\<lambda>_. Inr (sha256_hex H der)))"

definition distinct_public_key_binding ::
  "('r) trust_host_scheme \<Rightarrow> path \<Rightarrow> path \<Rightarrow> path \<Rightarrow> (string \<times> string) res" where
  "distinct_public_key_binding H verifier_public_key_path broker_public_key_path openssl_path =
     rbind (public_key_spki_sha256 H verifier_public_key_path openssl_path) (\<lambda>verifier_spki.
     rbind (public_key_spki_sha256 H broker_public_key_path openssl_path) (\<lambda>broker_spki.
     rbind (ensure (verifier_spki \<noteq> broker_spki) VerifierReceiptError
              ''Verifier and snapshot broker must use distinct Ed25519 keys'') (\<lambda>_.
     Inr (verifier_spki, broker_spki))))"

text \<open>The binding of the public key: its path and digest, OpenSSL, and the two key identities.\<close>

record receipt_binding =
  rb_public_key :: path
  rb_public_key_sha256 :: string
  rb_openssl :: path
  rb_openssl_sha256 :: string
  rb_spki :: string
  rb_broker_spki :: string

definition trusted_receipt_verification_binding :: "('r) trust_host_scheme \<Rightarrow> receipt_binding res" where
  "trusted_receipt_verification_binding H =
     rbind (receipt_root_owned_file H VERIFIER_PUBLIC_KEY_PATH False False) (\<lambda>public.
     rbind (receipt_root_owned_file H BROKER_PUBLIC_KEY_PATH False False) (\<lambda>broker_public.
     rbind (receipt_openssl_binding H BROKER_OPENSSL_PATH VERIFIER_OPENSSL_SHA256_PATH) (\<lambda>openssl.
     rbind (distinct_public_key_binding H public broker_public (fst openssl)) (\<lambda>keys.
     rbind (sha256_file H public) (\<lambda>public_sha256.
     Inr \<lparr>rb_public_key = public, rb_public_key_sha256 = public_sha256, rb_openssl = fst openssl,
          rb_openssl_sha256 = snd openssl, rb_spki = fst keys, rb_broker_spki = snd keys\<rparr>)))))"

definition trusted_receipt_signing_binding :: "('r) trust_host_scheme \<Rightarrow> (path \<times> receipt_binding) res" where
  "trusted_receipt_signing_binding H =
     rbind (receipt_root_owned_file H VERIFIER_PRIVATE_KEY_PATH True False) (\<lambda>private.
     rbind (receipt_root_owned_file H VERIFIER_PUBLIC_KEY_PATH False False) (\<lambda>public.
     rbind (receipt_root_owned_file H BROKER_PUBLIC_KEY_PATH False False) (\<lambda>broker_public.
     rbind (receipt_openssl_binding H BROKER_OPENSSL_PATH VERIFIER_OPENSSL_SHA256_PATH) (\<lambda>openssl.
     rbind (distinct_public_key_binding H public broker_public (fst openssl)) (\<lambda>keys.
     rbind (sha256_file H public) (\<lambda>public_sha256.
     Inr (private, \<lparr>rb_public_key = public, rb_public_key_sha256 = public_sha256, rb_openssl = fst openssl,
            rb_openssl_sha256 = snd openssl, rb_spki = fst keys, rb_broker_spki = snd keys\<rparr>)))))))"

section \<open>Signatures\<close>

definition receipt_sign :: "('r) trust_host_scheme \<Rightarrow> path \<Rightarrow> path \<Rightarrow> string \<Rightarrow> string res" where
  "receipt_sign H openssl key payload =
     (case pkeyutl_sign H openssl key payload of
        None \<Rightarrow> raise VerifierReceiptError ''Verifier Ed25519 operation failed''
      | Some (returncode, signature_file) \<Rightarrow>
          rbind (ensure (returncode = 0) VerifierReceiptError ''OpenSSL refused the verifier signature'') (\<lambda>_.
          case signature_file of
            None \<Rightarrow> raise VerifierReceiptError ''Verifier Ed25519 operation failed''
          | Some result \<Rightarrow>
              rbind (ensure (length result = 64) VerifierReceiptError
                       ''OpenSSL returned an invalid Ed25519 signature'') (\<lambda>_. Inr result)))"

definition receipt_check :: "('r) trust_host_scheme \<Rightarrow> path \<Rightarrow> path \<Rightarrow> string \<Rightarrow> string \<Rightarrow> bool res" where
  "receipt_check H openssl key payload signature =
     rbind (ensure (length signature = 64) VerifierReceiptError ''Verifier Ed25519 signature is invalid'') (\<lambda>_.
     case pkeyutl_verify H openssl key payload signature of
       None \<Rightarrow> raise VerifierReceiptError ''Verifier Ed25519 operation failed''
     | Some returncode \<Rightarrow> Inr (returncode = 0))"

definition execution_signature_payload :: "dict \<Rightarrow> json \<Rightarrow> dict" where
  "execution_signature_payload preimage preimage_sha256 =
     [(''schema_version'', JInt VERIFIER_SCHEMA_VERSION), (''domain'', JStr VERIFIER_RECEIPT_DOMAIN),
      (''kind'', JStr ''execution-preimage-signature''), (''payload_sha256'', preimage_sha256), (''payload'', JObj preimage)]"

definition final_signature_payload :: "('r) crypto_scheme \<Rightarrow> dict \<Rightarrow> dict res" where
  "final_signature_payload H receipt =
     rbind (unsigned_receipt_payload receipt) (\<lambda>unsigned.
     rbind (verifier_json_sha256 H (JObj unsigned)) (\<lambda>digest.
     Inr [(''schema_version'', JInt VERIFIER_SCHEMA_VERSION), (''domain'', JStr VERIFIER_RECEIPT_DOMAIN),
          (''kind'', JStr ''final-receipt-signature''), (''payload_sha256'', JStr digest), (''payload'', JObj unsigned)]))"

definition final_signature_bytes :: "('r) crypto_scheme \<Rightarrow> dict \<Rightarrow> string res" where
  "final_signature_bytes H receipt =
     rbind (final_signature_payload H receipt) (\<lambda>payload. verifier_json_bytes (JObj payload))"

text \<open>\<^verbatim>\<open>except Exception\<close>.\<close>

definition catch_all :: "'a res \<Rightarrow> 'a res \<Rightarrow> 'a res" where
  "catch_all m h = (case m of Inl e \<Rightarrow> h | Inr x \<Rightarrow> Inr x)"

lemma catch_all_raise_Inr [simp]: "catch_all m (raise c s) = Inr x \<longleftrightarrow> m = Inr x"
  by (cases m) (auto simp: catch_all_def)

definition verify_broker_cleanup :: "('r) trust_host_scheme \<Rightarrow> json \<Rightarrow> dict res" where
  "verify_broker_cleanup H proof =
     catch_all
       (verify_signed_envelope H BROKER_PUBLIC_KEY_PATH BROKER_OPENSSL_PATH BROKER_OPENSSL_SHA256_PATH proof
          ''snapshot-cleaned'')
       (raise VerifierReceiptError ''Broker cleanup proof verification failed'')"

section \<open>Sealing\<close>

definition receipt_document :: "receipt_binding \<Rightarrow> dict \<Rightarrow> string \<Rightarrow> string \<Rightarrow> dict \<Rightarrow> string \<Rightarrow> string \<Rightarrow> string \<Rightarrow> dict" where
  "receipt_document binding preimage preimage_sha256 execution_signature cleanup_proof proof_sha256 sealed_at final_signature =
     [(''schema_version'', JInt VERIFIER_SCHEMA_VERSION), (''protocol_id'', JStr VERIFIER_PROTOCOL_ID),
      (''kind'', JStr ''verification-receipt''), (''domain'', JStr VERIFIER_RECEIPT_DOMAIN),
      (''algorithm'', JStr VERIFIER_SIGNATURE_ALGORITHM), (''public_key_sha256'', JStr (rb_public_key_sha256 binding)),
      (''execution_preimage'', JObj preimage), (''execution_preimage_sha256'', JStr preimage_sha256),
      (''execution_signature_b64'', JStr (std_b64encode execution_signature)), (''cleanup_proof'', JObj cleanup_proof),
      (''cleanup_proof_sha256'', JStr proof_sha256), (''sealed_at'', JStr sealed_at),
      (''final_signature_b64'', JStr (std_b64encode final_signature))]"

definition sign_verification_receipt ::
  "('r) trust_host_scheme \<Rightarrow> dict \<Rightarrow> dict \<Rightarrow> string \<Rightarrow> dict option \<Rightarrow> dict res" where
  "sign_verification_receipt H execution_preimage cleanup_proof sealed_at dispatch =
     rbind (validate_execution_preimage H (JObj execution_preimage) dispatch) (\<lambda>preimage.
     rbind (verifier_json_sha256 H (JObj preimage)) (\<lambda>preimage_sha256.
     rbind (verify_broker_cleanup H (JObj cleanup_proof)) (\<lambda>cleanup_payload.
     rbind (ensure (py_eq (dget cleanup_payload ''receipt_preimage_sha256'') (JStr preimage_sha256)) VerifierReceiptError
              ''Broker cleanup proof binds another preimage'') (\<lambda>_.
     rbind (trusted_receipt_signing_binding H) (\<lambda>(private_key, binding).
     rbind (verifier_json_bytes (JObj (execution_signature_payload preimage (JStr preimage_sha256)))) (\<lambda>execution_payload.
     rbind (receipt_sign H (rb_openssl binding) private_key execution_payload) (\<lambda>execution_signature.
     rbind (verifier_json_sha256 H (JObj cleanup_proof)) (\<lambda>proof_sha256.
     let receipt = receipt_document binding preimage preimage_sha256 execution_signature cleanup_proof proof_sha256
           sealed_at (replicate 64 CHR 0x00) in
     rbind (validate_receipt_envelope H (JObj receipt) dispatch) (\<lambda>_.
     rbind (final_signature_bytes H receipt) (\<lambda>final_payload.
     rbind (receipt_sign H (rb_openssl binding) private_key final_payload) (\<lambda>final_signature.
     let receipt = dput ''final_signature_b64'' (JStr (std_b64encode final_signature)) receipt in
     rbind (receipt_check H (rb_openssl binding) (rb_public_key binding) execution_payload execution_signature)
       (\<lambda>execution_verified.
     rbind (final_signature_bytes H receipt) (\<lambda>final_payload.
     rbind (receipt_check H (rb_openssl binding) (rb_public_key binding) final_payload final_signature) (\<lambda>final_verified.
     rbind (ensure (execution_verified \<and> final_verified) VerifierReceiptError
              ''Verifier public/private key pair does not match'') (\<lambda>_.
     validate_receipt_envelope H (JObj receipt) dispatch)))))))))))))))"

definition verify_verification_receipt :: "('r) trust_host_scheme \<Rightarrow> json \<Rightarrow> dict option \<Rightarrow> dict res" where
  "verify_verification_receipt H receipt dispatch =
     rbind (validate_receipt_envelope H receipt dispatch) (\<lambda>document.
     rbind (trusted_receipt_verification_binding H) (\<lambda>binding.
     rbind (ensure (py_eq (dget document ''public_key_sha256'') (JStr (rb_public_key_sha256 binding))) VerifierReceiptError
              ''Verifier receipt names a different public key'') (\<lambda>_.
     rbind (verify_broker_cleanup H (dget document ''cleanup_proof'')) (\<lambda>_.
     rbind (require_signature (dget document ''execution_signature_b64'')) (\<lambda>execution_signature.
     rbind (require_signature (dget document ''final_signature_b64'')) (\<lambda>final_signature.
     rbind (verifier_json_bytes (JObj (execution_signature_payload (case dget document ''execution_preimage'' of JObj p \<Rightarrow> p | _ \<Rightarrow> [])
              (dget document ''execution_preimage_sha256'')))) (\<lambda>execution_payload.
     rbind (receipt_check H (rb_openssl binding) (rb_public_key binding) execution_payload execution_signature) (\<lambda>ok.
     rbind (ensure ok VerifierReceiptError ''Verifier execution signature is invalid'') (\<lambda>_.
     rbind (final_signature_bytes H document) (\<lambda>final_payload.
     rbind (receipt_check H (rb_openssl binding) (rb_public_key binding) final_payload final_signature) (\<lambda>ok.
     rbind (ensure ok VerifierReceiptError ''Verifier final receipt signature is invalid'') (\<lambda>_.
     Inr document))))))))))))"

section \<open>What a verified receipt proves\<close>

lemma validate_commands_Inr:
  "validate_commands i cs = Inr u \<Longrightarrow> k < length cs \<Longrightarrow> \<exists>c. validate_command (i + int k) (cs ! k) = Inr c"
proof (induction cs arbitrary: i k)
  case (Cons c cs)
  show ?case
  proof (cases k)
    case 0
    with Cons.prems show ?thesis by auto
  next
    case (Suc j)
    with Cons.prems Cons.IH [of "i + 1" j] show ?thesis by (auto simp: algebra_simps)
  qed
qed simp

lemma validate_command_Inr:
  assumes "validate_command i v = Inr c"
  shows "v = JObj c" "\<exists>n. dget c ''exit_code'' = JInt n" "\<exists>b. dget c ''timed_out'' = JBool b"
    "\<exists>b. dget c ''output_truncated'' = JBool b"
proof -
  have "exact_object v COMMAND_KEYS = Inr c \<and> strict_int (dget c ''exit_code'') \<noteq> None
      \<and> reach (\<lambda>key. ensure (is_bool (dget c key)) VerifierProtocolError ''Verifier command '')
          [''timed_out'', ''output_truncated''] = Inr ()"
    using assms unfolding validate_command_def rbind_eq_Inr ensure_eq_Inr by (elim exE conjE) simp
  then show "v = JObj c" "\<exists>n. dget c ''exit_code'' = JInt n" "\<exists>b. dget c ''timed_out'' = JBool b"
    "\<exists>b. dget c ''output_truncated'' = JBool b"
    by (simp_all add: exact_object_Inr is_bool_iff)
qed

text \<open>A command that ended by itself with exit code zero and whose output is complete.\<close>

definition succeeded :: "json \<Rightarrow> bool" where
  "succeeded c \<longleftrightarrow> vget c ''exit_code'' = JInt 0 \<and> vget c ''timed_out'' = JBool False
     \<and> vget c ''output_truncated'' = JBool False"

lemma validated_command_clean:
  "validate_command i v = Inr c \<Longrightarrow> clean_command v \<Longrightarrow> succeeded v"
  using validate_command_Inr [of i v c] by (auto simp: clean_command_def succeeded_def)

lemma preimage_commands_Inr:
  assumes "preimage_commands p = Inr cs"
  shows "dget p ''commands'' = JArr cs" "cs \<noteq> []" "c \<in> set cs \<Longrightarrow> \<exists>i d. validate_command i c = Inr d"
proof -
  show cs: "dget p ''commands'' = JArr cs" "cs \<noteq> []" using assms by (auto simp: preimage_commands_def split: json.splits)
  have v: "validate_commands 0 cs = Inr ()" using assms cs(1) by (auto simp: preimage_commands_def)
  show "\<exists>i d. validate_command i c = Inr d" if "c \<in> set cs"
    using that validate_commands_Inr [OF v] by (metis in_set_conv_nth)
qed

text \<open>The evidence behind a passed result.\<close>

definition passed_evidence :: "dict \<Rightarrow> bool" where
  "passed_evidence p \<longleftrightarrow>
     (\<exists>cs. dget p ''commands'' = JArr cs \<and> cs \<noteq> [] \<and> (\<forall>c\<in>set cs. succeeded c))
     \<and> vget (dget p ''source_postcheck'') ''passed'' = JBool True
     \<and> vget (dget p ''snapshot_postcheck'') ''passed'' = JBool True
     \<and> dget p ''failure_code'' = JNull"

lemma validate_postcheck_Inr:
  "validate_postcheck v = Inr c \<Longrightarrow> v = JObj c \<and> (\<exists>b. dget c ''passed'' = JBool b)"
  by (auto simp: validate_postcheck_def exact_object_Inr is_bool_iff)

lemma validate_execution_preimage_sound:
  assumes "validate_execution_preimage R v dispatch = Inr p"
  shows "v = JObj p" "dget p ''result'' = JStr ''passed'' \<or> dget p ''result'' = JStr ''failed''"
    "dget p ''result'' = JStr ''passed'' \<Longrightarrow> passed_evidence p"
    "vget (dget p ''isolation'') ''network_disabled'' = JBool True" "vget (dget p ''isolation'') ''gpu_disabled'' = JBool True"
    "dispatch = Some d \<Longrightarrow> key \<in> set BOUND_FIELDS \<Longrightarrow> py_eq (dget p key) (dget d key)"
proof -
  obtain cs source snapshot where v: "v = JObj p" and cs: "preimage_commands p = Inr cs"
    and iso: "preimage_isolation p = Inr ()" and source: "validate_postcheck (dget p ''source_postcheck'') = Inr source"
    and snapshot: "validate_postcheck (dget p ''snapshot_postcheck'') = Inr snapshot"
    and result: "preimage_result p cs source snapshot = Inr ()" and disp: "preimage_dispatch p dispatch = Inr ()"
    using assms by (auto simp: validate_execution_preimage_def exact_object_Inr)
  show "v = JObj p" by (rule v)
  show "dget p ''result'' = JStr ''passed'' \<or> dget p ''result'' = JStr ''failed''"
    using result by (auto simp: preimage_result_def Let_def split: if_splits)
  show "vget (dget p ''isolation'') ''network_disabled'' = JBool True" "vget (dget p ''isolation'') ''gpu_disabled'' = JBool True"
    using iso by (auto simp: preimage_isolation_def exact_object_Inr is_true_def)
  show "passed_evidence p" if "dget p ''result'' = JStr ''passed''"
  proof -
    have "list_all clean_command cs" "truthy (dget source ''passed'')" "truthy (dget snapshot ''passed'')"
        "dget p ''failure_code'' = JNull"
      using result that by (auto simp: preimage_result_def Let_def)
    moreover have "succeeded c" if "c \<in> set cs" for c
      using preimage_commands_Inr(3) [OF cs that] validated_command_clean calculation(1) that by (auto simp: list_all_iff)
    ultimately show ?thesis
      using preimage_commands_Inr(1,2) [OF cs] validate_postcheck_Inr [OF source] validate_postcheck_Inr [OF snapshot]
      by (auto simp: passed_evidence_def)
  qed
  show "py_eq (dget p key) (dget d key)" if "dispatch = Some d" "key \<in> set BOUND_FIELDS"
    using disp that by (auto simp: preimage_dispatch_def validate_own_dispatch_def validate_dispatch_def exact_object_Inr)
qed

lemma receipt_root_owned_sound:
  assumes "receipt_root_owned_file H p private executable = Inr q"
  shows "q = p" "root_protected H p"
proof -
  obtain m ms where m: "lstat H p = Some m" "lstat_all H (path_parents p) = Some ms" "S_ISREG (st_mode m)" "root_only m"
      "\<forall>a\<in>set ms. S_ISDIR (st_mode a) \<and> root_only a"
    using assms by (auto simp: receipt_root_owned_file_def root_only_def list_ex_iff split: if_splits option.splits)
  show "q = p" using assms by (auto simp: receipt_root_owned_file_def split: if_splits option.splits)
  have "os_posix H" "is_absolute p" using assms by (auto simp: receipt_root_owned_file_def split: if_splits)
  then show "root_protected H p"
    using m lstat_all_ball [OF m(2), of "\<lambda>a. S_ISDIR (st_mode a) \<and> root_only a"] by (auto simp: root_protected_def)
qed

lemma receipt_root_owned_complete:
  assumes "root_protected H p"
  shows "receipt_root_owned_file H p False False = Inr p"
proof -
  obtain m where m: "lstat H p = Some m" "S_ISREG (st_mode m)" "root_only m" using assms by (auto simp: root_protected_def)
  have "case lstat_all H (path_parents p) of None \<Rightarrow> False | Some ms \<Rightarrow> \<forall>a\<in>set ms. S_ISDIR (st_mode a) \<and> root_only a"
    unfolding lstat_all_cases using assms by (auto simp: root_protected_def)
  then obtain ms where "lstat_all H (path_parents p) = Some ms" "\<forall>a\<in>set ms. S_ISDIR (st_mode a) \<and> root_only a"
    by (auto split: option.splits)
  with m assms show ?thesis
    by (auto simp: receipt_root_owned_file_def root_only_def root_protected_def list_ex_iff)
qed

lemma receipt_openssl_Inr:
  assumes "receipt_openssl_binding H p d = Inr r"
  shows "fst r = p" "root_protected H p"
    "\<exists>raw t. read_file H p = Some raw \<and> read_ascii H d = Some t \<and> sha256_hex H raw = lower (strip t)"
proof -
  obtain q q' where q: "receipt_root_owned_file H p False True = Inr q" "receipt_root_owned_file H d False False = Inr q'"
    using assms by (auto simp: receipt_openssl_binding_def)
  note eq = receipt_root_owned_sound(1) [OF q(1)] receipt_root_owned_sound(1) [OF q(2)]
  show "fst r = p" "\<exists>raw t. read_file H p = Some raw \<and> read_ascii H d = Some t \<and> sha256_hex H raw = lower (strip t)"
    using assms q eq by (auto simp: receipt_openssl_binding_def sha256_file_def split: option.splits)
  show "root_protected H p" using receipt_root_owned_sound(2) [OF q(1)] .
qed

lemma public_key_spki_Inr:
  "public_key_spki_sha256 H key openssl = Inr h \<longleftrightarrow>
     (\<exists>der. pkey_der H openssl key = Some (0, der) \<and> der \<noteq> [] \<and> int (length der) \<le> 4096 \<and> h = sha256_hex H der)"
  by (cases "pkey_der H openssl key") (auto simp: public_key_spki_sha256_def)

text \<open>Two key files that OpenSSL converts to different public keys.\<close>

definition distinct_keys :: "('r) trust_host_scheme \<Rightarrow> path \<Rightarrow> path \<Rightarrow> path \<Rightarrow> bool" where
  "distinct_keys H openssl a b \<longleftrightarrow>
     (\<exists>x y. pkey_der H openssl a = Some (0, x) \<and> pkey_der H openssl b = Some (0, y) \<and> x \<noteq> y)"

lemma receipt_binding_Inr:
  assumes "trusted_receipt_verification_binding H = Inr b"
  shows "rb_public_key b = VERIFIER_PUBLIC_KEY_PATH" "rb_openssl b = BROKER_OPENSSL_PATH"
    "root_protected H VERIFIER_PUBLIC_KEY_PATH" "root_protected H BROKER_OPENSSL_PATH"
    "distinct_keys H BROKER_OPENSSL_PATH VERIFIER_PUBLIC_KEY_PATH BROKER_PUBLIC_KEY_PATH"
proof -
  obtain public broker openssl keys
    where p: "receipt_root_owned_file H VERIFIER_PUBLIC_KEY_PATH False False = Inr public"
      and br: "receipt_root_owned_file H BROKER_PUBLIC_KEY_PATH False False = Inr broker"
      and o: "receipt_openssl_binding H BROKER_OPENSSL_PATH VERIFIER_OPENSSL_SHA256_PATH = Inr openssl"
      and k: "distinct_public_key_binding H public broker (fst openssl) = Inr keys"
      and b: "rb_public_key b = public" "rb_openssl b = fst openssl"
    using assms by (auto simp: trusted_receipt_verification_binding_def)
  note paths = receipt_root_owned_sound [OF p] receipt_root_owned_sound [OF br] receipt_openssl_Inr [OF o]
  show "rb_public_key b = VERIFIER_PUBLIC_KEY_PATH" "rb_openssl b = BROKER_OPENSSL_PATH" using b paths by simp_all
  show "root_protected H VERIFIER_PUBLIC_KEY_PATH" "root_protected H BROKER_OPENSSL_PATH" by (fact paths)+
  show "distinct_keys H BROKER_OPENSSL_PATH VERIFIER_PUBLIC_KEY_PATH BROKER_PUBLIC_KEY_PATH"
    using k paths by (auto simp: distinct_public_key_binding_def public_key_spki_Inr distinct_keys_def)
qed

lemma signing_binding_verifies:
  "trusted_receipt_signing_binding H = Inr (k, b) \<Longrightarrow> trusted_receipt_verification_binding H = Inr b"
  by (auto simp: trusted_receipt_signing_binding_def trusted_receipt_verification_binding_def)

lemma verifier_json_bytes_Inr: "verifier_json_bytes v = Inr e \<Longrightarrow> e = canonical_json v"
  by (simp add: verifier_json_bytes_def bounded_json_eq_Inr)

lemma verifier_json_sha256_Inr: "verifier_json_sha256 H v = Inr h \<Longrightarrow> h = sha256_hex H (canonical_json v)"
  by (auto simp: verifier_json_sha256_def dest: verifier_json_bytes_Inr)

lemma receipt_check_True: "receipt_check H openssl key m s = Inr True \<longleftrightarrow>
    length s = 64 \<and> pkeyutl_verify H openssl key m s = Some 0"
  by (cases "pkeyutl_verify H openssl key m s") (auto simp: receipt_check_def)

lemma validate_receipt_envelope_Inr:
  assumes "validate_receipt_envelope R v dispatch = Inr doc"
  shows "v = JObj doc"
    "\<exists>p. validate_execution_preimage R (dget doc ''execution_preimage'') dispatch = Inr p
       \<and> dget doc ''execution_preimage_sha256'' = JStr (sha256_hex R (canonical_json (JObj p)))
       \<and> receipt_cleanup R doc p (sha256_hex R (canonical_json (JObj p))) = Inr ()"
proof -
  show "v = JObj doc"
    using assms unfolding validate_receipt_envelope_def rbind_eq_Inr exact_object_Inr by (elim exE conjE) simp
  show "\<exists>p. validate_execution_preimage R (dget doc ''execution_preimage'') dispatch = Inr p
       \<and> dget doc ''execution_preimage_sha256'' = JStr (sha256_hex R (canonical_json (JObj p)))
       \<and> receipt_cleanup R doc p (sha256_hex R (canonical_json (JObj p))) = Inr ()"
    using assms unfolding validate_receipt_envelope_def rbind_eq_Inr ensure_eq_Inr py_eq_str
    by (elim exE conjE) (auto dest!: verifier_json_sha256_Inr)
qed

lemma catch_exn_raise_Inr: "catch_exn c m (\<lambda>_. raise c' s) = Inr x \<longleftrightarrow> m = Inr x"
  by (cases m) (auto simp: catch_exn_def)

lemma validate_cleanup_payload:
  assumes "validate_signed_envelope v ''snapshot-cleaned'' = Inr c"
  shows "dget c ''namespace_removed'' = JBool True" "vget v ''payload'' = JObj c"
proof -
  obtain d where d: "v = JObj d" using assms by (cases v) (auto simp: validate_signed_envelope_def)
  have "dget d ''payload'' = JObj c \<and> validate_attestation ''snapshot-cleaned'' c = Inr ()"
    using assms unfolding d by (auto simp: validate_signed_envelope_def attestation_keys_def split: json.splits)
  then show "dget c ''namespace_removed'' = JBool True" "vget v ''payload'' = JObj c"
    by (auto simp: d validate_attestation_def cleanup_ok_def is_true_def)
qed

definition IDENTITY_FIELDS :: "string list" where
  "IDENTITY_FIELDS = [''task_id'', ''attempt'', ''actor'', ''run_id'']"

lemma receipt_cleanup_Inr:
  assumes "receipt_cleanup H doc p h = Inr ()"
    and "validate_signed_envelope (dget doc ''cleanup_proof'') ''snapshot-cleaned'' = Inr c"
  shows "dget c ''receipt_preimage_sha256'' = JStr h" "\<forall>key\<in>set IDENTITY_FIELDS. py_eq (dget c key) (dget p key)"
  using assms unfolding receipt_cleanup_def IDENTITY_FIELDS_def
  by (auto simp: catch_exn_raise_Inr)

text \<open>A message that the verifier's public key accepts.\<close>

definition verifier_signed :: "('r) trust_host_scheme \<Rightarrow> string \<Rightarrow> bool" where
  "verifier_signed H m \<longleftrightarrow> (\<exists>s. length s = 64 \<and> pkeyutl_verify H BROKER_OPENSSL_PATH VERIFIER_PUBLIC_KEY_PATH m s = Some 0)"

definition broker_signed :: "('r) trust_host_scheme \<Rightarrow> string \<Rightarrow> bool" where
  "broker_signed H m \<longleftrightarrow> (\<exists>s. pkeyutl_verify H BROKER_OPENSSL_PATH BROKER_PUBLIC_KEY_PATH m s = Some 0)"

lemma verify_receipt_parts:
  assumes "verify_verification_receipt H receipt dispatch = Inr doc"
  shows "validate_receipt_envelope H receipt dispatch = Inr doc"
    "\<exists>c. verify_signed_envelope H BROKER_PUBLIC_KEY_PATH BROKER_OPENSSL_PATH BROKER_OPENSSL_SHA256_PATH
       (dget doc ''cleanup_proof'') ''snapshot-cleaned'' = Inr c"
    "verifier_signed H (canonical_json (JObj (execution_signature_payload
       (case dget doc ''execution_preimage'' of JObj p \<Rightarrow> p | _ \<Rightarrow> []) (dget doc ''execution_preimage_sha256''))))"
    "\<exists>u. final_signature_payload H doc = Inr u \<and> verifier_signed H (canonical_json (JObj u))"
    "distinct_keys H BROKER_OPENSSL_PATH VERIFIER_PUBLIC_KEY_PATH BROKER_PUBLIC_KEY_PATH"
    "root_protected H VERIFIER_PUBLIC_KEY_PATH" "root_protected H BROKER_OPENSSL_PATH"
proof -
  obtain b c e s e' s' where v: "validate_receipt_envelope H receipt dispatch = Inr doc"
    and b: "trusted_receipt_verification_binding H = Inr b"
    and c: "verify_broker_cleanup H (dget doc ''cleanup_proof'') = Inr c"
    and e: "verifier_json_bytes (JObj (execution_signature_payload
        (case dget doc ''execution_preimage'' of JObj p \<Rightarrow> p | _ \<Rightarrow> []) (dget doc ''execution_preimage_sha256''))) = Inr e"
      "receipt_check H (rb_openssl b) (rb_public_key b) e s = Inr True"
    and f: "final_signature_bytes H doc = Inr e'" "receipt_check H (rb_openssl b) (rb_public_key b) e' s' = Inr True"
    using assms unfolding verify_verification_receipt_def rbind_eq_Inr ensure_eq_Inr by (elim exE conjE) simp
  note bind = receipt_binding_Inr [OF b]
  show "validate_receipt_envelope H receipt dispatch = Inr doc" by (rule v)
  show "\<exists>c. verify_signed_envelope H BROKER_PUBLIC_KEY_PATH BROKER_OPENSSL_PATH BROKER_OPENSSL_SHA256_PATH
       (dget doc ''cleanup_proof'') ''snapshot-cleaned'' = Inr c" using c by (auto simp: verify_broker_cleanup_def)
  show "verifier_signed H (canonical_json (JObj (execution_signature_payload
       (case dget doc ''execution_preimage'' of JObj p \<Rightarrow> p | _ \<Rightarrow> []) (dget doc ''execution_preimage_sha256''))))"
    using e(2) verifier_json_bytes_Inr [OF e(1)] bind(1,2) by (auto simp: verifier_signed_def receipt_check_True)
  obtain u where "final_signature_payload H doc = Inr u" "e' = canonical_json (JObj u)"
    using f(1) by (auto simp: final_signature_bytes_def dest: verifier_json_bytes_Inr)
  then show "\<exists>u. final_signature_payload H doc = Inr u \<and> verifier_signed H (canonical_json (JObj u))"
    using f(2) bind(1,2) by (auto simp: verifier_signed_def receipt_check_True)
qed (use assms in \<open>auto simp: verify_verification_receipt_def dest: receipt_binding_Inr\<close>)

text \<open>
  Property C3: what a verified receipt proves. If \<^verbatim>\<open>verify_verification_receipt\<close> accepts a receipt, then
  the verifier's key, which root alone can replace and which is not the broker's key, signed the execution
  preimage together with its SHA-256 and signed the rest of the receipt; the broker's key signed a cleanup
  proof for the same task, attempt, actor and run, bound to the SHA-256 of exactly this preimage, that says
  that the snapshot is gone; the run had no network and no GPU; a passed result means that every command,
  of which there is at least one, ended with exit code zero, without timeout and with its whole output, and
  that source and snapshot were unchanged afterwards; and the preimage repeats the fields of the
  dispatch it was checked against.
\<close>

theorem receipt_sound:
  assumes "verify_verification_receipt H receipt dispatch = Inr doc"
  shows "receipt = JObj doc \<and> root_protected H VERIFIER_PUBLIC_KEY_PATH \<and> root_protected H BROKER_OPENSSL_PATH
    \<and> distinct_keys H BROKER_OPENSSL_PATH VERIFIER_PUBLIC_KEY_PATH BROKER_PUBLIC_KEY_PATH
    \<and> (\<exists>u. final_signature_payload H doc = Inr u \<and> verifier_signed H (canonical_json (JObj u)))
    \<and> (\<exists>p c. dget doc ''execution_preimage'' = JObj p \<and> vget (dget doc ''cleanup_proof'') ''payload'' = JObj c
        \<and> verifier_signed H (canonical_json (JObj (execution_signature_payload p (JStr (sha256_hex H (canonical_json (JObj p)))))))
        \<and> broker_signed H (canonical_json (JObj c))
        \<and> dget c ''receipt_preimage_sha256'' = JStr (sha256_hex H (canonical_json (JObj p)))
        \<and> dget c ''namespace_removed'' = JBool True
        \<and> (\<forall>key\<in>set IDENTITY_FIELDS. py_eq (dget c key) (dget p key))
        \<and> vget (dget p ''isolation'') ''network_disabled'' = JBool True \<and> vget (dget p ''isolation'') ''gpu_disabled'' = JBool True
        \<and> (dget p ''result'' = JStr ''passed'' \<and> passed_evidence p \<or> dget p ''result'' = JStr ''failed'')
        \<and> (\<forall>d. dispatch = Some d \<longrightarrow> (\<forall>key\<in>set BOUND_FIELDS. py_eq (dget p key) (dget d key))))"
proof -
  note parts = verify_receipt_parts [OF assms]
  note env = validate_receipt_envelope_Inr [OF parts(1)]
  obtain p where p: "validate_execution_preimage H (dget doc ''execution_preimage'') dispatch = Inr p"
      "dget doc ''execution_preimage_sha256'' = JStr (sha256_hex H (canonical_json (JObj p)))"
      "receipt_cleanup H doc p (sha256_hex H (canonical_json (JObj p))) = Inr ()"
    using env(2) by blast
  obtain c where c: "verify_signed_envelope H BROKER_PUBLIC_KEY_PATH BROKER_OPENSSL_PATH BROKER_OPENSSL_SHA256_PATH
      (dget doc ''cleanup_proof'') ''snapshot-cleaned'' = Inr c" using parts(2) by blast
  note ce = verify_signed_envelope_sound [OF c]
  note pre = validate_execution_preimage_sound [OF p(1)]
  have "verifier_signed H (canonical_json (JObj (execution_signature_payload p (JStr (sha256_hex H (canonical_json (JObj p)))))))"
    using parts(3) unfolding pre(1) p(2) by simp
  moreover have "broker_signed H (canonical_json (JObj c))" using ce(2) by (auto simp: broker_signed_def)
  moreover note receipt_cleanup_Inr [OF p(3) ce(1)] validate_cleanup_payload [OF ce(1)]
  ultimately show ?thesis using env(1) parts(4-7) pre by blast
qed

section \<open>Sealed receipts verify\<close>

lemma require_signature_encode [simp]: "length s = 64 \<Longrightarrow> require_signature (JStr (std_b64encode s)) = Inr s"
  by (simp add: require_signature_def)

lemma receipt_document_fields:
  assumes "r = dput ''final_signature_b64'' (JStr (std_b64encode f')) (receipt_document b p h s proof' ph t f)"
  shows "dget r ''public_key_sha256'' = JStr (rb_public_key_sha256 b)" "dget r ''execution_preimage'' = JObj p"
    "dget r ''execution_preimage_sha256'' = JStr h" "dget r ''execution_signature_b64'' = JStr (std_b64encode s)"
    "dget r ''cleanup_proof'' = JObj proof'" "dget r ''final_signature_b64'' = JStr (std_b64encode f')"
  by (simp_all add: assms receipt_document_def)

lemma sealed_receipt_accepted:
  assumes "sign_verification_receipt H preimage cleanup_proof sealed_at dispatch = Inr r"
  shows "verify_verification_receipt H (JObj r) dispatch = Inr r"
proof -
  obtain p h c k b e s ph e' f where
      v: "validate_execution_preimage H (JObj preimage) dispatch = Inr p"
    and c: "verify_broker_cleanup H (JObj cleanup_proof) = Inr c"
    and b: "trusted_receipt_signing_binding H = Inr (k, b)"
    and e: "verifier_json_bytes (JObj (execution_signature_payload p (JStr h))) = Inr e"
      "receipt_check H (rb_openssl b) (rb_public_key b) e s = Inr True"
    and r: "r = dput ''final_signature_b64'' (JStr (std_b64encode f))
        (receipt_document b p h s cleanup_proof ph sealed_at (replicate 64 CHR 0x00))"
    and f: "final_signature_bytes H r = Inr e'" "receipt_check H (rb_openssl b) (rb_public_key b) e' f = Inr True"
    and ok: "validate_receipt_envelope H (JObj r) dispatch = Inr r"
  proof -
    from assms obtain p h c kb e s ph e0 f r' e' x y z where
      "validate_execution_preimage H (JObj preimage) dispatch = Inr p"
      "verify_broker_cleanup H (JObj cleanup_proof) = Inr c"
      "trusted_receipt_signing_binding H = Inr kb"
      "verifier_json_bytes (JObj (execution_signature_payload p (JStr h))) = Inr e"
      "r' = dput ''final_signature_b64'' (JStr (std_b64encode f))
        (receipt_document (snd kb) p h s cleanup_proof ph sealed_at (replicate 64 CHR 0x00))"
      "receipt_check H (rb_openssl (snd kb)) (rb_public_key (snd kb)) e s = Inr x"
      "final_signature_bytes H r' = Inr e'" "receipt_check H (rb_openssl (snd kb)) (rb_public_key (snd kb)) e' f = Inr y"
      "x \<and> y" "validate_receipt_envelope H (JObj r') dispatch = Inr r"
      unfolding sign_verification_receipt_def Let_def rbind_eq_Inr ensure_eq_Inr case_prod_beta by (elim exE conjE) simp
    moreover from this have "r' = r" using validate_receipt_envelope_Inr(1) by fastforce
    ultimately show ?thesis using that [of p c "fst kb" "snd kb" h e s f ph e'] by simp
  qed
  have len: "length s = 64" "length f = 64" using e(2) f(2) by (simp_all add: receipt_check_True)
  show ?thesis
    unfolding verify_verification_receipt_def ok signing_binding_verifies [OF b] receipt_document_fields [OF r]
      rbind.simps json.case c e f require_signature_encode [OF len(1)] require_signature_encode [OF len(2)]
    by simp
qed

text \<open>
  Property C13: a receipt that the service seals is one that everybody accepts. Whatever
  \<^verbatim>\<open>sign_verification_receipt\<close> returns, \<^verbatim>\<open>verify_verification_receipt\<close> accepts for the same dispatch on the
  same host.
\<close>

theorem sealed_receipt_verifies:
  assumes "sign_verification_receipt H preimage cleanup_proof sealed_at dispatch = Inr r"
  shows "verify_verification_receipt H (JObj r) dispatch = Inr r"
  using assms by (rule sealed_receipt_accepted)

end
