(* ===== verification/Service.thy ===== *)
theory Service
  imports Receipt Journal_Recovery
begin

text \<open>
  The coordinator of the verification service (\<^verbatim>\<open>verifier_service.py\<close>): it claims a dispatch in the journal
  when a wake-up names it, and it stores a verified receipt before it moves the journal to
  \<^verbatim>\<open>RECEIPT_PERSISTED\<close>. The POSIX branch is modelled.
\<close>

section \<open>Constants\<close>

definition SERVICE_ASSURANCE_SCOPE :: string where
  "SERVICE_ASSURANCE_SCOPE = ''protocol-receipt-journal-only-ledger-ed25519-unimplemented''"

definition SERVICE_RELEASE_BLOCKERS :: "string list" where
  "SERVICE_RELEASE_BLOCKERS =
     [''ledger_authority_ed25519_dispatch_integration_unimplemented'', ''retained_source_execution_unimplemented'',
      ''ubuntu_root_systemd_bwrap_e2e_unverified'', ''linux_posix_root_dirfd_e2e_unverified'']"

definition MAX_RECEIPT_STORE_ENTRIES :: int where "MAX_RECEIPT_STORE_ENTRIES = 4096"

definition journal_assurance_scope :: string where
  "journal_assurance_scope = ''filesystem-durability-only-not-root-e2e''"

definition service_assurance :: dict where
  "service_assurance =
     [(''scope'', JStr SERVICE_ASSURANCE_SCOPE), (''release_ready'', JBool False),
      (''release_blockers'', JArr (map JStr SERVICE_RELEASE_BLOCKERS)), (''journal_scope'', JStr journal_assurance_scope)]"

section \<open>The receipt store\<close>

text \<open>
  An entry of the receipt directory is a file, with what \<^verbatim>\<open>fstat\<close> reports and its bytes, or something that
  cannot be opened without following a link. \<open>sv_dirfd\<close> says that the descriptor of the directory is open.
\<close>

datatype receipt_entry = Stored metadata string | Link

record service =
  sv_journal :: journal
  sv_root :: path
  sv_euid :: int
  sv_egid :: int
  sv_dirfd :: bool
  sv_identity :: "(int \<times> int) option"
  sv_receipts :: "(string \<times> receipt_entry) list"

fun collect_names :: "string list \<Rightarrow> string list \<Rightarrow> string list res" where
  "collect_names [] names = Inr names"
| "collect_names (e # es) names =
     (if MAX_RECEIPT_STORE_ENTRIES \<le> int (length names)
      then raise VerifierServiceError ''Verifier receipt store exceeds its entry limit''
      else collect_names es (List.insert e names))"

definition bounded_receipt_entry_names :: "bool \<Rightarrow> string list \<Rightarrow> string list res" where
  "bounded_receipt_entry_names listable found =
     (if listable then collect_names found []
      else raise VerifierServiceError ''Verifier receipt store cannot be enumerated'')"

definition validate_posix_receipt_root_policy :: "metadata \<Rightarrow> metadata list \<Rightarrow> int \<Rightarrow> int \<Rightarrow> unit res" where
  "validate_posix_receipt_root_policy m ancestors euid egid =
     rbind (ensure (\<not> (\<not> S_ISDIR (st_mode m) \<or> S_ISLNK (st_mode m) \<or> st_uid m \<noteq> euid \<or> st_gid m \<noteq> egid
                       \<or> S_IMODE (st_mode m) \<noteq> 0x1C0))
              VerifierServiceError ''Verifier receipt store must be euid/egid 0700'') (\<lambda>_.
     ensure (\<not> list_ex (\<lambda>a. \<not> S_ISDIR (st_mode a) \<or> S_ISLNK (st_mode a) \<or> st_uid a \<notin> {0, euid} \<or> actor_writable a) ancestors)
       VerifierServiceError ''Verifier receipt ancestry is not owner-protected'')"

definition validate_posix_receipt_root_identity :: "metadata \<Rightarrow> int \<times> int \<Rightarrow> int \<Rightarrow> int \<Rightarrow> unit res" where
  "validate_posix_receipt_root_identity m expected_identity euid egid =
     ensure (\<not> (\<not> S_ISDIR (st_mode m) \<or> S_ISLNK (st_mode m) \<or> (st_dev m, st_ino m) \<noteq> expected_identity
                \<or> st_uid m \<noteq> euid \<or> st_gid m \<noteq> egid \<or> S_IMODE (st_mode m) \<noteq> 0x1C0))
       VerifierServiceError ''Verifier receipt root identity or protection changed''"

text \<open>What the operating system reports while the service starts; \<open>None\<close> stands for \<^verbatim>\<open>OSError\<close>.\<close>

record root_view =
  rv_mkdir :: "unit res"
  rv_stat :: "metadata option"
  rv_ancestors :: "metadata option list"
  rv_opened :: "metadata option"

definition prepare_receipt_root :: "root_view \<Rightarrow> int \<Rightarrow> int \<Rightarrow> (int \<times> int) res" where
  "prepare_receipt_root v euid egid =
     rbind (rv_mkdir v) (\<lambda>_.
     rbind (case rv_stat v of
              None \<Rightarrow> raise VerifierServiceError ''Verifier receipt store is unavailable''
            | Some m \<Rightarrow> Inr m) (\<lambda>m.
     rbind (ensure (\<not> (\<not> S_ISDIR (st_mode m) \<or> S_ISLNK (st_mode m))) VerifierServiceError
              ''Verifier receipt store is not a plain directory'') (\<lambda>_.
     rbind (rmap (\<lambda>a. case a of
                        None \<Rightarrow> raise VerifierServiceError ''Verifier receipt ancestry is unavailable''
                      | Some m \<Rightarrow> Inr m) (rv_ancestors v)) (\<lambda>ancestors.
     rbind (validate_posix_receipt_root_policy m ancestors euid egid) (\<lambda>_.
     rbind (case rv_opened v of
              None \<Rightarrow> raise VerifierServiceError ''Verifier receipt dirfd open failed''
            | Some opened \<Rightarrow> Inr opened) (\<lambda>opened.
     rbind (validate_posix_receipt_root_identity opened (st_dev m, st_ino m) euid egid) (\<lambda>_.
     Inr (st_dev opened, st_ino opened))))))))"

definition open_service ::
  "root_view \<Rightarrow> journal \<Rightarrow> path \<Rightarrow> int \<Rightarrow> int \<Rightarrow> (string \<times> receipt_entry) list \<Rightarrow> service res" where
  "open_service v j root euid egid found =
     rbind (prepare_receipt_root v euid egid) (\<lambda>ident.
     Inr \<lparr>sv_journal = j, sv_root = root, sv_euid = euid, sv_egid = egid, sv_dirfd = True, sv_identity = Some ident,
          sv_receipts = found\<rparr>)"

definition close_service :: "service \<Rightarrow> service" where
  "close_service s = s\<lparr>sv_dirfd := False\<rparr>"

section \<open>Writing one receipt\<close>

text \<open>
  What the operating system does while a receipt is stored: what the first and the second look at the
  path of the directory and one at its descriptor report, which calls succeed, and what the new
  file holds after it was written.
\<close>

record store_view =
  vw_root :: "nat \<Rightarrow> metadata option"
  vw_fd :: "metadata option"
  vw_list :: bool
  vw_open :: bool
  vw_read :: bool
  vw_write :: bool
  vw_file :: "metadata \<times> string"
  vw_unlink :: bool
  vw_sync :: bool

definition require_receipt_root_identity :: "store_view \<Rightarrow> nat \<Rightarrow> service \<Rightarrow> unit res" where
  "require_receipt_root_identity v k s =
     (case sv_identity s of
        None \<Rightarrow> raise VerifierServiceError ''Verifier receipt dirfd identity is unavailable''
      | Some ident \<Rightarrow>
          (case vw_root v k of
             None \<Rightarrow> raise VerifierServiceError ''Verifier receipt root path is unavailable''
           | Some m \<Rightarrow> validate_posix_receipt_root_identity m ident (sv_euid s) (sv_egid s)))"

definition fsync_receipt_root :: "store_view \<Rightarrow> service \<Rightarrow> unit res" where
  "fsync_receipt_root v s =
     (case sv_identity s of
        None \<Rightarrow> raise OSError ''Verifier receipt dirfd is unavailable''
      | Some ident \<Rightarrow>
          rbind (ensure (sv_dirfd s) OSError ''Verifier receipt dirfd is unavailable'') (\<lambda>_.
          rbind (case vw_fd v of None \<Rightarrow> raise OSError [] | Some m \<Rightarrow> Inr m) (\<lambda>m.
          rbind (catch_exn VerifierServiceError
                   (validate_posix_receipt_root_identity m ident (sv_euid s) (sv_egid s))
                   (\<lambda>_. raise OSError ''Verifier receipt dirfd identity or protection changed'')) (\<lambda>_.
          ensure (vw_sync v) OSError []))))"

text \<open>The loop that reads a file of known length in pieces, and the check that nothing follows.\<close>

definition READ_CHUNK :: nat where "READ_CHUNK = 64 * 1024"

lemma READ_CHUNK_pos: "0 < READ_CHUNK"
  by (simp add: READ_CHUNK_def)

function read_chunks :: "nat \<Rightarrow> string \<Rightarrow> string \<Rightarrow> (string \<times> string) option" where
  "read_chunks remaining content acc =
     (if remaining = 0 then Some (acc, content)
      else let chunk = take (min remaining READ_CHUNK) content in
           if chunk = [] then None
           else read_chunks (remaining - length chunk) (drop (length chunk) content) (acc @ chunk))"
  by pat_completeness auto
termination
  by (relation "measure (\<lambda>(remaining, content, acc). remaining)") (auto simp: Let_def READ_CHUNK_pos min_def)

declare read_chunks.simps [simp del]

definition read_back :: "nat \<Rightarrow> string \<Rightarrow> string option" where
  "read_back n content =
     (case read_chunks n content [] of
        None \<Rightarrow> None
      | Some (observed, rest) \<Rightarrow> if rest = [] then Some observed else None)"

definition verify_new_receipt_descriptor ::
  "('r) crypto_scheme \<Rightarrow> int \<Rightarrow> metadata \<times> string \<Rightarrow> string \<Rightarrow> bool" where
  "verify_new_receipt_descriptor H euid f encoded \<longleftrightarrow>
     S_ISREG (st_mode (fst f)) \<and> st_nlink (fst f) = 1 \<and> st_size (fst f) = int (length encoded)
     \<and> st_uid (fst f) = euid \<and> S_IMODE (st_mode (fst f)) = 0x180
     \<and> (case read_back (length encoded) (snd f) of
          None \<Rightarrow> False
        | Some observed \<Rightarrow> sha256_hex H observed = sha256_hex H encoded)"

definition read_existing :: "store_view \<Rightarrow> receipt_entry \<Rightarrow> string \<Rightarrow> unit res" where
  "read_existing v e encoded =
     (case e of
        Link \<Rightarrow> raise VerifierServiceError ''Existing verifier receipt is unreadable''
      | Stored m content \<Rightarrow>
          rbind (ensure (vw_open v) VerifierServiceError ''Existing verifier receipt is unreadable'') (\<lambda>_.
          rbind (ensure (S_ISREG (st_mode m) \<and> \<not> S_ISLNK (st_mode m) \<and> st_nlink m = 1 \<and> st_size m = int (length encoded))
                   VerifierServiceError ''Existing verifier receipt differs or is unsafe'') (\<lambda>_.
          rbind (case (if vw_read v then read_back (length encoded) content else None) of
                   None \<Rightarrow> raise VerifierServiceError ''Existing verifier receipt is unreadable''
                 | Some existing \<Rightarrow> Inr existing) (\<lambda>existing.
          ensure (existing = encoded) VerifierServiceError ''Existing verifier receipt differs or is unsafe''))))"

definition write_new ::
  "('r) crypto_scheme \<Rightarrow> store_view \<Rightarrow> string \<Rightarrow> string \<Rightarrow> service \<Rightarrow> bool res \<times> service" where
  "write_new H v name encoded s =
     (let written = s\<lparr>sv_receipts := alist_put name (Stored (fst (vw_file v)) (snd (vw_file v))) (sv_receipts s)\<rparr> in
      if vw_write v \<and> verify_new_receipt_descriptor H (sv_euid s) (vw_file v) encoded then
        keep written (require_receipt_root_identity v 1 s) (\<lambda>_.
        keep written (fsync_receipt_root v s) (\<lambda>_. (Inr False, written)))
      else if \<not> vw_unlink v
      then (raise VerifierServiceError ''Verifier receipt failed validation and cleanup failed'', written)
      else
        (case fsync_receipt_root v s of
           Inl _ \<Rightarrow> (raise VerifierServiceError ''Verifier receipt failed validation and cleanup failed'', s)
         | Inr _ \<Rightarrow> (raise VerifierServiceError ''Verifier receipt durable write failed'', s)))"

definition persist_exact ::
  "('r) crypto_scheme \<Rightarrow> store_view \<Rightarrow> string \<Rightarrow> string \<Rightarrow> service \<Rightarrow> bool res \<times> service" where
  "persist_exact H v name encoded s =
     keep s (require_receipt_root_identity v 0 s) (\<lambda>_.
     keep s (bounded_receipt_entry_names (vw_list v) (map fst (sv_receipts s))) (\<lambda>names.
     keep s (ensure (\<not> (name \<notin> set names \<and> MAX_RECEIPT_STORE_ENTRIES \<le> int (length names))) VerifierServiceError
               ''Verifier receipt store exceeds its entry limit'') (\<lambda>_.
     case map_of (sv_receipts s) name of
       Some e \<Rightarrow>
         keep s (read_existing v e encoded) (\<lambda>_.
         keep s (require_receipt_root_identity v 1 s) (\<lambda>_.
         keep s (fsync_receipt_root v s) (\<lambda>_. (Inr True, s))))
     | None \<Rightarrow>
         keep s (ensure (vw_open v) VerifierServiceError ''Verifier receipt create failed'') (\<lambda>_.
         write_new H v name encoded s))))"

section \<open>Operations\<close>

definition text_of :: "json \<Rightarrow> string" where
  "text_of v = (case v of JStr s \<Rightarrow> s | _ \<Rightarrow> [])"

definition dispatch_identity :: "dict \<Rightarrow> identity" where
  "dispatch_identity request =
     (text_of (dget request ''dispatch_event_hash''), text_of (dget request ''task_id''), int_value (dget request ''attempt''),
      text_of (dget request ''actor''), text_of (dget request ''run_id''))"

definition service_claim_dispatch ::
  "int \<Rightarrow> (nat \<Rightarrow> int) \<Rightarrow> json \<Rightarrow> json \<Rightarrow> service \<Rightarrow> VerifierJournalClaim res \<times> service" where
  "service_claim_dispatch now clocks dispatch wakeup s =
     keep s (validate_dispatch dispatch now) (\<lambda>request.
     keep s (validate_wakeup wakeup) (\<lambda>signal.
     keep s (reach (\<lambda>key. ensure (py_eq (dget request key) (dget signal key)) VerifierServiceError
                            ''Verifier wakeup does not match dispatch field '')
               [''dispatch_event_hash'', ''task_id'', ''run_id'', ''nonce'']) (\<lambda>_.
     case claim_dispatch clocks (dispatch_identity request) (sv_journal s) of (r, j) \<Rightarrow>
       (catch_exn VerifierJournalError r (\<lambda>_. raise VerifierServiceError ''Verifier dispatch journal claim failed''),
        s\<lparr>sv_journal := j\<rparr>))))"

record PersistedVerifierReceipt =
  pr_record :: VerifierJournalRecord
  pr_path :: path
  pr_sha256 :: string
  pr_idempotent :: bool

definition receipt_name :: "string \<Rightarrow> string" where "receipt_name h = h @ ''.receipt.json''"

definition load_claimed :: "journal \<Rightarrow> string \<Rightarrow> VerifierJournalRecord res" where
  "load_claimed j h =
     catch_exn VerifierJournalError
       (catch_exn FileNotFoundError (load j h) (\<lambda>_. raise VerifierServiceError ''Verifier receipt has no claimed dispatch''))
       (\<lambda>_. raise VerifierServiceError ''Verifier receipt has no claimed dispatch'')"

definition same_execution :: "VerifierJournalRecord \<Rightarrow> dict \<Rightarrow> bool" where
  "same_execution r request \<longleftrightarrow>
     py_eq (JStr (j_task_id r)) (dget request ''task_id'') \<and> py_eq (JInt (j_attempt r)) (dget request ''attempt'')
     \<and> py_eq (JStr (j_actor r)) (dget request ''actor'') \<and> py_eq (JStr (j_run_id r)) (dget request ''run_id'')"

definition advance_record ::
  "int \<Rightarrow> string \<Rightarrow> VerifierJournalRecord \<Rightarrow> service \<Rightarrow> VerifierJournalRecord res \<times> service" where
  "advance_record clock h r s =
     (if j_state r = ''CLEANUP_ACKED'' then
        case journal_transition clock h ''RECEIPT_PERSISTED'' (Some (j_revision r)) None None (sv_journal s) of (x, j) \<Rightarrow>
          (catch_exn VerifierJournalError x (\<lambda>_. raise VerifierServiceError ''Verifier receipt journal transition failed''),
           s\<lparr>sv_journal := j\<rparr>)
      else (Inr r, s))"

definition persist_receipt ::
  "('r) trust_host_scheme \<Rightarrow> store_view \<Rightarrow> int \<Rightarrow> dict \<Rightarrow> json \<Rightarrow> service \<Rightarrow> PersistedVerifierReceipt res \<times> service" where
  "persist_receipt H v clock dispatch receipt s =
     keep s (validate_own_dispatch dispatch) (\<lambda>request.
     keep s (catch_all (verify_verification_receipt H receipt (Some request))
               (raise VerifierServiceError ''Verifier receipt verification failed'')) (\<lambda>document.
     let h = text_of (dget request ''dispatch_event_hash'') in
     keep s (load_claimed (sv_journal s) h) (\<lambda>r.
     keep s (ensure (same_execution r request) VerifierServiceError
               ''Verifier receipt and journal identity disagree'') (\<lambda>_.
     keep s (ensure (j_state r \<in> {''CLEANUP_ACKED'', ''RECEIPT_PERSISTED''}) VerifierServiceError
               ''Verifier receipt may persist only after cleanup acknowledgement'') (\<lambda>_.
     keep s (verifier_json_bytes (JObj document)) (\<lambda>encoded.
     andthen (persist_exact H v (receipt_name h) encoded s) (\<lambda>idempotent s.
     andthen (advance_record clock h r s) (\<lambda>r s.
     (Inr \<lparr>pr_record = r, pr_path = child (sv_root s) (receipt_name h), pr_sha256 = sha256_hex H encoded,
           pr_idempotent = idempotent\<rparr>, s)))))))))"

end
