(* ===== verification/Service_Safety.thy ===== *)
theory Service_Safety
  imports Service
begin

text \<open>
  What the coordinator guarantees: a dispatch is claimed once, a stored receipt is the verified one and
  is never replaced, and an interrupted call can be repeated.
\<close>

section \<open>Reading and listing\<close>

lemma read_chunks_eq:
  "read_chunks n content acc =
     (if n \<le> length content then Some (acc @ take n content, drop n content) else None)"
proof (induction n content acc rule: read_chunks.induct)
  case (1 n content acc)
  show ?case
  proof (cases "n = 0 \<or> content = []")
    case True
    then show ?thesis by (subst read_chunks.simps) (auto simp: Let_def)
  next
    case False
    let ?m = "min n READ_CHUNK"
    have pos: "0 < ?m" "take ?m content \<noteq> []" using False READ_CHUNK_pos by auto
    have nonzero: "(min n READ_CHUNK = 0) = False" using False READ_CHUNK_pos by (simp add: min_def)
    have "read_chunks n content acc =
        read_chunks (n - length (take ?m content)) (drop (length (take ?m content)) content) (acc @ take ?m content)"
      using False by (subst read_chunks.simps) (simp add: Let_def nonzero)
    also have "\<dots> = (if n \<le> length content then Some (acc @ take n content, drop n content) else None)"
    proof (cases "?m \<le> length content")
      case True
      then have "take n content = take ?m content @ take (n - ?m) (drop ?m content)"
        by (metis le_add_diff_inverse min.cobounded1 take_add)
      then show ?thesis
        using 1 [OF _ refl] False pos True by (auto simp: min_def split: if_splits)
    next
      case short: False
      then show ?thesis using 1 [OF _ refl] False pos by (simp add: min_def split: if_splits)
    qed
    finally show ?thesis .
  qed
qed

lemma read_back_eq: "read_back n content = (if length content = n then Some content else None)"
  by (auto simp: read_back_def read_chunks_eq)

lemma collect_names_Inr: "collect_names es names = Inr r \<Longrightarrow> set r = set es \<union> set names"
  by (induction es names rule: collect_names.induct) (auto split: if_splits)

lemma length_insert: "length (List.insert x xs) \<le> Suc (length xs)"
  by (simp add: List.insert_def)

lemma collect_names_ok:
  "int (length es) + int (length names) \<le> MAX_RECEIPT_STORE_ENTRIES \<Longrightarrow> \<exists>r. collect_names es names = Inr r"
proof (induction es arbitrary: names)
  case (Cons e es)
  have "int (length es) + int (length (List.insert e names)) \<le> MAX_RECEIPT_STORE_ENTRIES"
    using Cons.prems length_insert [of e names] by simp
  with Cons show ?case by simp
qed simp

section \<open>Storing\<close>

abbreviation stored :: "store_view \<Rightarrow> string \<Rightarrow> service \<Rightarrow> service" where
  "stored v name s \<equiv> s\<lparr>sv_receipts := alist_put name (Stored (fst (vw_file v)) (snd (vw_file v))) (sv_receipts s)\<rparr>"

text \<open>Whatever happens, storing adds the entry of that name or changes nothing.\<close>

lemma write_new_frame: "snd (write_new H v name encoded s) = s \<or> snd (write_new H v name encoded s) = stored v name s"
  by (auto simp: write_new_def Let_def keep_def split: sum.splits)

lemma persist_exact_frame:
  assumes "persist_exact H v name encoded s = (x, s')"
  shows "s' = s \<or> map_of (sv_receipts s) name = None \<and> s' = stored v name s"
proof -
  have "snd (persist_exact H v name encoded s) = s
      \<or> map_of (sv_receipts s) name = None \<and> snd (persist_exact H v name encoded s) = stored v name s"
    using write_new_frame [of H v name encoded s]
    by (auto simp: persist_exact_def keep_def split: sum.splits option.splits)
  then show ?thesis using assms by simp
qed

text \<open>An entry that holds the receipt, up to a collision of SHA-256 where it was not compared byte by byte.\<close>

definition holds_receipt :: "('r) crypto_scheme \<Rightarrow> string \<Rightarrow> receipt_entry \<Rightarrow> bool" where
  "holds_receipt H encoded e \<longleftrightarrow>
     (\<exists>m content. e = Stored m content \<and> S_ISREG (st_mode m) \<and> st_nlink m = 1
        \<and> length content = length encoded \<and> sha256_hex H content = sha256_hex H encoded)"

lemma verify_new_holds:
  "verify_new_receipt_descriptor H euid f encoded \<Longrightarrow> holds_receipt H encoded (Stored (fst f) (snd f))"
  by (auto simp: verify_new_receipt_descriptor_def holds_receipt_def read_back_eq split: if_splits)

lemma read_existing_Inr:
  "read_existing v e encoded = Inr u \<Longrightarrow>
     \<exists>m. e = Stored m encoded \<and> S_ISREG (st_mode m) \<and> st_nlink m = 1 \<and> st_size m = int (length encoded)"
  by (cases e) (auto simp: read_existing_def read_back_eq split: if_splits)

lemma persist_exact_Inr:
  assumes "persist_exact H v name encoded s = (Inr b, s')"
  shows "\<exists>e. map_of (sv_receipts s') name = Some e \<and> holds_receipt H encoded e
    \<and> (if b then map_of (sv_receipts s) name = Some e \<and> s' = s \<and> (\<exists>m. e = Stored m encoded)
       else map_of (sv_receipts s) name = None \<and> s' = stored v name s)"
proof (cases "map_of (sv_receipts s) name")
  case None
  then have "write_new H v name encoded s = (Inr b, s')"
    using assms by (auto simp: persist_exact_def keep_eq_pair)
  then have "b = False" "s' = stored v name s" "verify_new_receipt_descriptor H (sv_euid s) (vw_file v) encoded"
    by (auto simp: write_new_def Let_def keep_eq_pair split: if_splits sum.splits)
  with None show ?thesis by (auto dest: verify_new_holds)
next
  case (Some e)
  then have "b = True" "s' = s" "read_existing v e encoded = Inr ()"
    using assms by (auto simp: persist_exact_def keep_eq_pair)
  with Some read_existing_Inr [of v e encoded "()"] show ?thesis by (auto simp: holds_receipt_def)
qed

section \<open>The service as a machine\<close>

text \<open>
  Steps are the calls of the service, the journal operations of the runner and their crashes, a crash
  that leaves a new receipt file behind with any content, closing, and a new start.
\<close>

inductive service_step :: "service \<Rightarrow> service \<Rightarrow> bool" where
  claim: "service_claim_dispatch now clocks dispatch wakeup s = (x, s') \<Longrightarrow> service_step s s'"
| persist: "persist_receipt (H :: trust_host) v clock request receipt s = (y, s') \<Longrightarrow> service_step s s'"
| journal: "journal_step (sv_journal s) j \<Longrightarrow> service_step s (s\<lparr>sv_journal := j\<rparr>)"
| crash_write: "map_of (sv_receipts s) name = None \<Longrightarrow>
    service_step s (s\<lparr>sv_receipts := alist_put name e (sv_receipts s)\<rparr>)"
| restart: "open_service w (sv_journal s) (sv_root s) (sv_euid s) (sv_egid s) (sv_receipts s) = Inr s' \<Longrightarrow> service_step s s'"
| close: "service_step s (close_service s)"

text \<open>What every call and every step preserves: the journal moves by its own writes, a stored entry stays.\<close>

definition kept :: "service \<Rightarrow> service \<Rightarrow> bool" where
  "kept s t \<longleftrightarrow> file_step\<^sup>*\<^sup>* (sv_journal s) (sv_journal t)
     \<and> (\<forall>name e. map_of (sv_receipts s) name = Some e \<longrightarrow> map_of (sv_receipts t) name = Some e)"

lemma kept_refl: "kept s s"
  by (simp add: kept_def)

lemma kept_trans: "kept s t \<Longrightarrow> kept t u \<Longrightarrow> kept s u"
  by (auto simp: kept_def intro: rtranclp_trans)

lemma kept_journal: "file_step\<^sup>*\<^sup>* (sv_journal s) j \<Longrightarrow> kept s (s\<lparr>sv_journal := j\<rparr>)"
  by (simp add: kept_def)

lemma kept_new: "map_of (sv_receipts s) name = None \<Longrightarrow> kept s (s\<lparr>sv_receipts := alist_put name e (sv_receipts s)\<rparr>)"
  by (auto simp: kept_def)

lemma kept_exact: "kept s (snd (persist_exact H v name encoded s))"
  using persist_exact_frame [of H v name encoded s "fst (persist_exact H v name encoded s)" "snd (persist_exact H v name encoded s)"]
    kept_refl [of s] kept_new [of s name] by auto

lemma kept_advance: "kept s (snd (advance_record clock h r s))"
  using transition_files [of "sv_journal s" clock h "''RECEIPT_PERSISTED''" "Some (j_revision r)" None None]
  by (auto simp: advance_record_def kept_refl kept_journal split: prod.splits)

lemmas kept_state = keep_state [where P = "kept s" for s] andthen_state [where P = "kept s" for s]

lemma kept_persist: "kept s (snd (persist_receipt H v clock dispatch receipt s))"
  unfolding persist_receipt_def Let_def
  by (intro kept_state kept_refl kept_exact, unfold snd_conv) (rule kept_trans [OF kept_exact kept_advance])+

lemma kept_claim: "kept s (snd (service_claim_dispatch now clocks dispatch wakeup s))"
  unfolding service_claim_dispatch_def case_prod_beta snd_conv
  by (intro kept_state kept_refl kept_journal claim_files, unfold snd_conv) (intro kept_journal claim_files)

lemma kept_step: "service_step s t \<Longrightarrow> kept s t"
proof (induction rule: service_step.induct)
  case (claim now clocks dispatch wakeup s x s')
  then show ?case using kept_claim [of s now clocks dispatch wakeup] by simp
next
  case (persist H v clock request receipt s y s')
  then show ?case using kept_persist [of s H v clock request receipt] by simp
next
  case (restart w s s')
  then show ?case by (auto simp: open_service_def kept_def)
next
  case (journal s j)
  then show ?case by (intro kept_journal step_files)
qed (auto simp: close_service_def kept_def)

lemma kept_steps: "service_step\<^sup>*\<^sup>* s t \<Longrightarrow> kept s t"
  by (induction rule: rtranclp_induct) (auto intro: kept_refl kept_trans kept_step)

section \<open>Claims\<close>

lemma service_claim_Inr:
  assumes "service_claim_dispatch now clocks dispatch wakeup s = (Inr c, t)"
  shows "\<exists>d w. dispatch = JObj d \<and> wakeup = JObj w \<and> validate_dispatch dispatch now = Inr d
    \<and> claim_dispatch clocks (dispatch_identity d) (sv_journal s) = (Inr c, sv_journal t)
    \<and> (\<forall>key\<in>{''dispatch_event_hash'', ''task_id'', ''run_id'', ''nonce''}. py_eq (dget d key) (dget w key))"
proof -
  obtain d w where d: "validate_dispatch dispatch now = Inr d" and w: "validate_wakeup wakeup = Inr w"
    and keys: "\<forall>key\<in>{''dispatch_event_hash'', ''task_id'', ''run_id'', ''nonce''}. py_eq (dget d key) (dget w key)"
    and c: "(case claim_dispatch clocks (dispatch_identity d) (sv_journal s) of (r, j) \<Rightarrow>
        (catch_exn VerifierJournalError r (\<lambda>_. raise VerifierServiceError ''Verifier dispatch journal claim failed''),
         s\<lparr>sv_journal := j\<rparr>)) = (Inr c, t)"
    using assms by (auto simp: service_claim_dispatch_def keep_eq_pair simp del: split_paired_Ex case_prod_conv)
  have c: "claim_dispatch clocks (dispatch_identity d) (sv_journal s) = (Inr c, sv_journal t)"
    using c by (cases "claim_dispatch clocks (dispatch_identity d) (sv_journal s)") (auto simp: catch_exn_raise_Inr)
  have "wakeup = JObj w" using w by (auto simp: validate_wakeup_def exact_object_Inr)
  then show ?thesis using validate_dispatch_Inr(1) [OF d] d keys c by blast
qed

definition service_claimed :: "string \<Rightarrow> service \<Rightarrow> service \<Rightarrow> bool" where
  "service_claimed h s t \<longleftrightarrow>
     (\<exists>now clocks dispatch wakeup c. service_claim_dispatch now clocks dispatch wakeup s = (Inr c, t) \<and> claim_acquired c
        \<and> vget dispatch ''dispatch_event_hash'' = JStr h)"

lemma service_claimed_by: "service_claimed h s t \<Longrightarrow> claimed_by h (sv_journal s) (sv_journal t)"
proof -
  assume "service_claimed h s t"
  then obtain now clocks dispatch wakeup c where c: "service_claim_dispatch now clocks dispatch wakeup s = (Inr c, t)"
      "claim_acquired c" "vget dispatch ''dispatch_event_hash'' = JStr h" by (auto simp: service_claimed_def)
  obtain d where d: "dispatch = JObj d" "claim_dispatch clocks (dispatch_identity d) (sv_journal s) = (Inr c, sv_journal t)"
    using service_claim_Inr [OF c(1)] by blast
  moreover have "fst (dispatch_identity d) = h" using c(3) d(1) by (simp add: dispatch_identity_def text_of_def)
  ultimately show ?thesis unfolding claimed_by_def using c(2) by blast
qed

interpretation service_claims: exclusive_register service_step
  "\<lambda>h s. map_of (entries (sv_journal s)) (claim_name h) \<noteq> None" service_claimed
proof
  show "map_of (entries (sv_journal t)) (claim_name h) \<noteq> None"
    if "service_step s t" "map_of (entries (sv_journal s)) (claim_name h) \<noteq> None" for s t h
    using kept_step [OF that(1)] files_grow that(2) by (auto simp: kept_def)
qed (auto dest: claimed_marker service_claimed_by)

text \<open>
  Property C10: the service hands out a dispatch once. In any history of calls of the service, journal
  operations, crashes and restarts, at most one call of \<^verbatim>\<open>DedicatedVerifierService.claim_dispatch\<close> for a
  dispatch hash acquires it, whatever wake-ups arrive, and the wake-up that did names the
  task, the run and the nonce of that dispatch.
\<close>

theorem service_claims_once:
  assumes "history service_step ss" "Suc i < length ss" "Suc n < length ss"
    and "service_claim_dispatch now clocks dispatch wakeup (ss ! i) = (Inr c, ss ! Suc i)" "claim_acquired c"
    and "service_claim_dispatch now' clocks' dispatch' wakeup' (ss ! n) = (Inr c', ss ! Suc n)" "claim_acquired c'"
    and "vget dispatch' ''dispatch_event_hash'' = vget dispatch ''dispatch_event_hash''"
  shows "i = n \<and> (\<forall>key\<in>{''task_id'', ''run_id'', ''nonce''}. py_eq (vget dispatch key) (vget wakeup key))"
proof -
  obtain d w where d: "dispatch = JObj d" "wakeup = JObj w" "validate_dispatch dispatch now = Inr d"
    and keys: "\<forall>key\<in>{''dispatch_event_hash'', ''task_id'', ''run_id'', ''nonce''}. py_eq (dget d key) (dget w key)"
    using service_claim_Inr [OF assms(4)] by blast
  obtain h where h: "vget dispatch ''dispatch_event_hash'' = JStr h"
    using validate_dispatch_Inr(4) [OF d(3)] d(1) by (auto simp: is_hex_def split: json.splits)
  have "service_claimed h (ss ! i) (ss ! Suc i)" "service_claimed h (ss ! n) (ss ! Suc n)"
    unfolding service_claimed_def using assms(4-8) h by metis+
  then have "i = n" by (rule service_claims.acquired_once [OF assms(1-3)])
  then show ?thesis using keys d(1,2) by simp
qed

section \<open>Receipts\<close>

lemma load_claimed_Inr: "load_claimed j h = Inr r \<longleftrightarrow> load j h = Inr r"
  by (simp add: load_claimed_def catch_exn_raise_Inr)

lemma same_execution_identity:
  assumes "same_execution r d" "validate_dispatch v now = Inr d" "j_hash r = text_of (dget d ''dispatch_event_hash'')"
  shows "identity_of_record r = dispatch_identity d"
proof -
  obtain n where "dget d ''attempt'' = JInt n" using validate_dispatch_Inr(8) [OF assms(2)] by blast
  then show ?thesis using assms(1,3) by (simp add: same_execution_def identity_of_record_def dispatch_identity_def text_of_def)
qed

text \<open>The record after the transition, or the same record where it was persisted before.\<close>

lemma advance_record_Inr:
  assumes "advance_record clock h r s = (Inr r', t)" "load (sv_journal s) h = Inr r" "j_state r \<in> {''CLEANUP_ACKED'', ''RECEIPT_PERSISTED''}"
  shows "load (sv_journal t) h = Inr r'" "j_state r' = ''RECEIPT_PERSISTED''" "identity_of_record r' = identity_of_record r"
    "sv_receipts t = sv_receipts s" "sv_root t = sv_root s"
proof -
  have "load (sv_journal t) h = Inr r' \<and> j_state r' = ''RECEIPT_PERSISTED'' \<and> identity_of_record r' = identity_of_record r
      \<and> sv_receipts t = sv_receipts s \<and> sv_root t = sv_root s"
  proof (cases "j_state r = ''CLEANUP_ACKED''")
    case True
    obtain j where j: "journal_transition clock h ''RECEIPT_PERSISTED'' (Some (j_revision r)) None None (sv_journal s) = (Inr r', j)"
      "t = s\<lparr>sv_journal := j\<rparr>"
      using assms(1) True by (auto simp: advance_record_def catch_exn_raise_Inr split: prod.splits)
    from j(1) obtain r0 where "load (sv_journal s) h = Inr r0" "record_step r0 r'" "j_state r' = ''RECEIPT_PERSISTED''"
      "j = store r' (sv_journal s)" by (rule journal_transition_eq_Inr)
    then show ?thesis
      using j(2) assms(2) load_ok [OF assms(2)] by (auto simp: load_store record_step_def identity_of_record_def)
  next
    case False
    then show ?thesis using assms by (auto simp: advance_record_def)
  qed
  then show "load (sv_journal t) h = Inr r'" "j_state r' = ''RECEIPT_PERSISTED''" "identity_of_record r' = identity_of_record r"
    "sv_receipts t = sv_receipts s" "sv_root t = sv_root s" by auto
qed

lemma persist_receipt_Inr:
  assumes "persist_receipt H v clock dispatch receipt s = (Inr p, t)"
  shows "\<exists>doc r e. verify_verification_receipt H receipt (Some dispatch) = Inr doc
    \<and> load (sv_journal s) (fst (dispatch_identity dispatch)) = Inr r
    \<and> identity_of_record r = dispatch_identity dispatch \<and> j_state r \<in> {''CLEANUP_ACKED'', ''RECEIPT_PERSISTED''}
    \<and> load (sv_journal t) (fst (dispatch_identity dispatch)) = Inr (pr_record p)
    \<and> identity_of_record (pr_record p) = dispatch_identity dispatch \<and> j_state (pr_record p) = ''RECEIPT_PERSISTED''
    \<and> map_of (sv_receipts t) (receipt_name (fst (dispatch_identity dispatch))) = Some e
    \<and> holds_receipt H (canonical_json (JObj doc)) e \<and> pr_sha256 p = sha256_hex H (canonical_json (JObj doc))
    \<and> pr_path p = child (sv_root s) (receipt_name (fst (dispatch_identity dispatch)))
    \<and> (pr_idempotent p \<longleftrightarrow> map_of (sv_receipts s) (receipt_name (fst (dispatch_identity dispatch))) = Some e)"
proof -
  let ?h = "fst (dispatch_identity dispatch)"
  obtain d doc r encoded b s1 rr where own: "validate_own_dispatch dispatch = Inr d"
    and doc: "verify_verification_receipt H receipt (Some d) = Inr doc"
    and r: "load (sv_journal s) (text_of (dget d ''dispatch_event_hash'')) = Inr r" "same_execution r d"
      "j_state r \<in> {''CLEANUP_ACKED'', ''RECEIPT_PERSISTED''}"
    and enc: "verifier_json_bytes (JObj doc) = Inr encoded"
    and exact: "persist_exact H v (receipt_name (text_of (dget d ''dispatch_event_hash''))) encoded s = (Inr b, s1)"
    and adv: "advance_record clock (text_of (dget d ''dispatch_event_hash'')) r s1 = (Inr rr, t)"
    and p: "p = \<lparr>pr_record = rr, pr_path = child (sv_root t) (receipt_name (text_of (dget d ''dispatch_event_hash''))),
        pr_sha256 = sha256_hex H encoded, pr_idempotent = b\<rparr>"
    using assms unfolding persist_receipt_def Let_def keep_eq_pair andthen_eq_pair ensure_eq_Inr load_claimed_Inr
      catch_all_raise_Inr prod.inject sum.inject by (elim exE conjE) metis
  obtain now where vd: "validate_dispatch (JObj dispatch) now = Inr d" using own by (auto simp: validate_own_dispatch_def)
  have d: "d = dispatch" using validate_dispatch_Inr(1) [OF vd] by simp
  then have h: "text_of (dget d ''dispatch_event_hash'') = ?h" by (simp add: dispatch_identity_def)
  have ident: "identity_of_record r = dispatch_identity dispatch"
    using same_execution_identity [OF r(2) vd] load_ok(2) [OF r(1)] d by simp
  obtain e where e: "map_of (sv_receipts s1) (receipt_name ?h) = Some e" "holds_receipt H encoded e"
      "if b then map_of (sv_receipts s) (receipt_name ?h) = Some e \<and> s1 = s
       else map_of (sv_receipts s) (receipt_name ?h) = None \<and> s1 = stored v (receipt_name ?h) s"
    using persist_exact_Inr [OF exact] unfolding h by (auto split: if_splits)
  have same: "sv_journal s1 = sv_journal s" "sv_root s1 = sv_root s" using e(3) by (auto split: if_splits)
  have "load (sv_journal s1) ?h = Inr r" using r(1) same h by simp
  note a = advance_record_Inr [OF adv [unfolded h] this r(3)]
  have "encoded = canonical_json (JObj doc)" using verifier_json_bytes_Inr [OF enc] .
  then show ?thesis using doc r ident a e p same d h by (auto split: if_splits)
qed

text \<open>
  Property C8: a persisted receipt is the verified one and stays. If \<^verbatim>\<open>persist_receipt\<close> returns, the receipt
  was verified against the dispatch, the journal held the same task, attempt, actor and run in
  \<^verbatim>\<open>CLEANUP_ACKED\<close> or \<^verbatim>\<open>RECEIPT_PERSISTED\<close>, and the record is in \<^verbatim>\<open>RECEIPT_PERSISTED\<close> now; and after any further
  calls, journal operations, crashes and restarts the store still holds, under the name of the
  dispatch, a regular file with the length and the SHA-256 of the canonical text of the receipt, and
  the record is still readable and has only moved forward.
\<close>

theorem persisted_receipt_durable:
  assumes "persist_receipt H v clock dispatch receipt s = (Inr p, s')" "service_step\<^sup>*\<^sup>* s' t"
  shows "\<exists>doc r e r'. verify_verification_receipt H receipt (Some dispatch) = Inr doc
    \<and> load (sv_journal s) (fst (dispatch_identity dispatch)) = Inr r
    \<and> identity_of_record r = dispatch_identity dispatch \<and> j_state r \<in> {''CLEANUP_ACKED'', ''RECEIPT_PERSISTED''}
    \<and> j_state (pr_record p) = ''RECEIPT_PERSISTED'' \<and> pr_sha256 p = sha256_hex H (canonical_json (JObj doc))
    \<and> map_of (sv_receipts t) (receipt_name (fst (dispatch_identity dispatch))) = Some e
    \<and> holds_receipt H (canonical_json (JObj doc)) e
    \<and> load (sv_journal t) (fst (dispatch_identity dispatch)) = Inr r' \<and> record_step\<^sup>*\<^sup>* (pr_record p) r'"
proof -
  obtain doc r e where p: "verify_verification_receipt H receipt (Some dispatch) = Inr doc"
      "load (sv_journal s) (fst (dispatch_identity dispatch)) = Inr r"
      "identity_of_record r = dispatch_identity dispatch" "j_state r \<in> {''CLEANUP_ACKED'', ''RECEIPT_PERSISTED''}"
      "load (sv_journal s') (fst (dispatch_identity dispatch)) = Inr (pr_record p)" "j_state (pr_record p) = ''RECEIPT_PERSISTED''"
      "map_of (sv_receipts s') (receipt_name (fst (dispatch_identity dispatch))) = Some e"
      "holds_receipt H (canonical_json (JObj doc)) e" "pr_sha256 p = sha256_hex H (canonical_json (JObj doc))"
    using persist_receipt_Inr [OF assms(1)] by blast
  have "kept s' t" by (rule kept_steps [OF assms(2)])
  then have "map_of (sv_receipts t) (receipt_name (fst (dispatch_identity dispatch))) = Some e"
    "\<exists>r'. load (sv_journal t) (fst (dispatch_identity dispatch)) = Inr r' \<and> record_step\<^sup>*\<^sup>* (pr_record p) r'"
    using p(5,7) file_steps_record by (auto simp: kept_def)
  then show ?thesis using p by blast
qed

section \<open>Repeating an interrupted call\<close>

definition root_ok :: "metadata option \<Rightarrow> service \<Rightarrow> bool" where
  "root_ok m s \<longleftrightarrow>
     (case (m, sv_identity s) of
        (Some m, Some ident) \<Rightarrow> validate_posix_receipt_root_identity m ident (sv_euid s) (sv_egid s) = Inr ()
      | _ \<Rightarrow> False)"

text \<open>The directory is the one the service opened and its calls succeed.\<close>

definition store_ok :: "store_view \<Rightarrow> service \<Rightarrow> bool" where
  "store_ok v s \<longleftrightarrow>
     root_ok (vw_root v 0) s \<and> root_ok (vw_root v 1) s \<and> root_ok (vw_fd v) s \<and> sv_dirfd s
     \<and> vw_list v \<and> vw_open v \<and> vw_sync v"

lemma store_ok_checks:
  assumes "store_ok v s"
  shows "require_receipt_root_identity v 0 s = Inr ()" "require_receipt_root_identity v 1 s = Inr ()" "fsync_receipt_root v s = Inr ()"
  using assms
  by (auto simp: store_ok_def root_ok_def require_receipt_root_identity_def fsync_receipt_root_def split: option.splits)

lemma persist_exact_again:
  assumes "store_ok v s" "vw_read v" "int (length (sv_receipts s)) \<le> MAX_RECEIPT_STORE_ENTRIES"
    and "map_of (sv_receipts s) name = Some (Stored m encoded)"
    and "S_ISREG (st_mode m)" "st_nlink m = 1" "st_size m = int (length encoded)"
  shows "persist_exact H v name encoded s = (Inr True, s)"
proof -
  obtain names where names: "collect_names (map fst (sv_receipts s)) [] = Inr names"
    using collect_names_ok [of "map fst (sv_receipts s)" "[]"] assms(3) by auto
  have "name \<in> fst ` set (sv_receipts s)" using map_of_SomeD [OF assms(4)] by force
  then have "name \<in> set names" using collect_names_Inr [OF names] by simp
  moreover have "read_existing v (Stored m encoded) encoded = Inr ()"
    using assms file_type_exclusive by (auto simp: read_existing_def read_back_eq store_ok_def)
  ultimately show ?thesis
    using names store_ok_checks [OF assms(1)] assms(1,4)
    by (simp add: persist_exact_def bounded_receipt_entry_names_def store_ok_def)
qed

lemma persist_exact_first:
  assumes "store_ok v s" "vw_write v" "int (length (sv_receipts s)) < MAX_RECEIPT_STORE_ENTRIES"
    and "map_of (sv_receipts s) name = None" "distinct (map fst (sv_receipts s))"
    and "verify_new_receipt_descriptor H (sv_euid s) (vw_file v) encoded"
  shows "persist_exact H v name encoded s = (Inr False, stored v name s)"
proof -
  have listed: "collect_names es names = Inr r \<Longrightarrow> int (length r) \<le> int (length es) + int (length names)" for es names r
  proof (induction es names rule: collect_names.induct)
    case (2 e es names)
    then show ?case using length_insert [of e names] by (auto split: if_splits)
  qed auto
  obtain names where names: "collect_names (map fst (sv_receipts s)) [] = Inr names"
    using collect_names_ok [of "map fst (sv_receipts s)" "[]"] assms(3) by auto
  have "int (length names) < MAX_RECEIPT_STORE_ENTRIES" using listed [OF names] assms(3) by simp
  then show ?thesis
    using names store_ok_checks [OF assms(1)] assms(1,2,4,6)
    by (simp add: persist_exact_def bounded_receipt_entry_names_def store_ok_def write_new_def)
qed

text \<open>Once the file is stored, the call only has to move the journal.\<close>

lemma persist_receipt_completes:
  assumes "validate_own_dispatch dispatch = Inr dispatch"
    and "verify_verification_receipt H receipt (Some dispatch) = Inr doc" "verifier_json_bytes (JObj doc) = Inr encoded"
    and "load (sv_journal s) (fst (dispatch_identity dispatch)) = Inr r" "identity_of_record r = dispatch_identity dispatch"
    and "j_state r = ''CLEANUP_ACKED''" "next_record clock r ''RECEIPT_PERSISTED'' None None = Inr r'"
    and "persist_exact H v (receipt_name (fst (dispatch_identity dispatch))) encoded s = (Inr b, t)" "sv_journal t = sv_journal s"
  shows "persist_receipt H v clock dispatch receipt s =
    (Inr \<lparr>pr_record = r', pr_path = child (sv_root t) (receipt_name (fst (dispatch_identity dispatch))),
          pr_sha256 = sha256_hex H encoded, pr_idempotent = b\<rparr>,
     t\<lparr>sv_journal := store r' (sv_journal s)\<rparr>)"
proof -
  obtain now where vd: "validate_dispatch (JObj dispatch) now = Inr dispatch" using assms(1) by (auto simp: validate_own_dispatch_def)
  obtain n where n: "dget dispatch ''attempt'' = JInt n" using validate_dispatch_Inr(8) [OF vd] by blast
  have names: "\<exists>x. dget dispatch ''task_id'' = JStr x" "\<exists>x. dget dispatch ''actor'' = JStr x" "\<exists>x. dget dispatch ''run_id'' = JStr x"
    using validate_dispatch_Inr(5-7) [OF vd]
    by (auto simp: is_identifier_def is_hex_def split: json.splits)
  have same: "same_execution r dispatch"
    using assms(5) names n by (auto simp: same_execution_def identity_of_record_def dispatch_identity_def text_of_def)
  have h: "text_of (dget dispatch ''dispatch_event_hash'') = fst (dispatch_identity dispatch)" by (simp add: dispatch_identity_def)
  have "journal_transition clock (fst (dispatch_identity dispatch)) ''RECEIPT_PERSISTED'' (Some (j_revision r)) None None (sv_journal s)
      = (Inr r', store r' (sv_journal s))"
    by (rule transition_ok [OF assms(4), where ts = "[''RECEIPT_PERSISTED'', ''QUARANTINED'']"]) (use assms(6,7) in \<open>simp_all add: ALLOWED_TRANSITIONS_def\<close>)
  moreover have "load_claimed (sv_journal s) (fst (dispatch_identity dispatch)) = Inr r" using assms(4) by (simp add: load_claimed_Inr)
  ultimately show ?thesis
    using assms(1-3,6,8,9) same by (simp add: persist_receipt_def h catch_all_def advance_record_def)
qed

text \<open>
  Property C9: an interrupted call can be repeated. When the service crashed after it had stored the
  receipt and before it moved the journal, the same call with the same receipt finds the identical file,
  leaves it alone, moves the record to \<^verbatim>\<open>RECEIPT_PERSISTED\<close> and returns it with the digest of the receipt.
\<close>

theorem receipt_retry_completes:
  assumes "validate_own_dispatch dispatch = Inr dispatch"
    and "verify_verification_receipt H receipt (Some dispatch) = Inr doc" "verifier_json_bytes (JObj doc) = Inr encoded"
    and "load (sv_journal s) (fst (dispatch_identity dispatch)) = Inr r" "identity_of_record r = dispatch_identity dispatch"
    and "j_state r = ''CLEANUP_ACKED''" "next_record clock r ''RECEIPT_PERSISTED'' None None = Inr r'"
    and "map_of (sv_receipts s) (receipt_name (fst (dispatch_identity dispatch))) = Some (Stored m encoded)"
    and "S_ISREG (st_mode m)" "st_nlink m = 1" "st_size m = int (length encoded)"
    and "store_ok v s" "vw_read v" "int (length (sv_receipts s)) \<le> MAX_RECEIPT_STORE_ENTRIES"
  shows "\<exists>p t. persist_receipt H v clock dispatch receipt s = (Inr p, t) \<and> pr_idempotent p \<and> pr_sha256 p = sha256_hex H encoded
    \<and> pr_record p = r' \<and> j_state r' = ''RECEIPT_PERSISTED'' \<and> j_revision r' = j_revision r + 1
    \<and> load (sv_journal t) (fst (dispatch_identity dispatch)) = Inr r' \<and> sv_receipts t = sv_receipts s"
proof -
  note exact = persist_exact_again [OF assms(12-14) assms(8-11), of H]
  note next_ok = next_record_step [OF assms(7)] load_ok [OF assms(4)]
  have "journal_edge (j_state r) ''RECEIPT_PERSISTED''" unfolding assms(6) by (simp add: journal_edge_def ALLOWED_TRANSITIONS_def)
  then have "record_step r r'" by (rule next_ok(4))
  then have "j_revision r' = j_revision r + 1" "record_ok r'" "j_hash r' = j_hash r" by (auto simp: record_step_def step_hash)
  moreover have "j_state r' = ''RECEIPT_PERSISTED''" by (rule next_ok(3))
  ultimately show ?thesis
    using persist_receipt_completes [OF assms(1-7) exact refl] next_ok(6-8) by (simp add: load_store)
qed

end
