(* ===== verification/Ledger_V2.thy ===== *)
theory Ledger_V2
  imports Receipt
begin

text \<open>
  The Ed25519 ledger authority (\<^verbatim>\<open>ledger_authority_v2.py\<close>): events in signed envelopes, the hash chain over
  them, the audit-only anchor of the old ledger, and the dispatch of a verification as the head of a
  verified chain.
\<close>

section \<open>Constants\<close>

definition LEDGER_V2_SCHEMA_VERSION :: int where "LEDGER_V2_SCHEMA_VERSION = 2"
definition LEDGER_V2_PROTOCOL_ID :: string where "LEDGER_V2_PROTOCOL_ID = ''cogni-os.ledger-authority.v2''"
definition LEDGER_V2_DOMAIN :: string where "LEDGER_V2_DOMAIN = ''cogni-os.ledger-event.v2''"
definition LEDGER_V2_SIGNATURE_ALGORITHM :: string where
  "LEDGER_V2_SIGNATURE_ALGORITHM = ''ed25519-openssl-pkeyutl-raw-v1''"
definition LEDGER_V2_GENESIS_HASH :: string where "LEDGER_V2_GENESIS_HASH = replicate 64 CHR ''0''"

definition LEDGER_AUTHORITY_PRIVATE_KEY_PATH :: path where
  "LEDGER_AUTHORITY_PRIVATE_KEY_PATH = parse_path ''/etc/cogni-os/ledger-authority/ed25519-private.pem''"
definition LEDGER_AUTHORITY_PUBLIC_KEY_PATH :: path where
  "LEDGER_AUTHORITY_PUBLIC_KEY_PATH = parse_path ''/etc/cogni-os/ledger-authority/ed25519-public.pem''"
definition LEDGER_AUTHORITY_OPENSSL_SHA256_PATH :: path where
  "LEDGER_AUTHORITY_OPENSSL_SHA256_PATH = parse_path ''/etc/cogni-os/ledger-authority/openssl.sha256''"

definition MAX_LEDGER_V2_DOCUMENT_BYTES :: int where "MAX_LEDGER_V2_DOCUMENT_BYTES = 4 * 1024 * 1024"
definition MAX_LEDGER_V2_EVENTS :: int where "MAX_LEDGER_V2_EVENTS = 1000000"
definition MAX_LEGACY_SNAPSHOT_BYTES :: int where "MAX_LEGACY_SNAPSHOT_BYTES = 512 * 1024 * 1024"

definition EVENT_KEYS :: "string list" where
  "EVENT_KEYS = [''sequence'', ''ledger_id'', ''timestamp'', ''actor'', ''action'', ''task_id'', ''payload'', ''previous_hash'']"

definition ENVELOPE_KEYS :: "string list" where
  "ENVELOPE_KEYS = [''schema_version'', ''protocol_id'', ''domain'', ''kind'', ''algorithm'', ''key_id'', ''event'',
     ''event_hash'', ''signature_b64'']"

definition LEGACY_HMAC_V1_EVENT_KEYS :: "string list" where
  "LEGACY_HMAC_V1_EVENT_KEYS = [''sequence'', ''timestamp'', ''actor'', ''action'', ''task_id'', ''payload'',
     ''previous_hash'', ''event_hash'', ''signature'']"

definition SIGNED_DISPATCH_PAYLOAD_KEYS :: "string list" where
  "SIGNED_DISPATCH_PAYLOAD_KEYS = filter (\<lambda>k. k \<noteq> ''dispatch_event_hash'') DISPATCH_KEYS"

definition MIGRATION_PAYLOAD_KEYS :: "string list" where
  "MIGRATION_PAYLOAD_KEYS = [''schema_version'', ''kind'', ''legacy_scheme'', ''legacy_head_hash'', ''legacy_event_count'',
     ''legacy_snapshot_sha256'', ''legacy_snapshot_size_bytes'', ''migration_policy'', ''legacy_authoritative'']"

definition MIGRATION_ACTION :: string where "MIGRATION_ACTION = ''ledger.migration.v1-anchored''"
definition MIGRATION_POLICY :: string where "MIGRATION_POLICY = ''audit-only-no-authority-inheritance''"

definition SIGNATURE_PREIMAGE_KEYS :: "string list" where
  "SIGNATURE_PREIMAGE_KEYS = [''schema_version'', ''protocol_id'', ''domain'', ''kind'', ''algorithm'', ''key_id'',
     ''ledger_id'', ''event_hash'', ''event'']"

section \<open>Events and envelopes\<close>

definition v2_json_bytes :: "json \<Rightarrow> string res" where
  "v2_json_bytes =
     bounded_json LedgerAuthorityV2Error ''Ledger v2 document is not canonical JSON''
       ''Ledger v2 document exceeds its byte limit'' MAX_LEDGER_V2_DOCUMENT_BYTES"

definition v2_json_sha256 :: "('r) crypto_scheme \<Rightarrow> json \<Rightarrow> string res" where
  "v2_json_sha256 H v = rbind (v2_json_bytes v) (\<lambda>e. Inr (sha256_hex H e))"

definition v2_exact_object :: "json \<Rightarrow> string list \<Rightarrow> dict res" where
  "v2_exact_object v keys =
     (case v of
        JObj d \<Rightarrow>
          rbind (ensure (exact_keys d keys) LedgerAuthorityV2Error '''') (\<lambda>_.
          rbind (v2_json_bytes v) (\<lambda>_. Inr d))
      | _ \<Rightarrow> raise LedgerAuthorityV2Error '''')"

definition v2_sha256 :: "json \<Rightarrow> unit res" where
  "v2_sha256 v = ensure (is_hex v 64) LedgerAuthorityV2Error ''''"

definition v2_identifier :: "json \<Rightarrow> unit res" where
  "v2_identifier v = ensure (is_identifier v) LedgerAuthorityV2Error ''''"

definition v2_timestamp :: "('r) runtime_scheme \<Rightarrow> json \<Rightarrow> unit res" where
  "v2_timestamp R v =
     (case v of
        JStr s \<Rightarrow>
          if s = [] \<or> 64 < py_len s then raise LedgerAuthorityV2Error ''Ledger v2 timestamp is invalid''
          else (case fromisoformat R (if endswith s ''Z'' then butlast s @ ''+00:00'' else s) of
                  None \<Rightarrow> raise LedgerAuthorityV2Error ''Ledger v2 timestamp is invalid''
                | Some (Naive _) \<Rightarrow> raise LedgerAuthorityV2Error ''Ledger v2 timestamp has no timezone''
                | Some (Aware _ _) \<Rightarrow> Inr ())
      | _ \<Rightarrow> raise LedgerAuthorityV2Error ''Ledger v2 timestamp is invalid'')"

definition int_in :: "int \<Rightarrow> int \<Rightarrow> json \<Rightarrow> bool" where
  "int_in lo hi v = (case strict_int v of None \<Rightarrow> False | Some n \<Rightarrow> lo \<le> n \<and> n \<le> hi)"

definition validate_v2_event :: "('r) runtime_scheme \<Rightarrow> json \<Rightarrow> dict res" where
  "validate_v2_event R event =
     rbind (v2_exact_object event EVENT_KEYS) (\<lambda>d.
     rbind (ensure (int_in 1 MAX_LEDGER_V2_EVENTS (dget d ''sequence'')) LedgerAuthorityV2Error
              ''Ledger v2 sequence is invalid'') (\<lambda>_.
     rbind (v2_identifier (dget d ''ledger_id'')) (\<lambda>_.
     rbind (v2_timestamp R (dget d ''timestamp'')) (\<lambda>_.
     rbind (v2_identifier (dget d ''actor'')) (\<lambda>_.
     rbind (v2_identifier (dget d ''action'')) (\<lambda>_.
     rbind (if dget d ''task_id'' = JNull then Inr () else v2_identifier (dget d ''task_id'')) (\<lambda>_.
     rbind (ensure (is_dict (dget d ''payload'')) LedgerAuthorityV2Error ''Ledger v2 payload must be an object'') (\<lambda>_.
     rbind (v2_sha256 (dget d ''previous_hash'')) (\<lambda>_.
     Inr d)))))))))"

definition v2_signature :: "json \<Rightarrow> string res" where
  "v2_signature v =
     (case signature_bytes v of
        None \<Rightarrow> raise LedgerAuthorityV2Error ''Ledger v2 signature encoding is invalid''
      | Some decoded \<Rightarrow>
          rbind (ensure (length decoded = 64) LedgerAuthorityV2Error
                   ''Ledger v2 Ed25519 signature length is invalid'') (\<lambda>_. Inr decoded))"

definition validate_v2_envelope :: "('r) runtime_scheme \<Rightarrow> json \<Rightarrow> dict res" where
  "validate_v2_envelope R envelope =
     rbind (v2_exact_object envelope ENVELOPE_KEYS) (\<lambda>d.
     rbind (ensure (py_eq (dget d ''schema_version'') (JInt LEDGER_V2_SCHEMA_VERSION)
                    \<and> py_eq (dget d ''protocol_id'') (JStr LEDGER_V2_PROTOCOL_ID)
                    \<and> py_eq (dget d ''domain'') (JStr LEDGER_V2_DOMAIN) \<and> py_eq (dget d ''kind'') (JStr ''ledger-event'')
                    \<and> py_eq (dget d ''algorithm'') (JStr LEDGER_V2_SIGNATURE_ALGORITHM))
              LedgerAuthorityV2Error ''Ledger v2 envelope identity is invalid'') (\<lambda>_.
     rbind (v2_sha256 (dget d ''key_id'')) (\<lambda>_.
     rbind (validate_v2_event R (dget d ''event'')) (\<lambda>event.
     rbind (v2_json_sha256 R (JObj event)) (\<lambda>event_hash.
     rbind (ensure (py_eq (dget d ''event_hash'') (JStr event_hash)) LedgerAuthorityV2Error
              ''Ledger v2 event hash is invalid'') (\<lambda>_.
     rbind (v2_signature (dget d ''signature_b64'')) (\<lambda>_.
     Inr d)))))))"

definition decode_canonical_v2_envelope :: "('r) runtime_scheme \<Rightarrow> string \<Rightarrow> dict res" where
  "decode_canonical_v2_envelope R encoded =
     rbind (ensure (encoded \<noteq> []) LedgerAuthorityV2Error ''Ledger v2 encoded envelope is invalid'') (\<lambda>_.
     rbind (ensure (int (length encoded) \<le> MAX_LEDGER_V2_DOCUMENT_BYTES) LedgerAuthorityV2Error
              ''Ledger v2 encoded envelope exceeds its limit'') (\<lambda>_.
     rbind (case (if utf8_valid encoded then loads encoded else None) of
              None \<Rightarrow> raise LedgerAuthorityV2Error ''Ledger v2 encoded envelope is invalid''
            | Some v \<Rightarrow> Inr v) (\<lambda>document.
     rbind (v2_json_bytes document) (\<lambda>canonical.
     rbind (ensure (canonical = encoded) LedgerAuthorityV2Error ''Ledger v2 envelope bytes are not canonical'') (\<lambda>_.
     validate_v2_envelope R document)))))"

section \<open>Trust files of the ledger authority\<close>

definition ledger_root_owned_file :: "('r) trust_host_scheme \<Rightarrow> path \<Rightarrow> bool \<Rightarrow> bool \<Rightarrow> path res" where
  "ledger_root_owned_file H p private executable =
     (if \<not> os_posix H \<or> \<not> is_absolute p then raise LedgerAuthorityV2Error ''Ledger v2 trust material requires POSIX''
      else case (lstat H p, lstat_all H (path_parents p)) of
          (Some m, Some ancestors) \<Rightarrow>
            rbind (ensure (\<not> (\<not> S_ISREG (st_mode m) \<or> S_ISLNK (st_mode m) \<or> st_uid m \<noteq> 0 \<or> actor_writable m
                              \<or> list_ex (\<lambda>a. \<not> S_ISDIR (st_mode a) \<or> S_ISLNK (st_mode a) \<or> st_uid a \<noteq> 0 \<or> actor_writable a)
                                  ancestors))
                     LedgerAuthorityV2Error ''Ledger v2 trust path is not root-protected'') (\<lambda>_.
            rbind (ensure (\<not> (private \<and> S_IMODE (st_mode m) \<noteq> 0x180)) LedgerAuthorityV2Error
                     ''Ledger v2 private key must be mode 0600'') (\<lambda>_.
            rbind (ensure (\<not> (executable \<and> \<not> executable_by H p)) LedgerAuthorityV2Error
                     ''Ledger v2 OpenSSL binary is not executable'') (\<lambda>_.
            Inr p)))
        | _ \<Rightarrow> raise LedgerAuthorityV2Error ''Ledger v2 trust material is unavailable'')"

definition ledger_openssl_binding :: "('r) trust_host_scheme \<Rightarrow> path \<Rightarrow> path \<Rightarrow> (path \<times> string) res" where
  "ledger_openssl_binding H openssl_path digest_path =
     rbind (ledger_root_owned_file H openssl_path False True) (\<lambda>openssl.
     rbind (ledger_root_owned_file H digest_path False False) (\<lambda>digest.
     rbind (case read_ascii H digest of
              None \<Rightarrow> raise LedgerAuthorityV2Error ''Ledger v2 OpenSSL digest is unreadable''
            | Some t \<Rightarrow> Inr (lower (strip t))) (\<lambda>expected.
     rbind (v2_sha256 (JStr expected)) (\<lambda>_.
     rbind (sha256_file H openssl) (\<lambda>observed.
     rbind (ensure (observed = expected) LedgerAuthorityV2Error ''Ledger v2 OpenSSL binary digest mismatch'') (\<lambda>_.
     Inr (openssl, observed)))))))"

definition ledger_spki_sha256 :: "('r) trust_host_scheme \<Rightarrow> path \<Rightarrow> path \<Rightarrow> string res" where
  "ledger_spki_sha256 H public_key_path openssl_path =
     (case pkey_der H openssl_path public_key_path of
        None \<Rightarrow> raise LedgerAuthorityV2Error ''Ledger v2 public-key SPKI conversion failed''
      | Some (returncode, der) \<Rightarrow>
          rbind (ensure (\<not> (returncode \<noteq> 0 \<or> der = [] \<or> 4096 < int (length der))) LedgerAuthorityV2Error
                   ''Ledger v2 public-key SPKI is invalid'') (\<lambda>_. Inr (sha256_hex H der)))"

definition distinct_authority_spki_binding ::
  "('r) trust_host_scheme \<Rightarrow> path \<Rightarrow> path \<Rightarrow> path \<Rightarrow> path \<Rightarrow> (string \<times> string \<times> string) res" where
  "distinct_authority_spki_binding H ledger_public broker_public verifier_public openssl =
     rbind (ledger_spki_sha256 H ledger_public openssl) (\<lambda>l.
     rbind (ledger_spki_sha256 H broker_public openssl) (\<lambda>b.
     rbind (ledger_spki_sha256 H verifier_public openssl) (\<lambda>v.
     rbind (ensure (distinct [l, b, v]) LedgerAuthorityV2Error
              ''Ledger, broker, and verifier must use distinct Ed25519 SPKI keys'') (\<lambda>_.
     Inr (l, b, v)))))"

record ledger_binding =
  lb_public_key :: path
  lb_key_id :: string
  lb_openssl :: path
  lb_openssl_sha256 :: string
  lb_broker_spki :: string
  lb_verifier_spki :: string

definition trusted_ledger_verification_binding :: "('r) trust_host_scheme \<Rightarrow> ledger_binding res" where
  "trusted_ledger_verification_binding H =
     rbind (ledger_root_owned_file H LEDGER_AUTHORITY_PUBLIC_KEY_PATH False False) (\<lambda>public.
     rbind (ledger_root_owned_file H BROKER_PUBLIC_KEY_PATH False False) (\<lambda>broker.
     rbind (ledger_root_owned_file H VERIFIER_PUBLIC_KEY_PATH False False) (\<lambda>verifier.
     rbind (ledger_openssl_binding H BROKER_OPENSSL_PATH LEDGER_AUTHORITY_OPENSSL_SHA256_PATH) (\<lambda>openssl.
     rbind (distinct_authority_spki_binding H public broker verifier (fst openssl)) (\<lambda>(l, b, v).
     Inr \<lparr>lb_public_key = public, lb_key_id = l, lb_openssl = fst openssl, lb_openssl_sha256 = snd openssl,
          lb_broker_spki = b, lb_verifier_spki = v\<rparr>)))))"

definition trusted_ledger_signing_binding :: "('r) trust_host_scheme \<Rightarrow> (path \<times> ledger_binding) res" where
  "trusted_ledger_signing_binding H =
     rbind (ledger_root_owned_file H LEDGER_AUTHORITY_PRIVATE_KEY_PATH True False) (\<lambda>private.
     rbind (ledger_root_owned_file H LEDGER_AUTHORITY_PUBLIC_KEY_PATH False False) (\<lambda>public.
     rbind (ledger_root_owned_file H BROKER_PUBLIC_KEY_PATH False False) (\<lambda>broker.
     rbind (ledger_root_owned_file H VERIFIER_PUBLIC_KEY_PATH False False) (\<lambda>verifier.
     rbind (ledger_openssl_binding H BROKER_OPENSSL_PATH LEDGER_AUTHORITY_OPENSSL_SHA256_PATH) (\<lambda>openssl.
     rbind (distinct_authority_spki_binding H public broker verifier (fst openssl)) (\<lambda>(l, b, v).
     Inr (private, \<lparr>lb_public_key = public, lb_key_id = l, lb_openssl = fst openssl, lb_openssl_sha256 = snd openssl,
            lb_broker_spki = b, lb_verifier_spki = v\<rparr>)))))))"

section \<open>Signing and verifying events\<close>

definition ledger_sign :: "('r) trust_host_scheme \<Rightarrow> path \<Rightarrow> path \<Rightarrow> string \<Rightarrow> string res" where
  "ledger_sign H openssl key payload =
     (case pkeyutl_sign H openssl key payload of
        None \<Rightarrow> raise LedgerAuthorityV2Error ''Ledger v2 Ed25519 operation failed''
      | Some (returncode, signature_file) \<Rightarrow>
          rbind (ensure (returncode = 0) LedgerAuthorityV2Error ''OpenSSL refused the Ledger v2 signature'') (\<lambda>_.
          case signature_file of
            None \<Rightarrow> raise LedgerAuthorityV2Error ''Ledger v2 Ed25519 operation failed''
          | Some result \<Rightarrow>
              rbind (ensure (length result = 64) LedgerAuthorityV2Error
                       ''OpenSSL returned an invalid Ledger v2 signature'') (\<lambda>_. Inr result)))"

definition ledger_check :: "('r) trust_host_scheme \<Rightarrow> path \<Rightarrow> path \<Rightarrow> string \<Rightarrow> string \<Rightarrow> bool res" where
  "ledger_check H openssl key payload signature =
     rbind (ensure (length signature = 64) LedgerAuthorityV2Error ''Ledger v2 Ed25519 signature is invalid'') (\<lambda>_.
     case pkeyutl_verify H openssl key payload signature of
       None \<Rightarrow> raise LedgerAuthorityV2Error ''Ledger v2 Ed25519 operation failed''
     | Some returncode \<Rightarrow> Inr (returncode = 0))"

definition v2_signature_document :: "dict \<Rightarrow> json \<Rightarrow> json \<Rightarrow> dict" where
  "v2_signature_document event event_hash key_id =
     [(''schema_version'', JInt LEDGER_V2_SCHEMA_VERSION), (''protocol_id'', JStr LEDGER_V2_PROTOCOL_ID),
      (''domain'', JStr LEDGER_V2_DOMAIN), (''kind'', JStr ''ledger-event-signature''),
      (''algorithm'', JStr LEDGER_V2_SIGNATURE_ALGORITHM), (''key_id'', key_id), (''ledger_id'', dget event ''ledger_id''),
      (''event_hash'', event_hash), (''event'', JObj event)]"

definition v2_signature_bytes :: "dict \<Rightarrow> json \<Rightarrow> json \<Rightarrow> string res" where
  "v2_signature_bytes event event_hash key_id =
     rbind (v2_exact_object (JObj (v2_signature_document event event_hash key_id)) SIGNATURE_PREIMAGE_KEYS) (\<lambda>payload.
     v2_json_bytes (JObj payload))"

definition v2_envelope_document :: "string \<Rightarrow> dict \<Rightarrow> string \<Rightarrow> string \<Rightarrow> dict" where
  "v2_envelope_document key_id event event_hash signature =
     [(''schema_version'', JInt LEDGER_V2_SCHEMA_VERSION), (''protocol_id'', JStr LEDGER_V2_PROTOCOL_ID),
      (''domain'', JStr LEDGER_V2_DOMAIN), (''kind'', JStr ''ledger-event''),
      (''algorithm'', JStr LEDGER_V2_SIGNATURE_ALGORITHM), (''key_id'', JStr key_id), (''event'', JObj event),
      (''event_hash'', JStr event_hash), (''signature_b64'', JStr (std_b64encode signature))]"

definition sign_v2_event :: "('r) trust_host_scheme \<Rightarrow> dict \<Rightarrow> dict res" where
  "sign_v2_event H event =
     rbind (validate_v2_event H (JObj event)) (\<lambda>d.
     rbind (v2_json_sha256 H (JObj d)) (\<lambda>event_hash.
     rbind (trusted_ledger_signing_binding H) (\<lambda>(private_key, binding).
     rbind (v2_sha256 (JStr (lb_key_id binding))) (\<lambda>_.
     rbind (v2_signature_bytes d (JStr event_hash) (JStr (lb_key_id binding))) (\<lambda>payload.
     rbind (ledger_sign H (lb_openssl binding) private_key payload) (\<lambda>signature.
     let envelope = v2_envelope_document (lb_key_id binding) d event_hash signature in
     rbind (validate_v2_envelope H (JObj envelope)) (\<lambda>_.
     rbind (v2_signature_bytes d (JStr event_hash) (JStr (lb_key_id binding))) (\<lambda>payload.
     rbind (ledger_check H (lb_openssl binding) (lb_public_key binding) payload signature) (\<lambda>verified.
     rbind (ensure verified LedgerAuthorityV2Error ''Ledger v2 public/private key pair does not match'') (\<lambda>_.
     Inr envelope))))))))))"

definition event_of :: "dict \<Rightarrow> dict" where
  "event_of envelope = (case dget envelope ''event'' of JObj e \<Rightarrow> e | _ \<Rightarrow> [])"

definition verify_v2_event :: "('r) trust_host_scheme \<Rightarrow> json \<Rightarrow> dict res" where
  "verify_v2_event H envelope =
     rbind (validate_v2_envelope H envelope) (\<lambda>d.
     rbind (trusted_ledger_verification_binding H) (\<lambda>binding.
     rbind (v2_sha256 (JStr (lb_key_id binding))) (\<lambda>_.
     rbind (ensure (py_eq (dget d ''key_id'') (JStr (lb_key_id binding))) LedgerAuthorityV2Error
              ''Ledger v2 envelope names another public key'') (\<lambda>_.
     rbind (v2_signature (dget d ''signature_b64'')) (\<lambda>signature.
     rbind (v2_signature_bytes (event_of d) (dget d ''event_hash'') (dget d ''key_id'')) (\<lambda>payload.
     rbind (ledger_check H (lb_openssl binding) (lb_public_key binding) payload signature) (\<lambda>verified.
     rbind (ensure verified LedgerAuthorityV2Error ''Ledger v2 detached signature is invalid'') (\<lambda>_.
     Inr d))))))))"

section \<open>The chain\<close>

definition build_v1_migration_anchor_payload :: "json \<Rightarrow> json \<Rightarrow> json \<Rightarrow> json \<Rightarrow> dict res" where
  "build_v1_migration_anchor_payload head_hash event_count snapshot_sha256 snapshot_size =
     rbind (v2_sha256 head_hash) (\<lambda>_.
     rbind (v2_sha256 snapshot_sha256) (\<lambda>_.
     rbind (ensure (int_in 0 MAX_LEDGER_V2_EVENTS event_count) LedgerAuthorityV2Error
              ''legacy_event_count is invalid'') (\<lambda>_.
     rbind (ensure (int_in 0 MAX_LEGACY_SNAPSHOT_BYTES snapshot_size) LedgerAuthorityV2Error
              ''legacy_snapshot_size_bytes is invalid'') (\<lambda>_.
     Inr [(''schema_version'', JInt 1), (''kind'', JStr ''ledger-v1-migration-anchor''),
          (''legacy_scheme'', JStr ''cogni-os.ledger-hmac.v1''), (''legacy_head_hash'', head_hash),
          (''legacy_event_count'', event_count), (''legacy_snapshot_sha256'', snapshot_sha256),
          (''legacy_snapshot_size_bytes'', snapshot_size), (''migration_policy'', JStr MIGRATION_POLICY),
          (''legacy_authoritative'', JBool False)]))))"

definition validate_migration_event :: "dict \<Rightarrow> dict res" where
  "validate_migration_event envelope =
     (let event = event_of envelope in
      rbind (v2_exact_object (dget event ''payload'') MIGRATION_PAYLOAD_KEYS) (\<lambda>payload.
      rbind (build_v1_migration_anchor_payload (dget payload ''legacy_head_hash'') (dget payload ''legacy_event_count'')
               (dget payload ''legacy_snapshot_sha256'') (dget payload ''legacy_snapshot_size_bytes'')) (\<lambda>expected.
      rbind (ensure (py_eq (dget event ''sequence'') (JInt 1)
                     \<and> py_eq (dget event ''previous_hash'') (JStr LEDGER_V2_GENESIS_HASH)
                     \<and> py_eq (dget event ''action'') (JStr MIGRATION_ACTION) \<and> dget event ''task_id'' = JNull
                     \<and> py_eq (JObj payload) (JObj expected))
               LedgerAuthorityV2Error ''Ledger v1 migration boundary is invalid'') (\<lambda>_.
      Inr payload))))"

definition verify_v1_migration_anchor :: "('r) trust_host_scheme \<Rightarrow> json \<Rightarrow> dict res" where
  "verify_v1_migration_anchor H envelope = rbind (verify_v2_event H envelope) validate_migration_event"

record chain_state =
  cs_previous :: json
  cs_migrated :: bool
  cs_ledger_id :: json

definition v2_chain_step :: "('r) trust_host_scheme \<Rightarrow> int \<Rightarrow> json \<Rightarrow> chain_state \<Rightarrow> chain_state res" where
  "v2_chain_step H expected_sequence envelope st =
     rbind (verify_v2_event H envelope) (\<lambda>d.
     let event = event_of d in
     rbind (ensure (py_eq (dget event ''sequence'') (JInt expected_sequence)) LedgerAuthorityV2Error
              ''Ledger v2 chain sequence is invalid'') (\<lambda>_.
     rbind (ensure (py_eq (dget event ''previous_hash'') (cs_previous st)) LedgerAuthorityV2Error
              ''Ledger v2 chain link is invalid'') (\<lambda>_.
     rbind (ensure (cs_ledger_id st = JNull \<or> py_eq (dget event ''ledger_id'') (cs_ledger_id st)) LedgerAuthorityV2Error
              ''Ledger v2 chain ledger_id changed'') (\<lambda>_.
     let st = (if cs_ledger_id st = JNull then st\<lparr>cs_ledger_id := dget event ''ledger_id''\<rparr> else st) in
     rbind (if py_eq (dget event ''action'') (JStr MIGRATION_ACTION) then
              rbind (ensure (expected_sequence = 1) LedgerAuthorityV2Error
                       ''Ledger v1 migration anchor must be the first v2 event'') (\<lambda>_.
              rbind (validate_migration_event d) (\<lambda>_. Inr (st\<lparr>cs_migrated := True\<rparr>)))
            else Inr st) (\<lambda>st.
     Inr (st\<lparr>cs_previous := dget d ''event_hash''\<rparr>))))))"

fun v2_chain_from :: "('r) trust_host_scheme \<Rightarrow> int \<Rightarrow> json list \<Rightarrow> chain_state \<Rightarrow> chain_state res" where
  "v2_chain_from H i [] st = Inr st"
| "v2_chain_from H i (e # es) st = rbind (v2_chain_step H i e st) (v2_chain_from H (i + 1) es)"

definition is_legacy_event :: "json \<Rightarrow> bool" where
  "is_legacy_event v = (case v of JObj d \<Rightarrow> exact_keys d LEGACY_HMAC_V1_EVENT_KEYS | _ \<Rightarrow> False)"

definition verify_v2_chain :: "('r) trust_host_scheme \<Rightarrow> json list \<Rightarrow> dict res" where
  "verify_v2_chain H envelopes =
     rbind (ensure (int (length envelopes) \<le> MAX_LEDGER_V2_EVENTS) LedgerAuthorityV2Error
              ''Ledger v2 chain exceeds its event limit'') (\<lambda>_.
     rbind (ensure (\<not> list_ex is_legacy_event envelopes) LedgerAuthorityV2Error
              ''HMAC v1 and Ed25519 v2 events must not be mixed'') (\<lambda>_.
     rbind (v2_chain_from H 1 envelopes
              \<lparr>cs_previous = JStr LEDGER_V2_GENESIS_HASH, cs_migrated = False, cs_ledger_id = JNull\<rparr>) (\<lambda>st.
     Inr [(''valid'', JBool True), (''scheme'', JStr LEDGER_V2_DOMAIN), (''events'', JInt (int (length envelopes))),
          (''head'', cs_previous st), (''ledger_id'', cs_ledger_id st),
          (''migrated_from_v1_audit_only'', JBool (cs_migrated st)), (''release_ready'', JBool False)])))"

section \<open>Signed dispatches\<close>

definition dispatch_bound :: "dict \<Rightarrow> dict \<Rightarrow> bool" where
  "dispatch_bound event payload \<longleftrightarrow>
     py_eq (dget event ''task_id'') (dget payload ''task_id'') \<and> py_eq (dget event ''actor'') (dget payload ''actor'')
     \<and> py_eq (dget event ''ledger_id'') (dget payload ''workspace_id'')
     \<and> py_eq (dget payload ''ledger_domain'') (JStr LEDGER_V2_DOMAIN)
     \<and> py_eq (dget payload ''ledger_head_hash'') (dget event ''previous_hash'')"

definition reread :: "json \<Rightarrow> json res" where
  "reread v = rbind (v2_json_bytes v) (\<lambda>e. case loads e of None \<Rightarrow> raise ValueError [] | Some w \<Rightarrow> Inr w)"

definition verify_signed_dispatch :: "('r) trust_host_scheme \<Rightarrow> json list \<Rightarrow> json \<Rightarrow> int \<Rightarrow> dict res" where
  "verify_signed_dispatch H full_chain dispatch_event_hash now =
     rbind (v2_sha256 dispatch_event_hash) (\<lambda>_.
     rbind (ensure (full_chain \<noteq> []) LedgerAuthorityV2Error ''Signed dispatch requires a non-empty full chain'') (\<lambda>_.
     rbind (rmap reread full_chain) (\<lambda>chain_snapshot.
     rbind (verify_v2_chain H chain_snapshot) (\<lambda>chain.
     rbind (ensure (py_eq (dget chain ''head'') dispatch_event_hash) LedgerAuthorityV2Error
              ''Signed dispatch is not the current full-chain head'') (\<lambda>_.
     rbind (verify_v2_event H (last chain_snapshot)) (\<lambda>d.
     rbind (ensure (py_eq (dget (event_of d) ''action'') (JStr ''verification.requested'')
                    \<and> py_eq (dget d ''event_hash'') dispatch_event_hash)
              LedgerAuthorityV2Error ''Signed dispatch head event is invalid'') (\<lambda>_.
     rbind (v2_exact_object (dget (event_of d) ''payload'') SIGNED_DISPATCH_PAYLOAD_KEYS) (\<lambda>payload.
     rbind (ensure (dispatch_bound (event_of d) payload) LedgerAuthorityV2Error
              ''Signed dispatch event binding is invalid'') (\<lambda>_.
     catch_all (validate_dispatch (JObj (dput ''dispatch_event_hash'' (dget d ''event_hash'') payload)) now)
       (raise LedgerAuthorityV2Error ''Signed dispatch contract is invalid''))))))))))"

definition ledger_authority_v2_assurance :: dict where
  "ledger_authority_v2_assurance =
     [(''scope'', JStr ''bounded-ed25519-v2-schema-and-verification-api-only''), (''domain'', JStr LEDGER_V2_DOMAIN),
      (''release_ready'', JBool False), (''legacy_ledger'', JStr ''hmac-sha256-v1-separate-unmodified''),
      (''migration'', JStr MIGRATION_POLICY),
      (''release_blockers'', JArr (map JStr
        [''legacy_workspace_ledger_remains_hmac_v1'', ''ledger_authority_append_daemon_not_deployed'',
         ''ledger_authority_key_rotation_registry_not_implemented'', ''durable_bounded_v2_log_checkpoint_not_implemented'',
         ''v1_to_v2_migration_not_executed'', ''legacy_bounded_byte_validation_not_implemented'',
         ''workspace_projection_release_gate_not_v2_integrated'',
         ''current_task_terminal_supersession_projection_not_integrated'',
         ''ubuntu_root_key_install_and_ed25519_e2e_unverified'']))]"

end
