(* ===== verification/Ledger_V2_Safety.thy ===== *)
theory Ledger_V2_Safety
  imports Ledger_V2
begin

text \<open>
  What the verifying functions of the ledger authority establish: an accepted event is signed, the
  head of an accepted chain determines the chain, and an accepted dispatch is the signed request at the
  head of the chain.
\<close>

section \<open>Envelopes\<close>

lemma v2_exact_object_Inr: "v2_exact_object v ks = Inr d \<longleftrightarrow> v = JObj d \<and> exact_keys d ks \<and> (\<exists>e. v2_json_bytes v = Inr e)"
  by (cases v) (auto simp: v2_exact_object_def)

lemma v2_json_bytes_Inr: "v2_json_bytes v = Inr e \<Longrightarrow> e = canonical_json v"
  by (simp add: v2_json_bytes_def bounded_json_eq_Inr)

lemma v2_json_sha256_Inr: "v2_json_sha256 H v = Inr h \<Longrightarrow> h = sha256_hex H (canonical_json v)"
  by (auto simp: v2_json_sha256_def dest: v2_json_bytes_Inr)

lemma is_hex_str: "is_hex v n \<Longrightarrow> \<exists>s. v = JStr s \<and> fullmatch_hex n s"
  by (cases v) (auto simp: is_hex_def)

lemma is_identifier_str: "is_identifier v \<Longrightarrow> \<exists>s. v = JStr s \<and> s \<noteq> []"
  by (cases v) (auto simp: is_identifier_def fullmatch_head_rest_def split: list.splits)

lemma validate_v2_event_Inr:
  assumes "validate_v2_event R v = Inr e"
  shows "v = JObj e" "\<exists>n. dget e ''sequence'' = JInt n" "\<exists>s. dget e ''previous_hash'' = JStr s"
    "\<exists>s. dget e ''ledger_id'' = JStr s" "\<exists>s. dget e ''action'' = JStr s"
proof -
  have "v2_exact_object v EVENT_KEYS = Inr e \<and> int_in 1 MAX_LEDGER_V2_EVENTS (dget e ''sequence'')
      \<and> is_hex (dget e ''previous_hash'') 64 \<and> is_identifier (dget e ''ledger_id'') \<and> is_identifier (dget e ''action'')"
    using assms unfolding validate_v2_event_def rbind_eq_Inr ensure_eq_Inr v2_sha256_def v2_identifier_def
    by (elim exE conjE) simp
  then show "v = JObj e" "\<exists>n. dget e ''sequence'' = JInt n" "\<exists>s. dget e ''previous_hash'' = JStr s"
    "\<exists>s. dget e ''ledger_id'' = JStr s" "\<exists>s. dget e ''action'' = JStr s"
    by (auto simp: v2_exact_object_Inr int_in_def dest: is_hex_str is_identifier_str split: option.splits)
qed

definition hash_of :: "('r) crypto_scheme \<Rightarrow> dict \<Rightarrow> string" where
  "hash_of H d = sha256_hex H (canonical_json (JObj (event_of d)))"

lemma validate_v2_envelope_Inr:
  assumes "validate_v2_envelope R v = Inr d"
  shows "v = JObj d" "dget d ''event'' = JObj (event_of d)" "validate_v2_event R (JObj (event_of d)) = Inr (event_of d)"
    "dget d ''event_hash'' = JStr (hash_of R d)"
proof -
  obtain e h where d: "v2_exact_object v ENVELOPE_KEYS = Inr d" "validate_v2_event R (dget d ''event'') = Inr e"
      "v2_json_sha256 R (JObj e) = Inr h" "dget d ''event_hash'' = JStr h"
    using assms unfolding validate_v2_envelope_def rbind_eq_Inr ensure_eq_Inr py_eq_str by (elim exE conjE) simp
  have e: "dget d ''event'' = JObj e" using validate_v2_event_Inr(1) [OF d(2)] .
  then have "event_of d = e" by (simp add: event_of_def)
  with d e show "v = JObj d" "dget d ''event'' = JObj (event_of d)"
    "validate_v2_event R (JObj (event_of d)) = Inr (event_of d)" "dget d ''event_hash'' = JStr (hash_of R d)"
    by (auto simp: v2_exact_object_Inr hash_of_def dest: v2_json_sha256_Inr)
qed

section \<open>Trust files\<close>

lemma ledger_root_owned_eq:
  "(\<exists>q. ledger_root_owned_file H p False x = Inr q) \<longleftrightarrow> (\<exists>q. receipt_root_owned_file H p False x = Inr q)"
  by (auto simp: ledger_root_owned_file_def receipt_root_owned_file_def list_ex_iff split: option.splits)

lemma ledger_root_owned_same: "ledger_root_owned_file H p private x = Inr q \<Longrightarrow> q = p"
  by (auto simp: ledger_root_owned_file_def split: if_splits option.splits)

lemma ledger_root_owned_sound:
  assumes "ledger_root_owned_file H p private x = Inr q"
  shows "root_protected H p"
proof -
  have "\<exists>q. ledger_root_owned_file H p False x = Inr q"
    using assms by (auto simp: ledger_root_owned_file_def split: if_splits option.splits)
  then show ?thesis using ledger_root_owned_eq receipt_root_owned_sound(2) by blast
qed

lemma ledger_root_owned_complete: "root_protected H p \<Longrightarrow> ledger_root_owned_file H p False False = Inr p"
  using ledger_root_owned_eq [of H p False] receipt_root_owned_complete [of H p] ledger_root_owned_same by fastforce

lemma owner_mode_bits:
  fixes m :: mode
  assumes "m AND 0x0FFF = 0x180"
  shows "m AND 0x24 = 0"
proof -
  have "m AND 0x24 = (m AND 0x0FFF) AND 0x24" by (simp add: and.assoc)
  then show ?thesis using assms by simp
qed

lemma others_read_bits:
  fixes m :: mode
  assumes "m AND 0x24 = 0"
  shows "m AND 0x04 = 0"
proof -
  have "m AND 0x04 = (m AND 0x24) AND 0x04" by (simp add: and.assoc)
  then show ?thesis using assms by simp
qed

lemma private_file:
  assumes "root_protected H p"
  shows "\<exists>m. lstat H p = Some m
    \<and> (ledger_root_owned_file H p True False = Inr p \<longleftrightarrow> S_IMODE (st_mode m) = 0x180)
    \<and> (require_posix_root_owned H p True = Inr p \<longleftrightarrow> st_mode m AND (S_IRGRP OR S_IROTH) = 0)
    \<and> (receipt_root_owned_file H p True False = Inr p \<longleftrightarrow> st_mode m AND S_IROTH = 0)"
  using ledger_root_owned_complete [OF assms] require_posix_root_owned_complete [OF assms] receipt_root_owned_complete [OF assms]
  by (auto simp: ledger_root_owned_file_def require_posix_root_owned_def receipt_root_owned_file_def
      split: if_splits option.splits)

text \<open>
  Property C16: the three modules agree on which files are trustworthy. On a host where paths resolve
  through directories, the checks of the snapshot broker, the verifier and the ledger authority, which are
  written separately and differently, accept the same files that are not private keys: those that
  are regular files and, like every directory above them, belong to root and are writable by root
  alone. For private keys the ledger authority is the strictest and the verifier the most lenient: a
  key that the ledger accepts the broker would accept, and one that the broker accepts the verifier
  would accept.
\<close>

theorem trust_checks_agree:
  assumes "lstat_resolves H"
  shows "(require_posix_root_owned H p False = Inr p \<longleftrightarrow> root_protected H p)
    \<and> (receipt_root_owned_file H p False False = Inr p \<longleftrightarrow> root_protected H p)
    \<and> (ledger_root_owned_file H p False False = Inr p \<longleftrightarrow> root_protected H p)
    \<and> (ledger_root_owned_file H p True False = Inr p \<longrightarrow> require_posix_root_owned H p True = Inr p)
    \<and> (require_posix_root_owned H p True = Inr p \<longrightarrow> receipt_root_owned_file H p True False = Inr p)"
proof -
  have weaker: "require_posix_root_owned H p True = Inr p \<Longrightarrow> require_posix_root_owned H p False = Inr p"
    by (auto simp: require_posix_root_owned_def split: if_splits option.splits)
  have "root_protected H p \<Longrightarrow>
      (ledger_root_owned_file H p True False = Inr p \<longrightarrow> require_posix_root_owned H p True = Inr p)
      \<and> (require_posix_root_owned H p True = Inr p \<longrightarrow> receipt_root_owned_file H p True False = Inr p)"
    using private_file [of H p] owner_mode_bits others_read_bits by (auto simp: S_IMODE_def S_IRGRP_def S_IROTH_def)
  then show ?thesis
    using root_owned_iff_protected [OF assms, of p] receipt_root_owned_sound(2) receipt_root_owned_complete
      ledger_root_owned_sound ledger_root_owned_complete weaker by blast
qed

section \<open>Signed events\<close>

text \<open>A message that the public key of the ledger authority accepts.\<close>

definition ledger_signed :: "('r) trust_host_scheme \<Rightarrow> string \<Rightarrow> bool" where
  "ledger_signed H m \<longleftrightarrow>
     (\<exists>s. length s = 64 \<and> pkeyutl_verify H BROKER_OPENSSL_PATH LEDGER_AUTHORITY_PUBLIC_KEY_PATH m s = Some 0)"

lemma ledger_openssl_path: "ledger_openssl_binding H p d = Inr r \<Longrightarrow> fst r = p \<and> root_protected H p"
  by (auto simp: ledger_openssl_binding_def dest: ledger_root_owned_same ledger_root_owned_sound)

lemma ledger_spki_Inr:
  "ledger_spki_sha256 H key openssl = Inr h \<longleftrightarrow>
     (\<exists>der. pkey_der H openssl key = Some (0, der) \<and> der \<noteq> [] \<and> int (length der) \<le> 4096 \<and> h = sha256_hex H der)"
  by (cases "pkey_der H openssl key") (auto simp: ledger_spki_sha256_def)

lemma ledger_binding_Inr:
  assumes "trusted_ledger_verification_binding H = Inr b"
  shows "lb_public_key b = LEDGER_AUTHORITY_PUBLIC_KEY_PATH" "lb_openssl b = BROKER_OPENSSL_PATH"
    "root_protected H LEDGER_AUTHORITY_PUBLIC_KEY_PATH"
    "distinct_keys H BROKER_OPENSSL_PATH LEDGER_AUTHORITY_PUBLIC_KEY_PATH BROKER_PUBLIC_KEY_PATH"
    "distinct_keys H BROKER_OPENSSL_PATH LEDGER_AUTHORITY_PUBLIC_KEY_PATH VERIFIER_PUBLIC_KEY_PATH"
    "\<exists>der. pkey_der H BROKER_OPENSSL_PATH LEDGER_AUTHORITY_PUBLIC_KEY_PATH = Some (0, der) \<and> lb_key_id b = sha256_hex H der"
proof -
  obtain public broker verifier openssl l br v
    where p: "ledger_root_owned_file H LEDGER_AUTHORITY_PUBLIC_KEY_PATH False False = Inr public"
      and p': "ledger_root_owned_file H BROKER_PUBLIC_KEY_PATH False False = Inr broker"
      and p'': "ledger_root_owned_file H VERIFIER_PUBLIC_KEY_PATH False False = Inr verifier"
      and o: "ledger_openssl_binding H BROKER_OPENSSL_PATH LEDGER_AUTHORITY_OPENSSL_SHA256_PATH = Inr openssl"
      and k: "distinct_authority_spki_binding H public broker verifier (fst openssl) = Inr (l, br, v)"
      and b: "lb_public_key b = public" "lb_openssl b = fst openssl" "lb_key_id b = l"
    using assms by (auto simp: trusted_ledger_verification_binding_def)
  note paths = ledger_root_owned_same [OF p] ledger_root_owned_same [OF p'] ledger_root_owned_same [OF p'']
    ledger_openssl_path [OF o]
  show "lb_public_key b = LEDGER_AUTHORITY_PUBLIC_KEY_PATH" "lb_openssl b = BROKER_OPENSSL_PATH" using b paths by simp_all
  show "root_protected H LEDGER_AUTHORITY_PUBLIC_KEY_PATH" using ledger_root_owned_sound [OF p] .
  show "distinct_keys H BROKER_OPENSSL_PATH LEDGER_AUTHORITY_PUBLIC_KEY_PATH BROKER_PUBLIC_KEY_PATH"
    "distinct_keys H BROKER_OPENSSL_PATH LEDGER_AUTHORITY_PUBLIC_KEY_PATH VERIFIER_PUBLIC_KEY_PATH"
    "\<exists>der. pkey_der H BROKER_OPENSSL_PATH LEDGER_AUTHORITY_PUBLIC_KEY_PATH = Some (0, der) \<and> lb_key_id b = sha256_hex H der"
    using k paths b(3) by (auto simp: distinct_authority_spki_binding_def ledger_spki_Inr distinct_keys_def)
qed

lemma ledger_check_True: "ledger_check H openssl key m s = Inr True \<longleftrightarrow>
    length s = 64 \<and> pkeyutl_verify H openssl key m s = Some 0"
  by (cases "pkeyutl_verify H openssl key m s") (auto simp: ledger_check_def)

definition event_signed_v2 :: "('r) trust_host_scheme \<Rightarrow> dict \<Rightarrow> bool" where
  "event_signed_v2 H d \<longleftrightarrow>
     (\<exists>key_id. ledger_signed H (canonical_json (JObj (v2_signature_document (event_of d) (JStr (hash_of H d)) (JStr key_id)))))"

lemma verify_v2_event_sound:
  assumes "verify_v2_event H v = Inr d"
  shows "validate_v2_envelope H v = Inr d" "event_signed_v2 H d" "root_protected H LEDGER_AUTHORITY_PUBLIC_KEY_PATH"
    "distinct_keys H BROKER_OPENSSL_PATH LEDGER_AUTHORITY_PUBLIC_KEY_PATH BROKER_PUBLIC_KEY_PATH"
    "distinct_keys H BROKER_OPENSSL_PATH LEDGER_AUTHORITY_PUBLIC_KEY_PATH VERIFIER_PUBLIC_KEY_PATH"
proof -
  obtain b s m where d: "validate_v2_envelope H v = Inr d" and b: "trusted_ledger_verification_binding H = Inr b"
    and key: "dget d ''key_id'' = JStr (lb_key_id b)"
    and m: "v2_signature_bytes (event_of d) (dget d ''event_hash'') (dget d ''key_id'') = Inr m"
      "ledger_check H (lb_openssl b) (lb_public_key b) m s = Inr True"
    using assms unfolding verify_v2_event_def rbind_eq_Inr ensure_eq_Inr py_eq_str by (elim exE conjE) simp
  note bind = ledger_binding_Inr [OF b]
  show "validate_v2_envelope H v = Inr d" by (rule d)
  show "root_protected H LEDGER_AUTHORITY_PUBLIC_KEY_PATH"
    "distinct_keys H BROKER_OPENSSL_PATH LEDGER_AUTHORITY_PUBLIC_KEY_PATH BROKER_PUBLIC_KEY_PATH"
    "distinct_keys H BROKER_OPENSSL_PATH LEDGER_AUTHORITY_PUBLIC_KEY_PATH VERIFIER_PUBLIC_KEY_PATH" by (fact bind)+
  have "m = canonical_json (JObj (v2_signature_document (event_of d) (JStr (hash_of H d)) (JStr (lb_key_id b))))"
    using m(1) validate_v2_envelope_Inr(4) [OF d] key
    by (auto simp: v2_signature_bytes_def v2_exact_object_Inr dest: v2_json_bytes_Inr)
  then show "event_signed_v2 H d"
    using m(2) bind(1,2) by (auto simp: event_signed_v2_def ledger_signed_def ledger_check_True)
qed

section \<open>The chain of signed events\<close>

definition v2_text :: "dict \<Rightarrow> string" where
  "v2_text d = canonical_json (JObj (event_of d))"

definition v2_prev :: "dict \<Rightarrow> string" where
  "v2_prev d = (case dget (event_of d) ''previous_hash'' of JStr s \<Rightarrow> s | _ \<Rightarrow> [])"

definition v2_pos :: "dict \<Rightarrow> int" where
  "v2_pos d = int_value (dget (event_of d) ''sequence'')"

lemma hash_v2_text: "sha256_hex H (v2_text d) = hash_of H d"
  by (simp add: v2_text_def hash_of_def)

lemma sort_keys_scalar: "(case sort_keys v of JStr s \<Rightarrow> s | _ \<Rightarrow> []) = (case v of JStr s \<Rightarrow> s | _ \<Rightarrow> [])"
  "int_value (sort_keys v) = int_value v"
  by (cases v; simp add: int_value_def)+

lemma v2_text_field:
  assumes "wf_json (JObj (event_of d))" "wf_json (JObj (event_of d'))" "v2_text d = v2_text d'"
  shows "sort_keys (dget (event_of d) k) = sort_keys (dget (event_of d') k)"
proof -
  have "JObj (sorted_dict (event_of d)) = JObj (sorted_dict (event_of d'))"
    using canonical_json_eq_iff [OF assms(1,2)] assms(3) by (simp add: v2_text_def sorted_dict_def)
  then show ?thesis using dget_sorted_dict assms(1,2) by (metis json.inject(6) wf_json_JObj)
qed

interpretation v2_chain: hash_chain
  hash v2_text v2_prev v2_pos "\<lambda>d. wf_json (JObj (event_of d))" LEDGER_V2_GENESIS_HASH for hash :: "string \<Rightarrow> string"
proof
  fix d d' :: dict
  assume wf: "wf_json (JObj (event_of d))" "wf_json (JObj (event_of d'))" and eq: "v2_text d = v2_text d'"
  show "v2_prev d = v2_prev d'" unfolding v2_prev_def using v2_text_field [OF wf eq] sort_keys_scalar(1) by metis
  show "v2_pos d = v2_pos d'" unfolding v2_pos_def using v2_text_field [OF wf eq] sort_keys_scalar(2) by metis
qed

text \<open>What one round of the loop checks.\<close>

lemma v2_chain_step_Inr:
  assumes "v2_chain_step H i v st = Inr st'" "cs_previous st = JStr p"
  shows "\<exists>d. verify_v2_event H v = Inr d \<and> v = JObj d \<and> v2_pos d = i \<and> v2_prev d = p \<and> cs_previous st' = JStr (hash_of H d)
    \<and> (cs_ledger_id st \<noteq> JNull \<longrightarrow> cs_ledger_id st' = cs_ledger_id st)
    \<and> cs_ledger_id st' = dget (event_of d) ''ledger_id''
    \<and> (dget (event_of d) ''action'' = JStr MIGRATION_ACTION \<longrightarrow> i = 1 \<and> (\<exists>x. validate_migration_event d = Inr x))"
proof -
  obtain d where d: "verify_v2_event H v = Inr d" using assms(1) by (auto simp: v2_chain_step_def)
  note env = validate_v2_envelope_Inr [OF verify_v2_event_sound(1) [OF d]]
  obtain n s l where e: "dget (event_of d) ''sequence'' = JInt n" "dget (event_of d) ''previous_hash'' = JStr s"
      "dget (event_of d) ''ledger_id'' = JStr l"
    using validate_v2_event_Inr(2-4) [OF env(3)] by blast
  have "n = i" "s = p" "cs_ledger_id st = JNull \<or> JStr l = cs_ledger_id st"
    using assms d e by (auto simp: v2_chain_step_def Let_def)
  moreover have "cs_previous st' = dget d ''event_hash''" "cs_ledger_id st' = JStr l"
    "dget (event_of d) ''action'' = JStr MIGRATION_ACTION \<longrightarrow> i = 1 \<and> (\<exists>x. validate_migration_event d = Inr x)"
    using assms d e by (auto simp: v2_chain_step_def Let_def split: if_splits)
  ultimately show ?thesis using d e env(1,4) by (auto simp: v2_pos_def v2_prev_def)
qed

text \<open>
  A chain of verified events: consecutive sequence numbers, each event linked to the hash of the one
  before, one ledger, all signed, and a migration anchor only as the first.
\<close>

definition sound_event :: "('r) trust_host_scheme \<Rightarrow> json \<Rightarrow> dict \<Rightarrow> bool" where
  "sound_event H ledger_id d \<longleftrightarrow>
     event_signed_v2 H d \<and> dget (event_of d) ''ledger_id'' = ledger_id \<and> dget d ''event_hash'' = JStr (hash_of H d)
     \<and> (dget (event_of d) ''action'' = JStr MIGRATION_ACTION \<longrightarrow> v2_pos d = 1 \<and> (\<exists>x. validate_migration_event d = Inr x))"

lemma v2_chain_from_Inr:
  assumes "v2_chain_from H i vs st = Inr st'" "cs_previous st = JStr p"
  shows "\<exists>ds. vs = map JObj ds \<and> (\<forall>k < length ds. v2_pos (ds ! k) = i + int k)
    \<and> (\<forall>k < length ds. v2_prev (ds ! k) = (if k = 0 then p else hash_of H (ds ! (k - 1))))
    \<and> (\<forall>d\<in>set ds. sound_event H (cs_ledger_id st') d)
    \<and> cs_previous st' = JStr (if ds = [] then p else hash_of H (last ds))
    \<and> (cs_ledger_id st \<noteq> JNull \<longrightarrow> cs_ledger_id st' = cs_ledger_id st)"
  using assms
proof (induction vs arbitrary: i st p)
  case (Cons v vs)
  then obtain st1 where st1: "v2_chain_step H i v st = Inr st1" "v2_chain_from H (i + 1) vs st1 = Inr st'" by auto
  obtain d where d: "verify_v2_event H v = Inr d" "v = JObj d" "v2_pos d = i" "v2_prev d = p"
      "cs_previous st1 = JStr (hash_of H d)" "cs_ledger_id st \<noteq> JNull \<longrightarrow> cs_ledger_id st1 = cs_ledger_id st"
      "cs_ledger_id st1 = dget (event_of d) ''ledger_id''"
      "dget (event_of d) ''action'' = JStr MIGRATION_ACTION \<longrightarrow> i = 1 \<and> (\<exists>x. validate_migration_event d = Inr x)"
    using v2_chain_step_Inr [OF st1(1) Cons.prems(2)] by blast
  note env = validate_v2_envelope_Inr [OF verify_v2_event_sound(1) [OF d(1)]]
  have "cs_ledger_id st1 \<noteq> JNull" using d(7) validate_v2_event_Inr(4) [OF env(3)] by auto
  with Cons.IH [OF st1(2) d(5)] obtain ds where ds: "vs = map JObj ds"
      "\<forall>k < length ds. v2_pos (ds ! k) = i + 1 + int k"
      "\<forall>k < length ds. v2_prev (ds ! k) = (if k = 0 then hash_of H d else hash_of H (ds ! (k - 1)))"
      "\<forall>d\<in>set ds. sound_event H (cs_ledger_id st') d"
      "cs_previous st' = JStr (if ds = [] then hash_of H d else hash_of H (last ds))" "cs_ledger_id st' = cs_ledger_id st1"
    by auto
  have "sound_event H (cs_ledger_id st') d"
    using verify_v2_event_sound(2) [OF d(1)] env(4) d(3,7,8) ds(6) by (auto simp: sound_event_def)
  moreover have "v2_pos ((d # ds) ! k) = i + int k" "v2_prev ((d # ds) ! k) = (if k = 0 then p else hash_of H ((d # ds) ! (k - 1)))"
    if "k < length (d # ds)" for k
    using that d(3,4) ds(2,3) by (cases k; auto simp: nth_Cons')+
  ultimately show ?case using ds d(2,6) by (intro exI [of _ "d # ds"]) auto
qed simp

text \<open>The same as the chain of the general theory, for documents with distinct keys.\<close>

lemma v2_links_chain:
  assumes "\<forall>k < length ds. v2_pos (ds ! k) = i + int k"
    "\<forall>k < length ds. v2_prev (ds ! k) = (if k = 0 then p else hash_of H (ds ! (k - 1)))"
    "\<forall>d\<in>set ds. wf_json (JObj (event_of d))"
  shows "v2_chain.chain (sha256_hex H) i p ds \<and> v2_chain.head (sha256_hex H) p ds = (if ds = [] then p else hash_of H (last ds))"
  using assms
proof (induction ds arbitrary: i p)
  case (Cons d ds)
  have "v2_pos (ds ! k) = i + 1 + int k \<and> v2_prev (ds ! k) = (if k = 0 then hash_of H d else hash_of H (ds ! (k - 1)))"
    if "k < length ds" for k
    using Cons.prems(1,2) [rule_format, of "Suc k"] that by (cases k) auto
  then have "v2_chain.chain (sha256_hex H) (i + 1) (hash_of H d) ds
      \<and> v2_chain.head (sha256_hex H) (hash_of H d) ds = (if ds = [] then hash_of H d else hash_of H (last ds))"
    using Cons.prems(3) by (intro Cons.IH) auto
  moreover have "v2_pos d = i" "v2_prev d = p" using Cons.prems(1,2) [rule_format, of 0] by auto
  ultimately show ?case using Cons.prems(3) by (simp add: hash_v2_text)
qed simp

lemma verify_v2_chain_Inr:
  assumes "verify_v2_chain H vs = Inr r"
  shows "\<exists>ds. vs = map JObj ds \<and> (\<forall>k < length ds. v2_pos (ds ! k) = 1 + int k)
    \<and> (\<forall>k < length ds. v2_prev (ds ! k) = (if k = 0 then LEDGER_V2_GENESIS_HASH else hash_of H (ds ! (k - 1))))
    \<and> (\<forall>d\<in>set ds. sound_event H (dget r ''ledger_id'') d)
    \<and> dget r ''head'' = JStr (if ds = [] then LEDGER_V2_GENESIS_HASH else hash_of H (last ds))"
proof -
  obtain st where st: "v2_chain_from H 1 vs
      \<lparr>cs_previous = JStr LEDGER_V2_GENESIS_HASH, cs_migrated = False, cs_ledger_id = JNull\<rparr> = Inr st"
    "dget r ''head'' = cs_previous st" "dget r ''ledger_id'' = cs_ledger_id st"
    using assms by (auto simp: verify_v2_chain_def)
  from v2_chain_from_Inr [OF st(1)] show ?thesis unfolding st(2,3) by fastforce
qed

text \<open>
  Property C5: the head of the signed ledger commits to all of it. If \<^verbatim>\<open>verify_v2_chain\<close> accepts two lists
  of envelopes and reports the same head, the events in them are the same, in the same order, or the
  lists exhibit a collision of SHA-256 or a preimage of the genesis value.
\<close>

theorem v2_head_commits:
  assumes "verify_v2_chain H (map JObj es) = Inr r" "verify_v2_chain H (map JObj es') = Inr r'"
    and "dget r ''head'' = dget r' ''head''"
    and wf: "\<forall>e\<in>set es \<union> set es'. wf_json (JObj (event_of e))"
  shows "map (\<lambda>e. sort_keys (JObj (event_of e))) es = map (\<lambda>e. sort_keys (JObj (event_of e))) es'
    \<or> (\<exists>e\<in>set es. \<exists>e'\<in>set es'. v2_text e \<noteq> v2_text e' \<and> hash_of H e = hash_of H e')
    \<or> (\<exists>e\<in>set es \<union> set es'. hash_of H e = LEDGER_V2_GENESIS_HASH)"
proof -
  have inj: "map JObj (xs :: dict list) = map JObj ys \<longleftrightarrow> xs = ys" for xs ys by (rule inj_map_eq_map) (simp add: inj_def)
  have chain: "v2_chain.chain (sha256_hex H) 1 LEDGER_V2_GENESIS_HASH ds
      \<and> dget x ''head'' = JStr (v2_chain.head (sha256_hex H) LEDGER_V2_GENESIS_HASH ds)"
    if "verify_v2_chain H (map JObj ds) = Inr x" "\<forall>e\<in>set ds. wf_json (JObj (event_of e))" for ds x
    using verify_v2_chain_Inr [OF that(1)] v2_links_chain [where i = 1 and p = LEDGER_V2_GENESIS_HASH and H = H and ds = ds]
      that(2) unfolding inj by auto
  have "map v2_text es = map v2_text es' \<Longrightarrow>
      map (\<lambda>e. sort_keys (JObj (event_of e))) es = map (\<lambda>e. sort_keys (JObj (event_of e))) es'"
    using wf canonical_json_eq_iff
    by (intro nth_equalityI) (force dest: map_eq_imp_length_eq, metis (no_types, lifting) Un_iff length_map nth_map nth_mem v2_text_def)
  then show ?thesis
    using v2_chain.same_head_or_collision [of "sha256_hex H" es es'] chain [OF assms(1)] chain [OF assms(2)] assms(3) wf
    by (auto simp: hash_v2_text)
qed

section \<open>Signed dispatches\<close>

text \<open>
  Property C4: what an accepted dispatch is. If \<^verbatim>\<open>verify_signed_dispatch\<close> returns a dispatch, then the given
  hash is the hash of the last event of the given chain; the chain has consecutive sequence numbers
  and links from the genesis value on, in one ledger, with every event signed by the ledger's key,
  which is neither the broker's nor the verifier's; that last event is a request for verification of the
  same task by the same actor in the workspace named by the dispatch; the dispatch is the event's
  payload with that hash, its \<^verbatim>\<open>ledger_head_hash\<close> is the hash of the event before it; it denies network
  and GPU; and the clock is within its lifetime of at most 600 seconds, up to 60 seconds of skew.
\<close>

theorem signed_dispatch_sound:
  assumes "verify_signed_dispatch H full_chain h now = Inr d"
  shows "\<exists>ds ledger_id payload. rmap reread full_chain = Inr (map JObj ds) \<and> ds \<noteq> [] \<and> h = JStr (hash_of H (last ds))
    \<and> (\<forall>k < length ds. v2_pos (ds ! k) = 1 + int k)
    \<and> (\<forall>k < length ds. v2_prev (ds ! k) = (if k = 0 then LEDGER_V2_GENESIS_HASH else hash_of H (ds ! (k - 1))))
    \<and> (\<forall>e\<in>set ds. sound_event H ledger_id e)
    \<and> distinct_keys H BROKER_OPENSSL_PATH LEDGER_AUTHORITY_PUBLIC_KEY_PATH BROKER_PUBLIC_KEY_PATH
    \<and> distinct_keys H BROKER_OPENSSL_PATH LEDGER_AUTHORITY_PUBLIC_KEY_PATH VERIFIER_PUBLIC_KEY_PATH
    \<and> dget (event_of (last ds)) ''action'' = JStr ''verification.requested''
    \<and> dget (event_of (last ds)) ''payload'' = JObj payload
    \<and> d = dput ''dispatch_event_hash'' h payload
    \<and> py_eq (dget (event_of (last ds)) ''task_id'') (dget d ''task_id'')
    \<and> py_eq (dget (event_of (last ds)) ''actor'') (dget d ''actor'') \<and> py_eq ledger_id (dget d ''workspace_id'')
    \<and> dget d ''ledger_head_hash'' = JStr (v2_prev (last ds))
    \<and> dget d ''network_allowed'' = JBool False \<and> dget d ''gpu_allowed'' = JBool False
    \<and> (\<exists>i e. dget d ''issued_at'' = JInt i \<and> dget d ''expires_at'' = JInt e \<and> e - i \<le> 600 \<and> i \<le> now + 60 \<and> now \<le> e)"
proof -
  obtain vs r x payload where ne: "full_chain \<noteq> []" and vs: "rmap reread full_chain = Inr vs"
    and r: "verify_v2_chain H vs = Inr r" and x: "verify_v2_event H (last vs) = Inr x"
    and act: "dget (event_of x) ''action'' = JStr ''verification.requested''" and hash: "py_eq (dget x ''event_hash'') h"
    and payload: "v2_exact_object (dget (event_of x) ''payload'') SIGNED_DISPATCH_PAYLOAD_KEYS = Inr payload"
    and bound: "dispatch_bound (event_of x) payload"
    and d: "validate_dispatch (JObj (dput ''dispatch_event_hash'' (dget x ''event_hash'') payload)) now = Inr d"
    using assms unfolding verify_signed_dispatch_def rbind_eq_Inr ensure_eq_Inr py_eq_str catch_all_raise_Inr
    by (elim exE conjE) simp
  obtain ds where ds: "vs = map JObj ds" "\<forall>k < length ds. v2_pos (ds ! k) = 1 + int k"
      "\<forall>k < length ds. v2_prev (ds ! k) = (if k = 0 then LEDGER_V2_GENESIS_HASH else hash_of H (ds ! (k - 1)))"
      "\<forall>d\<in>set ds. sound_event H (dget r ''ledger_id'') d"
    using verify_v2_chain_Inr [OF r] by blast
  have "length vs = length full_chain" using vs by (auto simp: rmap_eq_Inr dest: list_all2_lengthD)
  then have nonempty: "ds \<noteq> []" using ds(1) ne by auto
  note ev = verify_v2_event_sound [OF x] validate_v2_envelope_Inr [OF verify_v2_event_sound(1) [OF x]]
  have last: "last ds = x" using ev(6) ds(1) nonempty by (simp add: last_map)
  have h: "h = JStr (hash_of H x)" using hash ev(9) by simp
  have eq: "d = dput ''dispatch_event_hash'' h payload" using validate_dispatch_Inr(1) [OF d] ev(9) h by simp
  have same: "dget d k = dget payload k" if "k \<noteq> ''dispatch_event_hash''" for k using that by (simp add: eq)
  have fields: "py_eq (dget (event_of x) ''task_id'') (dget d ''task_id'')" "py_eq (dget (event_of x) ''actor'') (dget d ''actor'')"
      "py_eq (dget r ''ledger_id'') (dget d ''workspace_id'')" "py_eq (dget d ''ledger_head_hash'') (dget (event_of x) ''previous_hash'')"
    using bound ds(4) last nonempty by (auto simp: dispatch_bound_def same sound_event_def)
  obtain s where "dget (event_of x) ''previous_hash'' = JStr s" using validate_v2_event_Inr(3) [OF ev(8)] by blast
  then have prev: "dget d ''ledger_head_hash'' = JStr (v2_prev x)" using fields(4) by (simp add: v2_prev_def)
  have p: "dget (event_of x) ''payload'' = JObj payload" using payload by (simp add: v2_exact_object_Inr)
  note disp = validate_dispatch_Inr [OF d]
  show ?thesis
    by (rule exI [of _ ds], rule exI [of _ "dget r ''ledger_id''"], rule exI [of _ payload], unfold last)
      (use vs ds nonempty h ev(4,5) act p eq fields(1-3) prev disp(2,3,9) in blast)
qed

section \<open>Signing\<close>

lemma ledger_signing_binding_verifies:
  "trusted_ledger_signing_binding H = Inr (k, b) \<Longrightarrow> trusted_ledger_verification_binding H = Inr b"
  by (auto simp: trusted_ledger_signing_binding_def trusted_ledger_verification_binding_def)

lemma v2_envelope_document_fields:
  "dget (v2_envelope_document k e h s) ''key_id'' = JStr k" "dget (v2_envelope_document k e h s) ''event_hash'' = JStr h"
  "dget (v2_envelope_document k e h s) ''signature_b64'' = JStr (std_b64encode s)"
  "event_of (v2_envelope_document k e h s) = e"
  by (simp_all add: v2_envelope_document_def event_of_def)

lemma signed_event_accepted:
  assumes "sign_v2_event H event = Inr envelope"
  shows "event_of envelope = event \<and> verify_v2_event H (JObj envelope) = Inr envelope"
proof -
  obtain d h kb m s x y where d: "validate_v2_event H (JObj event) = Inr d" and b: "trusted_ledger_signing_binding H = Inr kb"
    and key: "v2_sha256 (JStr (lb_key_id (snd kb))) = Inr x"
    and m: "v2_signature_bytes d (JStr h) (JStr (lb_key_id (snd kb))) = Inr m"
      "ledger_check H (lb_openssl (snd kb)) (lb_public_key (snd kb)) m s = Inr True"
    and env: "envelope = v2_envelope_document (lb_key_id (snd kb)) d h s"
    and ok: "validate_v2_envelope H (JObj envelope) = Inr y"
    using assms unfolding sign_v2_event_def Let_def rbind_eq_Inr ensure_eq_Inr case_prod_beta by (elim exE conjE) simp
  have y: "y = envelope" using validate_v2_envelope_Inr(1) [OF ok] by simp
  have "length s = 64" using m(2) by (simp add: ledger_check_True)
  then have sig: "v2_signature (JStr (std_b64encode s)) = Inr s" by (simp add: v2_signature_def)
  have bind: "trusted_ledger_verification_binding H = Inr (snd kb)"
    using ledger_signing_binding_verifies [of H "fst kb" "snd kb"] b by simp
  have "d = event" using validate_v2_event_Inr(1) [OF d] by simp
  then show ?thesis
    using ok y key m sig by (simp add: verify_v2_event_def bind env v2_envelope_document_fields)
qed

text \<open>
  Property C18: an event that the ledger authority signs is one that everybody accepts. If
  \<^verbatim>\<open>sign_v2_event\<close> returns an envelope, it carries the event that was given, and \<^verbatim>\<open>verify_v2_event\<close> accepts it
  on the same host.
\<close>

theorem signed_event_verifies:
  assumes "sign_v2_event H event = Inr envelope"
  shows "event_of envelope = event \<and> verify_v2_event H (JObj envelope) = Inr envelope"
  using assms by (rule signed_event_accepted)

section \<open>Domains\<close>

lemma different_kind_different_bytes:
  assumes "wf_json (JObj a)" "wf_json (JObj b)" "dget a ''kind'' = JStr s" "dget b ''kind'' = JStr t" "s \<noteq> t"
  shows "canonical_json (JObj a) \<noteq> canonical_json (JObj b)"
proof
  assume "canonical_json (JObj a) = canonical_json (JObj b)"
  then have "sorted_dict a = sorted_dict b" using canonical_json_eq_iff [OF assms(1,2)] by (simp add: sorted_dict_def)
  then have "sort_keys (dget a ''kind'') = sort_keys (dget b ''kind'')"
    using dget_sorted_dict assms(1,2) by (metis wf_json_JObj)
  with assms(3-5) show False by simp
qed

lemma signature_kinds:
  "dget (execution_signature_payload p h) ''kind'' = JStr ''execution-preimage-signature''"
  "dget (v2_signature_document e eh k) ''kind'' = JStr ''ledger-event-signature''"
  "final_signature_payload H r = Inr u \<Longrightarrow> dget u ''kind'' = JStr ''final-receipt-signature''"
  "validate_attestation kind c = Inr () \<Longrightarrow> dget c ''kind'' = JStr kind"
  by (auto simp: execution_signature_payload_def v2_signature_document_def final_signature_payload_def validate_attestation_def
      attestation_common_def)

text \<open>
  Property C19: a signature made in one domain means nothing in another. The bytes that the verifier signs for
  an execution preimage, those it signs for a final receipt, those that the ledger authority signs for
  an event and those that the broker signs for an attestation are always different, so that no
  signature of one kind can be presented as one of another, even under the same key.
\<close>

theorem signature_domains_separate:
  assumes "wf_json (JObj (execution_signature_payload p h))" "wf_json (JObj (v2_signature_document e eh k))"
    and "final_signature_payload H r = Inr u" "wf_json (JObj u)"
    and "validate_signed_envelope v kind = Inr c" "wf_json (JObj c)"
  shows "distinct [canonical_json (JObj (execution_signature_payload p h)), canonical_json (JObj u),
     canonical_json (JObj (v2_signature_document e eh k)), canonical_json (JObj c)]"
proof -
  have "validate_attestation kind c = Inr () \<and> (kind = ''snapshot-acquired'' \<or> kind = ''snapshot-cleaned'')"
    using assms(5) by (auto simp: validate_signed_envelope_def attestation_keys_def split: json.splits option.splits if_splits)
  then have kind: "dget c ''kind'' = JStr kind" "kind = ''snapshot-acquired'' \<or> kind = ''snapshot-cleaned''"
    using signature_kinds(4) by auto
  note k = signature_kinds(1) [of p h] signature_kinds(2) [of e eh k] signature_kinds(3) [OF assms(3)]
  have "kind \<noteq> ''execution-preimage-signature''" "kind \<noteq> ''ledger-event-signature''" "kind \<noteq> ''final-receipt-signature''"
    using kind(2) by auto
  then show ?thesis
    using different_kind_different_bytes [OF assms(1,4) k(1,3)] different_kind_different_bytes [OF assms(1,2) k(1,2)]
      different_kind_different_bytes [OF assms(1,6) k(1) kind(1)] different_kind_different_bytes [OF assms(4,2) k(3,2)]
      different_kind_different_bytes [OF assms(4,6) k(3) kind(1)] different_kind_different_bytes [OF assms(2,6) k(2) kind(1)]
    by simp
qed

end
