(* ===== verification/Trust_Example.thy ===== *)
theory Trust_Example
  imports Ledger_V2_Safety
begin

text \<open>
  A concrete host with the trust files of the three domains and a small broker package, on which the
  theorems about signing and verifying are applied. Its digest depends on the first byte only and its
  signature is constant, which is enough to satisfy the laws that the theorems assume.
\<close>

section \<open>The host\<close>

definition demo_digest :: "string \<Rightarrow> string" where
  "demo_digest s = replicate 64 (case s of [] \<Rightarrow> CHR ''0'' | c # _ \<Rightarrow> digit_char (of_char c mod 10))"

abbreviation etc_file :: "string \<Rightarrow> string \<Rightarrow> path" where
  "etc_file domain name \<equiv> Path ''/'' [''etc'', ''cogni-os'', domain, name]"

definition demo_package :: path where
  "demo_package = Path ''/'' [''usr'', ''local'', ''lib'', ''cogni-os'', ''snapshot-broker-v1'', ''cogni_os'']"

definition demo_files :: "(path \<times> string) list" where
  "demo_files =
     [(Path ''/'' [''usr'', ''bin'', ''openssl''], ''k''),
      (etc_file ''snapshot-broker'' ''openssl.sha256'', replicate 64 CHR ''7'' @ [CHR 0x0A]),
      (etc_file ''snapshot-broker'' ''ed25519-private.pem'', ''x''),
      (etc_file ''snapshot-broker'' ''ed25519-public.pem'', ''a''),
      (etc_file ''verifier'' ''openssl.sha256'', replicate 64 CHR ''7''),
      (etc_file ''verifier'' ''ed25519-private.pem'', ''y''),
      (etc_file ''verifier'' ''ed25519-public.pem'', ''b''),
      (etc_file ''ledger-authority'' ''openssl.sha256'', replicate 64 CHR ''7''),
      (etc_file ''ledger-authority'' ''ed25519-private.pem'', ''z''),
      (etc_file ''ledger-authority'' ''ed25519-public.pem'', ''c''),
      (child (child demo_package ''core'') ''main.py'', ''print''),
      (child demo_package ''init.py'', ''pass'')]"

definition proper_prefix :: "path \<Rightarrow> path \<Rightarrow> bool" where
  "proper_prefix p q \<longleftrightarrow>
     path_root p = path_root q \<and> length (path_parts p) < length (path_parts q)
     \<and> take (length (path_parts p)) (path_parts q) = path_parts p"

definition demo_metadata :: "mode \<Rightarrow> int \<Rightarrow> metadata" where
  "demo_metadata m n =
     \<lparr>st_mode = m, st_uid = 0, st_gid = 0, st_dev = 1, st_ino = 2, st_nlink = 1, st_size = n\<rparr>"

definition demo_lstat :: "path \<Rightarrow> metadata option" where
  "demo_lstat p =
     (if list_ex (\<lambda>f. proper_prefix p (fst f)) demo_files then Some (demo_metadata 0x41ED 4096)
      else map_option (\<lambda>c. demo_metadata 0x8180 (int (length c))) (map_of demo_files p))"

definition demo_scandir :: "path \<Rightarrow> string list option" where
  "demo_scandir p = Some (remdups (map (\<lambda>f. path_parts (fst f) ! length (path_parts p)) (filter (\<lambda>f. proper_prefix p (fst f)) demo_files)))"

definition demo_signature :: string where
  "demo_signature = replicate 64 CHR ''s''"

definition demo_signature_b64 :: string where
  "demo_signature_b64 = ''c3Nzc3Nzc3Nzc3Nzc3Nzc3Nzc3Nzc3Nzc3Nzc3Nzc3Nzc3Nzc3Nzc3Nzc3Nzc3Nzc3Nzc3Nzc3Nzc3Nzc3Nzcw==''"

lemma demo_signature_encoded: "std_b64encode demo_signature = demo_signature_b64"
  by code_simp

definition demo_host :: trust_host where
  "demo_host =
     \<lparr>sha256_hex = demo_digest, hmac_hex = (\<lambda>k x. demo_digest x), fromisoformat = fromisoformat epoch_runtime,
      isoformat = isoformat epoch_runtime, os_posix = True, lstat = demo_lstat, read_file = map_of demo_files,
      scandir = demo_scandir, executable_by = (\<lambda>p. True),
      pkeyutl_sign = (\<lambda>openssl key m. Some (0, Some demo_signature)),
      pkeyutl_verify = (\<lambda>openssl key m s. Some (if s = demo_signature then 0 else 1)),
      pkey_der = (\<lambda>openssl key. map_option (Pair 0) (map_of demo_files key)),
      sys_executable = BROKER_PYTHON_PATH, resolved = (\<lambda>p. p)\<rparr>"

lemma demo_hex_digests: "hex_digests demo_host"
proof -
  have "is_digit (case s of [] \<Rightarrow> CHR ''0'' | c # _ \<Rightarrow> digit_char (of_char c mod 10))" for s :: string
    by (cases s) (simp_all add: is_digit_def [of "CHR ''0''"])
  then have "fullmatch_hex 64 (demo_digest s)" for s
    by (simp add: demo_digest_def fullmatch_exact_def list_all_length is_lower_hex_def)
  then show ?thesis by (simp add: hex_digests_def demo_host_def)
qed

lemma demo_ed25519_pair: "ed25519_pair demo_host openssl private public"
  by (simp add: ed25519_pair_def demo_host_def)

lemma parent_prefix: "q \<in> set (path_parents p) \<Longrightarrow> p = f \<or> proper_prefix p f \<Longrightarrow> proper_prefix q f"
  by (auto simp: path_parents_def proper_prefix_def min_def)
    (metis append_take_drop_id length_take min.absorb4 nat_less_le take_all_iff take_take)+

lemma demo_lstat_resolves: "lstat_resolves demo_host"
  unfolding lstat_resolves_def
proof (intro allI impI)
  fix p m q assume p: "lstat demo_host p = Some m" and q: "q \<in> set (path_parents p)"
  then obtain f c where "(f, c) \<in> set demo_files" "p = f \<or> proper_prefix p f"
    by (auto simp: demo_host_def demo_lstat_def list_ex_iff split: if_splits dest: map_of_SomeD)
  with parent_prefix [OF q] have "list_ex (\<lambda>f. proper_prefix q (fst f)) demo_files" by (force simp: list_ex_iff)
  then show "\<exists>n. lstat demo_host q = Some n \<and> (S_ISDIR (st_mode n) \<or> S_ISLNK (st_mode n))"
    by (simp add: demo_host_def demo_lstat_def demo_metadata_def S_ISDIR_def S_IFMT_def)
qed

section \<open>Broker\<close>

lemma Inr_of: "\<not> isl r \<Longrightarrow> \<exists>x. r = Inr x"
  by (cases r) auto

lemma package_runs: "\<not> isl (package_tree_sha256 demo_host demo_package)"
  by code_simp

theorem package_tree_covers_witness:
  "\<exists>digest st. package_tree_sha256 demo_host demo_package = Inr digest
    \<and> digest = sha256_hex demo_host (canonical_json (tree_document st))
    \<and> recorded demo_host demo_package (listed st) (child (child demo_package ''core'') ''main.py'')"
proof -
  obtain digest where d: "package_tree_sha256 demo_host demo_package = Inr digest" using Inr_of [OF package_runs] by blast
  have "is_directory demo_host demo_package" "is_directory demo_host (child demo_package ''core'')" by code_simp+
  moreover have "\<exists>names. scandir demo_host demo_package = Some names \<and> ''core'' \<in> set names"
    "\<exists>names. scandir demo_host (child demo_package ''core'') = Some names \<and> ''main.py'' \<in> set names"
    by (simp_all add: demo_host_def demo_scandir_def) code_simp+
  ultimately have "in_tree demo_host demo_package (child (child demo_package ''core'') ''main.py'')"
    by (meson in_tree.intros)
  moreover have "child (child demo_package ''core'') ''main.py'' \<noteq> demo_package" by code_simp
  ultimately show ?thesis using d package_tree_covers [OF d] by blast
qed

abbreviation h64 :: json where "h64 \<equiv> JStr (replicate 64 CHR ''3'')"

definition demo_identity :: dict where
  "demo_identity = [(''task_id'', JStr ''T1''), (''attempt'', JInt 1), (''actor'', JStr ''codex''),
     (''run_id'', JStr (replicate 32 CHR ''a'')), (''validation_contract_sha256'', h64)]"

definition demo_cleanup :: dict where
  "demo_cleanup = demo_identity @
     [(''schema_version'', JInt 1), (''protocol_id'', JStr BROKER_PROTOCOL_ID), (''kind'', JStr ''snapshot-cleaned''),
      (''request_sha256'', h64), (''request_id'', JStr ''r1''), (''request_nonce'', JStr ''n1''), (''caller_pid'', JInt 10),
      (''caller_uid'', JInt 0), (''caller_gid'', JInt 0), (''lease_id'', JStr ''l1''), (''acquire_attestation_sha256'', h64),
      (''snapshot_sha256'', h64), (''snapshot_device'', JInt 1), (''snapshot_inode'', JInt 2), (''issued_at'', JInt 100),
      (''broker_nonce'', JStr ''b1''), (''receipt_preimage_sha256'', h64), (''broker_runtime_manifest_sha256'', h64),
      (''namespace_removed'', JBool True)]"

definition demo_proof :: dict where
  "demo_proof = broker_envelope (replicate 64 CHR ''7'') demo_cleanup demo_signature"

text \<open>A document is accepted as canonical when its parts are finite, valid UTF-8 and small.\<close>

definition encodable :: "json \<Rightarrow> bool" where
  "encodable v \<longleftrightarrow> json_finite v \<and> json_utf8 v \<and> json_bound v \<le> 4000000"

lemma encodable_bytes:
  "encodable v \<Longrightarrow> broker_json_bytes v = Inr (canonical_json v)"
  "encodable v \<Longrightarrow> verifier_json_bytes v = Inr (canonical_json v)"
  "encodable v \<Longrightarrow> v2_json_bytes v = Inr (canonical_json v)"
  by (simp_all add: encodable_def broker_json_bytes_def verifier_json_bytes_def v2_json_bytes_def bounded_json_accepts
      MAX_BROKER_FRAME_BYTES_def MAX_VERIFIER_DOCUMENT_BYTES_def MAX_LEDGER_V2_DOCUMENT_BYTES_def)

lemma encodable_exact:
  "encodable (JObj d) \<Longrightarrow> exact_keys d ks \<Longrightarrow> exact_object (JObj d) ks = Inr d"
  "encodable (JObj d) \<Longrightarrow> exact_keys d ks \<Longrightarrow> v2_exact_object (JObj d) ks = Inr d"
  by (auto simp: exact_object_Inr v2_exact_object_Inr encodable_bytes)

lemma demo_proof_code [code]:
  "demo_proof =
     [(''schema_version'', JInt BROKER_SCHEMA_VERSION), (''algorithm'', JStr BROKER_SIGNATURE_ALGORITHM),
      (''public_key_sha256'', JStr (replicate 64 CHR ''7'')), (''payload'', JObj demo_cleanup),
      (''signature_b64'', JStr demo_signature_b64)]"
  by (simp add: demo_proof_def broker_envelope_def demo_signature_encoded)

abbreviation demo_sign_cleanup :: "dict res" where
  "demo_sign_cleanup \<equiv> sign_payload demo_host BROKER_PRIVATE_KEY_PATH BROKER_PUBLIC_KEY_PATH BROKER_OPENSSL_PATH
     BROKER_OPENSSL_SHA256_PATH demo_cleanup"

lemma demo_broker_trust:
  "require_posix_root_owned demo_host BROKER_PRIVATE_KEY_PATH True = Inr BROKER_PRIVATE_KEY_PATH"
  "trusted_public_key_binding demo_host BROKER_PUBLIC_KEY_PATH = Inr (BROKER_PUBLIC_KEY_PATH, replicate 64 CHR ''7'')"
  "trusted_openssl_binding demo_host BROKER_OPENSSL_PATH BROKER_OPENSSL_SHA256_PATH
     = Inr (BROKER_OPENSSL_PATH, replicate 64 CHR ''7'')"
  by code_simp+

lemma demo_cleanup_ok:
  "py_str (dget demo_cleanup ''kind'') = ''snapshot-cleaned''"
  "attestation_keys ''snapshot-cleaned'' = Some CLEANUP_ATTESTATION_KEYS"
  "exact_keys demo_cleanup CLEANUP_ATTESTATION_KEYS"
  "validate_attestation ''snapshot-cleaned'' demo_cleanup = Inr ()"
  "encodable (JObj demo_cleanup)"
  by code_simp+

lemma demo_proof_valid:
  "fullmatch_hex 64 k \<Longrightarrow> length s = 64 \<Longrightarrow>
     validate_signed_envelope (JObj (broker_envelope k demo_cleanup s)) ''snapshot-cleaned'' = Inr demo_cleanup"
  by (simp add: validate_broker_envelope demo_cleanup_ok)

lemma cleanup_signs: "demo_sign_cleanup = Inr demo_proof"
proof -
  have "broker_sign demo_host BROKER_OPENSSL_PATH BROKER_PRIVATE_KEY_PATH demo_cleanup = Inr demo_signature"
    by (simp add: broker_sign_def encodable_bytes demo_cleanup_ok(5) demo_host_def demo_signature_def)
  then show ?thesis
    by (simp add: sign_payload_def demo_broker_trust demo_cleanup_ok(1) demo_proof_valid zeros_hex demo_proof_def)
qed

theorem broker_sign_verify_witness:
  "demo_sign_cleanup = Inr demo_proof
   \<and> verify_signed_envelope demo_host BROKER_PUBLIC_KEY_PATH BROKER_OPENSSL_PATH BROKER_OPENSSL_SHA256_PATH (JObj demo_proof)
       ''snapshot-cleaned'' = Inr demo_cleanup"
  using cleanup_signs broker_sign_verify [OF cleanup_signs demo_ed25519_pair demo_hex_digests]
  unfolding demo_cleanup_ok(1) by blast

section \<open>Receipts\<close>

definition demo_source :: json where
  "demo_source = JObj [(''artifact_id'', JStr ''a1''), (''bundle_sha256'', h64), (''size_bytes'', JInt 7),
     (''commit_oid'', JStr (replicate 40 CHR ''b'')), (''tree_oid'', JStr (replicate 40 CHR ''c''))]"

definition demo_dispatch :: dict where
  "demo_dispatch = demo_identity @
     [(''schema_version'', JInt 1), (''protocol_id'', JStr VERIFIER_PROTOCOL_ID), (''kind'', JStr ''verification-dispatch''),
      (''ledger_domain'', JStr VERIFIER_LEDGER_DOMAIN), (''ledger_head_hash'', h64),
      (''workspace_id'', JStr ''w1''), (''source'', demo_source), (''verifier_manifest_sha256'', h64),
      (''capability_receipt_sha256'', h64), (''network_allowed'', JBool False), (''gpu_allowed'', JBool False),
      (''nonce'', JStr ''n1''), (''issued_at'', JInt 100), (''expires_at'', JInt 400), (''dispatch_event_hash'', h64)]"

definition demo_command :: json where
  "demo_command = JObj
     [(''index'', JInt 0), (''executable_path'', JStr ''/bin/true''), (''executable_sha256'', h64),
      (''argv'', JArr [JStr ''/bin/true'', JStr ''-q'']), (''cwd'', JStr ''/''), (''environment_sha256'', h64), (''exit_code'', JInt 0),
      (''timed_out'', JBool False), (''output_truncated'', JBool False), (''stdout_sha256'', h64), (''stdout_size_bytes'', JInt 0),
      (''stderr_sha256'', h64), (''stderr_size_bytes'', JInt 12), (''started_monotonic_ns'', JInt 5),
      (''completed_monotonic_ns'', JInt 9)]"

definition demo_runtime :: json where
  "demo_runtime = JObj (map (\<lambda>k. (k, h64)) RUNTIME_KEYS)"

definition demo_postcheck :: json where
  "demo_postcheck = JObj [(''passed'', JBool True), (''observed_sha256'', h64)]"

definition demo_preimage :: dict where
  "demo_preimage = demo_identity @
     [(''schema_version'', JInt 1), (''protocol_id'', JStr VERIFIER_PROTOCOL_ID),
      (''kind'', JStr ''verification-execution-preimage''), (''domain'', JStr VERIFIER_RECEIPT_DOMAIN),
      (''dispatch_event_hash'', h64), (''request_event_hash'', h64), (''start_event_hash'', h64), (''ledger_head_hash'', h64),
      (''workspace_id'', JStr ''w1''), (''source'', demo_source), (''verifier_manifest_sha256'', h64),
      (''snapshot_manifest_sha256'', h64), (''acquire_proof_sha256'', h64), (''runtime'', demo_runtime),
      (''commands'', JArr [demo_command]),
      (''isolation'', JObj [(''network_disabled'', JBool True), (''gpu_disabled'', JBool True), (''namespace_sha256'', h64),
        (''cgroup_sha256'', h64)]),
      (''source_postcheck'', demo_postcheck), (''snapshot_postcheck'', demo_postcheck), (''started_at'', JStr ''101Z''),
      (''completed_at'', JStr ''103Z''), (''started_monotonic_ns'', JInt 4), (''completed_monotonic_ns'', JInt 10),
      (''result'', JStr ''passed''), (''failure_code'', JNull)]"

lemma demo_values [simp]:
  "is_hex h64 64" "is_hex (JStr (replicate 32 CHR ''a'')) 32" "is_identifier (JStr ''w1'')" "is_identifier (JStr ''T1'')"
  "is_identifier (JStr ''codex'')" "is_identifier (JStr ''n1'')" "positive_int False (JInt 1) = Inr 1"
  "positive_int False (JInt 100) = Inr 100" "positive_int False (JInt 400) = Inr 400"
  "positive_int False (JInt 4) = Inr 4" "positive_int False (JInt 10) = Inr 10"
  by code_simp+

lemma demo_dispatch_encodable: "encodable (JObj demo_dispatch)" "exact_keys demo_dispatch DISPATCH_KEYS"
  by code_simp+

lemma demo_dispatch_ok:
  "exact_object (JObj demo_dispatch) DISPATCH_KEYS = Inr demo_dispatch" "\<not> isl (validate_source demo_source)"
  by (rule encodable_exact demo_dispatch_encodable)+ code_simp

lemma demo_dispatch_fields:
  "dget demo_dispatch ''schema_version'' = JInt 1" "dget demo_dispatch ''protocol_id'' = JStr VERIFIER_PROTOCOL_ID"
  "dget demo_dispatch ''kind'' = JStr ''verification-dispatch''" "dget demo_dispatch ''ledger_domain'' = JStr VERIFIER_LEDGER_DOMAIN"
  "dget demo_dispatch ''dispatch_event_hash'' = h64" "dget demo_dispatch ''ledger_head_hash'' = h64"
  "dget demo_dispatch ''workspace_id'' = JStr ''w1''" "dget demo_dispatch ''task_id'' = JStr ''T1''"
  "dget demo_dispatch ''actor'' = JStr ''codex''" "dget demo_dispatch ''nonce'' = JStr ''n1''"
  "dget demo_dispatch ''run_id'' = JStr (replicate 32 CHR ''a'')" "dget demo_dispatch ''attempt'' = JInt 1"
  "dget demo_dispatch ''source'' = demo_source" "dget demo_dispatch ''verifier_manifest_sha256'' = h64"
  "dget demo_dispatch ''validation_contract_sha256'' = h64" "dget demo_dispatch ''capability_receipt_sha256'' = h64"
  "dget demo_dispatch ''network_allowed'' = JBool False" "dget demo_dispatch ''gpu_allowed'' = JBool False"
  "dget demo_dispatch ''issued_at'' = JInt 100" "dget demo_dispatch ''expires_at'' = JInt 400"
  by (simp_all add: demo_dispatch_def demo_identity_def)

lemma demo_dispatch_valid: "50 \<le> now \<Longrightarrow> now \<le> 400 \<Longrightarrow> validate_dispatch (JObj demo_dispatch) now = Inr demo_dispatch"
  using Inr_of [OF demo_dispatch_ok(2)]
  by (auto simp: validate_dispatch_def demo_dispatch_fields demo_dispatch_ok(1) VERIFIER_SCHEMA_VERSION_def require_sha256_def
      require_identifier_def is_false_def MAX_DISPATCH_TTL_SECONDS_def MAX_CLOCK_SKEW_SECONDS_def simp del: replicate.simps)

lemma demo_preimage_encodable: "encodable (JObj demo_preimage)" "exact_keys demo_preimage EXECUTION_PREIMAGE_KEYS"
  by code_simp+

lemma demo_preimage_part1: "exact_object (JObj demo_preimage) EXECUTION_PREIMAGE_KEYS = Inr demo_preimage"
  by (rule encodable_exact demo_preimage_encodable)+

lemma demo_preimage_part2: "preimage_identity demo_preimage = Inr ()"
  by code_simp

lemma demo_preimage_part3: "\<not> isl (validate_runtime demo_runtime)"
  by code_simp

lemma demo_preimage_part4: "validate_commands 0 [demo_command] = Inr ()"
  by code_simp

lemma demo_preimage_part5: "preimage_isolation demo_preimage = Inr ()"
  by code_simp

lemma demo_preimage_part6: "validate_postcheck demo_postcheck = Inr [(''passed'', JBool True), (''observed_sha256'', h64)]"
  by code_simp

lemma demo_preimage_part7: "preimage_times demo_host demo_preimage = Inr ()"
  by code_simp

lemma demo_preimage_part8: "preimage_result demo_preimage [demo_command] [(''passed'', JBool True), (''observed_sha256'', h64)]
     [(''passed'', JBool True), (''observed_sha256'', h64)] = Inr ()"
  by code_simp

lemma demo_preimage_part9: "list_all (\<lambda>key. py_eq (dget demo_preimage key) (dget demo_dispatch key)) BOUND_FIELDS"
  by code_simp

lemmas demo_preimage_parts = demo_preimage_part1 demo_preimage_part2 demo_preimage_part3 demo_preimage_part4
  demo_preimage_part5 demo_preimage_part6 demo_preimage_part7 demo_preimage_part8 demo_preimage_part9

lemma demo_preimage_fields:
  "dget demo_preimage ''source'' = demo_source" "dget demo_preimage ''runtime'' = demo_runtime"
  "dget demo_preimage ''commands'' = JArr [demo_command]" "dget demo_preimage ''source_postcheck'' = demo_postcheck"
  "dget demo_preimage ''snapshot_postcheck'' = demo_postcheck"
  by (simp_all add: demo_preimage_def demo_identity_def)

lemma demo_own_dispatch: "validate_own_dispatch demo_dispatch = Inr demo_dispatch"
proof -
  have "ditem demo_dispatch ''issued_at'' = Inr (JInt 100)" by code_simp
  then show ?thesis by (simp add: validate_own_dispatch_def demo_dispatch_valid)
qed

lemma demo_preimage_valid: "validate_execution_preimage demo_host (JObj demo_preimage) (Some demo_dispatch) = Inr demo_preimage"
proof -
  have "preimage_commands demo_preimage = Inr [demo_command]"
    unfolding preimage_commands_def demo_preimage_fields json.case demo_preimage_parts(4) by (simp add: MAX_COMMANDS_def)
  moreover have "preimage_dispatch demo_preimage (Some demo_dispatch) = Inr ()"
    using demo_preimage_parts(9) by (simp add: preimage_dispatch_def demo_own_dispatch list_all_iff)
  ultimately show ?thesis
    using Inr_of [OF demo_dispatch_ok(2)] Inr_of [OF demo_preimage_parts(3)]
    by (auto simp: validate_execution_preimage_def demo_preimage_parts demo_preimage_fields)
qed

lemma demo_sha_object: "sha256_hex demo_host (canonical_json (JObj d)) = replicate 64 CHR ''3''"
proof -
  obtain u where "canonical_json (JObj d) = CHR ''{'' # u @ ''}''" using canonical_json_object by blast
  moreover have "digit_char (of_char CHR ''{'' mod 10) = CHR ''3''" by code_simp
  ultimately show ?thesis by (simp add: demo_host_def demo_digest_def del: replicate.simps)
qed

end
