(* ===== verification/Receipt_Example.thy ===== *)
theory Receipt_Example
  imports Trust_Example
begin

text \<open>
  The sealed receipt of the example: signed, validated and verified on the host of Trust_Example.
\<close>

section \<open>The receipt\<close>

definition demo_binding :: receipt_binding where
  "demo_binding = \<lparr>rb_public_key = VERIFIER_PUBLIC_KEY_PATH, rb_public_key_sha256 = replicate 64 CHR ''8'',
     rb_openssl = BROKER_OPENSSL_PATH, rb_openssl_sha256 = replicate 64 CHR ''7'', rb_spki = replicate 64 CHR ''8'',
     rb_broker_spki = replicate 64 CHR ''7''\<rparr>"

lemma demo_signing_binding: "trusted_receipt_signing_binding demo_host = Inr (VERIFIER_PRIVATE_KEY_PATH, demo_binding)"
proof -
  have "receipt_root_owned_file demo_host VERIFIER_PRIVATE_KEY_PATH True False = Inr VERIFIER_PRIVATE_KEY_PATH"
    "receipt_root_owned_file demo_host VERIFIER_PUBLIC_KEY_PATH False False = Inr VERIFIER_PUBLIC_KEY_PATH"
    "receipt_root_owned_file demo_host BROKER_PUBLIC_KEY_PATH False False = Inr BROKER_PUBLIC_KEY_PATH"
    "receipt_openssl_binding demo_host BROKER_OPENSSL_PATH VERIFIER_OPENSSL_SHA256_PATH
      = Inr (BROKER_OPENSSL_PATH, replicate 64 CHR ''7'')"
    "distinct_public_key_binding demo_host VERIFIER_PUBLIC_KEY_PATH BROKER_PUBLIC_KEY_PATH BROKER_OPENSSL_PATH
      = Inr (replicate 64 CHR ''8'', replicate 64 CHR ''7'')"
    "sha256_file demo_host VERIFIER_PUBLIC_KEY_PATH = Inr (replicate 64 CHR ''8'')"
    by code_simp+
  then show ?thesis by (simp add: trusted_receipt_signing_binding_def demo_binding_def del: replicate.simps)
qed

abbreviation demo_receipt :: "string \<Rightarrow> dict" where
  "demo_receipt s \<equiv> receipt_document demo_binding demo_preimage (replicate 64 CHR ''3'') demo_signature demo_proof
     (replicate 64 CHR ''3'') ''104Z'' s"

definition demo_sealed :: dict where
  "demo_sealed = demo_receipt demo_signature"

lemma demo_sealed_code [code]:
  "demo_sealed =
     [(''schema_version'', JInt VERIFIER_SCHEMA_VERSION), (''protocol_id'', JStr VERIFIER_PROTOCOL_ID),
      (''kind'', JStr ''verification-receipt''), (''domain'', JStr VERIFIER_RECEIPT_DOMAIN),
      (''algorithm'', JStr VERIFIER_SIGNATURE_ALGORITHM), (''public_key_sha256'', JStr (replicate 64 CHR ''8'')),
      (''execution_preimage'', JObj demo_preimage), (''execution_preimage_sha256'', h64),
      (''execution_signature_b64'', JStr demo_signature_b64), (''cleanup_proof'', JObj demo_proof),
      (''cleanup_proof_sha256'', h64), (''sealed_at'', JStr ''104Z''), (''final_signature_b64'', JStr demo_signature_b64)]"
  by (simp add: demo_sealed_def receipt_document_def demo_binding_def demo_signature_encoded)

definition final_document :: "dict \<Rightarrow> dict" where
  "final_document r =
     [(''schema_version'', JInt VERIFIER_SCHEMA_VERSION), (''domain'', JStr VERIFIER_RECEIPT_DOMAIN),
      (''kind'', JStr ''final-receipt-signature''), (''payload_sha256'', h64),
      (''payload'', JObj (map (\<lambda>key. (key, dget r key)) (filter (\<lambda>key. key \<noteq> ''final_signature_b64'') RECEIPT_KEYS)))]"

definition receipt_encodable :: "dict \<Rightarrow> bool" where
  "receipt_encodable r \<longleftrightarrow> encodable (JObj r) \<and> exact_keys r RECEIPT_KEYS \<and> encodable (JObj (final_document r))
     \<and> encodable (JObj (map (\<lambda>key. (key, dget r key)) (filter (\<lambda>key. key \<noteq> ''final_signature_b64'') RECEIPT_KEYS)))"

lemma demo_parts_small:
  "json_finite (JObj demo_preimage)" "json_utf8 (JObj demo_preimage)" "json_bound (JObj demo_preimage) \<le> 30000"
  "json_finite (JObj demo_proof)" "json_utf8 (JObj demo_proof)" "json_bound (JObj demo_proof) \<le> 30000"
  by code_simp+

definition small_str :: "string \<Rightarrow> bool" where
  "small_str s \<longleftrightarrow> utf8_valid s \<and> length s \<le> 100"

lemma demo_small_strs:
  "small_str VERIFIER_PROTOCOL_ID" "small_str VERIFIER_RECEIPT_DOMAIN" "small_str VERIFIER_SIGNATURE_ALGORITHM"
  "small_str (replicate 64 CHR ''3'')" "small_str (replicate 64 CHR ''8'')" "small_str (std_b64encode demo_signature)"
  "small_str (std_b64encode (replicate 64 CHR 0x00))" "small_str ''verification-receipt''" "small_str ''104Z''"
  "small_str ''final-receipt-signature''" "small_str ''execution-preimage-signature''"
  "list_all small_str RECEIPT_KEYS" "small_str ''payload''" "small_str ''payload_sha256''"
  unfolding demo_signature_encoded by code_simp+

text \<open>Encodability of an object from its items.\<close>

definition small_item :: "int \<Rightarrow> string \<times> json \<Rightarrow> bool" where
  "small_item n p \<longleftrightarrow> small_str (fst p) \<and> json_finite (snd p) \<and> json_utf8 (snd p) \<and> json_bound (snd p) \<le> n"

lemma small_items:
  "list_all (small_item n) d \<Longrightarrow> json_finite (JObj d) \<and> json_utf8 (JObj d)
     \<and> json_bound (JObj d) \<le> 2 + int (length d) * (n + 604)"
proof (induction d)
  case (Cons p d)
  have "6 * int (length (fst p)) + json_bound (snd p) + 4 \<le> n + 604" using Cons.prems by (simp add: small_item_def small_str_def)
  moreover have "json_finite (JObj d) \<and> json_utf8 (JObj d) \<and> json_bound (JObj d) \<le> 2 + int (length d) * (n + 604)"
    using Cons by simp
  ultimately show ?case using Cons.prems by (auto simp: small_item_def small_str_def algebra_simps)
qed simp

lemma small_object:
  assumes "list_all (small_item n) d" "2 + int (length d) * (n + 604) \<le> m"
  shows "json_finite (JObj d)" "json_utf8 (JObj d)" "json_bound (JObj d) \<le> m"
  using small_items [OF assms(1)] assms(2) by (blast intro: order_trans)+

lemma small_encodable: "list_all (small_item n) d \<Longrightarrow> 2 + int (length d) * (n + 604) \<le> 4000000 \<Longrightarrow> encodable (JObj d)"
  by (simp only: encodable_def small_object)

lemma small_item_str: "small_str k \<Longrightarrow> small_str s \<Longrightarrow> 602 \<le> n \<Longrightarrow> small_item n (k, JStr s)"
  by (simp add: small_item_def small_str_def)

lemma small_unsigned:
  assumes "list_all (small_item n) r" "exact_keys r ks"
  shows "list_all (small_item n) (map (\<lambda>k. (k, dget r k)) (filter P ks))"
proof -
  have "small_item n (k, dget r k)" if k: "k \<in> set ks" for k
  proof -
    obtain v where "map_of r k = Some v" using exact_keys_item [OF assms(2) k] by blast
    then show ?thesis using assms(1) map_of_SomeD by (fastforce simp: list_all_iff dget_or_def)
  qed
  then show ?thesis by (auto simp: list_all_iff)
qed

lemma demo_receipt_small: "small_str (std_b64encode s) \<Longrightarrow> list_all (small_item 30000) (demo_receipt s)"
  using demo_small_strs(12) demo_parts_small demo_small_strs
  by (simp add: receipt_document_def demo_binding_def small_item_str RECEIPT_KEYS_def VERIFIER_SCHEMA_VERSION_def
      del: json_finite.simps json_utf8.simps json_bound.simps replicate.simps)
    (simp add: small_item_def show_int_def show_nat.simps)

lemma demo_receipt_keys: "exact_keys (demo_receipt s) RECEIPT_KEYS"
  by (simp add: exact_keys_def receipt_document_def RECEIPT_KEYS_def)

lemma demo_receipt_encodable:
  assumes "small_str (std_b64encode s)"
  shows "receipt_encodable (demo_receipt s)"
proof -
  let ?u = "map (\<lambda>key. (key, dget (demo_receipt s) key)) (filter (\<lambda>key. key \<noteq> ''final_signature_b64'') RECEIPT_KEYS)"
  have n: "length (demo_receipt s) = 13" "length ?u = 12" by (simp_all add: receipt_document_def RECEIPT_KEYS_def)
  note r = demo_receipt_small [OF assms]
  note u = small_unsigned [OF r demo_receipt_keys, of "\<lambda>key. key \<noteq> ''final_signature_b64''"]
  have "2 + int (length ?u) * (30000 + 604) \<le> 400000" unfolding n by simp
  note o = small_object [OF u this]
  have "small_item 400000 (''payload'', JObj ?u)" using o demo_small_strs(13) by (simp only: small_item_def fst_conv snd_conv)
  then have "list_all (small_item 400000) (final_document (demo_receipt s))"
    using demo_small_strs(2,4,10,12,14)
    by (simp add: final_document_def small_item_str VERIFIER_SCHEMA_VERSION_def RECEIPT_KEYS_def
        del: json_finite.simps json_utf8.simps json_bound.simps replicate.simps list.map filter.simps)
      (simp add: small_item_def show_int_def show_nat.simps)
  then have "encodable (JObj (final_document (demo_receipt s)))"
    by (rule small_encodable) (simp only: final_document_def list.size, simp)
  moreover have "encodable (JObj (demo_receipt s))" by (rule small_encodable [OF r]) (simp only: n, simp)
  moreover have "encodable (JObj ?u)" by (rule small_encodable [OF u]) (simp only: n, simp)
  ultimately show ?thesis by (simp only: receipt_encodable_def demo_receipt_keys)
qed

lemma final_bytes: "receipt_encodable r \<Longrightarrow> final_signature_bytes demo_host r = Inr (canonical_json (JObj (final_document r)))"
  by (simp add: final_signature_bytes_def final_signature_payload_def unsigned_receipt_payload_def receipt_encodable_def
      encodable_exact encodable_bytes verifier_json_sha256_def demo_sha_object final_document_def)

lemma demo_execution_encodable: "encodable (JObj (execution_signature_payload demo_preimage h64))" "encodable (JObj demo_proof)"
  by code_simp+

lemma demo_receipt_checks:
  "validate_signed_envelope (JObj demo_proof) ''snapshot-cleaned'' = Inr demo_cleanup"
  "list_all (\<lambda>key. py_eq (dget demo_cleanup key) (dget demo_preimage key)) IDENTITY_FIELDS"
  "dget demo_cleanup ''receipt_preimage_sha256'' = h64" "\<not> isl (timestamp_epoch demo_host (JStr ''104Z''))"
  "\<exists>a b. timestamp_epoch demo_host (JStr ''104Z'') = Inr a
     \<and> timestamp_epoch demo_host (dget demo_preimage ''completed_at'') = Inr b \<and> b \<le> a"
proof -
  show "validate_signed_envelope (JObj demo_proof) ''snapshot-cleaned'' = Inr demo_cleanup"
    unfolding demo_proof_def by (rule demo_proof_valid) (simp_all add: demo_signature_def fullmatch_exact_def list_all_length
        is_lower_hex_def is_digit_def)
  show "list_all (\<lambda>key. py_eq (dget demo_cleanup key) (dget demo_preimage key)) IDENTITY_FIELDS"
    "dget demo_cleanup ''receipt_preimage_sha256'' = h64" "\<not> isl (timestamp_epoch demo_host (JStr ''104Z''))"
    by code_simp+
  have "timestamp_epoch demo_host (JStr ''104Z'') = Inr (104 * 2 ^ 72)"
    "timestamp_epoch demo_host (dget demo_preimage ''completed_at'') = Inr (103 * 2 ^ 72)" by code_simp+
  then show "\<exists>a b. timestamp_epoch demo_host (JStr ''104Z'') = Inr a
     \<and> timestamp_epoch demo_host (dget demo_preimage ''completed_at'') = Inr b \<and> b \<le> a" by simp
qed

lemma demo_receipt_fields:
  "dget (demo_receipt s) ''schema_version'' = JInt 1" "dget (demo_receipt s) ''protocol_id'' = JStr VERIFIER_PROTOCOL_ID"
  "dget (demo_receipt s) ''kind'' = JStr ''verification-receipt''" "dget (demo_receipt s) ''domain'' = JStr VERIFIER_RECEIPT_DOMAIN"
  "dget (demo_receipt s) ''algorithm'' = JStr VERIFIER_SIGNATURE_ALGORITHM"
  "dget (demo_receipt s) ''public_key_sha256'' = JStr (replicate 64 CHR ''8'')"
  "dget (demo_receipt s) ''execution_preimage'' = JObj demo_preimage"
  "dget (demo_receipt s) ''execution_preimage_sha256'' = h64" "dget (demo_receipt s) ''cleanup_proof'' = JObj demo_proof"
  "dget (demo_receipt s) ''cleanup_proof_sha256'' = h64" "dget (demo_receipt s) ''sealed_at'' = JStr ''104Z''"
  "dget (demo_receipt s) ''execution_signature_b64'' = JStr (std_b64encode demo_signature)"
  "dget (demo_receipt s) ''final_signature_b64'' = JStr (std_b64encode s)"
  by (simp_all add: receipt_document_def demo_binding_def VERIFIER_SCHEMA_VERSION_def)

lemma demo_hex8: "is_hex (JStr (replicate 64 CHR ''8'')) 64"
  by code_simp

lemma demo_receipt_valid:
  assumes "receipt_encodable (demo_receipt s)" "length s = 64"
  shows "validate_receipt_envelope demo_host (JObj (demo_receipt s)) (Some demo_dispatch) = Inr (demo_receipt s)"
proof -
  have "exact_object (JObj (demo_receipt s)) RECEIPT_KEYS = Inr (demo_receipt s)"
    using assms(1) by (simp add: receipt_encodable_def encodable_exact)
  moreover have sha: "verifier_json_sha256 demo_host (JObj demo_preimage) = Inr (replicate 64 CHR ''3'')"
    by (simp add: verifier_json_sha256_def encodable_bytes demo_preimage_encodable demo_sha_object del: replicate.simps)
  moreover have "receipt_cleanup demo_host (demo_receipt s) demo_preimage (replicate 64 CHR ''3'') = Inr ()"
    using demo_receipt_checks(2)
    by (simp add: receipt_cleanup_def demo_receipt_fields demo_receipt_checks(1,3) verifier_json_sha256_def encodable_bytes
        demo_execution_encodable demo_sha_object list_all_iff IDENTITY_FIELDS_def del: replicate.simps)
  moreover have "require_signature (JStr (std_b64encode demo_signature)) = Inr demo_signature"
    "require_signature (JStr (std_b64encode s)) = Inr s" using assms(2) by (simp_all add: demo_signature_def)
  ultimately show ?thesis
    using demo_receipt_checks(5)
    by (auto simp: validate_receipt_envelope_def demo_receipt_fields demo_preimage_valid VERIFIER_SCHEMA_VERSION_def
        require_sha256_def demo_hex8 simp del: replicate.simps)
qed


section \<open>Sealing\<close>

lemma demo_pkeyutl [simp]:
  "receipt_sign demo_host openssl key m = Inr demo_signature"
  "length s = 64 \<Longrightarrow> receipt_check demo_host openssl key m s = Inr (s = demo_signature)"
  by (simp_all add: receipt_sign_def receipt_check_def demo_host_def demo_signature_def)

lemma demo_cleanup_verified: "verify_broker_cleanup demo_host (JObj demo_proof) = Inr demo_cleanup"
  using signed_envelope_verifies [OF cleanup_signs demo_ed25519_pair demo_hex_digests]
  by (simp add: verify_broker_cleanup_def demo_cleanup_ok(1))

lemma demo_seals: "sign_verification_receipt demo_host demo_preimage demo_proof ''104Z'' (Some demo_dispatch) = Inr demo_sealed"
proof -
  have small: "receipt_encodable (demo_receipt (replicate 64 CHR 0x00))" "receipt_encodable demo_sealed"
    unfolding demo_sealed_def by (rule demo_receipt_encodable demo_small_strs)+
  have sealed: "dput ''final_signature_b64'' (JStr (std_b64encode demo_signature)) (demo_receipt (replicate 64 CHR 0x00)) = demo_sealed"
    by (simp add: demo_sealed_def receipt_document_def)
  have "length demo_signature = 64" "length (replicate 64 CHR 0x00) = 64" by (simp_all add: demo_signature_def)
  then show ?thesis
    using demo_receipt_valid [OF small(1)] demo_receipt_valid [OF small(2) [unfolded demo_sealed_def]]
      final_bytes [OF small(1)] final_bytes [OF small(2)] demo_receipt_checks(3)
    by (simp add: sign_verification_receipt_def demo_preimage_valid verifier_json_sha256_def encodable_bytes
        demo_preimage_encodable demo_sha_object demo_cleanup_verified demo_signing_binding demo_execution_encodable sealed
        flip: demo_sealed_def del: replicate.simps)
qed

theorem sealed_receipt_verifies_witness:
  "sign_verification_receipt demo_host demo_preimage demo_proof ''104Z'' (Some demo_dispatch) = Inr demo_sealed
   \<and> verify_verification_receipt demo_host (JObj demo_sealed) (Some demo_dispatch) = Inr demo_sealed"
  using demo_seals sealed_receipt_verifies [OF demo_seals] by blast

theorem receipt_sound_witness:
  "verify_verification_receipt demo_host (JObj demo_sealed) (Some demo_dispatch) = Inr demo_sealed
   \<and> passed_evidence demo_preimage \<and> broker_signed demo_host (canonical_json (JObj demo_cleanup))
   \<and> (\<exists>u. final_signature_payload demo_host demo_sealed = Inr u \<and> verifier_signed demo_host (canonical_json (JObj u)))"
proof -
  have ok: "verify_verification_receipt demo_host (JObj demo_sealed) (Some demo_dispatch) = Inr demo_sealed"
    by (rule sealed_receipt_accepted [OF demo_seals])
  have fields: "dget demo_sealed ''execution_preimage'' = JObj demo_preimage" "dget demo_sealed ''cleanup_proof'' = JObj demo_proof"
    by (simp_all add: demo_sealed_def demo_receipt_fields)
  have payload: "dget demo_proof ''payload'' = JObj demo_cleanup" by (simp add: demo_proof_def broker_envelope_def)
  have "dget demo_preimage ''result'' = JStr ''passed''" by (simp add: demo_preimage_def demo_identity_def)
  with ok receipt_sound [OF ok] show ?thesis unfolding fields json.inject vget.simps payload by auto
qed

theorem signature_domains_separate_witness:
  "final_signature_payload demo_host demo_sealed = Inr (final_document demo_sealed)
   \<and> canonical_json (JObj (execution_signature_payload demo_preimage h64)) \<noteq> canonical_json (JObj demo_cleanup)
   \<and> canonical_json (JObj (v2_signature_document demo_identity h64 h64)) \<noteq> canonical_json (JObj (final_document demo_sealed))"
proof -
  have "receipt_encodable demo_sealed" unfolding demo_sealed_def by (rule demo_receipt_encodable demo_small_strs)+
  then have u: "final_signature_payload demo_host demo_sealed = Inr (final_document demo_sealed)"
    by (simp add: final_signature_payload_def unsigned_receipt_payload_def receipt_encodable_def
      encodable_exact encodable_bytes verifier_json_sha256_def demo_sha_object final_document_def)
  have wf: "wf_json (JObj (execution_signature_payload demo_preimage h64))" "wf_json (JObj (v2_signature_document demo_identity h64 h64))"
    "wf_json (JObj (final_document demo_sealed))" "wf_json (JObj demo_cleanup)"
    by code_simp+
  show ?thesis using u signature_domains_separate [OF wf(1,2) u wf(3) demo_receipt_checks(1) wf(4)] by auto
qed

end
