(* ===== verification/Service_Example.thy ===== *)
theory Service_Example
  imports Service_Safety Receipt_Example
begin

text \<open>
  The coordinator on the example of Receipt_Example: it claims the dispatch, stores the sealed receipt, and
  repeats the call after a crash.
\<close>

section \<open>The directory of receipts\<close>

definition demo_directory :: metadata where
  "demo_directory = \<lparr>st_mode = 0x41C0, st_uid = 0, st_gid = 0, st_dev = 1, st_ino = 5, st_nlink = 2, st_size = 4096\<rparr>"

definition sealed_text :: string where
  "sealed_text = canonical_json (JObj demo_sealed)"

definition receipt_file :: metadata where
  "receipt_file =
     \<lparr>st_mode = 0x8180, st_uid = 0, st_gid = 0, st_dev = 1, st_ino = 6, st_nlink = 1, st_size = int (length sealed_text)\<rparr>"

definition demo_view :: store_view where
  "demo_view = \<lparr>vw_root = (\<lambda>_. Some demo_directory), vw_fd = Some demo_directory, vw_list = True, vw_open = True,
     vw_read = True, vw_write = True, vw_file = (receipt_file, sealed_text), vw_unlink = True, vw_sync = True\<rparr>"

definition service_with :: "journal \<Rightarrow> (string \<times> receipt_entry) list \<Rightarrow> service" where
  "service_with j rs = \<lparr>sv_journal = j, sv_root = Path ''/'' [''var'', ''receipts''], sv_euid = 0, sv_egid = 0,
     sv_dirfd = True, sv_identity = Some (1, 5), sv_receipts = rs\<rparr>"

lemma demo_opens:
  "open_service \<lparr>rv_mkdir = Inr (), rv_stat = Some demo_directory, rv_ancestors = [Some demo_directory], rv_opened = Some demo_directory\<rparr>
     j (Path ''/'' [''var'', ''receipts'']) 0 0 rs = Inr (service_with j rs)"
proof -
  have "prepare_receipt_root \<lparr>rv_mkdir = Inr (), rv_stat = Some demo_directory, rv_ancestors = [Some demo_directory],
      rv_opened = Some demo_directory\<rparr> 0 0 = Inr (1, 5)" by code_simp
  then show ?thesis by (simp add: open_service_def service_with_def)
qed

lemma demo_store_ok: "store_ok demo_view (service_with j rs)"
proof -
  have "validate_posix_receipt_root_identity demo_directory (1, 5) 0 0 = Inr ()" by code_simp
  then show ?thesis by (simp add: store_ok_def root_ok_def demo_view_def service_with_def)
qed

section \<open>The claim\<close>

definition demo_wakeup :: dict where
  "demo_wakeup = [(''schema_version'', JInt 1), (''protocol_id'', JStr VERIFIER_PROTOCOL_ID), (''kind'', JStr ''verification-wakeup''),
     (''dispatch_event_hash'', h64), (''task_id'', JStr ''T1''), (''run_id'', JStr (replicate 32 CHR ''a'')), (''nonce'', JStr ''n1'')]"

lemma demo_wakeup_ok: "encodable (JObj demo_wakeup)" "exact_keys demo_wakeup WAKEUP_KEYS" "json_bound (JObj demo_wakeup) \<le> 4096"
  by code_simp+

lemma demo_wakeup_valid: "validate_wakeup (JObj demo_wakeup) = Inr demo_wakeup"
proof -
  have "int (length (canonical_json (JObj demo_wakeup))) \<le> 4096"
    using json_bound_encodes [of "JObj demo_wakeup"] demo_wakeup_ok(3) by (simp add: canonical_json_def)
  moreover have "dget demo_wakeup ''schema_version'' = JInt 1" "dget demo_wakeup ''protocol_id'' = JStr VERIFIER_PROTOCOL_ID"
    "dget demo_wakeup ''kind'' = JStr ''verification-wakeup''" "dget demo_wakeup ''dispatch_event_hash'' = h64"
    "dget demo_wakeup ''task_id'' = JStr ''T1''" "dget demo_wakeup ''run_id'' = JStr (replicate 32 CHR ''a'')"
    "dget demo_wakeup ''nonce'' = JStr ''n1''" by (simp_all add: demo_wakeup_def)
  ultimately show ?thesis
    by (simp add: validate_wakeup_def encodable_exact encodable_bytes demo_wakeup_ok VERIFIER_SCHEMA_VERSION_def
        require_sha256_def require_identifier_def del: replicate.simps)
qed

definition demo_ident :: identity where
  "demo_ident = (replicate 64 CHR ''3'', ''T1'', 1, ''codex'', replicate 32 CHR ''a'')"

lemma demo_ident_ok: "identity_ok demo_ident" "dispatch_identity demo_dispatch = demo_ident"
  by code_simp+

theorem service_claims_once_witness:
  "\<exists>c t. service_claim_dispatch 200 (\<lambda>_. 5) (JObj demo_dispatch) (JObj demo_wakeup) (service_with (empty_journal [NodeDirectory]) [])
      = (Inr c, t) \<and> claim_acquired c
    \<and> (\<forall>key\<in>{''task_id'', ''run_id'', ''nonce''}. py_eq (vget (JObj demo_dispatch) key) (vget (JObj demo_wakeup) key))"
proof -
  let ?j = "empty_journal [NodeDirectory]"
  have "ensure_capacity_for_new_record ?j = Inr ()" "safe_root ?j = Inr ()"
    by (simp_all add: ensure_capacity_for_new_record_def bounded_directory_names_def empty_journal_def
        MAX_DIRECTORY_ENTRIES_SCANNED_def MAX_JOURNAL_RECORDS_def)
  then obtain c j where c: "claim_dispatch (\<lambda>_. 5) demo_ident ?j = (Inr c, j)" "claim_acquired c"
    using claim_fresh [OF demo_ident_ok(1), of "\<lambda>_. 5" ?j] by (auto simp: empty_journal_def)
  have "list_all (\<lambda>key. py_eq (dget demo_dispatch key) (dget demo_wakeup key)) [''dispatch_event_hash'', ''task_id'', ''run_id'', ''nonce'']"
    by code_simp
  then have ok: "service_claim_dispatch 200 (\<lambda>_. 5) (JObj demo_dispatch) (JObj demo_wakeup) (service_with ?j [])
      = (Inr c, service_with j [])"
    using c by (simp add: service_claim_dispatch_def demo_dispatch_valid demo_wakeup_valid demo_ident_ok(2) service_with_def)
  let ?ss = "[service_with ?j [], service_with j []]"
  have "history service_step ?ss" using service_step.claim [OF ok] by (simp add: history_def)
  from service_claims_once [OF this, of 0 0 200 "\<lambda>_. 5" "JObj demo_dispatch" "JObj demo_wakeup" c
      200 "\<lambda>_. 5" "JObj demo_dispatch" "JObj demo_wakeup" c] ok c(2)
  show ?thesis by auto
qed

section \<open>The receipt\<close>

definition acked_record :: VerifierJournalRecord where
  "acked_record = (requested_record 1 demo_ident)
     \<lparr>j_state := ''CLEANUP_ACKED'', j_previous := Some ''RELEASE_PENDING'', j_revision := 7\<rparr>"

lemma acked_record_ok: "record_ok acked_record"
proof -
  have "check_failure ''CLEANUP_ACKED'' None None = Inr ()" "''CLEANUP_ACKED'' \<in> set ALL_STATES" "''RELEASE_PENDING'' \<in> set ALL_STATES"
    by code_simp+
  then show ?thesis
    using record_requested [OF demo_ident_ok(1), of 1]
    by (simp add: record_ok_def acked_record_def requested_record_def identity_of_record_def times_ok_def failure_ok_def demo_ident_def
        del: replicate.simps)
qed

definition acked_journal :: journal where
  "acked_journal = store acked_record (empty_journal [NodeDirectory])"

lemma acked_fields: "identity_of_record acked_record = demo_ident" "j_state acked_record = ''CLEANUP_ACKED''" "j_failure acked_record = None"
  by (simp_all add: acked_record_def identity_of_record_def requested_record_def demo_ident_def)

lemma acked_loads: "load acked_journal (fst demo_ident) = Inr acked_record"
proof -
  have "j_hash acked_record = fst demo_ident" by (simp add: identity_of_record_def flip: acked_fields(1))
  then show ?thesis unfolding acked_journal_def
    by (subst load_store [OF acked_record_ok]) (simp_all add: empty_journal_def)
qed

lemma acked_next: obtains r' where "next_record 9 acked_record ''RECEIPT_PERSISTED'' None None = Inr r'"
proof (rule next_normal [OF acked_record_ok, of 9 "''RECEIPT_PERSISTED''"])
  show "j_revision acked_record < 2 ^ 63 - 1" by (simp add: acked_record_def)
  show "''RECEIPT_PERSISTED'' \<in> set NORMAL_STATES" by code_simp
qed (use acked_fields(3) that in auto)

lemma demo_verified: "verify_verification_receipt demo_host (JObj demo_sealed) (Some demo_dispatch) = Inr demo_sealed"
  by (rule sealed_receipt_accepted [OF demo_seals])

lemma sealed_bytes: "verifier_json_bytes (JObj demo_sealed) = Inr sealed_text"
proof -
  have "receipt_encodable demo_sealed" unfolding demo_sealed_def by (rule demo_receipt_encodable demo_small_strs)+
  then show ?thesis by (simp add: receipt_encodable_def encodable_bytes sealed_text_def)
qed

lemma receipt_file_fields: "S_ISREG (st_mode receipt_file)" "S_IMODE (st_mode receipt_file) = 0x180" "st_nlink receipt_file = 1"
  "st_uid receipt_file = 0" "st_size receipt_file = int (length sealed_text)"
  by (simp_all add: receipt_file_def S_ISREG_def S_IFMT_def S_IMODE_def)

abbreviation demo_name :: string where "demo_name \<equiv> receipt_name (fst demo_ident)"

theorem persisted_receipt_durable_witness:
  "\<exists>p t. persist_receipt demo_host demo_view 9 demo_dispatch (JObj demo_sealed) (service_with acked_journal []) = (Inr p, t)
    \<and> \<not> pr_idempotent p
    \<and> (\<exists>e. map_of (sv_receipts (close_service t)) demo_name = Some e \<and> holds_receipt demo_host sealed_text e)"
proof -
  let ?s = "service_with acked_journal []"
  obtain r' where r': "next_record 9 acked_record ''RECEIPT_PERSISTED'' None None = Inr r'" by (rule acked_next)
  have "verify_new_receipt_descriptor demo_host 0 (vw_file demo_view) sealed_text"
    using receipt_file_fields by (simp add: verify_new_receipt_descriptor_def demo_view_def read_back_eq)
  then have "persist_exact demo_host demo_view demo_name sealed_text ?s = (Inr False, stored demo_view demo_name ?s)"
    by (intro persist_exact_first [OF demo_store_ok]) (simp_all add: demo_view_def service_with_def MAX_RECEIPT_STORE_ENTRIES_def)
  from persist_receipt_completes [OF demo_own_dispatch demo_verified sealed_bytes, of ?s acked_record 9 r', unfolded demo_ident_ok(2),
      OF _ acked_fields(1,2) r' this]
  obtain p t where p: "persist_receipt demo_host demo_view 9 demo_dispatch (JObj demo_sealed) ?s = (Inr p, t)" "\<not> pr_idempotent p"
    using acked_loads by (auto simp: service_with_def)
  have "service_step\<^sup>*\<^sup>* t (close_service t)" using service_step.close by blast
  from persisted_receipt_durable [OF p(1) this] show ?thesis
    using p demo_verified unfolding demo_ident_ok(2) sealed_text_def by auto
qed

theorem receipt_retry_completes_witness:
  "\<exists>p t. persist_receipt demo_host demo_view 9 demo_dispatch (JObj demo_sealed)
      (service_with acked_journal [(demo_name, Stored receipt_file sealed_text)]) = (Inr p, t)
    \<and> pr_idempotent p \<and> j_state (pr_record p) = ''RECEIPT_PERSISTED''"
proof -
  let ?s = "service_with acked_journal [(demo_name, Stored receipt_file sealed_text)]"
  obtain r' where r': "next_record 9 acked_record ''RECEIPT_PERSISTED'' None None = Inr r'" by (rule acked_next)
  have s: "load (sv_journal ?s) (fst demo_ident) = Inr acked_record"
    "map_of (sv_receipts ?s) demo_name = Some (Stored receipt_file sealed_text)"
    "int (length (sv_receipts ?s)) \<le> MAX_RECEIPT_STORE_ENTRIES" "vw_read demo_view"
    using acked_loads by (simp_all add: service_with_def MAX_RECEIPT_STORE_ENTRIES_def demo_view_def)
  from receipt_retry_completes [OF demo_own_dispatch demo_verified sealed_bytes, of ?s acked_record 9 r', unfolded demo_ident_ok(2),
      OF s(1) acked_fields(1,2) r' s(2) receipt_file_fields(1,3,5) demo_store_ok s(4,3)]
  show ?thesis by auto
qed

end
