(* ===== verification/Ledger_Example.thy ===== *)
theory Ledger_Example
  imports Trust_Example
begin

text \<open>
  A signed request for verification as the first event of a ledger, on the host of Trust_Example.
\<close>

section \<open>The event\<close>

definition demo_request :: dict where
  "demo_request =
     [(''actor'', JStr ''codex''), (''attempt'', JInt 1), (''capability_receipt_sha256'', h64), (''expires_at'', JInt 400),
      (''gpu_allowed'', JBool False), (''issued_at'', JInt 100), (''kind'', JStr ''verification-dispatch''),
      (''ledger_domain'', JStr LEDGER_V2_DOMAIN), (''ledger_head_hash'', JStr LEDGER_V2_GENESIS_HASH),
      (''network_allowed'', JBool False), (''nonce'', JStr ''n1''), (''protocol_id'', JStr VERIFIER_PROTOCOL_ID),
      (''run_id'', JStr (replicate 32 CHR ''a'')), (''schema_version'', JInt 1), (''source'', sort_keys demo_source),
      (''task_id'', JStr ''T1''), (''validation_contract_sha256'', h64), (''verifier_manifest_sha256'', h64),
      (''workspace_id'', JStr ''w1'')]"

definition demo_event :: dict where
  "demo_event =
     [(''action'', JStr ''verification.requested''), (''actor'', JStr ''codex''), (''ledger_id'', JStr ''w1''),
      (''payload'', JObj demo_request), (''previous_hash'', JStr LEDGER_V2_GENESIS_HASH), (''sequence'', JInt 1),
      (''task_id'', JStr ''T1''), (''timestamp'', JStr ''100Z'')]"

abbreviation key9 :: string where "key9 \<equiv> replicate 64 CHR ''9''"

definition demo_envelope :: dict where
  "demo_envelope = v2_envelope_document key9 demo_event (replicate 64 CHR ''3'') demo_signature"

lemma demo_envelope_code [code]:
  "demo_envelope =
     [(''schema_version'', JInt LEDGER_V2_SCHEMA_VERSION), (''protocol_id'', JStr LEDGER_V2_PROTOCOL_ID),
      (''domain'', JStr LEDGER_V2_DOMAIN), (''kind'', JStr ''ledger-event''),
      (''algorithm'', JStr LEDGER_V2_SIGNATURE_ALGORITHM), (''key_id'', JStr key9), (''event'', JObj demo_event),
      (''event_hash'', h64), (''signature_b64'', JStr demo_signature_b64)]"
  by (simp add: demo_envelope_def v2_envelope_document_def demo_signature_encoded)

text \<open>The same envelope with its keys in order, as it comes back from a file.\<close>

definition stored_envelope :: dict where
  "stored_envelope = sorted_dict demo_envelope"

lemma demo_event_encodable: "encodable (JObj demo_event)" "exact_keys demo_event EVENT_KEYS"
  by code_simp+

lemma demo_event_fields:
  "dget demo_event ''sequence'' = JInt 1" "dget demo_event ''previous_hash'' = JStr LEDGER_V2_GENESIS_HASH"
  "dget demo_event ''ledger_id'' = JStr ''w1''" "dget demo_event ''action'' = JStr ''verification.requested''"
  "dget demo_event ''actor'' = JStr ''codex''" "dget demo_event ''task_id'' = JStr ''T1''"
  "dget demo_event ''timestamp'' = JStr ''100Z''" "dget demo_event ''payload'' = JObj demo_request"
  by (simp_all add: demo_event_def)

lemma demo_event_checks:
  "v2_timestamp demo_host (JStr ''100Z'') = Inr ()" "is_hex (JStr LEDGER_V2_GENESIS_HASH) 64"
  "is_identifier (JStr ''verification.requested'')" "is_hex (JStr key9) 64"
  by code_simp+

lemma demo_event_valid: "validate_v2_event demo_host (JObj demo_event) = Inr demo_event"
  by (simp add: validate_v2_event_def encodable_exact demo_event_encodable demo_event_fields demo_event_checks v2_identifier_def
      v2_sha256_def int_in_def MAX_LEDGER_V2_EVENTS_def)

lemma demo_event_hash: "v2_json_sha256 demo_host (JObj demo_event) = Inr (replicate 64 CHR ''3'')"
  by (simp add: v2_json_sha256_def encodable_bytes demo_event_encodable demo_sha_object del: replicate.simps)

section \<open>The envelope\<close>

text \<open>The fields that the checks of an envelope read.\<close>

definition demo_fields :: "dict \<Rightarrow> bool" where
  "demo_fields d \<longleftrightarrow>
     encodable (JObj d) \<and> exact_keys d ENVELOPE_KEYS
     \<and> dget d ''schema_version'' = JInt LEDGER_V2_SCHEMA_VERSION \<and> dget d ''protocol_id'' = JStr LEDGER_V2_PROTOCOL_ID
     \<and> dget d ''domain'' = JStr LEDGER_V2_DOMAIN \<and> dget d ''kind'' = JStr ''ledger-event''
     \<and> dget d ''algorithm'' = JStr LEDGER_V2_SIGNATURE_ALGORITHM \<and> dget d ''key_id'' = JStr key9
     \<and> dget d ''event'' = JObj demo_event \<and> dget d ''event_hash'' = h64
     \<and> dget d ''signature_b64'' = JStr (std_b64encode demo_signature)"

lemma demo_envelope_encodable: "encodable (JObj demo_envelope)" "exact_keys demo_envelope ENVELOPE_KEYS"
  by code_simp+

lemma stored_envelope_encodable: "encodable (JObj stored_envelope)" "exact_keys stored_envelope ENVELOPE_KEYS"
  by code_simp+

lemma demo_event_sorted: "sort_keys (JObj demo_event) = JObj demo_event"
  by code_simp

lemma demo_envelope_wf: "wf_json (JObj demo_envelope)"
  by code_simp

lemma demo_envelope_fields: "demo_fields demo_envelope"
  unfolding demo_fields_def
  by (simp only: demo_envelope_encodable) (simp add: demo_envelope_def v2_envelope_document_def)

lemma stored_envelope_fields: "demo_fields stored_envelope"
  unfolding demo_fields_def stored_envelope_def
  using stored_envelope_encodable demo_envelope_fields demo_envelope_wf demo_event_sorted
  by (simp add: dget_sorted_dict wf_json_JObj demo_fields_def stored_envelope_def)

lemma demo_signature_ok: "v2_signature (JStr (std_b64encode demo_signature)) = Inr demo_signature"
  by (simp add: v2_signature_def demo_signature_def)

lemma demo_fields_valid: "demo_fields d \<Longrightarrow> validate_v2_envelope demo_host (JObj d) = Inr d"
  by (simp add: demo_fields_def validate_v2_envelope_def encodable_exact demo_event_valid demo_event_hash v2_sha256_def
      demo_event_checks demo_signature_ok)

definition demo_ledger_binding :: ledger_binding where
  "demo_ledger_binding = \<lparr>lb_public_key = LEDGER_AUTHORITY_PUBLIC_KEY_PATH, lb_key_id = key9, lb_openssl = BROKER_OPENSSL_PATH,
     lb_openssl_sha256 = replicate 64 CHR ''7'', lb_broker_spki = replicate 64 CHR ''7'', lb_verifier_spki = replicate 64 CHR ''8''\<rparr>"

lemma demo_ledger_files:
  "ledger_root_owned_file demo_host LEDGER_AUTHORITY_PRIVATE_KEY_PATH True False = Inr LEDGER_AUTHORITY_PRIVATE_KEY_PATH"
  "ledger_root_owned_file demo_host LEDGER_AUTHORITY_PUBLIC_KEY_PATH False False = Inr LEDGER_AUTHORITY_PUBLIC_KEY_PATH"
  "ledger_root_owned_file demo_host BROKER_PUBLIC_KEY_PATH False False = Inr BROKER_PUBLIC_KEY_PATH"
  "ledger_root_owned_file demo_host VERIFIER_PUBLIC_KEY_PATH False False = Inr VERIFIER_PUBLIC_KEY_PATH"
  by code_simp+

lemma demo_ledger_openssl:
  "ledger_openssl_binding demo_host BROKER_OPENSSL_PATH LEDGER_AUTHORITY_OPENSSL_SHA256_PATH
     = Inr (BROKER_OPENSSL_PATH, replicate 64 CHR ''7'')"
  "distinct_authority_spki_binding demo_host LEDGER_AUTHORITY_PUBLIC_KEY_PATH BROKER_PUBLIC_KEY_PATH VERIFIER_PUBLIC_KEY_PATH
     BROKER_OPENSSL_PATH = Inr (key9, replicate 64 CHR ''7'', replicate 64 CHR ''8'')"
  by code_simp+

lemma demo_ledger_bindings:
  "trusted_ledger_verification_binding demo_host = Inr demo_ledger_binding"
  "trusted_ledger_signing_binding demo_host = Inr (LEDGER_AUTHORITY_PRIVATE_KEY_PATH, demo_ledger_binding)"
  by (simp_all add: trusted_ledger_verification_binding_def trusted_ledger_signing_binding_def demo_ledger_files
      demo_ledger_openssl demo_ledger_binding_def del: replicate.simps)

lemma demo_signature_encodable:
  "encodable (JObj (v2_signature_document demo_event h64 (JStr key9)))"
  "exact_keys (v2_signature_document demo_event h64 (JStr key9)) SIGNATURE_PREIMAGE_KEYS"
  by code_simp+

lemma demo_signature_bytes: "\<exists>m. v2_signature_bytes demo_event h64 (JStr key9) = Inr m"
  by (simp add: v2_signature_bytes_def encodable_exact encodable_bytes demo_signature_encodable)

lemma demo_pkeyutl_ledger:
  "ledger_sign demo_host openssl key m = Inr demo_signature"
  "ledger_check demo_host openssl key m demo_signature = Inr True"
  by (simp_all add: ledger_sign_def ledger_check_def demo_host_def demo_signature_def)

lemma demo_fields_verifies: "demo_fields d \<Longrightarrow> verify_v2_event demo_host (JObj d) = Inr d"
  using demo_signature_bytes demo_fields_valid [of d]
  by (auto simp: verify_v2_event_def demo_ledger_bindings demo_fields_def event_of_def demo_signature_ok v2_sha256_def
      demo_event_checks demo_pkeyutl_ledger demo_ledger_binding_def simp del: replicate.simps)

lemma demo_signs: "sign_v2_event demo_host demo_event = Inr demo_envelope"
  using demo_signature_bytes demo_fields_valid [OF demo_envelope_fields]
  by (auto simp: sign_v2_event_def demo_event_valid demo_event_hash demo_ledger_bindings v2_sha256_def demo_event_checks
      demo_pkeyutl_ledger demo_envelope_def demo_ledger_binding_def simp del: replicate.simps)

theorem signed_event_verifies_witness:
  "sign_v2_event demo_host demo_event = Inr demo_envelope \<and> verify_v2_event demo_host (JObj demo_envelope) = Inr demo_envelope"
  using demo_signs signed_event_verifies [OF demo_signs] by blast

section \<open>The chain\<close>

definition demo_chain :: dict where
  "demo_chain =
     [(''valid'', JBool True), (''scheme'', JStr LEDGER_V2_DOMAIN), (''events'', JInt 1), (''head'', h64),
      (''ledger_id'', JStr ''w1''), (''migrated_from_v1_audit_only'', JBool False), (''release_ready'', JBool False)]"

lemma demo_chain_verifies:
  assumes "demo_fields d"
  shows "verify_v2_chain demo_host [JObj d] = Inr demo_chain"
proof -
  have "event_of d = demo_event" "dget d ''event_hash'' = h64" using assms by (simp_all add: demo_fields_def event_of_def)
  moreover have "\<not> exact_keys d LEGACY_HMAC_V1_EVENT_KEYS"
  proof
    assume "exact_keys d LEGACY_HMAC_V1_EVENT_KEYS"
    moreover have "''algorithm'' \<in> fst ` set d" using assms by (simp add: demo_fields_def exact_keys_def ENVELOPE_KEYS_def)
    ultimately have "''algorithm'' \<in> set LEGACY_HMAC_V1_EVENT_KEYS" by (auto simp: exact_keys_def list_all_iff)
    then show False by (simp add: LEGACY_HMAC_V1_EVENT_KEYS_def)
  qed
  moreover have "MIGRATION_ACTION \<noteq> ''verification.requested''" by (simp add: MIGRATION_ACTION_def)
  ultimately show ?thesis
    using demo_fields_verifies [OF assms]
    by (simp add: verify_v2_chain_def is_legacy_event_def v2_chain_step_def demo_event_fields demo_chain_def
        MAX_LEDGER_V2_EVENTS_def del: replicate.simps)
qed

theorem v2_head_commits_witness:
  "verify_v2_chain demo_host (map JObj [stored_envelope]) = Inr demo_chain
   \<and> verify_v2_chain demo_host (map JObj [demo_envelope]) = Inr demo_chain
   \<and> (map (\<lambda>e. sort_keys (JObj (event_of e))) [stored_envelope] = map (\<lambda>e. sort_keys (JObj (event_of e))) [demo_envelope]
      \<or> hash_of demo_host demo_envelope = LEDGER_V2_GENESIS_HASH \<or> hash_of demo_host stored_envelope = LEDGER_V2_GENESIS_HASH
      \<or> v2_text stored_envelope \<noteq> v2_text demo_envelope)"
proof -
  have a: "verify_v2_chain demo_host (map JObj [stored_envelope]) = Inr demo_chain"
    "verify_v2_chain demo_host (map JObj [demo_envelope]) = Inr demo_chain"
    using demo_chain_verifies [OF stored_envelope_fields] demo_chain_verifies [OF demo_envelope_fields] by simp_all
  have "wf_json (JObj demo_event)" by code_simp
  then have "\<forall>e\<in>set [stored_envelope] \<union> set [demo_envelope]. wf_json (JObj (event_of e))"
    using stored_envelope_fields demo_envelope_fields by (simp add: demo_fields_def event_of_def)
  from v2_head_commits [OF a refl this] a show ?thesis by auto
qed

section \<open>The dispatch\<close>

lemma demo_reread: "rmap reread [JObj demo_envelope] = Inr [JObj stored_envelope]"
proof -
  have "loads (canonical_json (JObj demo_envelope)) = Some (JObj stored_envelope)"
    using loads_dumps [of "[]" "[]" "[]" "JObj demo_envelope"] demo_envelope_wf
    by (simp add: stored_envelope_def sorted_dict_def canonical_json_def del: dumps.simps)
  then show ?thesis by (simp add: reread_def encodable_bytes demo_envelope_encodable)
qed

definition demo_dispatched :: dict where
  "demo_dispatched = dput ''dispatch_event_hash'' h64 demo_request"

lemma demo_request_ok:
  "v2_exact_object (JObj demo_request) SIGNED_DISPATCH_PAYLOAD_KEYS = Inr demo_request"
  "dispatch_bound demo_event demo_request" "encodable (JObj demo_dispatched)" "exact_keys demo_dispatched DISPATCH_KEYS"
proof -
  have "encodable (JObj demo_request)" "exact_keys demo_request SIGNED_DISPATCH_PAYLOAD_KEYS" by code_simp+
  then show "v2_exact_object (JObj demo_request) SIGNED_DISPATCH_PAYLOAD_KEYS = Inr demo_request" by (rule encodable_exact)
qed code_simp+

lemma demo_dispatched_fields:
  "dget demo_dispatched ''schema_version'' = JInt 1" "dget demo_dispatched ''protocol_id'' = JStr VERIFIER_PROTOCOL_ID"
  "dget demo_dispatched ''kind'' = JStr ''verification-dispatch''"
  "dget demo_dispatched ''ledger_domain'' = JStr VERIFIER_LEDGER_DOMAIN"
  "dget demo_dispatched ''dispatch_event_hash'' = h64" "dget demo_dispatched ''ledger_head_hash'' = JStr LEDGER_V2_GENESIS_HASH"
  "dget demo_dispatched ''workspace_id'' = JStr ''w1''" "dget demo_dispatched ''task_id'' = JStr ''T1''"
  "dget demo_dispatched ''actor'' = JStr ''codex''" "dget demo_dispatched ''nonce'' = JStr ''n1''"
  "dget demo_dispatched ''attempt'' = JInt 1" "dget demo_dispatched ''run_id'' = JStr (replicate 32 CHR ''a'')"
  "dget demo_dispatched ''validation_contract_sha256'' = h64" "dget demo_dispatched ''verifier_manifest_sha256'' = h64"
  "dget demo_dispatched ''capability_receipt_sha256'' = h64" "dget demo_dispatched ''network_allowed'' = JBool False"
  "dget demo_dispatched ''gpu_allowed'' = JBool False" "dget demo_dispatched ''issued_at'' = JInt 100"
  "dget demo_dispatched ''expires_at'' = JInt 400" "dget demo_dispatched ''source'' = sort_keys demo_source"
  by (simp_all add: demo_dispatched_def demo_request_def LEDGER_V2_DOMAIN_def VERIFIER_LEDGER_DOMAIN_def)

lemma demo_dispatched_valid: "validate_dispatch (JObj demo_dispatched) 200 = Inr demo_dispatched"
proof -
  have "\<not> isl (validate_source (sort_keys demo_source))" by code_simp
  then show ?thesis
    using Inr_of demo_event_checks(2) encodable_exact(1) [OF demo_request_ok(3,4)]
    by (auto simp: validate_dispatch_def demo_dispatched_fields VERIFIER_SCHEMA_VERSION_def require_sha256_def
        require_identifier_def is_false_def MAX_DISPATCH_TTL_SECONDS_def MAX_CLOCK_SKEW_SECONDS_def simp del: replicate.simps)
qed

theorem signed_dispatch_sound_witness:
  "verify_signed_dispatch demo_host [JObj demo_envelope] h64 200 = Inr demo_dispatched
   \<and> (\<exists>ds ledger_id. rmap reread [JObj demo_envelope] = Inr (map JObj ds) \<and> h64 = JStr (hash_of demo_host (last ds))
        \<and> (\<forall>e\<in>set ds. sound_event demo_host ledger_id e))"
proof -
  have "event_of stored_envelope = demo_event" "dget stored_envelope ''event_hash'' = h64"
    using stored_envelope_fields by (simp_all add: demo_fields_def event_of_def)
  then have ok: "verify_signed_dispatch demo_host [JObj demo_envelope] h64 200 = Inr demo_dispatched"
    using demo_dispatched_valid
    by (simp add: verify_signed_dispatch_def demo_reread demo_chain_verifies stored_envelope_fields demo_fields_verifies
        v2_sha256_def demo_chain_def demo_event_fields demo_request_ok catch_all_def demo_dispatched_def
        del: replicate.simps rmap.simps)
  show ?thesis using ok signed_dispatch_sound [OF ok] by blast
qed

theorem trust_checks_agree_witness:
  "lstat_resolves demo_host
   \<and> ledger_root_owned_file demo_host LEDGER_AUTHORITY_PRIVATE_KEY_PATH True False = Inr LEDGER_AUTHORITY_PRIVATE_KEY_PATH
   \<and> receipt_root_owned_file demo_host LEDGER_AUTHORITY_PRIVATE_KEY_PATH True False = Inr LEDGER_AUTHORITY_PRIVATE_KEY_PATH
   \<and> root_protected demo_host LEDGER_AUTHORITY_PUBLIC_KEY_PATH"
  using demo_lstat_resolves demo_ledger_files(1,2)
    trust_checks_agree [OF demo_lstat_resolves, of LEDGER_AUTHORITY_PRIVATE_KEY_PATH]
    trust_checks_agree [OF demo_lstat_resolves, of LEDGER_AUTHORITY_PUBLIC_KEY_PATH] by blast

end
