(* ===== verification/Store_V2.thy ===== *)
theory Store_V2
  imports Ledger_V2_Safety
begin

text \<open>
  The durable store of the signed ledger (\<^verbatim>\<open>ledger_authority_store_v2.py\<close>): an event log and a journal of
  PREPARE and COMMIT records, both append-only files of canonical JSON lines. An append writes the
  PREPARE, the event and the COMMIT, in this order; what a failure leaves between them is completed by
  an explicit reconciliation.

  The state is the text of the two files and the set of transactions that this instance has seen fail. The operating
  system decides, for every step of an operation that touches it, whether the step succeeds and how
  much of a record a failing write leaves in the file (\<open>store_io\<close>).
\<close>

section \<open>Constants\<close>

definition LEDGER_V2_CHECKPOINT_DOMAIN :: string where "LEDGER_V2_CHECKPOINT_DOMAIN = ''cogni-os.ledger-checkpoint.v2''"
definition LEDGER_V2_JOURNAL_DOMAIN :: string where "LEDGER_V2_JOURNAL_DOMAIN = ''cogni-os.ledger-append-journal.v2''"
definition LEDGER_V2_JOURNAL_GENESIS_HASH :: string where "LEDGER_V2_JOURNAL_GENESIS_HASH = replicate 64 CHR ''0''"

definition MAX_STORE_LINE_BYTES :: int where "MAX_STORE_LINE_BYTES = MAX_LEDGER_V2_DOCUMENT_BYTES"
definition MAX_STORE_BYTES :: int where "MAX_STORE_BYTES = 128 * 1024 * 1024"
definition MAX_STORE_EVENTS :: int where "MAX_STORE_EVENTS = 100000"
definition MAX_JOURNAL_LINE_BYTES :: int where "MAX_JOURNAL_LINE_BYTES = MAX_LEDGER_V2_DOCUMENT_BYTES + 16 * 1024"
definition MAX_JOURNAL_BYTES :: int where "MAX_JOURNAL_BYTES = 256 * 1024 * 1024"
definition MAX_JOURNAL_ENTRIES :: int where "MAX_JOURNAL_ENTRIES = MAX_STORE_EVENTS * 2"

definition PREPARE_KEYS :: "string list" where
  "PREPARE_KEYS = [''schema_version'', ''protocol_id'', ''domain'', ''kind'', ''journal_sequence'', ''previous_journal_hash'',
     ''tx_id'', ''ledger_id'', ''expected_sequence'', ''expected_head'', ''pre_log_sha256'', ''pre_log_size_bytes'',
     ''post_log_sha256'', ''post_log_size_bytes'', ''event_hash'', ''envelope_sha256'', ''envelope'', ''journal_hash'']"

definition COMMIT_KEYS :: "string list" where
  "COMMIT_KEYS = [''schema_version'', ''protocol_id'', ''domain'', ''kind'', ''journal_sequence'', ''previous_journal_hash'',
     ''tx_id'', ''prepare_hash'', ''ledger_id'', ''expected_sequence'', ''event_hash'', ''post_log_sha256'',
     ''post_log_size_bytes'', ''journal_hash'']"

definition CHECKPOINT_KEYS :: "string list" where
  "CHECKPOINT_KEYS = [''schema_version'', ''protocol_id'', ''domain'', ''kind'', ''algorithm'', ''key_id'', ''ledger_id'',
     ''event_count'', ''head_hash'', ''log_sha256'', ''log_size_bytes'', ''journal_entry_count'', ''journal_head_hash'',
     ''journal_sha256'', ''journal_size_bytes'', ''issued_at'', ''signature_b64'']"

definition CHECKPOINT_PREIMAGE_KEYS :: "string list" where
  "CHECKPOINT_PREIMAGE_KEYS = filter (\<lambda>k. k \<noteq> ''signature_b64'') CHECKPOINT_KEYS"

section \<open>Checks of values\<close>

definition st_exact_object :: "json \<Rightarrow> string list \<Rightarrow> dict res" where
  "st_exact_object v keys =
     (case v of
        JObj d \<Rightarrow>
          rbind (ensure (exact_keys d keys) LedgerAuthorityStoreV2Error '''') (\<lambda>_.
          rbind (v2_json_bytes v) (\<lambda>_. Inr d))
      | _ \<Rightarrow> raise LedgerAuthorityStoreV2Error '''')"

definition st_sha256 :: "json \<Rightarrow> unit res" where
  "st_sha256 v = ensure (is_hex v 64) LedgerAuthorityStoreV2Error ''''"

definition st_identifier :: "json \<Rightarrow> unit res" where
  "st_identifier v = ensure (is_identifier v) LedgerAuthorityStoreV2Error ''''"

definition positive_bounded_int :: "json \<Rightarrow> int \<Rightarrow> unit res" where
  "positive_bounded_int v maximum = ensure (int_in 1 maximum v) LedgerAuthorityStoreV2Error ''''"

definition bounded_nonnegative_int :: "json \<Rightarrow> int \<Rightarrow> unit res" where
  "bounded_nonnegative_int v maximum = ensure (int_in 0 maximum v) LedgerAuthorityStoreV2Error ''''"

definition st_timestamp :: "('r) runtime_scheme \<Rightarrow> json \<Rightarrow> unit res" where
  "st_timestamp R v =
     (case v of
        JStr s \<Rightarrow>
          if s = [] \<or> 64 < py_len s then raise LedgerAuthorityStoreV2Error ''Checkpoint timestamp is invalid''
          else (case fromisoformat R (if endswith s ''Z'' then butlast s @ ''+00:00'' else s) of
                  None \<Rightarrow> raise LedgerAuthorityStoreV2Error ''Checkpoint timestamp is invalid''
                | Some (Naive _) \<Rightarrow> raise LedgerAuthorityStoreV2Error ''Checkpoint timestamp has no timezone''
                | Some (Aware _ _) \<Rightarrow> Inr ())
      | _ \<Rightarrow> raise LedgerAuthorityStoreV2Error ''Checkpoint timestamp is invalid'')"

section \<open>Lines\<close>

text \<open>
  A repeated key is refused by the hook of the decoder in the code; here the repetition is lost when
  the object is built, and the comparison with the canonical text refuses the line. A literal such as
  \<^verbatim>\<open>NaN\<close> is refused with the same class as there.
\<close>

definition decode_json_object :: "string \<Rightarrow> dict res" where
  "decode_json_object body =
     rbind (ensure (body \<noteq> []) LedgerAuthorityStoreV2Error '''') (\<lambda>_.
     rbind (case (if utf8_valid body then loads body else None) of
              None \<Rightarrow> raise LedgerAuthorityStoreV2Error ''''
            | Some v \<Rightarrow> Inr v) (\<lambda>value.
     rbind (ensure (json_finite value) LedgerAuthorityStoreV2Error ''JSON constant is forbidden: '') (\<lambda>_.
     case value of
       JObj d \<Rightarrow>
         rbind (v2_json_bytes value) (\<lambda>canonical.
         rbind (ensure (canonical = body) LedgerAuthorityStoreV2Error '''') (\<lambda>_. Inr d))
     | _ \<Rightarrow> raise LedgerAuthorityStoreV2Error '''')))"

definition decode_ledger_line :: "('r) runtime_scheme \<Rightarrow> string \<Rightarrow> dict res" where
  "decode_ledger_line R body =
     rbind (decode_json_object body) (\<lambda>value.
     rbind (ensure (\<not> exact_keys value LEGACY_HMAC_V1_EVENT_KEYS) LedgerAuthorityStoreV2Error
              ''HMAC v1 event must not be mixed into the Ed25519 v2 store'') (\<lambda>_.
     validate_v2_envelope R (JObj value)))"

text \<open>The parts of \<^verbatim>\<open>_validate_journal_record\<close>: the fields of both kinds, those of a PREPARE, the hash.\<close>

definition validate_record_common :: "dict \<Rightarrow> unit res" where
  "validate_record_common d =
     rbind (ensure (py_eq (dget d ''schema_version'') (JInt LEDGER_V2_SCHEMA_VERSION)
                    \<and> py_eq (dget d ''protocol_id'') (JStr LEDGER_V2_PROTOCOL_ID)
                    \<and> py_eq (dget d ''domain'') (JStr LEDGER_V2_JOURNAL_DOMAIN))
              LedgerAuthorityStoreV2Error ''Ledger v2 journal identity is invalid'') (\<lambda>_.
     rbind (positive_bounded_int (dget d ''journal_sequence'') MAX_JOURNAL_ENTRIES) (\<lambda>_.
     rbind (st_sha256 (dget d ''previous_journal_hash'')) (\<lambda>_.
     rbind (st_identifier (dget d ''tx_id'')) (\<lambda>_.
     rbind (st_identifier (dget d ''ledger_id'')) (\<lambda>_.
     rbind (positive_bounded_int (dget d ''expected_sequence'') MAX_STORE_EVENTS) (\<lambda>_.
     rbind (st_sha256 (dget d ''event_hash'')) (\<lambda>_.
     rbind (st_sha256 (dget d ''post_log_sha256'')) (\<lambda>_.
     bounded_nonnegative_int (dget d ''post_log_size_bytes'') MAX_STORE_BYTES))))))))"

definition validate_prepare_fields :: "('r) runtime_scheme \<Rightarrow> dict \<Rightarrow> unit res" where
  "validate_prepare_fields R d =
     rbind (st_sha256 (dget d ''expected_head'')) (\<lambda>_.
     rbind (st_sha256 (dget d ''pre_log_sha256'')) (\<lambda>_.
     rbind (bounded_nonnegative_int (dget d ''pre_log_size_bytes'') MAX_STORE_BYTES) (\<lambda>_.
     rbind (st_sha256 (dget d ''envelope_sha256'')) (\<lambda>_.
     rbind (validate_v2_envelope R (dget d ''envelope'')) (\<lambda>envelope.
     rbind (v2_json_bytes (JObj envelope)) (\<lambda>encoded.
     ensure (dget d ''envelope_sha256'' = JStr (sha256_hex R encoded)
             \<and> py_eq (dget envelope ''event_hash'') (dget d ''event_hash'')
             \<and> py_eq (dget (event_of envelope) ''ledger_id'') (dget d ''ledger_id'')
             \<and> py_eq (dget (event_of envelope) ''sequence'') (dget d ''expected_sequence'')
             \<and> py_eq (dget (event_of envelope) ''previous_hash'') (dget d ''expected_head'')
             \<and> py_eq (dget d ''post_log_size_bytes'') (JInt (int_value (dget d ''pre_log_size_bytes'') + int (length encoded) + 1)))
       LedgerAuthorityStoreV2Error ''Ledger v2 PREPARE does not bind its exact envelope transition''))))))"

definition validate_journal_record :: "('r) runtime_scheme \<Rightarrow> dict \<Rightarrow> dict res" where
  "validate_journal_record R d =
     (let kind = dget d ''kind'' in
      rbind (ensure (kind = JStr ''PREPARE'' \<and> exact_keys d PREPARE_KEYS \<or> kind = JStr ''COMMIT'' \<and> exact_keys d COMMIT_KEYS)
               LedgerAuthorityStoreV2Error ''Ledger v2 journal schema is not exact'') (\<lambda>_.
      rbind (validate_record_common d) (\<lambda>_.
      rbind (if kind = JStr ''PREPARE'' then validate_prepare_fields R d else st_sha256 (dget d ''prepare_hash'')) (\<lambda>_.
      rbind (st_sha256 (dget d ''journal_hash'')) (\<lambda>_.
      rbind (v2_json_bytes (JObj (filter (\<lambda>p. fst p \<noteq> ''journal_hash'') d))) (\<lambda>body.
      rbind (ensure (dget d ''journal_hash'' = JStr (sha256_hex R body)) LedgerAuthorityStoreV2Error
               ''Ledger v2 journal record hash is invalid'') (\<lambda>_.
      Inr d)))))))"

definition decode_journal_line :: "('r) runtime_scheme \<Rightarrow> string \<Rightarrow> dict res" where
  "decode_journal_line R body = rbind (decode_json_object body) (validate_journal_record R)"

section \<open>Journal records\<close>

record v2_snapshot =
  vs_envelopes :: "dict list"
  vs_event_count :: int
  vs_head_hash :: json
  vs_ledger_id :: json
  vs_log_sha256 :: string
  vs_log_size :: int
  vs_journal_entry_count :: int
  vs_journal_head_hash :: json
  vs_journal_sha256 :: string
  vs_journal_size :: int

record tx_state =
  tx_name :: json
  tx_status :: string
  tx_prepare :: "dict option"
  tx_commit :: "dict option"

type_synonym transactions = "(json \<times> tx_state) list"

record journal_snapshot =
  jn_entries :: "dict list"
  jn_transactions :: transactions
  jn_entry_count :: int
  jn_head_hash :: json
  jn_sha256 :: string
  jn_size :: int

record combined_audit =
  ca_ledger :: v2_snapshot
  ca_journal :: journal_snapshot

definition with_journal_hash :: "('r) crypto_scheme \<Rightarrow> dict \<Rightarrow> dict res" where
  "with_journal_hash H body =
     rbind (v2_json_bytes (JObj body)) (\<lambda>encoded.
     Inr (body @ [(''journal_hash'', JStr (sha256_hex H encoded))]))"

definition prepare_document :: "json \<Rightarrow> int \<Rightarrow> json \<Rightarrow> dict \<Rightarrow> v2_snapshot \<Rightarrow> string \<Rightarrow> int \<Rightarrow> string \<Rightarrow> dict" where
  "prepare_document tx_id journal_sequence previous_journal_hash envelope pre post_log_sha256 post_log_size envelope_sha256 =
     [(''schema_version'', JInt LEDGER_V2_SCHEMA_VERSION), (''protocol_id'', JStr LEDGER_V2_PROTOCOL_ID),
      (''domain'', JStr LEDGER_V2_JOURNAL_DOMAIN), (''kind'', JStr ''PREPARE''), (''journal_sequence'', JInt journal_sequence),
      (''previous_journal_hash'', previous_journal_hash), (''tx_id'', tx_id),
      (''ledger_id'', dget (event_of envelope) ''ledger_id''), (''expected_sequence'', dget (event_of envelope) ''sequence''),
      (''expected_head'', dget (event_of envelope) ''previous_hash''), (''pre_log_sha256'', JStr (vs_log_sha256 pre)),
      (''pre_log_size_bytes'', JInt (vs_log_size pre)), (''post_log_sha256'', JStr post_log_sha256),
      (''post_log_size_bytes'', JInt post_log_size), (''event_hash'', dget envelope ''event_hash''),
      (''envelope_sha256'', JStr envelope_sha256), (''envelope'', JObj envelope)]"

definition make_prepare ::
  "('r) crypto_scheme \<Rightarrow> json \<Rightarrow> int \<Rightarrow> json \<Rightarrow> dict \<Rightarrow> v2_snapshot \<Rightarrow> string \<Rightarrow> int \<Rightarrow> dict res" where
  "make_prepare H tx_id journal_sequence previous_journal_hash envelope pre post_log_sha256 post_log_size =
     rbind (v2_json_bytes (JObj envelope)) (\<lambda>encoded.
     with_journal_hash H (prepare_document tx_id journal_sequence previous_journal_hash envelope pre post_log_sha256 post_log_size
       (sha256_hex H encoded)))"

definition commit_document :: "dict \<Rightarrow> journal_snapshot \<Rightarrow> dict" where
  "commit_document prepare journal =
     [(''schema_version'', JInt LEDGER_V2_SCHEMA_VERSION), (''protocol_id'', JStr LEDGER_V2_PROTOCOL_ID),
      (''domain'', JStr LEDGER_V2_JOURNAL_DOMAIN), (''kind'', JStr ''COMMIT''),
      (''journal_sequence'', JInt (jn_entry_count journal + 1)), (''previous_journal_hash'', jn_head_hash journal),
      (''tx_id'', dget prepare ''tx_id''), (''prepare_hash'', dget prepare ''journal_hash''),
      (''ledger_id'', dget prepare ''ledger_id''), (''expected_sequence'', dget prepare ''expected_sequence''),
      (''event_hash'', dget prepare ''event_hash''), (''post_log_sha256'', dget prepare ''post_log_sha256''),
      (''post_log_size_bytes'', dget prepare ''post_log_size_bytes'')]"

definition make_commit :: "('r) crypto_scheme \<Rightarrow> dict \<Rightarrow> journal_snapshot \<Rightarrow> dict res" where
  "make_commit H prepare journal =
     rbind (ensure (py_eq (jn_head_hash journal) (dget prepare ''journal_hash'')) LedgerAuthorityStoreV2Error
              ''Ledger v2 PREPARE is not the current journal head'') (\<lambda>_.
     with_journal_hash H (commit_document prepare journal))"

section \<open>The journal chain\<close>

record journal_scan =
  sc_previous :: json
  sc_transactions :: transactions
  sc_unresolved :: "json option"

definition commit_binds :: "dict \<Rightarrow> dict \<Rightarrow> bool" where
  "commit_binds entry prepare \<longleftrightarrow>
     py_eq (dget entry ''prepare_hash'') (dget prepare ''journal_hash'')
     \<and> py_eq (dget entry ''previous_journal_hash'') (dget prepare ''journal_hash'')
     \<and> list_all (\<lambda>k. py_eq (dget entry k) (dget prepare k))
         [''ledger_id'', ''expected_sequence'', ''event_hash'', ''post_log_sha256'', ''post_log_size_bytes'']"

definition journal_step :: "int \<Rightarrow> dict \<Rightarrow> journal_scan \<Rightarrow> journal_scan res" where
  "journal_step index entry sc =
     rbind (ensure (py_eq (dget entry ''journal_sequence'') (JInt index)
                    \<and> py_eq (dget entry ''previous_journal_hash'') (sc_previous sc))
              LedgerAuthorityStoreV2Error ''Ledger v2 journal chain is discontinuous'') (\<lambda>_.
     let tx_id = dget entry ''tx_id'' in
     rbind (if dget entry ''kind'' = JStr ''PREPARE'' then
              rbind (ensure (sc_unresolved sc = None \<and> map_of (sc_transactions sc) tx_id = None) LedgerAuthorityStoreV2Error
                       ''Ledger v2 journal contains overlapping or reused tx_id'') (\<lambda>_.
              Inr (sc\<lparr>sc_transactions := alist_put tx_id
                        \<lparr>tx_name = tx_id, tx_status = ''prepared'', tx_prepare = Some entry, tx_commit = None\<rparr> (sc_transactions sc),
                      sc_unresolved := Some tx_id\<rparr>))
            else
              (case Option.bind (map_of (sc_transactions sc) tx_id) tx_prepare of
                 Some prepare \<Rightarrow>
                   rbind (ensure (sc_unresolved sc = Some tx_id) LedgerAuthorityStoreV2Error
                            ''Ledger v2 COMMIT has no immediately pending PREPARE'') (\<lambda>_.
                   rbind (ensure (commit_binds entry prepare) LedgerAuthorityStoreV2Error
                            ''Ledger v2 COMMIT does not bind its PREPARE'') (\<lambda>_.
                   Inr (sc\<lparr>sc_transactions := alist_put tx_id
                             \<lparr>tx_name = tx_id, tx_status = ''committed'', tx_prepare = Some prepare, tx_commit = Some entry\<rparr>
                             (sc_transactions sc),
                           sc_unresolved := None\<rparr>)))
               | None \<Rightarrow> raise LedgerAuthorityStoreV2Error ''Ledger v2 COMMIT has no immediately pending PREPARE'')) (\<lambda>sc.
     Inr (sc\<lparr>sc_previous := dget entry ''journal_hash''\<rparr>)))"

fun journal_from :: "int \<Rightarrow> dict list \<Rightarrow> journal_scan \<Rightarrow> journal_scan res" where
  "journal_from i [] sc = Inr sc"
| "journal_from i (e # es) sc = rbind (journal_step i e sc) (journal_from (i + 1) es)"

definition initial_scan :: journal_scan where
  "initial_scan = \<lparr>sc_previous = JStr LEDGER_V2_JOURNAL_GENESIS_HASH, sc_transactions = [], sc_unresolved = None\<rparr>"

definition validate_journal_chain :: "dict list \<Rightarrow> transactions res" where
  "validate_journal_chain entries = rbind (journal_from 1 entries initial_scan) (\<lambda>sc. Inr (sc_transactions sc))"

section \<open>Reading the files\<close>

text \<open>\<^verbatim>\<open>handle.readline(limit)\<close>: the line up to its LF, or the first \<open>limit\<close> bytes of it, and the rest.\<close>

fun read_line_limit :: "int \<Rightarrow> string \<Rightarrow> string \<times> string" where
  "read_line_limit n [] = ([], [])"
| "read_line_limit n (c # cs) =
     (if n \<le> 0 then ([], c # cs)
      else if c = CHR 0x0A then ([c], cs)
      else let (line, rest) = read_line_limit (n - 1) cs in (c # line, rest))"

lemma read_line_limit_append: "read_line_limit n s = (line, rest) \<Longrightarrow> s = line @ rest"
  by (induction n s arbitrary: line rest rule: read_line_limit.induct) (auto split: if_splits prod.splits)

text \<open>\<^verbatim>\<open>_read_jsonl\<close>; the digest of the lines read so far stands as the text itself.\<close>

function read_lines ::
  "(string \<Rightarrow> dict res) \<Rightarrow> int \<Rightarrow> int \<Rightarrow> int \<Rightarrow> string \<Rightarrow> dict list \<Rightarrow> int \<Rightarrow> string \<Rightarrow> (dict list \<times> string \<times> int) res" where
  "read_lines decoder maximum_line maximum_bytes maximum_entries rest documents seen fed =
     (let (line, rest') = read_line_limit (min (maximum_line + 2) (maximum_bytes - seen + 1)) rest in
      if line = [] then Inr (documents, fed, seen)
      else
        rbind (ensure (seen + int (length line) \<le> maximum_bytes) LedgerAuthorityStoreV2Error '''') (\<lambda>_.
        rbind (ensure (int (length documents) < maximum_entries) LedgerAuthorityStoreV2Error '''') (\<lambda>_.
        rbind (ensure (endswith line [CHR 0x0A]) LedgerAuthorityStoreV2Error '''') (\<lambda>_.
        rbind (ensure (int (length (butlast line)) \<le> maximum_line) LedgerAuthorityStoreV2Error '''') (\<lambda>_.
        rbind (decoder (butlast line)) (\<lambda>document.
        read_lines decoder maximum_line maximum_bytes maximum_entries rest' (documents @ [document])
          (seen + int (length line)) (fed @ line)))))))"
  by pat_completeness auto

termination
proof (relation "measure (\<lambda>(decoder, L, B, N, rest, documents, seen, fed). length rest)")
  fix L B seen :: int and rest x line rest' :: string and p
  assume "p = read_line_limit (min (L + 2) (B - seen + 1)) rest" "(line, rest') = p" "line \<noteq> []"
  then have "rest = line @ rest'" "line \<noteq> []" using read_line_limit_append [of _ rest line rest'] by simp_all
  then have "length rest' < length rest" by simp
  then show "((decoder, L, B, N, rest', documents', seen', fed'), (decoder, L, B, N, rest, documents, seen, fed))
      \<in> measure (\<lambda>(decoder, L, B, N, rest, documents, seen, fed). length rest)"
    for decoder :: "string \<Rightarrow> dict res" and N documents' seen' fed' documents fed by simp
qed simp

declare read_lines.simps [simp del]

definition read_jsonl ::
  "('r) crypto_scheme \<Rightarrow> int \<Rightarrow> int \<Rightarrow> int \<Rightarrow> (string \<Rightarrow> dict res) \<Rightarrow> string \<Rightarrow> (dict list \<times> string \<times> int) res" where
  "read_jsonl H maximum_line maximum_bytes maximum_entries decoder contents =
     rbind (read_lines decoder maximum_line maximum_bytes maximum_entries contents [] 0 []) (\<lambda>(documents, fed, seen).
     Inr (documents, sha256_hex H fed, seen))"

definition read_ledger :: "('r) trust_host_scheme \<Rightarrow> string \<Rightarrow> v2_snapshot res" where
  "read_ledger H contents =
     rbind (read_jsonl H MAX_STORE_LINE_BYTES MAX_STORE_BYTES MAX_STORE_EVENTS (decode_ledger_line H) contents)
       (\<lambda>(envelopes, digest, seen).
     rbind (verify_v2_chain H (map JObj envelopes)) (\<lambda>summary.
     Inr \<lparr>vs_envelopes = envelopes, vs_event_count = int (length envelopes), vs_head_hash = dget summary ''head'',
          vs_ledger_id = dget summary ''ledger_id'', vs_log_sha256 = digest, vs_log_size = seen,
          vs_journal_entry_count = 0, vs_journal_head_hash = JStr LEDGER_V2_JOURNAL_GENESIS_HASH,
          vs_journal_sha256 = sha256_hex H [], vs_journal_size = 0\<rparr>))"

definition read_journal :: "('r) trust_host_scheme \<Rightarrow> string \<Rightarrow> journal_snapshot res" where
  "read_journal H contents =
     rbind (read_jsonl H MAX_JOURNAL_LINE_BYTES MAX_JOURNAL_BYTES MAX_JOURNAL_ENTRIES (decode_journal_line H) contents)
       (\<lambda>(entries, digest, seen).
     rbind (validate_journal_chain entries) (\<lambda>transactions.
     Inr \<lparr>jn_entries = entries, jn_transactions = transactions, jn_entry_count = int (length entries),
          jn_head_hash = (if entries = [] then JStr LEDGER_V2_JOURNAL_GENESIS_HASH else dget (last entries) ''journal_hash''),
          jn_sha256 = digest, jn_size = seen\<rparr>))"

section \<open>The two files together\<close>

text \<open>The digests and sizes of the log after each of its events, from \<open>fed\<close> on.\<close>

fun ledger_prefixes_from :: "('r) crypto_scheme \<Rightarrow> string \<Rightarrow> dict list \<Rightarrow> (string \<times> int) list res" where
  "ledger_prefixes_from H fed [] = Inr [(sha256_hex H fed, int (length fed))]"
| "ledger_prefixes_from H fed (e # es) =
     rbind (v2_json_bytes (JObj e)) (\<lambda>encoded.
     rbind (ledger_prefixes_from H (fed @ encoded @ [CHR 0x0A]) es) (\<lambda>ps.
     Inr ((sha256_hex H fed, int (length fed)) # ps)))"

definition ledger_prefixes :: "('r) crypto_scheme \<Rightarrow> dict list \<Rightarrow> (string \<times> int) list res" where
  "ledger_prefixes H envelopes = ledger_prefixes_from H [] envelopes"

definition hash_envelope_lines :: "('r) crypto_scheme \<Rightarrow> dict list \<Rightarrow> string res" where
  "hash_envelope_lines H envelopes = rbind (ledger_prefixes H envelopes) (\<lambda>ps. Inr (fst (last ps)))"

definition is_prepare :: "dict \<Rightarrow> bool" where
  "is_prepare e \<longleftrightarrow> dget e ''kind'' = JStr ''PREPARE''"

definition is_commit :: "dict \<Rightarrow> bool" where
  "is_commit e \<longleftrightarrow> dget e ''kind'' = JStr ''COMMIT''"

definition log_at :: "json \<Rightarrow> json \<Rightarrow> string \<times> int \<Rightarrow> bool" where
  "log_at digest len p \<longleftrightarrow> py_eq digest (JStr (fst p)) \<and> py_eq len (JInt (snd p))"

definition check_prepare :: "v2_snapshot \<Rightarrow> (string \<times> int) list \<Rightarrow> nat \<times> dict \<Rightarrow> unit res" where
  "check_prepare ledger prefixes op =
     (let (ordinal, prepare) = op in
      rbind (ensure (py_eq (dget prepare ''expected_sequence'') (JInt (int ordinal))) LedgerAuthorityStoreV2Error
               ''Ledger v2 journal event sequence is not contiguous'') (\<lambda>_.
      rbind (ensure (log_at (dget prepare ''pre_log_sha256'') (dget prepare ''pre_log_size_bytes'') (prefixes ! (ordinal - 1)))
               LedgerAuthorityStoreV2Error ''Ledger v2 PREPARE pre-state does not match the event log'') (\<lambda>_.
      if int ordinal \<le> vs_event_count ledger then
        ensure (py_eq (dget prepare ''envelope'') (JObj (vs_envelopes ledger ! (ordinal - 1)))
                \<and> log_at (dget prepare ''post_log_sha256'') (dget prepare ''post_log_size_bytes'') (prefixes ! ordinal))
          LedgerAuthorityStoreV2Error ''Ledger v2 PREPARE post-state does not match the event log''
      else Inr ())))"

definition unresolved :: "transactions \<Rightarrow> tx_state list" where
  "unresolved txs = filter (\<lambda>t. tx_status t \<noteq> ''committed'') (map snd txs)"

definition validate_combined :: "('r) crypto_scheme \<Rightarrow> v2_snapshot \<Rightarrow> journal_snapshot \<Rightarrow> bool \<Rightarrow> unit res" where
  "validate_combined H ledger journal require_clean =
     rbind (ledger_prefixes H (vs_envelopes ledger)) (\<lambda>prefixes.
     let prepares = filter is_prepare (jn_entries journal);
         commits = filter is_commit (jn_entries journal) in
     rbind (ensure (\<not> (int (length prepares) > vs_event_count ledger + 1 \<or> int (length commits) > vs_event_count ledger))
              LedgerAuthorityStoreV2Error ''Ledger v2 journal cardinality is inconsistent with the event log'') (\<lambda>_.
     rbind (reach (check_prepare ledger prefixes) (enumerate 1 prepares)) (\<lambda>_.
     case unresolved (jn_transactions journal) of
       [] \<Rightarrow>
         ensure (int (length commits) = vs_event_count ledger) LedgerAuthorityStoreV2Error
           ''Ledger v2 contains an event without a committed journal transaction''
     | u # us \<Rightarrow>
         rbind (ensure (case tx_prepare u of
                          None \<Rightarrow> False
                        | Some prepare \<Rightarrow>
                            py_eq (dget prepare ''expected_sequence'') (JInt (vs_event_count ledger))
                            \<or> py_eq (dget prepare ''expected_sequence'') (JInt (vs_event_count ledger + 1)))
                  LedgerAuthorityStoreV2Error ''Ledger v2 unresolved transaction has an indeterminate log position'') (\<lambda>_.
         ensure (\<not> require_clean) LedgerAuthorityStoreV2Error ''Ledger v2 transaction ''))))"

section \<open>The store\<close>

record v2_store =
  log_text :: string
  journal_text :: string
  indeterminate :: "string list"

text \<open>
  What the operating system does to an operation: the outcome of each append (\<open>Broken n\<close>: it fails and
  the first \<open>n\<close> bytes of the record are in the file), and whether each lock, read and flush succeeds. A read that
  fails raises the error of \<^verbatim>\<open>_open_regular\<close>.
\<close>

datatype io_outcome = Completed | Broken nat

record store_io =
  io_lock :: bool
  io_unlock :: bool
  io_read :: bool
  io_prepare :: io_outcome
  io_reread :: bool
  io_event :: io_outcome
  io_event_read :: bool
  io_journal_read :: bool
  io_commit :: io_outcome
  io_final_read :: bool
  io_sync :: bool

definition opened :: "bool \<Rightarrow> 'a res \<Rightarrow> 'a res" where
  "opened ok r = rbind (ensure ok LedgerAuthorityStoreV2Error '''') (\<lambda>_. r)"

definition locked :: "store_io \<Rightarrow> v2_store \<Rightarrow> 'a res \<times> v2_store \<Rightarrow> 'a res \<times> v2_store" where
  "locked io st m =
     (if \<not> io_lock io then (raise LedgerAuthorityStoreV2Error ''Ledger v2 advisory lock failed'', st)
      else if \<not> io_unlock io then (raise LedgerAuthorityStoreV2Error ''Ledger v2 advisory unlock failed'', snd m)
      else m)"

definition read_combined :: "('r) trust_host_scheme \<Rightarrow> bool \<Rightarrow> v2_store \<Rightarrow> bool \<Rightarrow> string list \<Rightarrow> combined_audit res" where
  "read_combined H ok st require_clean allowed =
     opened ok
       (rbind (read_ledger H (log_text st)) (\<lambda>ledger.
        rbind (read_journal H (journal_text st)) (\<lambda>journal.
        rbind (validate_combined H ledger journal require_clean) (\<lambda>_.
        rbind (ensure (\<not> (require_clean \<and> filter (\<lambda>t. t \<notin> set allowed) (indeterminate st) \<noteq> [])) LedgerAuthorityStoreV2Error
                 ''Ledger v2 has an in-process indeterminate transaction'') (\<lambda>_.
        Inr \<lparr>ca_ledger = ledger\<lparr>vs_journal_entry_count := jn_entry_count journal, vs_journal_head_hash := jn_head_hash journal,
                              vs_journal_sha256 := jn_sha256 journal, vs_journal_size := jn_size journal\<rparr>,
             ca_journal = journal\<rparr>)))))"

definition store_read_verified :: "('r) trust_host_scheme \<Rightarrow> store_io \<Rightarrow> v2_store \<Rightarrow> v2_snapshot res" where
  "store_read_verified H io st =
     fst (locked io st (rbind (read_combined H (io_read io) st True []) (\<lambda>audit. Inr (ca_ledger audit)), st))"

definition get_transaction :: "('r) trust_host_scheme \<Rightarrow> store_io \<Rightarrow> v2_store \<Rightarrow> string \<Rightarrow> tx_state res" where
  "get_transaction H io st tx_id =
     rbind (st_identifier (JStr tx_id)) (\<lambda>_.
     fst (locked io st
       (rbind (read_combined H (io_read io) st False []) (\<lambda>audit.
        case map_of (jn_transactions (ca_journal audit)) (JStr tx_id) of
          None \<Rightarrow> Inr \<lparr>tx_name = JStr tx_id, tx_status = ''missing'', tx_prepare = None, tx_commit = None\<rparr>
        | Some state \<Rightarrow>
            if tx_id \<in> set (indeterminate st)
            then Inr \<lparr>tx_name = JStr tx_id, tx_status = ''indeterminate'', tx_prepare = tx_prepare state,
                      tx_commit = tx_commit state\<rparr>
            else Inr state), st)))"

section \<open>Writing\<close>

definition append_record :: "io_outcome \<Rightarrow> int \<Rightarrow> string \<Rightarrow> string \<Rightarrow> unit res \<times> string" where
  "append_record out maximum contents bytes =
     (if maximum < int (length contents) + int (length bytes)
      then (raise LedgerAuthorityStoreV2Error '''', contents)
      else case out of
          Completed \<Rightarrow> (Inr (), contents @ bytes)
        | Broken n \<Rightarrow> (raise LedgerAuthorityStoreV2Error '''', contents @ take n bytes))"

definition append_log :: "io_outcome \<Rightarrow> string \<Rightarrow> v2_store \<Rightarrow> unit res \<times> v2_store" where
  "append_log out bytes st =
     (let (r, contents) = append_record out MAX_STORE_BYTES (log_text st) bytes in (r, st\<lparr>log_text := contents\<rparr>))"

text \<open>The record is encoded inside the \<^verbatim>\<open>try\<close> of the append.\<close>

definition append_journal :: "io_outcome \<Rightarrow> dict \<Rightarrow> v2_store \<Rightarrow> unit res \<times> v2_store" where
  "append_journal out entry st =
     (case v2_json_bytes (JObj entry) of
        Inl e \<Rightarrow> (Inl e, st)
      | Inr encoded \<Rightarrow>
          let (r, contents) = append_record out MAX_JOURNAL_BYTES (journal_text st) (encoded @ [CHR 0x0A])
          in (r, st\<lparr>journal_text := contents\<rparr>))"

definition note_tx :: "string \<Rightarrow> v2_store \<Rightarrow> v2_store" where
  "note_tx tx_id st = st\<lparr>indeterminate := List.insert tx_id (indeterminate st)\<rparr>"

definition discard_tx :: "string \<Rightarrow> v2_store \<Rightarrow> v2_store" where
  "discard_tx tx_id st = st\<lparr>indeterminate := removeAll tx_id (indeterminate st)\<rparr>"

definition indeterminate_at :: "string \<Rightarrow> v2_store \<Rightarrow> 'a res \<times> v2_store" where
  "indeterminate_at tx_id st = (raise IndeterminateCommit ''Ledger v2 transaction '', note_tx tx_id st)"

record durable_append =
  da_tx_id :: string
  da_envelope :: json
  da_snapshot :: v2_snapshot

definition snapshot_matches :: "v2_snapshot \<Rightarrow> dict \<Rightarrow> bool \<Rightarrow> unit res" where
  "snapshot_matches snapshot prepare applied =
     ensure
       (if applied then
          py_eq (dget prepare ''expected_sequence'') (JInt (vs_event_count snapshot))
          \<and> py_eq (vs_head_hash snapshot) (dget prepare ''event_hash'')
          \<and> log_at (dget prepare ''post_log_sha256'') (dget prepare ''post_log_size_bytes'')
              (vs_log_sha256 snapshot, vs_log_size snapshot)
          \<and> vs_envelopes snapshot \<noteq> [] \<and> py_eq (JObj (last (vs_envelopes snapshot))) (dget prepare ''envelope'')
        else
          py_eq (dget prepare ''expected_sequence'') (JInt (vs_event_count snapshot + 1))
          \<and> py_eq (vs_head_hash snapshot) (dget prepare ''expected_head'')
          \<and> log_at (dget prepare ''pre_log_sha256'') (dget prepare ''pre_log_size_bytes'')
              (vs_log_sha256 snapshot, vs_log_size snapshot))
       LedgerAuthorityStoreV2Error ''Ledger v2 state matches neither the PREPARE pre-state nor requested state''"

text \<open>The end of an append and of a reconciliation: the COMMIT, then a clean read.\<close>

definition finish_commit ::
  "('r) trust_host_scheme \<Rightarrow> store_io \<Rightarrow> string \<Rightarrow> json \<Rightarrow> dict \<Rightarrow> string list \<Rightarrow> v2_store \<Rightarrow> durable_append res \<times> v2_store" where
  "finish_commit H io tx_id envelope prepare allowed st =
     keep st (opened (io_journal_read io) (read_journal H (journal_text st))) (\<lambda>journal.
     keep st (make_commit H prepare journal) (\<lambda>commit.
     case append_journal (io_commit io) commit st of
       (Inl _, st) \<Rightarrow> indeterminate_at tx_id st
     | (Inr _, st) \<Rightarrow>
         (case read_combined H (io_final_read io) st True allowed of
            Inl _ \<Rightarrow> indeterminate_at tx_id st
          | Inr final \<Rightarrow>
              (Inr \<lparr>da_tx_id = tx_id, da_envelope = envelope, da_snapshot = ca_ledger final\<rparr>, discard_tx tx_id st))))"

text \<open>Equality of the frozen dataclasses, which compares the documents in them as Python values.\<close>

definition same_docs :: "dict list \<Rightarrow> dict list \<Rightarrow> bool" where
  "same_docs ds es \<longleftrightarrow> py_eq (JArr (map JObj ds)) (JArr (map JObj es))"

definition same_doc_option :: "dict option \<Rightarrow> dict option \<Rightarrow> bool" where
  "same_doc_option d e \<longleftrightarrow>
     (case (d, e) of (Some d, Some e) \<Rightarrow> py_eq (JObj d) (JObj e) | (None, None) \<Rightarrow> True | _ \<Rightarrow> False)"

definition same_transactions :: "transactions \<Rightarrow> transactions \<Rightarrow> bool" where
  "same_transactions ts us \<longleftrightarrow>
     length ts = length us
     \<and> list_all (\<lambda>(k, t). case map_of us k of
          None \<Rightarrow> False
        | Some u \<Rightarrow> tx_name t = tx_name u \<and> tx_status t = tx_status u \<and> same_doc_option (tx_prepare t) (tx_prepare u)
                    \<and> same_doc_option (tx_commit t) (tx_commit u)) ts"

definition same_audit :: "combined_audit \<Rightarrow> combined_audit \<Rightarrow> bool" where
  "same_audit a b \<longleftrightarrow>
     same_docs (vs_envelopes (ca_ledger a)) (vs_envelopes (ca_ledger b))
     \<and> (ca_ledger a)\<lparr>vs_envelopes := []\<rparr> = (ca_ledger b)\<lparr>vs_envelopes := []\<rparr>
     \<and> same_docs (jn_entries (ca_journal a)) (jn_entries (ca_journal b))
     \<and> same_transactions (jn_transactions (ca_journal a)) (jn_transactions (ca_journal b))
     \<and> (ca_journal a)\<lparr>jn_entries := [], jn_transactions := []\<rparr> = (ca_journal b)\<lparr>jn_entries := [], jn_transactions := []\<rparr>"

text \<open>\<^verbatim>\<open>except (OSError, LedgerAuthorityV2Error)\<close> around the reread.\<close>

definition observed_audit :: "combined_audit res \<Rightarrow> combined_audit option res" where
  "observed_audit r =
     (case r of
        Inr a \<Rightarrow> Inr (Some a)
      | Inl e \<Rightarrow>
          if exn_isinstance (exn_class_of e) OSError \<or> exn_isinstance (exn_class_of e) LedgerAuthorityV2Error
          then Inr None else Inl e)"

section \<open>Appending\<close>

definition same_intent :: "tx_state \<Rightarrow> dict \<Rightarrow> string \<Rightarrow> int \<Rightarrow> bool" where
  "same_intent state envelope expected_head expected_sequence =
     (case tx_prepare state of
        None \<Rightarrow> False
      | Some prepare \<Rightarrow>
          py_eq (dget prepare ''envelope'') (JObj envelope) \<and> py_eq (dget prepare ''expected_head'') (JStr expected_head)
          \<and> py_eq (dget prepare ''expected_sequence'') (JInt expected_sequence))"

text \<open>What is decided before the candidate is looked at: a known transaction, and the ones that block.\<close>

definition append_known ::
  "combined_audit \<Rightarrow> v2_store \<Rightarrow> string \<Rightarrow> dict \<Rightarrow> string \<Rightarrow> int \<Rightarrow> durable_append option res" where
  "append_known audit st tx_id document expected_head expected_sequence =
     (let txs = jn_transactions (ca_journal audit); known = map_of txs (JStr tx_id) in
      rbind (case known of
               None \<Rightarrow> Inr ()
             | Some state \<Rightarrow> ensure (same_intent state document expected_head expected_sequence) LedgerAuthorityStoreV2Error
                               ''Ledger v2 tx_id '') (\<lambda>_.
      rbind (ensure (tx_id \<notin> set (indeterminate st)) IndeterminateCommit ''Ledger v2 transaction '') (\<lambda>_.
      rbind (ensure (indeterminate st = []) LedgerAuthorityStoreV2Error
               ''Ledger v2 has an in-process indeterminate transaction'') (\<lambda>_.
      rbind (ensure (case known of None \<Rightarrow> True | Some state \<Rightarrow> tx_status state = ''committed'') IndeterminateCommit
               ''Ledger v2 transaction '') (\<lambda>_.
      rbind (ensure (unresolved txs = []) LedgerAuthorityStoreV2Error ''Ledger v2 journal has an unresolved transaction'') (\<lambda>_.
      case known of
        None \<Rightarrow> Inr None
      | Some state \<Rightarrow>
          (case tx_prepare state of
             None \<Rightarrow> raise AssertionError []
           | Some prepare \<Rightarrow>
               Inr (Some \<lparr>da_tx_id = tx_id, da_envelope = dget prepare ''envelope'', da_snapshot = ca_ledger audit\<rparr>))))))))"

text \<open>Compare and append: the checks of the candidate, and its PREPARE record.\<close>

definition append_candidate ::
  "('r) trust_host_scheme \<Rightarrow> combined_audit \<Rightarrow> string \<Rightarrow> string \<Rightarrow> dict \<Rightarrow> string \<Rightarrow> int \<Rightarrow> dict res" where
  "append_candidate H audit tx_id encoded_body document expected_head expected_sequence =
     (let before = ca_ledger audit; event = event_of document; bytes = encoded_body @ [CHR 0x0A] in
      rbind (ensure (py_eq (vs_head_hash before) (JStr expected_head)) LedgerAuthorityStoreV2Error
               ''Ledger v2 expected head changed before append'') (\<lambda>_.
      rbind (ensure (vs_event_count before + 1 = expected_sequence) LedgerAuthorityStoreV2Error
               ''Ledger v2 expected sequence changed before append'') (\<lambda>_.
      rbind (ensure (py_eq (dget event ''sequence'') (JInt expected_sequence)
                     \<and> py_eq (dget event ''previous_hash'') (JStr expected_head)) LedgerAuthorityStoreV2Error
               ''Ledger v2 candidate position does not match compare-and-append'') (\<lambda>_.
      rbind (verify_v2_chain H (map JObj (vs_envelopes before @ [document]))) (\<lambda>_.
      rbind (ensure (int (length encoded_body) \<le> MAX_STORE_LINE_BYTES) LedgerAuthorityStoreV2Error
               ''Ledger v2 record exceeds line limit'') (\<lambda>_.
      rbind (ensure (vs_log_size before + int (length bytes) \<le> MAX_STORE_BYTES) LedgerAuthorityStoreV2Error
               ''Ledger v2 store exceeds byte limit'') (\<lambda>_.
      rbind (hash_envelope_lines H (vs_envelopes before @ [document])) (\<lambda>post_hash.
      make_prepare H (JStr tx_id) (jn_entry_count (ca_journal audit) + 1) (jn_head_hash (ca_journal audit)) document before
        post_hash (vs_log_size before + int (length bytes))))))))))"

definition append_failed_prepare ::
  "('r) trust_host_scheme \<Rightarrow> store_io \<Rightarrow> string \<Rightarrow> combined_audit \<Rightarrow> v2_store \<Rightarrow> durable_append res \<times> v2_store" where
  "append_failed_prepare H io tx_id audit st =
     keep st (observed_audit (read_combined H (io_reread io) st True [])) (\<lambda>observed.
     if (case observed of None \<Rightarrow> False | Some a \<Rightarrow> same_audit a audit)
     then (raise RetryableAppendNotApplied ''Ledger v2 transaction '', discard_tx tx_id st)
     else indeterminate_at tx_id st)"

definition append_write ::
  "('r) trust_host_scheme \<Rightarrow> store_io \<Rightarrow> string \<Rightarrow> combined_audit \<Rightarrow> string \<Rightarrow> dict \<Rightarrow> dict \<Rightarrow> v2_store
     \<Rightarrow> durable_append res \<times> v2_store" where
  "append_write H io tx_id audit bytes document prepare st =
     (case append_journal (io_prepare io) prepare st of
        (Inl _, st) \<Rightarrow> append_failed_prepare H io tx_id audit st
      | (Inr _, st) \<Rightarrow>
          (case append_log (io_event io) bytes st of
             (Inl _, st) \<Rightarrow> indeterminate_at tx_id st
           | (Inr _, st) \<Rightarrow>
               (case rbind (opened (io_event_read io) (read_ledger H (log_text st)))
                       (\<lambda>after_event. snapshot_matches after_event prepare True) of
                  Inl _ \<Rightarrow> indeterminate_at tx_id st
                | Inr _ \<Rightarrow> finish_commit H io tx_id (JObj document) prepare [] st)))"

definition store_append ::
  "('r) trust_host_scheme \<Rightarrow> store_io \<Rightarrow> json \<Rightarrow> string \<Rightarrow> string \<Rightarrow> int \<Rightarrow> v2_store \<Rightarrow> durable_append res \<times> v2_store" where
  "store_append H io envelope tx_id expected_head expected_sequence st =
     keep st (st_identifier (JStr tx_id)) (\<lambda>_.
     keep st (st_sha256 (JStr expected_head)) (\<lambda>_.
     keep st (positive_bounded_int (JInt expected_sequence) MAX_STORE_EVENTS) (\<lambda>_.
     keep st (v2_json_bytes envelope) (\<lambda>encoded_body.
     keep st (reread envelope) (\<lambda>v.
     keep st (validate_v2_envelope H v) (\<lambda>document.
     locked io st
       (keep st (read_combined H (io_read io) st False []) (\<lambda>audit.
        keep st (append_known audit st tx_id document expected_head expected_sequence) (\<lambda>known.
        case known of
          Some result \<Rightarrow> (Inr result, st)
        | None \<Rightarrow>
            keep st (append_candidate H audit tx_id encoded_body document expected_head expected_sequence) (\<lambda>prepare.
            append_write H io tx_id audit (encoded_body @ [CHR 0x0A]) document prepare st))))))))))"

section \<open>Reconciling\<close>

definition reconcile_prepared ::
  "('r) trust_host_scheme \<Rightarrow> store_io \<Rightarrow> string \<Rightarrow> v2_snapshot \<Rightarrow> dict \<Rightarrow> v2_store \<Rightarrow> durable_append res \<times> v2_store" where
  "reconcile_prepared H io tx_id ledger prepare st =
     (case snapshot_matches ledger prepare False of
        Inl e \<Rightarrow>
          if \<not> exn_isinstance (exn_class_of e) LedgerAuthorityStoreV2Error then (Inl e, st)
          else
            keep st (snapshot_matches ledger prepare True) (\<lambda>_.
            finish_commit H io tx_id (dget prepare ''envelope'') prepare [tx_id] st)
      | Inr _ \<Rightarrow>
          keep st (v2_json_bytes (dget prepare ''envelope'')) (\<lambda>encoded.
          case append_log (io_event io) (encoded @ [CHR 0x0A]) st of
            (Inl _, st) \<Rightarrow> indeterminate_at tx_id st
          | (Inr _, st) \<Rightarrow>
              keep st (opened (io_event_read io) (read_ledger H (log_text st))) (\<lambda>ledger_after.
              keep st (snapshot_matches ledger_after prepare True) (\<lambda>_.
              finish_commit H io tx_id (dget prepare ''envelope'') prepare [tx_id] st))))"

definition reconcile_committed ::
  "('r) trust_host_scheme \<Rightarrow> store_io \<Rightarrow> string \<Rightarrow> dict \<Rightarrow> v2_store \<Rightarrow> durable_append res \<times> v2_store" where
  "reconcile_committed H io tx_id prepare st =
     (if \<not> io_sync io then indeterminate_at tx_id st
      else
        case read_combined H (io_final_read io) st True [tx_id] of
          Inl _ \<Rightarrow> indeterminate_at tx_id st
        | Inr clean \<Rightarrow>
            (Inr \<lparr>da_tx_id = tx_id, da_envelope = dget prepare ''envelope'', da_snapshot = ca_ledger clean\<rparr>,
             discard_tx tx_id st))"

definition reconcile_transaction ::
  "('r) trust_host_scheme \<Rightarrow> store_io \<Rightarrow> string \<Rightarrow> v2_store \<Rightarrow> durable_append res \<times> v2_store" where
  "reconcile_transaction H io tx_id st =
     keep st (st_identifier (JStr tx_id)) (\<lambda>_.
     locked io st
       (keep st (read_combined H (io_read io) st False []) (\<lambda>audit.
        let txs = jn_transactions (ca_journal audit) in
        case map_of txs (JStr tx_id) of
          None \<Rightarrow> (raise LedgerAuthorityStoreV2Error ''Ledger v2 transaction '', st)
        | Some state \<Rightarrow>
            (case tx_prepare state of
               None \<Rightarrow> (raise LedgerAuthorityStoreV2Error ''Ledger v2 transaction '', st)
             | Some prepare \<Rightarrow>
                 keep st (ensure (filter (\<lambda>t. tx_name t \<noteq> JStr tx_id) (unresolved txs) = []) LedgerAuthorityStoreV2Error
                            ''Ledger v2 has another unresolved transaction'') (\<lambda>_.
                 keep st (ensure (filter (\<lambda>t. t \<noteq> tx_id) (indeterminate st) = []) LedgerAuthorityStoreV2Error
                            ''Ledger v2 has another in-process indeterminate transaction'') (\<lambda>_.
                 let st = note_tx tx_id st in
                 if tx_commit state \<noteq> None then reconcile_committed H io tx_id prepare st
                 else reconcile_prepared H io tx_id (ca_ledger audit) prepare st))))))"

section \<open>Signed checkpoints\<close>

definition validate_checkpoint_preimage :: "('r) runtime_scheme \<Rightarrow> json \<Rightarrow> dict res" where
  "validate_checkpoint_preimage R v =
     rbind (st_exact_object v CHECKPOINT_PREIMAGE_KEYS) (\<lambda>d.
     rbind (ensure (py_eq (dget d ''schema_version'') (JInt LEDGER_V2_SCHEMA_VERSION)
                    \<and> py_eq (dget d ''protocol_id'') (JStr LEDGER_V2_PROTOCOL_ID)
                    \<and> py_eq (dget d ''domain'') (JStr LEDGER_V2_CHECKPOINT_DOMAIN)
                    \<and> py_eq (dget d ''kind'') (JStr ''ledger-checkpoint'')
                    \<and> py_eq (dget d ''algorithm'') (JStr LEDGER_V2_SIGNATURE_ALGORITHM))
              LedgerAuthorityStoreV2Error ''Checkpoint identity is invalid'') (\<lambda>_.
     rbind (st_sha256 (dget d ''key_id'')) (\<lambda>_.
     rbind (st_identifier (dget d ''ledger_id'')) (\<lambda>_.
     rbind (positive_bounded_int (dget d ''event_count'') MAX_STORE_EVENTS) (\<lambda>_.
     rbind (positive_bounded_int (dget d ''journal_entry_count'') MAX_JOURNAL_ENTRIES) (\<lambda>_.
     rbind (bounded_nonnegative_int (dget d ''log_size_bytes'') MAX_STORE_BYTES) (\<lambda>_.
     rbind (bounded_nonnegative_int (dget d ''journal_size_bytes'') MAX_JOURNAL_BYTES) (\<lambda>_.
     rbind (st_sha256 (dget d ''head_hash'')) (\<lambda>_.
     rbind (st_sha256 (dget d ''log_sha256'')) (\<lambda>_.
     rbind (st_sha256 (dget d ''journal_head_hash'')) (\<lambda>_.
     rbind (st_sha256 (dget d ''journal_sha256'')) (\<lambda>_.
     rbind (st_timestamp R (dget d ''issued_at'')) (\<lambda>_.
     Inr d)))))))))))))"

definition checkpoint_preimage :: "dict \<Rightarrow> dict" where
  "checkpoint_preimage d = map (\<lambda>k. (k, dget d k)) CHECKPOINT_PREIMAGE_KEYS"

definition checkpoint_signature :: "json \<Rightarrow> string res" where
  "checkpoint_signature v =
     (case signature_bytes v of
        None \<Rightarrow> raise LedgerAuthorityStoreV2Error ''Checkpoint signature encoding is invalid''
      | Some decoded \<Rightarrow>
          rbind (ensure (length decoded = 64) LedgerAuthorityStoreV2Error ''Checkpoint signature length is invalid'') (\<lambda>_.
          Inr decoded))"

definition validate_signed_checkpoint :: "('r) runtime_scheme \<Rightarrow> json \<Rightarrow> dict res" where
  "validate_signed_checkpoint R v =
     rbind (st_exact_object v CHECKPOINT_KEYS) (\<lambda>d.
     rbind (validate_checkpoint_preimage R (JObj (checkpoint_preimage d))) (\<lambda>_.
     rbind (checkpoint_signature (dget d ''signature_b64'')) (\<lambda>_.
     Inr d)))"

definition verify_signed_checkpoint :: "('r) trust_host_scheme \<Rightarrow> json \<Rightarrow> dict res" where
  "verify_signed_checkpoint H v =
     rbind (validate_signed_checkpoint H v) (\<lambda>d.
     rbind (trusted_ledger_verification_binding H) (\<lambda>binding.
     rbind (ensure (py_eq (dget d ''key_id'') (JStr (lb_key_id binding))) LedgerAuthorityStoreV2Error
              ''Checkpoint names another authority key'') (\<lambda>_.
     rbind (v2_json_bytes (JObj (checkpoint_preimage d))) (\<lambda>payload.
     rbind (checkpoint_signature (dget d ''signature_b64'')) (\<lambda>signature.
     rbind (ledger_check H (lb_openssl binding) (lb_public_key binding) payload signature) (\<lambda>verified.
     rbind (ensure verified LedgerAuthorityStoreV2Error ''Checkpoint signature is invalid'') (\<lambda>_.
     Inr d)))))))"

text \<open>The fields of a checkpoint that pin a snapshot.\<close>

definition snapshot_fields :: "v2_snapshot \<Rightarrow> dict" where
  "snapshot_fields s =
     [(''ledger_id'', vs_ledger_id s), (''event_count'', JInt (vs_event_count s)), (''head_hash'', vs_head_hash s),
      (''log_sha256'', JStr (vs_log_sha256 s)), (''log_size_bytes'', JInt (vs_log_size s)),
      (''journal_entry_count'', JInt (vs_journal_entry_count s)), (''journal_head_hash'', vs_journal_head_hash s),
      (''journal_sha256'', JStr (vs_journal_sha256 s)), (''journal_size_bytes'', JInt (vs_journal_size s))]"

definition checkpoint_document :: "string \<Rightarrow> v2_snapshot \<Rightarrow> string \<Rightarrow> dict" where
  "checkpoint_document key_id s issued_at =
     [(''schema_version'', JInt LEDGER_V2_SCHEMA_VERSION), (''protocol_id'', JStr LEDGER_V2_PROTOCOL_ID),
      (''domain'', JStr LEDGER_V2_CHECKPOINT_DOMAIN), (''kind'', JStr ''ledger-checkpoint''),
      (''algorithm'', JStr LEDGER_V2_SIGNATURE_ALGORITHM), (''key_id'', JStr key_id)]
     @ snapshot_fields s @ [(''issued_at'', JStr issued_at)]"

definition sign_checkpoint :: "('r) trust_host_scheme \<Rightarrow> store_io \<Rightarrow> v2_store \<Rightarrow> string \<Rightarrow> dict res" where
  "sign_checkpoint H io st issued_at =
     rbind (store_read_verified H io st) (\<lambda>snapshot.
     rbind (ensure (\<not> (vs_event_count snapshot < 1 \<or> vs_ledger_id snapshot = JNull)) LedgerAuthorityStoreV2Error
              ''An empty Ledger v2 store cannot produce a checkpoint'') (\<lambda>_.
     rbind (st_timestamp H (JStr issued_at)) (\<lambda>_.
     rbind (trusted_ledger_signing_binding H) (\<lambda>(private_key, binding).
     rbind (validate_checkpoint_preimage H (JObj (checkpoint_document (lb_key_id binding) snapshot issued_at))) (\<lambda>preimage.
     rbind (v2_json_bytes (JObj preimage)) (\<lambda>payload.
     rbind (ledger_sign H (lb_openssl binding) private_key payload) (\<lambda>signature.
     rbind (ledger_check H (lb_openssl binding) (lb_public_key binding) payload signature) (\<lambda>verified.
     rbind (ensure verified LedgerAuthorityStoreV2Error ''Ledger v2 checkpoint public/private key pair does not match'') (\<lambda>_.
     validate_signed_checkpoint H (JObj (preimage @ [(''signature_b64'', JStr (std_b64encode signature))])))))))))))"

definition verify_pinned_checkpoint :: "('r) trust_host_scheme \<Rightarrow> store_io \<Rightarrow> v2_store \<Rightarrow> json \<Rightarrow> v2_snapshot res" where
  "verify_pinned_checkpoint H io st checkpoint =
     fst (locked io st
       (rbind (read_combined H (io_read io) st True []) (\<lambda>audit.
        rbind (verify_signed_checkpoint H checkpoint) (\<lambda>d.
        rbind (ensure (list_all (\<lambda>(k, v). py_eq (dget d k) v) (snapshot_fields (ca_ledger audit))) LedgerAuthorityStoreV2Error
                 ''Signed checkpoint is not pinned to the current v2 ledger and journal'') (\<lambda>_.
        Inr (ca_ledger audit)))), st))"

section \<open>The files of a store\<close>

text \<open>\<^verbatim>\<open>os.path.commonpath\<close> of two resolved paths; \<open>None\<close>: the resolution fails.\<close>

fun common_parts :: "string list \<Rightarrow> string list \<Rightarrow> string list" where
  "common_parts (x # xs) (y # ys) = (if x = y then x # common_parts xs ys else [])"
| "common_parts _ _ = []"

definition reject_root_overlap :: "path option \<Rightarrow> path option \<Rightarrow> unit res" where
  "reject_root_overlap root legacy =
     (case (root, legacy) of
        (Some r, Some l) \<Rightarrow>
          rbind (ensure (is_absolute r = is_absolute l) LedgerAuthorityStoreV2Error
                   ''Ledger v2 and legacy roots could not be compared safely'') (\<lambda>_.
          let common = Path (if is_absolute r then ''/'' else []) (common_parts (path_parts r) (path_parts l)) in
          ensure (common \<noteq> r \<and> common \<noteq> l) LedgerAuthorityStoreV2Error
            ''Ledger v2 root overlaps the forbidden legacy root'')
      | _ \<Rightarrow> raise LedgerAuthorityStoreV2Error ''Ledger v2 and legacy roots could not be compared safely'')"

datatype lstat_result = Missing | Unavailable | Found metadata

definition require_safe_regular :: "metadata \<Rightarrow> unit res" where
  "require_safe_regular m =
     ensure (\<not> (S_ISLNK (st_mode m) \<or> \<not> S_ISREG (st_mode m) \<or> st_nlink m \<noteq> 1)) LedgerAuthorityStoreV2Error ''''"

definition optional_safe_regular_lstat :: "lstat_result \<Rightarrow> metadata option res" where
  "optional_safe_regular_lstat r =
     (case r of
        Missing \<Rightarrow> Inr None
      | Unavailable \<Rightarrow> raise LedgerAuthorityStoreV2Error ''''
      | Found m \<Rightarrow> rbind (require_safe_regular m) (\<lambda>_. Inr (Some m)))"

text \<open>
  \<^verbatim>\<open>_prepare_store_files\<close>: whether a legacy ledger is there, what \<^verbatim>\<open>mkdir\<close> and \<^verbatim>\<open>lstat\<close> say of the root and
  the files, and how far the two creations and the flush of the directory come (\<open>None\<close>: done; \<open>Some b\<close>: it
  fails, and the file is there if \<open>b\<close>). The result says which of the two files have been created.
\<close>

definition create_empty_file :: "bool option \<Rightarrow> unit res \<times> bool" where
  "create_empty_file failure =
     (case failure of None \<Rightarrow> (Inr (), True) | Some b \<Rightarrow> (raise LedgerAuthorityStoreV2Error '''', b))"

definition prepare_store_files ::
  "bool \<Rightarrow> metadata option \<Rightarrow> lstat_result \<Rightarrow> lstat_result \<Rightarrow> bool option \<Rightarrow> bool option \<Rightarrow> bool \<Rightarrow> unit res \<times> bool \<times> bool" where
  "prepare_store_files legacy root log journal log_failure journal_failure synced =
     keep (False, False) (ensure (\<not> legacy) LedgerAuthorityStoreV2Error
        ''Ledger v2 root must be separate from the legacy HMAC ledger'') (\<lambda>_.
     keep (False, False) (ensure (case root of None \<Rightarrow> False | Some m \<Rightarrow> \<not> S_ISLNK (st_mode m) \<and> S_ISDIR (st_mode m))
        LedgerAuthorityStoreV2Error ''Ledger v2 root is not a safe directory'') (\<lambda>_.
     keep (False, False) (optional_safe_regular_lstat log) (\<lambda>log_metadata.
     keep (False, False) (optional_safe_regular_lstat journal) (\<lambda>journal_metadata.
     keep (False, False) (ensure ((log_metadata = None) = (journal_metadata = None)) LedgerAuthorityStoreV2Error
        ''Ledger v2 log and journal must either both exist or both be absent'') (\<lambda>_.
     if log_metadata \<noteq> None then (Inr (), (False, False))
     else
       case create_empty_file log_failure of
         (Inl e, made) \<Rightarrow> (Inl e, (made, False))
       | (Inr _, made) \<Rightarrow>
           (case create_empty_file journal_failure of
              (Inl e, made') \<Rightarrow> (Inl e, (made, made'))
            | (Inr _, made') \<Rightarrow> (if synced then (Inr (), (made, made')) else (raise OSError [], (made, made')))))))))"

definition store_assurance :: dict where
  "store_assurance =
     [(''scope'', JStr ''portable-v2-ledger-and-intent-journal-semantics-only''), (''release_ready'', JBool False),
      (''legacy_ledger'', JStr ''separate-and-never-opened''), (''automatic_repair'', JBool False),
      (''release_blockers'', JArr (map JStr
        [''root_protected_v2_store_installation_unverified'', ''linux_descriptor_lock_multiprocess_e2e_unverified'',
         ''ledger_authority_private_key_daemon_systemd_not_deployed'', ''signed_checkpoint_registry_and_rotation_not_deployed'',
         ''cross_process_crash_powerloss_e2e_unverified'', ''workspace_projection_release_gate_not_v2_integrated'']))]"

section \<open>Runs\<close>

text \<open>
  The calls that change the store, with any outcome of the system calls in them: a crash leaves the
  files as a failing call does. The lock admits one call at a time; the next one may come from
  another process or a later one, whose instance has failed transactions of its own.
\<close>

inductive store_step :: "v2_store \<Rightarrow> v2_store \<Rightarrow> bool" where
  Append: "store_step st (snd (store_append (H :: trust_host) io envelope tx_id expected_head expected_sequence st))"
| Reconcile: "store_step st (snd (reconcile_transaction (H :: trust_host) io tx_id st))"
| Instance: "store_step st (st\<lparr>indeterminate := ids\<rparr>)"

end
