(* ===== verification/Spec2Isabelle.thy ===== *)
theory Spec2Isabelle
  imports Workspace_Example Journal_Example Service_Example Ledger_Example Store_V2
begin

text \<open>
  A verification of the control plane of Cogni-OS Orchestrator, the Python package under
  \<^verbatim>\<open>src/src/cogni_os\<close>. The program keeps a workspace of agents and tasks, records every change in
  a signed, hash-chained ledger, hands tasks to agents under leases, and lets a verifier decide
  on submitted work after checking that verifier and worker are independent. A second line of defence
  runs the verification in a service of its own: a signed ledger event dispatches the run, a
  privileged broker provides a read-only snapshot of the source and later proves that it is gone, a
  crash-safe journal keeps the run from being started twice, and a receipt with two signatures
  says what was observed.

  \<^bold>\<open>Theories.\<close>
  \<^item> \<open>Prelude\<close>: exceptions as values (\<^verbatim>\<open>errors.py\<close>), state passing, text and list helpers.
  \<^item> \<open>Json\<close>, \<open>Json_Text\<close>: JSON values as Python sees them, equality, the printer behind
    \<^verbatim>\<open>util.canonical_json\<close> and \<^verbatim>\<open>json.loads\<close>, with the round trip between the two. The parser runs on fuel,
    one more than the length of the text, and each level of the value uses at least one character.
  \<^item> \<open>Ledger\<close>: \<^verbatim>\<open>ledger.py\<close>, on decoded events and on the text of the file.
  \<^item> \<open>Task_Model\<close>: \<^verbatim>\<open>model.py\<close> and the id and time helpers of \<^verbatim>\<open>util.py\<close>.
  \<^item> \<open>Identity\<close>: \<^verbatim>\<open>independence.py\<close>.
  \<^item> \<open>Verification_Run\<close>: \<^verbatim>\<open>verification_lifecycle.py\<close>.
  \<^item> \<open>Base64\<close>, \<open>Capability\<close>: \<^verbatim>\<open>actor_capability.py\<close>.
  \<^item> \<open>Workspace\<close>: \<^verbatim>\<open>workspace.py\<close>, the operations that use all of the above. \<open>Workspace_Safety\<close>
    takes them as the steps of a state machine and proves its invariant and the theorems about
    reachable workspaces; \<open>Workspace_Example\<close> runs it on a concrete workspace.
  \<^item> \<open>Documents\<close>, \<open>Machines\<close>: strict encodings shared by the signed documents, and the locale of
    state machines with reachability.
  \<^item> \<open>Journal\<close>: \<^verbatim>\<open>verifier_journal.py\<close> on the bytes of its files. \<open>Journal_Safety\<close> takes the operations, and
    crashes between and inside their writes, as the steps of a machine and proves that it refines the
    machine of journal records and claims every dispatch once; \<open>Journal_Recovery\<close> treats recovery,
    damaged files and the bound on revisions; \<open>Journal_Example\<close> runs it. A run takes at most ten updates.
  \<^item> \<open>Trust_Material\<close>: POSIX paths and file modes as words, what the host reports (record \<open>trust_host\<close>), the
    strict Base64 of signatures and bounded canonical JSON.
  \<^item> \<open>Broker_Protocol\<close>, \<open>Broker_Trust\<close>: \<^verbatim>\<open>snapshot_broker_protocol.py\<close>: frames over a stream that delivers any
    chunks, requests and attestations; root-owned trust files, the digest of the installed package,
    signing and verifying.
  \<^item> \<open>Verifier_Protocol\<close>, \<open>Receipt\<close>: \<^verbatim>\<open>verifier_protocol.py\<close> and \<^verbatim>\<open>verifier_receipt.py\<close>: the exact documents of a
    verification and the receipt with its two signatures.
  \<^item> \<open>Ledger_V2\<close>, \<open>Ledger_V2_Safety\<close>: \<^verbatim>\<open>ledger_authority_v2.py\<close>: signed events, their chain and the dispatch
    at its head. The chain is the second instance of the locale \<open>hash_chain\<close> of \<open>Ledger\<close>.
  \<^item> \<open>Store_V2\<close>: \<^verbatim>\<open>ledger_authority_store_v2.py\<close>, the event log and the PREPARE/COMMIT journal as
    texts of canonical JSON lines; every outcome of the system calls in an append or a reconciliation is a value of
    the record \<open>store_io\<close>.
  \<^item> \<open>Service\<close>, \<open>Service_Safety\<close>: \<^verbatim>\<open>verifier_service.py\<close>, the coordinator that claims a dispatch in the journal and
    stores the verified receipt before the journal moves on; its calls, the journal's steps, crashes and
    restarts are one machine, a second instance of the locale of exclusive registers.
  \<^item> \<open>Trust_Example\<close>, \<open>Receipt_Example\<close>, \<open>Service_Example\<close>, \<open>Ledger_Example\<close>: a concrete host with keys, files, a
    sealed receipt, a signed dispatch and a receipt store, on which the theorems about signatures and
    receipts are applied.

  \<^bold>\<open>Conventions.\<close> A dictionary is an association list of strings and JSON values; a string is the
  list of the bytes of its UTF-8 form; Python integers are \<open>int\<close>; file modes and the length of a frame are
  32-bit words. A raising operation returns a value of \<open>exn + 'a\<close>. Clock readings, random values, digests,
  DPAPI, OpenSSL and what the operating system reports are arguments or fields of the records \<open>crypto\<close>,
  \<open>runtime\<close>, \<open>host\<close> and \<open>trust_host\<close>, with the laws the code relies on as named hypotheses (\<open>hex_digests\<close>,
  \<open>iso_roundtrip\<close>, \<open>host_laws\<close>, \<open>ed25519_pair\<close>, \<open>lstat_resolves\<close>). The host stays the same during one operation.
  Of an exception's message only the fixed beginning is kept. Floating-point numbers are kept as their text.

  \<^bold>\<open>Termination.\<close> The scan of the package tree and the reading of a frame are functions with a measure: every
  directory that is pushed has been counted against the limit of files, every chunk is not empty.

  \<^bold>\<open>Not modelled.\<close> File locks serialise the operations and are left out. The snapshot broker itself, the
  trusted runner, the git wrappers and the release scripts consist of system calls and subprocesses, whose
  results are not determined by the sources. The evidence checks, the archive and the executor attestation of the workspace are functions
  of the record \<open>services\<close>. The roadmap, the release gate and evidence, the trust projection, the attestation
  protocol, the command line and the dashboard are not covered.
\<close>

end
